(* ===== verification/Json.thy ===== *)
theory Json
  imports Prelude
begin

text \<open>
  JSON documents and their canonical encoding: \<open>_canonical_json\<close> and
  \<open>deterministic_fingerprint\<close> of \<open>universal_test_contract.py\<close> (and the identical
  \<open>_canonical_json\<close> of \<open>universal_test_store.py\<close>). The SHA-256 digest and the textual
  form of a float belong to the Python runtime; they are the fields of a record that the
  definitions take as an argument.
\<close>

datatype json =
    JNull
  | JBool bool
  | JInt int
  | JFloat rat
  | JStr string
  | JArr "json list"
  | JObj "(string \<times> json) list"

record pylib =
  sha256_hexdigest :: "string \<Rightarrow> string"
  float_repr :: "rat \<Rightarrow> string"

text \<open>The escapes of \<open>json.dumps(.., ensure_ascii=False)\<close>.\<close>

definition json_escape :: "char \<Rightarrow> string" where
  "json_escape c =
     (if c = CHR 0x22 then [CHR 0x5C, CHR 0x22]
      else if c = CHR 0x5C then [CHR 0x5C, CHR 0x5C]
      else if c = CHR 0x0A then [CHR 0x5C, CHR ''n'']
      else if c = CHR 0x0D then [CHR 0x5C, CHR ''r'']
      else if c = CHR 0x09 then [CHR 0x5C, CHR ''t'']
      else if c = CHR 0x0C then [CHR 0x5C, CHR ''f'']
      else if c = CHR 0x08 then [CHR 0x5C, CHR ''b'']
      else if code_of c < 32
        then [CHR 0x5C, CHR ''u'', CHR ''0'', CHR ''0'',
              hex_digit (code_of c div 16), hex_digit (code_of c mod 16)]
      else [c])"

definition json_string :: "string \<Rightarrow> string" where
  "json_string s = CHR 0x22 # concat (map json_escape s) @ [CHR 0x22]"

primrec canonical_json :: "pylib \<Rightarrow> json \<Rightarrow> string" where
  "canonical_json L JNull = ''null''"
| "canonical_json L (JBool b) = (if b then ''true'' else ''false'')"
| "canonical_json L (JInt i) = show_int i"
| "canonical_json L (JFloat x) = float_repr L x"
| "canonical_json L (JStr s) = json_string s"
| "canonical_json L (JArr vs) = ''['' @ join '','' (map (canonical_json L) vs) @ '']''"
| "canonical_json L (JObj kvs) =
     ''{'' @ join '','' (map (\<lambda>(k, t). json_string k @ '':'' @ t)
       (sort_key fst (map (map_prod id (canonical_json L)) kvs))) @ ''}''"

definition deterministic_fingerprint :: "pylib \<Rightarrow> json \<Rightarrow> string" where
  "deterministic_fingerprint L v = sha256_hexdigest L (canonical_json L v)"

text \<open>Constructors for the documents the code builds.\<close>

definition jstrs :: "string list \<Rightarrow> json" where
  "jstrs xs = JArr (map JStr xs)"

definition jopt :: "('a \<Rightarrow> json) \<Rightarrow> 'a option \<Rightarrow> json" where
  "jopt f x = (case x of None \<Rightarrow> JNull | Some y \<Rightarrow> f y)"

definition jdict :: "('v \<Rightarrow> json) \<Rightarrow> 'v dict \<Rightarrow> json" where
  "jdict f d = JObj (map (map_prod id f) d)"

end
