(* ===== verification/Paths.thy ===== *)
theory Paths
  imports Json
begin

text \<open>
  Scalar validators, repository paths and globs of \<open>universal_test_contract.py\<close>:
  \<open>_object\<close> .. \<open>_string_list\<close>, \<open>normalize_repository_path\<close>,
  \<open>repository_glob_matches\<close>. Lemmas: an exact characterisation of the accepted paths, and
  the equivalence of the regular expression the code builds with a segment-wise glob.
\<close>

section \<open>Errors\<close>

datatype contract_error =
    ManifestContractError string string  \<comment> \<open>message and document path\<close>
  | PyKeyError string

section \<open>Scalar validators\<close>

definition mf_object :: "string \<Rightarrow> json \<Rightarrow> contract_error + json dict" where
  "mf_object path v =
     (case v of JObj kvs \<Rightarrow> Inr kvs
      | _ \<Rightarrow> Inl (ManifestContractError ''must be an object with string keys'' path))"

definition mf_reject_unknown :: "string \<Rightarrow> string list \<Rightarrow> json dict \<Rightarrow> contract_error + unit" where
  "mf_reject_unknown path allowed v =
     (let unknown = sorted_set (filter (\<lambda>k. k \<notin> set allowed) (keys v))
      in ensure (unknown = [])
           (ManifestContractError (''unknown field(s): '' @ join '', '' unknown) path))"

definition mf_required :: "string \<Rightarrow> string \<Rightarrow> json dict \<Rightarrow> contract_error + json" where
  "mf_required path field v =
     (case map_of v field of
        None \<Rightarrow> Inl (ManifestContractError (''missing required field '' @ repr_str field) path)
      | Some x \<Rightarrow> Inr x)"

definition dict_get :: "json dict \<Rightarrow> string \<Rightarrow> json \<Rightarrow> json" where
  "dict_get v field dflt = (case map_of v field of None \<Rightarrow> dflt | Some x \<Rightarrow> x)"

definition mf_integer :: "string \<Rightarrow> int \<Rightarrow> int \<Rightarrow> json \<Rightarrow> contract_error + int" where
  "mf_integer path minimum maximum v =
     (case v of JInt i \<Rightarrow>
        if i < minimum \<or> i > maximum
        then Inl (ManifestContractError
          (''must be between '' @ show_int minimum @ '' and '' @ show_int maximum) path)
        else Inr i
      | _ \<Rightarrow> Inl (ManifestContractError ''must be an integer'' path))"

definition mf_boolean :: "string \<Rightarrow> json \<Rightarrow> contract_error + bool" where
  "mf_boolean path v =
     (case v of JBool b \<Rightarrow> Inr b | _ \<Rightarrow> Inl (ManifestContractError ''must be a boolean'' path))"

definition mf_string :: "string \<Rightarrow> nat \<Rightarrow> nat \<Rightarrow> json \<Rightarrow> contract_error + string" where
  "mf_string path minimum maximum v =
     (let bad = Inl (ManifestContractError
        (''must be a string of '' @ show_int (int minimum) @ ''..'' @ show_int (int maximum)
          @ '' characters'') path)
      in case v of JStr s \<Rightarrow>
           if length s < minimum \<or> length s > maximum then bad
           else if CHR 0x00 \<in> set s \<or> CHR 0x0D \<in> set s \<or> CHR 0x0A \<in> set s
           then Inl (ManifestContractError ''must not contain control line breaks'' path)
           else Inr s
         | _ \<Rightarrow> bad)"

definition lower_letter :: "char \<Rightarrow> bool" where
  "lower_letter c \<longleftrightarrow> in_range (CHR ''a'') (CHR ''z'') c"

definition digit :: "char \<Rightarrow> bool" where
  "digit c \<longleftrightarrow> in_range (CHR ''0'') (CHR ''9'') c"

text \<open>\<open>[a-z][a-z0-9_.-]{0,n}\<close>, matched against the whole string.\<close>

definition name_re :: "nat \<Rightarrow> string \<Rightarrow> bool" where
  "name_re n s \<longleftrightarrow>
     (case s of [] \<Rightarrow> False
      | c # cs \<Rightarrow> lower_letter c \<and> length cs \<le> n \<and>
          list_all (\<lambda>d. lower_letter d \<or> digit d \<or> d \<in> set ''_.-'') cs)"

definition mf_name :: "string \<Rightarrow> json \<Rightarrow> contract_error + string" where
  "mf_name path v =
     bindE (mf_string path 1 64 v) (\<lambda>name.
     bindE (ensure (name_re 63 name)
       (ManifestContractError (''must use lowercase letters, digits, '' @ repr_str ''.'' @ '', ''
          @ repr_str ''_'' @ '' or '' @ repr_str ''-'') path)) (\<lambda>_.
     Inr name))"

definition index_path :: "string \<Rightarrow> nat \<Rightarrow> string" where
  "index_path path i = path @ ''['' @ show_int (int i) @ '']''"

definition mf_string_list ::
  "string \<Rightarrow> nat \<Rightarrow> bool \<Rightarrow> nat \<Rightarrow> bool \<Rightarrow> json \<Rightarrow> contract_error + string list" where
  "mf_string_list path maximum_items allow_empty item_maximum require_unique v =
     (case v of JArr items \<Rightarrow>
        bindE (ensure (\<not> ((items = [] \<and> \<not> allow_empty) \<or> length items > maximum_items))
          (ManifestContractError (''must contain '' @ (if allow_empty then ''0'' else ''1'') @ ''..''
            @ show_int (int maximum_items) @ '' items'') path)) (\<lambda>_.
        bindE (mapE (\<lambda>(i, item). mf_string (index_path path i) 1 item_maximum item)
            (enumerate 0 items)) (\<lambda>normalized.
        bindE (ensure (\<not> (require_unique \<and> length (remdups normalized) \<noteq> length normalized))
          (ManifestContractError ''must not contain duplicate items'' path)) (\<lambda>_.
        Inr normalized)))
      | _ \<Rightarrow> Inl (ManifestContractError ''must be an array'' path))"

section \<open>\<open>PurePosixPath\<close>\<close>

definition posix_root :: "string \<Rightarrow> string" where
  "posix_root s =
     (if starts_with ''//'' s \<and> \<not> starts_with ''///'' s then ''//''
      else if starts_with ''/'' s then ''/'' else [])"

definition posix_names :: "string \<Rightarrow> string list" where
  "posix_names s = filter (\<lambda>p. p \<noteq> [] \<and> p \<noteq> ''.'') (split_on (CHR ''/'') s)"

definition posix_parts :: "string \<Rightarrow> string list" where
  "posix_parts s = (if posix_root s = [] then [] else [posix_root s]) @ posix_names s"

definition posix_str :: "string \<Rightarrow> string" where
  "posix_str s =
     (if posix_root s = [] \<and> posix_names s = [] then ''.''
      else posix_root s @ join ''/'' (posix_names s))"

definition posix_name :: "string \<Rightarrow> string" where
  "posix_name s = (case rev (posix_names s) of [] \<Rightarrow> [] | p # _ \<Rightarrow> p)"

section \<open>Repository paths\<close>

definition normalize_repository_path ::
  "string \<Rightarrow> bool \<Rightarrow> bool \<Rightarrow> json \<Rightarrow> contract_error + string" where
  "normalize_repository_path path allow_glob allow_dot v =
     bindE (mf_string path 1 512 v) (\<lambda>raw.
     if raw = ''.'' \<and> allow_dot then Inr raw else
     bindE (ensure (\<not> (CHR 0x5C \<in> set raw \<or> starts_with ''/'' raw \<or> ends_with ''/'' raw
         \<or> contains ''//'' raw))
       (ManifestContractError ''must be a normalized relative POSIX path'' path)) (\<lambda>_.
     bindE (ensure (\<not> (\<not> allow_glob \<and> list_ex (\<lambda>c. c \<in> set raw) ''*?''))
       (ManifestContractError ''must not contain glob characters'' path)) (\<lambda>_.
     bindE (ensure (\<not> (allow_glob \<and> list_ex (\<lambda>c. c \<in> set raw) ''{}!''))
       (ManifestContractError (''supports only '' @ repr_str ''*'' @ '' and '' @ repr_str ''?'' @ '' glob characters'') path)) (\<lambda>_.
     let parts = posix_parts raw in
     bindE (ensure (\<not> (parts = [] \<or> list_ex (\<lambda>p. p \<in> {[], ''.'', ''..''}) parts))
       (ManifestContractError ''must remain inside the repository'' path)) (\<lambda>_.
     let normalized = join ''/'' parts in
     bindE (ensure (normalized = raw)
       (ManifestContractError ''must already be normalized'' path)) (\<lambda>_.
     bindE (ensure (\<not> (allow_glob \<and> list_ex (\<lambda>p. contains ''**'' p \<and> p \<noteq> ''**'') parts))
       (ManifestContractError (''recursive '' @ repr_str ''**'' @ '' must occupy a complete path segment'') path)) (\<lambda>_.
     Inr normalized)))))))"

text \<open>What the code accepts, without the parser: the segments of the text itself.\<close>

definition repository_path :: "bool \<Rightarrow> string \<Rightarrow> bool" where
  "repository_path allow_glob s \<longleftrightarrow>
     s \<noteq> [] \<and> length s \<le> 512 \<and>
     set s \<inter> {CHR 0x00, CHR 0x0D, CHR 0x0A, CHR 0x5C} = {} \<and>
     (\<forall>p \<in> set (split_on (CHR ''/'') s). p \<notin> {[], ''.'', ''..''}) \<and>
     (if allow_glob
      then set s \<inter> set ''{}!'' = {} \<and>
        (\<forall>p \<in> set (split_on (CHR ''/'') s). contains ''**'' p \<longrightarrow> p = ''**'')
      else set s \<inter> set ''*?'' = {})"

section \<open>Globs\<close>

text \<open>The pieces of the regular expression: \<open>(?:.*/)?\<close>, \<open>.*\<close>, \<open>[^/]*\<close>, \<open>[^/]\<close>
  and an escaped character.\<close>

datatype glob_token = GDirs | GAny | GSeg | GOne | GLit char

fun compile_glob :: "string \<Rightarrow> glob_token list" where
  "compile_glob [] = []"
| "compile_glob (c # cs) =
     (if c = CHR ''*'' then
        (case cs of
           [] \<Rightarrow> [GSeg]
         | d # ds \<Rightarrow>
             if d = CHR ''*'' then
               (case ds of
                  [] \<Rightarrow> [GAny]
                | e # es \<Rightarrow> if e = CHR ''/'' then GDirs # compile_glob es else GAny # compile_glob ds)
             else GSeg # compile_glob cs)
      else if c = CHR ''?'' then GOne # compile_glob cs
      else GLit c # compile_glob cs)"

text \<open>\<open>re.fullmatch\<close> on such an expression; \<open>.\<close> does not match a newline.\<close>

fun glob_fullmatch :: "glob_token list \<Rightarrow> string \<Rightarrow> bool" where
  "glob_fullmatch [] s = (s = [])"
| "glob_fullmatch (GLit c # ts) s =
     (case s of [] \<Rightarrow> False | x # xs \<Rightarrow> x = c \<and> glob_fullmatch ts xs)"
| "glob_fullmatch (GOne # ts) s =
     (case s of [] \<Rightarrow> False | x # xs \<Rightarrow> x \<noteq> CHR ''/'' \<and> glob_fullmatch ts xs)"
| "glob_fullmatch (GSeg # ts) s =
     (glob_fullmatch ts s \<or>
      (case s of [] \<Rightarrow> False | x # xs \<Rightarrow> x \<noteq> CHR ''/'' \<and> glob_fullmatch (GSeg # ts) xs))"
| "glob_fullmatch (GAny # ts) s =
     (glob_fullmatch ts s \<or>
      (case s of [] \<Rightarrow> False | x # xs \<Rightarrow> x \<noteq> CHR 0x0A \<and> glob_fullmatch (GAny # ts) xs))"
| "glob_fullmatch (GDirs # ts) s =
     (glob_fullmatch ts s \<or>
      list_ex (\<lambda>i. s ! i = CHR ''/'' \<and> CHR 0x0A \<notin> set (take i s) \<and>
        glob_fullmatch ts (drop (Suc i) s)) [0..<length s])"

definition repository_glob_matches :: "string \<Rightarrow> string \<Rightarrow> contract_error + bool" where
  "repository_glob_matches pattern relative_path =
     bindE (normalize_repository_path ''pattern'' True False (JStr pattern)) (\<lambda>normalized_pattern.
     bindE (normalize_repository_path ''path'' False False (JStr relative_path)) (\<lambda>normalized_path.
     Inr (glob_fullmatch (compile_glob normalized_pattern) normalized_path)))"

text \<open>The intended meaning, segment by segment: \<open>*\<close> and \<open>?\<close> stay inside a segment,
  \<open>**\<close> stands for any number of whole segments (at least one at the end).\<close>

fun segment_matches :: "string \<Rightarrow> string \<Rightarrow> bool" where
  "segment_matches [] s = (s = [])"
| "segment_matches (c # cs) s =
     (if c = CHR ''*'' then
        segment_matches cs s \<or> (case s of [] \<Rightarrow> False | _ # xs \<Rightarrow> segment_matches (c # cs) xs)
      else (case s of [] \<Rightarrow> False | x # xs \<Rightarrow> (c = CHR ''?'' \<or> x = c) \<and> segment_matches cs xs))"

fun glob_spec :: "string list \<Rightarrow> string list \<Rightarrow> bool" where
  "glob_spec [] ps = (ps = [])"
| "glob_spec (g # gs) ps =
     (if g = ''**'' then
        (if gs = [] then ps \<noteq> []
         else glob_spec gs ps \<or> (case ps of [] \<Rightarrow> False | _ # rest \<Rightarrow> glob_spec (g # gs) rest))
      else (case ps of [] \<Rightarrow> False | p # rest \<Rightarrow> segment_matches g p \<and> glob_spec gs rest))"

section \<open>What the path validator accepts\<close>

lemma posix_parts_relative:
  "\<not> starts_with ''/'' s \<Longrightarrow> posix_parts s = filter (\<lambda>p. p \<noteq> [] \<and> p \<noteq> ''.'') (split_on (CHR ''/'') s)"
  by (auto simp: posix_parts_def posix_root_def posix_names_def starts_with_iff)

lemma mf_string_Inr_iff [result_simps]:
  "mf_string path lo hi v = Inr s \<longleftrightarrow>
     v = JStr s \<and> lo \<le> length s \<and> length s \<le> hi \<and> set s \<inter> {CHR 0x00, CHR 0x0D, CHR 0x0A} = {}"
  by (auto simp: mf_string_def Let_def split: json.splits if_splits)

lemma normalize_unfold:
  "normalize_repository_path path g dot v = Inr s \<longleftrightarrow>
     mf_string path 1 512 v = Inr s \<and>
     (if s = ''.'' \<and> dot then True else
      CHR 0x5C \<notin> set s \<and> \<not> starts_with ''/'' s \<and> \<not> ends_with ''/'' s \<and> \<not> contains ''//'' s \<and>
      (g \<or> CHR ''*'' \<notin> set s \<and> CHR ''?'' \<notin> set s) \<and>
      (g \<longrightarrow> CHR ''{'' \<notin> set s \<and> CHR ''}'' \<notin> set s \<and> CHR ''!'' \<notin> set s) \<and>
      posix_parts s \<noteq> [] \<and> (\<forall>p \<in> set (posix_parts s). p \<notin> {[], ''.'', ''..''}) \<and>
      join ''/'' (posix_parts s) = s \<and>
      (g \<longrightarrow> (\<forall>p \<in> set (posix_parts s). contains ''**'' p \<longrightarrow> p = ''**'')))"
proof (cases "mf_string path 1 512 v")
  case (Inr raw)
  show ?thesis
  proof (cases "raw = s")
    case True
    with Inr show ?thesis
      by (cases "raw = ''.'' \<and> dot")
        (simp_all add: normalize_repository_path_def Let_def Ball_set [symmetric] list_ex_iff, blast)
  next
    case False
    with Inr show ?thesis
      by (cases "raw = ''.'' \<and> dot") (auto simp: normalize_repository_path_def Let_def)
  qed
qed (simp add: normalize_repository_path_def)

lemma join_filter_split:
  assumes "s \<noteq> []"
  shows "join ''/'' (filter (\<lambda>p. p \<noteq> [] \<and> p \<noteq> ''.'') (split_on (CHR ''/'') s)) = s \<longleftrightarrow>
    (\<forall>p \<in> set (split_on (CHR ''/'') s). p \<noteq> [] \<and> p \<noteq> ''.'')" (is "join _ ?f = s \<longleftrightarrow> _")
proof
  assume j: "join ''/'' ?f = s"
  with assms have "?f \<noteq> []" by auto
  then have "split_on (CHR ''/'') (join ''/'' ?f) = ?f"
    by (rule split_on_join) (auto dest: split_on_no_sep)
  with j have "?f = split_on (CHR ''/'') s" by simp
  then show "\<forall>p \<in> set (split_on (CHR ''/'') s). p \<noteq> [] \<and> p \<noteq> ''.''"
    by (simp only: filter_id_conv)
qed (simp only: filter_id_conv [THEN iffD2] join_split_on)

lemma repository_path_parts:
  assumes "\<forall>p \<in> set (split_on (CHR ''/'') s). p \<notin> {[], ''.'', ''..''}"
  shows "posix_parts s = split_on (CHR ''/'') s"
proof -
  have "\<not> starts_with ''/'' s" using assms Nil_in_split_on_iff [of "CHR ''/''" s] by auto
  moreover have "filter (\<lambda>p. p \<noteq> [] \<and> p \<noteq> ''.'') (split_on (CHR ''/'') s) = split_on (CHR ''/'') s"
    unfolding filter_id_conv using assms by blast
  ultimately show ?thesis by (simp add: posix_parts_relative)
qed

lemma normalize_repository_path_iff:
  "normalize_repository_path path g dot v = Inr s \<longleftrightarrow>
     v = JStr s \<and> (if s = ''.'' \<and> dot then True else repository_path g s)"
proof (cases "s = ''.'' \<and> dot")
  case True
  then show ?thesis by (simp add: normalize_unfold mf_string_Inr_iff)
next
  case dot: False
  note nil = Nil_in_split_on_iff [of "CHR ''/''" s]
  show ?thesis
  proof (cases "\<forall>p \<in> set (split_on (CHR ''/'') s). p \<notin> {[], ''.'', ''..''}")
    case True
    then have "[] \<notin> set (split_on (CHR ''/'') s)" by auto
    with True dot nil show ?thesis
      by (auto simp: normalize_unfold mf_string_Inr_iff repository_path_parts repository_path_def Suc_le_eq)
  next
    case False
    then have "\<not> repository_path g s" by (simp add: repository_path_def)
    moreover have "normalize_repository_path path g dot v \<noteq> Inr s"
    proof
      assume "normalize_repository_path path g dot v = Inr s"
      with dot have *: "s \<noteq> []" "\<not> starts_with ''/'' s" "\<forall>p \<in> set (posix_parts s). p \<notin> {[], ''.'', ''..''}"
        "join ''/'' (posix_parts s) = s" by (auto simp: normalize_unfold mf_string_Inr_iff)
      then have "\<forall>p \<in> set (split_on (CHR ''/'') s). p \<noteq> [] \<and> p \<noteq> ''.''"
        by (simp add: posix_parts_relative join_filter_split)
      with * False show False by (auto simp: posix_parts_relative)
    qed
    ultimately show ?thesis using dot by auto
  qed
qed

section \<open>The compiled expression and the segment-wise glob\<close>

definition plain_segment :: "string \<Rightarrow> bool" where
  "plain_segment g \<longleftrightarrow> CHR ''/'' \<notin> set g \<and> \<not> contains ''**'' g"

lemma plain_segment_Cons: "plain_segment (c # g) \<Longrightarrow> plain_segment g"
  by (auto simp: plain_segment_def)

definition segment_token :: "char \<Rightarrow> glob_token" where
  "segment_token c = (if c = CHR ''*'' then GSeg else if c = CHR ''?'' then GOne else GLit c)"

lemma compile_glob_step:
  "\<not> (c = CHR ''*'' \<and> starts_with ''*'' cs) \<Longrightarrow> compile_glob (c # cs) = segment_token c # compile_glob cs"
  by (cases cs) (auto simp: segment_token_def)

declare compile_glob.simps(2) [simp del]

lemma segment_token_simps [simp]:
  "segment_token (CHR ''*'') = GSeg" "segment_token (CHR ''?'') = GOne"
  "segment_token (CHR ''/'') = GLit (CHR ''/'')"
  by (simp_all add: segment_token_def)

lemma glob_fullmatch_GLit: "glob_fullmatch (GLit c # ts) s \<longleftrightarrow> (\<exists>r. s = c # r \<and> glob_fullmatch ts r)"
  by (cases s) auto

lemma compile_plain:
  assumes "plain_segment g" and "r = [] \<or> (\<exists>t. r = CHR ''/'' # t)"
  shows "compile_glob (g @ r) = map segment_token g @ compile_glob r"
  using assms
proof (induction g)
  case (Cons c g)
  then have IH: "compile_glob (g @ r) = map segment_token g @ compile_glob r"
    using plain_segment_Cons by blast
  have "\<not> (c = CHR ''*'' \<and> starts_with ''*'' (g @ r))"
    using Cons.prems by (cases g) (auto simp: plain_segment_def)
  then show ?case by (simp add: compile_glob_step IH)
qed simp

lemma segment_token_match:
  "CHR ''/'' \<notin> set g \<Longrightarrow>
     glob_fullmatch (map segment_token g @ ts) s \<longleftrightarrow>
     (\<exists>p r. s = p @ r \<and> CHR ''/'' \<notin> set p \<and> segment_matches g p \<and> glob_fullmatch ts r)"
proof (induction g arbitrary: s)
  case (Cons c g)
  then have c: "c \<noteq> CHR ''/''"
    and IH: "\<And>s. glob_fullmatch (map segment_token g @ ts) s \<longleftrightarrow>
      (\<exists>p r. s = p @ r \<and> CHR ''/'' \<notin> set p \<and> segment_matches g p \<and> glob_fullmatch ts r)"
    by auto
  show ?case
  proof (cases "c = CHR ''*''")
    case True
    show ?thesis
    proof (induction s)
      case Nil
      with True IH [of "[]"] show ?case by simp
    next
      case (Cons x s)
      let ?Q = "\<lambda>g s. \<exists>p r. s = p @ r \<and> CHR ''/'' \<notin> set p \<and> segment_matches g p \<and> glob_fullmatch ts r"
      have "glob_fullmatch (map segment_token (c # g) @ ts) (x # s) \<longleftrightarrow>
          ?Q g (x # s) \<or> x \<noteq> CHR ''/'' \<and> ?Q (c # g) s"
        using True Cons IH [of "x # s"] by simp
      also have "\<dots> \<longleftrightarrow> ?Q (c # g) (x # s)" (is "?A \<or> ?B \<longleftrightarrow> ?C")
      proof
        assume "?A \<or> ?B"
        then show ?C
        proof
          assume ?A then show ?C using True by auto
        next
          assume ?B
          then obtain p r where pr: "x \<noteq> CHR ''/''" "s = p @ r" "CHR ''/'' \<notin> set p"
            "segment_matches (c # g) p" "glob_fullmatch ts r" by blast
          then have "x # s = (x # p) @ r" "CHR ''/'' \<notin> set (x # p)" "segment_matches (c # g) (x # p)"
            using True by auto
          with pr(5) show ?C by blast
        qed
      next
        assume ?C
        then obtain p r where pr: "x # s = p @ r" "CHR ''/'' \<notin> set p"
            "segment_matches (c # g) p" "glob_fullmatch ts r" by blast
        show "?A \<or> ?B"
        proof (cases "segment_matches g p")
          case True with pr show ?thesis by blast
        next
          case False
          with pr True obtain q where q: "p = x # q" "segment_matches (c # g) q" "s = q @ r"
            by (cases p) auto
          with pr(2) have "x \<noteq> CHR ''/''" "CHR ''/'' \<notin> set q" by auto
          with q pr(4) show ?thesis by blast
        qed
      qed
      finally show ?case .
    qed
  next
    case False
    have m: "glob_fullmatch (map segment_token (c # g) @ ts) s \<longleftrightarrow>
        (\<exists>x t. s = x # t \<and> x \<noteq> CHR ''/'' \<and> (c = CHR ''?'' \<or> x = c) \<and> glob_fullmatch (map segment_token g @ ts) t)"
      using False c by (cases s; cases "c = CHR ''?''") (auto simp: segment_token_def [of c])
    have sm: "segment_matches (c # g) p \<longleftrightarrow>
        (\<exists>x t. p = x # t \<and> (c = CHR ''?'' \<or> x = c) \<and> segment_matches g t)" for p
      using False by (cases p) auto
    show ?thesis unfolding m sm IH
    proof
      assume "\<exists>x t. s = x # t \<and> x \<noteq> CHR ''/'' \<and> (c = CHR ''?'' \<or> x = c) \<and>
        (\<exists>p r. t = p @ r \<and> CHR ''/'' \<notin> set p \<and> segment_matches g p \<and> glob_fullmatch ts r)"
      then obtain x p r where "s = (x # p) @ r" "x \<noteq> CHR ''/''" "c = CHR ''?'' \<or> x = c"
        "CHR ''/'' \<notin> set p" "segment_matches g p" "glob_fullmatch ts r" by auto
      then show "\<exists>p r. s = p @ r \<and> CHR ''/'' \<notin> set p \<and>
        (\<exists>x t. p = x # t \<and> (c = CHR ''?'' \<or> x = c) \<and> segment_matches g t) \<and> glob_fullmatch ts r"
        by (intro exI [of _ "x # p"] exI [of _ r]) auto
    qed (auto, blast+)
  qed
qed auto

lemma glob_fullmatch_plain:
  assumes "plain_segment g"
  shows "glob_fullmatch (compile_glob g) s \<longleftrightarrow> CHR ''/'' \<notin> set s \<and> segment_matches g s"
  using compile_plain [OF assms, of "[]"] segment_token_match [of g "[]" s] assms
  by (auto simp: plain_segment_def)

lemma glob_fullmatch_plain_sep:
  assumes "plain_segment g"
  shows "glob_fullmatch (compile_glob (g @ CHR ''/'' # rest)) s \<longleftrightarrow>
     (\<exists>p r. s = p @ CHR ''/'' # r \<and> CHR ''/'' \<notin> set p \<and> segment_matches g p \<and>
       glob_fullmatch (compile_glob rest) r)"
proof -
  have "compile_glob (g @ CHR ''/'' # rest) = map segment_token g @ GLit (CHR ''/'') # compile_glob rest"
    using compile_plain [OF assms, of "CHR ''/'' # rest"] by (simp add: compile_glob_step)
  then show ?thesis
    using assms
    by (simp add: segment_token_match plain_segment_def glob_fullmatch_GLit del: glob_fullmatch.simps) blast
qed

lemma glob_spec_Nil: "gs \<noteq> [] \<Longrightarrow> \<not> glob_spec gs []"
  by (induction gs) auto

lemma join_Cons: "ps \<noteq> [] \<Longrightarrow> join ''/'' (p # ps) = p @ CHR ''/'' # join ''/'' ps"
  by (cases ps) auto

lemma append_sep_eq:
  "CHR ''/'' \<notin> set p \<Longrightarrow> CHR ''/'' \<notin> set q \<Longrightarrow>
    p @ CHR ''/'' # r = q @ CHR ''/'' # t \<longleftrightarrow> p = q \<and> r = t"
proof (induction p arbitrary: q)
  case (Cons x p)
  then show ?case by (cases q) auto
qed (auto simp: Cons_eq_append_conv)

lemma slash_in_join: "ps \<noteq> [] \<Longrightarrow> CHR ''/'' \<in> set (join ''/'' (p # ps))"
  by (simp add: join_Cons)

lemma fullmatch_dirs:
  assumes "CHR 0x0A \<notin> set s"
  shows "glob_fullmatch (GDirs # ts) s \<longleftrightarrow>
    glob_fullmatch ts s \<or> (\<exists>a b. s = a @ CHR ''/'' # b \<and> glob_fullmatch ts b)"
proof -
  have "(\<exists>i < length s. s ! i = CHR ''/'' \<and> CHR 0x0A \<notin> set (take i s) \<and> glob_fullmatch ts (drop (Suc i) s))
      \<longleftrightarrow> (\<exists>a b. s = a @ CHR ''/'' # b \<and> glob_fullmatch ts b)"
  proof
    assume "\<exists>i < length s. s ! i = CHR ''/'' \<and> CHR 0x0A \<notin> set (take i s) \<and> glob_fullmatch ts (drop (Suc i) s)"
    then show "\<exists>a b. s = a @ CHR ''/'' # b \<and> glob_fullmatch ts b" by (metis id_take_nth_drop)
  next
    assume "\<exists>a b. s = a @ CHR ''/'' # b \<and> glob_fullmatch ts b"
    then obtain a b where ab: "s = a @ CHR ''/'' # b" "glob_fullmatch ts b" by blast
    with assms have "length a < length s \<and> s ! length a = CHR ''/'' \<and> CHR 0x0A \<notin> set (take (length a) s) \<and>
      glob_fullmatch ts (drop (Suc (length a)) s)" by simp
    then show "\<exists>i < length s. s ! i = CHR ''/'' \<and> CHR 0x0A \<notin> set (take i s) \<and> glob_fullmatch ts (drop (Suc i) s)"
      by blast
  qed
  then show ?thesis by (auto simp: list_ex_iff)
qed

lemma fullmatch_any: "glob_fullmatch [GAny] s \<longleftrightarrow> CHR 0x0A \<notin> set s"
  by (induction s) auto

lemma dirs_spec:
  assumes "gs \<noteq> []" "ps \<noteq> []" "\<forall>p \<in> set ps. CHR ''/'' \<notin> set p \<and> CHR 0x0A \<notin> set p"
    and IH: "\<And>ps. ps \<noteq> [] \<Longrightarrow> \<forall>p \<in> set ps. CHR ''/'' \<notin> set p \<and> CHR 0x0A \<notin> set p \<Longrightarrow>
      glob_fullmatch ts (join ''/'' ps) = glob_spec gs ps"
  shows "glob_fullmatch (GDirs # ts) (join ''/'' ps) = glob_spec (''**'' # gs) ps"
  using assms(2,3)
proof (induction ps)
  case (Cons p ps)
  have nl: "CHR 0x0A \<notin> set (join ''/'' (p # ps))"
    using Cons.prems(2) set_join_subset [of "''/''" "p # ps"] by auto
  have pre: "CHR ''/'' \<notin> set p" using Cons.prems by simp
  show ?case
  proof (cases "ps = []")
    case True
    with pre have "\<not> (\<exists>a b. join ''/'' (p # ps) = a @ CHR ''/'' # b)" by auto
    with True assms(1) nl IH [OF Cons.prems] glob_spec_Nil [OF assms(1)]
      glob_spec_Nil [of "''**'' # gs"] show ?thesis
      by (simp add: fullmatch_dirs del: glob_fullmatch.simps)
  next
    case False
    have nl2: "CHR 0x0A \<notin> set (join ''/'' ps)"
      using Cons.prems(2) set_join_subset [of "''/''" ps] by auto
    have "(\<exists>a b. join ''/'' (p # ps) = a @ CHR ''/'' # b \<and> glob_fullmatch ts b) \<longleftrightarrow>
        glob_fullmatch (GDirs # ts) (join ''/'' ps)"
      unfolding fullmatch_dirs [OF nl2] join_Cons [OF False]
    proof safe
      fix a b assume eq: "p @ CHR ''/'' # join ''/'' ps = a @ CHR ''/'' # b" and b: "glob_fullmatch ts b"
        and no: "\<nexists>a b. join ''/'' ps = a @ CHR ''/'' # b \<and> glob_fullmatch ts b"
      show "glob_fullmatch ts (join ''/'' ps)"
      proof (cases "CHR ''/'' \<in> set a")
        case True
        then obtain a1 a2 where a: "a = a1 @ CHR ''/'' # a2" "CHR ''/'' \<notin> set a1" by (metis split_list_first)
        with eq pre have "join ''/'' ps = a2 @ CHR ''/'' # b" by (simp add: append_sep_eq)
        with no b show ?thesis by blast
      next
        case False
        with eq pre b show ?thesis by (simp add: append_sep_eq)
      qed
    qed (blast, metis append_assoc append_Cons)
    with Cons.IH False Cons.prems nl IH [OF Cons.prems] assms(1) show ?thesis
      by (simp add: fullmatch_dirs del: glob_fullmatch.simps(6) join.simps)
  qed
qed simp

lemma glob_fullmatch_spec:
  assumes "gs \<noteq> []" "ps \<noteq> []"
    and "\<forall>g \<in> set gs. CHR ''/'' \<notin> set g \<and> (contains ''**'' g \<longrightarrow> g = ''**'')"
    and "\<forall>p \<in> set ps. CHR ''/'' \<notin> set p \<and> CHR 0x0A \<notin> set p"
  shows "glob_fullmatch (compile_glob (join ''/'' gs)) (join ''/'' ps) = glob_spec gs ps"
  using assms
proof (induction gs arbitrary: ps)
  case (Cons g gs)
  have star: "compile_glob (''**/'' @ r) = GDirs # compile_glob r" "compile_glob ''**'' = [GAny]" for r
    by (simp_all add: compile_glob.simps)
  show ?case
  proof (cases "g = ''**''")
    case True
    show ?thesis
    proof (cases "gs = []")
      case True
      have "CHR 0x0A \<notin> set (join ''/'' ps)"
        using Cons.prems(4) set_join_subset [of "''/''" ps] by auto
      with \<open>g = ''**''\<close> True Cons.prems(2) show ?thesis by (simp add: star fullmatch_any del: glob_fullmatch.simps)
    next
      case False
      have "compile_glob (join ''/'' (g # gs)) = GDirs # compile_glob (join ''/'' gs)"
        using star(1) [of "join ''/'' gs"] True False by (simp add: join_Cons)
      with dirs_spec [OF False Cons.prems(2,4), of "compile_glob (join ''/'' gs)"] True False Cons.IH Cons.prems
      show ?thesis by (simp del: glob_fullmatch.simps glob_spec.simps)
    qed
  next
    case False
    with Cons.prems have plain: "plain_segment g" by (auto simp: plain_segment_def)
    obtain p qs where ps: "ps = p # qs" using Cons.prems(2) by (cases ps) auto
    with Cons.prems have p: "CHR ''/'' \<notin> set p" by simp
    show ?thesis
    proof (cases "gs = []")
      case True
      with False ps plain p show ?thesis
        by (cases "qs = []") (simp_all add: glob_fullmatch_plain slash_in_join)
    next
      case gs: False
      show ?thesis
      proof (cases "qs = []")
        case True
        with gs False ps plain p show ?thesis
          by (auto simp: join_Cons glob_fullmatch_plain_sep glob_spec_Nil)
      next
        case qs: False
        with Cons.IH [OF gs qs] Cons.prems ps have "glob_fullmatch (compile_glob (join ''/'' gs)) (join ''/'' qs) = glob_spec gs qs"
          by simp
        moreover have "glob_fullmatch (compile_glob (join ''/'' (g # gs))) (join ''/'' ps) \<longleftrightarrow>
            segment_matches g p \<and> glob_fullmatch (compile_glob (join ''/'' gs)) (join ''/'' qs)"
          using gs qs ps p plain by (auto simp: join_Cons glob_fullmatch_plain_sep append_sep_eq)
        ultimately show ?thesis using False ps by simp
      qed
    qed
  qed
qed simp

lemma glob_matches_iff:
  "repository_glob_matches pattern relative = Inr b \<longleftrightarrow>
     repository_path True pattern \<and> repository_path False relative \<and>
     b = glob_spec (split_on (CHR ''/'') pattern) (split_on (CHR ''/'') relative)"
proof (cases "repository_path True pattern \<and> repository_path False relative")
  case True
  then have n: "normalize_repository_path ''pattern'' True False (JStr pattern) = Inr pattern"
    "normalize_repository_path ''path'' False False (JStr relative) = Inr relative"
    by (simp_all add: normalize_repository_path_iff)
  have "\<forall>g \<in> set (split_on (CHR ''/'') pattern). CHR ''/'' \<notin> set g \<and> (contains ''**'' g \<longrightarrow> g = ''**'')"
    using True by (auto simp: repository_path_def dest: split_on_no_sep)
  moreover have "\<forall>p \<in> set (split_on (CHR ''/'') relative). CHR ''/'' \<notin> set p \<and> CHR 0x0A \<notin> set p"
    using True by (auto simp: repository_path_def dest: split_on_no_sep split_on_set)
  ultimately have "glob_fullmatch (compile_glob pattern) relative =
      glob_spec (split_on (CHR ''/'') pattern) (split_on (CHR ''/'') relative)"
    using glob_fullmatch_spec [of "split_on (CHR ''/'') pattern" "split_on (CHR ''/'') relative"] by simp
  with True n show ?thesis by (auto simp: repository_glob_matches_def)
next
  case False
  then show ?thesis
    by (auto simp: repository_glob_matches_def bindE_Inr_iff normalize_repository_path_iff)
qed

text \<open>
  A repository path is accepted by \<open>normalize_repository_path\<close> exactly when it is a
  string of 1 to 512 characters without NUL, line breaks and backslashes, none of whose
  slash-separated segments is empty, \<open>.\<close> or \<open>..\<close>, and which has no glob characters (or, where
  globs are allowed, no braces or exclamation mark, and \<open>**\<close> only as a whole segment); the
  accepted path is returned unchanged, so it can never leave the repository lexically.
\<close>
lemma normalize_repository_path_exact:
  "normalize_repository_path path g False v = Inr s \<longleftrightarrow> v = JStr s \<and> repository_path g s"
  by (simp add: normalize_repository_path_iff)

text \<open>
  C39. \<open>repository_glob_matches\<close> answers exactly for a valid pattern and a valid path, and its
  answer, computed by a regular expression over the whole text, is the segment-wise glob:
  \<open>*\<close> and \<open>?\<close> never cross a slash, and \<open>**\<close> stands for whole segments.
\<close>
theorem repository_glob_matches_exact:
  "repository_glob_matches pattern relative = Inr b \<longleftrightarrow>
     repository_path True pattern \<and> repository_path False relative \<and>
     b = glob_spec (split_on (CHR ''/'') pattern) (split_on (CHR ''/'') relative)"
  by (rule glob_matches_iff)

end
