(* ===== verification/Manifest.thy ===== *)
theory Manifest
  imports Paths
begin

text \<open>
  The manifest parser of \<open>universal_test_contract.py\<close>: the frozen dataclasses, the section
  parsers \<open>_parse_defaults\<close> .. \<open>_parse_evidence_policies\<close>, \<open>parse_test_manifest\<close> and
  \<open>manifest_to_document\<close>. Whether a repository-relative path resolves inside the
  repository is a fact of the file system: \<open>repository_root\<close> is \<open>None\<close>, or the predicate
  that answers it.
\<close>

section \<open>Contract data\<close>

datatype source_mode = LIVE | IMMUTABLE

definition source_mode_value :: "source_mode \<Rightarrow> string" where
  "source_mode_value m = (case m of LIVE \<Rightarrow> ''live'' | IMMUTABLE \<Rightarrow> ''immutable'')"

record manifest_defaults =
  md_timeout_seconds :: int
  md_network :: string
  md_environment :: "string dict"

record shard_policy =
  sp_mode :: string
  sp_max_shards :: int

record artifact_contract =
  ac_name :: string
  ac_path :: string
  ac_kind :: string
  ac_required :: bool
  ac_max_bytes :: int

record fixture_contract =
  fc_name :: string
  fc_template :: string
  fc_network :: string

record credential_contract =
  cc_name :: string
  cc_binding :: string

record state_handle_contract =
  sh_name :: string
  sh_kind :: string
  sh_path :: string
  sh_environment :: string

record intent_contract =
  ic_name :: string
  ic_source_mode :: source_mode
  ic_allow_reuse :: bool

record evidence_policy =
  ep_name :: string
  ep_intent :: string
  ep_required_targets :: "string list"
  ep_max_age_seconds :: int
  ep_allow_reuse :: bool

record target_contract =
  tc_name :: string
  tc_driver :: string
  tc_reporter :: string
  tc_argv :: "string list"
  tc_cwd :: string
  tc_inputs :: "string list"
  tc_depends_on :: "string list"
  tc_intents :: "string list"
  tc_timeout_seconds :: int
  tc_network :: string
  tc_exclusive_resources :: "string list"
  tc_fixtures :: "string list"
  tc_credentials :: "string list"
  tc_shard :: shard_policy
  tc_artifacts :: "artifact_contract list"
  tc_environment :: "string dict"
  tc_state_handles :: "string list"

record test_manifest =
  tm_schema_version :: int
  tm_defaults :: manifest_defaults
  tm_global_inputs :: "string list"
  tm_targets :: "target_contract dict"
  tm_intents :: "intent_contract dict"
  tm_fixtures :: "fixture_contract dict"
  tm_credentials :: "credential_contract dict"
  tm_evidence_policies :: "evidence_policy dict"
  tm_fingerprint :: string
  tm_state_handles :: "state_handle_contract dict"

type_synonym repository_root = "(string \<Rightarrow> bool) option"

section \<open>Constants of the module\<close>

definition manifest_schema_version :: int where "manifest_schema_version = 4"
definition manifest_relative_path :: string where "manifest_relative_path = ''.codex/tests.json''"

definition top_level_fields :: "string list" where
  "top_level_fields = [''schema_version'', ''defaults'', ''global_inputs'', ''targets'', ''intents'',
     ''fixtures'', ''credentials'', ''state_handles'', ''evidence_policies'']"
definition default_fields :: "string list" where
  "default_fields = [''timeout_seconds'', ''network'', ''environment'']"
definition target_fields :: "string list" where
  "target_fields = [''driver'', ''reporter'', ''argv'', ''cwd'', ''inputs'', ''depends_on'', ''intents'',
     ''timeout_seconds'', ''network'', ''exclusive_resources'', ''fixtures'', ''credentials'',
     ''state_handles'', ''shard'', ''artifacts'', ''environment'']"
definition intent_fields :: "string list" where "intent_fields = [''source_mode'', ''allow_reuse'']"
definition fixture_fields :: "string list" where "fixture_fields = [''template'', ''network'']"
definition credential_fields :: "string list" where "credential_fields = [''binding'']"
definition state_handle_fields :: "string list" where
  "state_handle_fields = [''kind'', ''path'', ''environment'']"
definition evidence_fields :: "string list" where
  "evidence_fields = [''intent'', ''required_targets'', ''max_age_seconds'', ''allow_reuse'']"
definition shard_fields :: "string list" where "shard_fields = [''mode'', ''max_shards'']"
definition artifact_fields :: "string list" where
  "artifact_fields = [''name'', ''path'', ''kind'', ''required'', ''max_bytes'']"

definition allowed_drivers :: "string list" where
  "allowed_drivers = [''pytest'', ''node'', ''dotnet'', ''automation'']"
definition reporters_by_driver :: "string \<Rightarrow> string list" where
  "reporters_by_driver d =
     (if d = ''pytest'' then [''pytest-events'']
      else if d = ''node'' then [''jsonl'']
      else if d = ''dotnet'' then [''trx'']
      else if d = ''automation'' then [''jsonl'', ''automation-events''] else [])"
definition allowed_network :: "string list" where
  "allowed_network = [''none'', ''loopback'', ''host-loopback'', ''external'']"
definition allowed_fixture_network :: "string list" where
  "allowed_fixture_network = [''none'', ''loopback'', ''external'']"
definition network_rank :: "string \<Rightarrow> int" where
  "network_rank n =
     (if n = ''none'' then 0 else if n = ''loopback'' then 1 else if n = ''host-loopback'' then 2 else 3)"
definition allowed_intents :: "string list" where
  "allowed_intents = [''change'', ''checkpoint'', ''handoff'', ''release'', ''manual'']"
definition allowed_shard_modes :: "string list" where
  "allowed_shard_modes = [''none'', ''files'', ''history'']"
definition allowed_artifact_kinds :: "string list" where
  "allowed_artifact_kinds = [''log'', ''jsonl'', ''junit'', ''trx'', ''coverage'', ''trace'', ''directory'']"
definition allowed_arg_placeholders :: "string list" where
  "allowed_arg_placeholders = [''{python}'', ''{node}'', ''{dotnet}'', ''{events}'', ''{results}'',
     ''{shard_index}'', ''{shard_count}'']"
definition forbidden_executables :: "string list" where
  "forbidden_executables = [''sh'', ''bash'', ''dash'', ''zsh'', ''ksh'', ''fish'', ''cmd'', ''cmd.exe'',
     ''powershell'', ''powershell.exe'', ''pwsh'', ''pwsh.exe'', ''env'']"
definition secret_words :: "string list" where
  "secret_words = [''SECRET'', ''TOKEN'', ''PASSWORD'', ''PASSWD'', ''PRIVATE_KEY'', ''API_KEY'', ''CREDENTIAL'']"

text \<open>\<open>[A-Z][A-Z0-9_]{0,63}\<close> and the search for a secret-like word between underscores.\<close>

definition upper_letter :: "char \<Rightarrow> bool" where
  "upper_letter c \<longleftrightarrow> in_range (CHR ''A'') (CHR ''Z'') c"

definition environment_name :: "string \<Rightarrow> bool" where
  "environment_name s \<longleftrightarrow>
     (case s of [] \<Rightarrow> False
      | c # cs \<Rightarrow> upper_letter c \<and> length cs \<le> 63 \<and>
          list_all (\<lambda>d. upper_letter d \<or> digit d \<or> d = CHR ''_'') cs)"

definition secret_at :: "string \<Rightarrow> bool" where
  "secret_at s \<longleftrightarrow> list_ex (\<lambda>w. starts_with w s \<and>
     (let rest = drop (length w) s in rest = [] \<or> starts_with ''_'' rest)) secret_words"

fun secret_after_underscore :: "string \<Rightarrow> bool" where
  "secret_after_underscore [] = False"
| "secret_after_underscore (c # cs) =
     ((c = CHR ''_'' \<and> secret_at cs) \<or> secret_after_underscore cs)"

definition secret_environment_name :: "string \<Rightarrow> bool" where
  "secret_environment_name s \<longleftrightarrow> secret_at s \<or> secret_after_underscore s"

section \<open>Field validators\<close>

definition verify_host_containment ::
  "repository_root \<Rightarrow> string \<Rightarrow> string \<Rightarrow> contract_error + unit" where
  "verify_host_containment rr path relative =
     (case rr of
        None \<Rightarrow> Inr ()
      | Some inside \<Rightarrow> ensure (inside relative) (ManifestContractError
          ''resolves outside the repository (possibly through a symlink)'' path))"

definition verify_pattern_host_containment ::
  "repository_root \<Rightarrow> string \<Rightarrow> string \<Rightarrow> contract_error + unit" where
  "verify_pattern_host_containment rr path pattern =
     (let static_parts = takeWhile (\<lambda>p. \<not> (CHR ''*'' \<in> set p \<or> CHR ''?'' \<in> set p)) (posix_parts pattern)
      in if static_parts \<noteq> [] then verify_host_containment rr path (join ''/'' static_parts)
         else Inr ())"

definition environment_step ::
  "string \<Rightarrow> json dict \<Rightarrow> string \<Rightarrow> string dict \<times> nat \<Rightarrow> contract_error + string dict \<times> nat" where
  "environment_step path raw key acc =
     (let here = path @ ''.'' @ key in
      bindE (ensure (environment_name key)
        (ManifestContractError ''environment name must be uppercase ASCII'' here)) (\<lambda>_.
      bindE (ensure (\<not> secret_environment_name key)
        (ManifestContractError ''secret-like environment names are not allowed'' here)) (\<lambda>_.
      bindE (mf_string here 0 2048 (dict_get raw key JNull)) (\<lambda>item.
      Inr (fst acc @ [(key, item)], snd acc + utf8_length key + utf8_length item)))))"

definition mf_environment :: "string \<Rightarrow> json \<Rightarrow> contract_error + string dict" where
  "mf_environment path v =
     bindE (mf_object path v) (\<lambda>raw.
     bindE (ensure (length raw \<le> 64)
       (ManifestContractError ''must contain at most 64 entries'' path)) (\<lambda>_.
     bindE (foldE (environment_step path raw) (sorted_set (keys raw)) ([], 0)) (\<lambda>(normalized, total_bytes).
     bindE (ensure (total_bytes \<le> 16 * 1024)
       (ManifestContractError ''literal environment exceeds 16 KiB'' path)) (\<lambda>_.
     Inr normalized))))"

definition mf_network :: "string \<Rightarrow> json \<Rightarrow> contract_error + string" where
  "mf_network path v =
     bindE (mf_string path 1 16 v) (\<lambda>network.
     bindE (ensure (network \<in> set allowed_network)
       (ManifestContractError ''must be one of: none, loopback, host-loopback, external'' path)) (\<lambda>_.
     Inr network))"

definition fixture_network :: "string \<Rightarrow> json \<Rightarrow> contract_error + string" where
  "fixture_network path v =
     bindE (mf_string path 1 16 v) (\<lambda>network.
     bindE (ensure (network \<in> set allowed_fixture_network)
       (ManifestContractError ''fixture network must be one of: none, loopback, external'' path)) (\<lambda>_.
     Inr network))"

definition required_executable :: "string \<Rightarrow> string option" where
  "required_executable driver =
     (if driver = ''pytest'' then Some ''{python}''
      else if driver = ''node'' then Some ''{node}''
      else if driver = ''dotnet'' then Some ''{dotnet}'' else None)"

definition mf_argv :: "string \<Rightarrow> string \<Rightarrow> json \<Rightarrow> contract_error + string list" where
  "mf_argv path driver v =
     bindE (mf_string_list path 256 False 4096 False v) (\<lambda>argv.
     bindE (mapE (\<lambda>(i, item).
         ensure (\<not> ((CHR ''{'' \<in> set item \<or> CHR ''}'' \<in> set item) \<and> item \<notin> set allowed_arg_placeholders))
           (ManifestContractError ''contains an unsupported placeholder'' (index_path path i)))
         (enumerate 0 argv)) (\<lambda>_.
     let executable = lower (posix_name (hd argv)) in
     bindE (ensure (executable \<notin> set forbidden_executables)
       (ManifestContractError ''shell and environment trampoline executables are forbidden''
         (index_path path 0))) (\<lambda>_.
     bindE (case required_executable driver of
         None \<Rightarrow> Inr ()
       | Some required \<Rightarrow> ensure (hd argv = required)
           (ManifestContractError (driver @ '' targets must start with '' @ repr_str required)
             (index_path path 0))) (\<lambda>_.
     bindE (ensure (\<not> (driver = ''pytest'' \<and> take 2 (drop 1 argv) \<noteq> [''-m'', ''pytest'']))
       (ManifestContractError (''pytest targets must invoke '' @ repr_str ''{python} -m pytest'') path)) (\<lambda>_.
     Inr argv)))))"

text \<open>The pattern \<open>tuple(_name(item) for item in _string_list(..))\<close> of the reference lists.\<close>

definition name_list :: "string \<Rightarrow> nat \<Rightarrow> bool \<Rightarrow> json \<Rightarrow> contract_error + string list" where
  "name_list path maximum_items allow_empty v =
     bindE (mf_string_list path maximum_items allow_empty 512 True v) (\<lambda>items.
     mapE (\<lambda>(i, item). mf_name (index_path path i) (JStr item)) (enumerate 0 items))"

definition reject_missing ::
  "string \<Rightarrow> string \<Rightarrow> string list \<Rightarrow> string list \<Rightarrow> contract_error + unit" where
  "reject_missing path message wanted known =
     (let unknown = sorted_set (filter (\<lambda>n. n \<notin> set known) wanted)
      in ensure (unknown = []) (ManifestContractError (message @ join '', '' unknown) path))"

section \<open>Sections of the manifest\<close>

definition parse_defaults :: "json \<Rightarrow> contract_error + manifest_defaults" where
  "parse_defaults v =
     (let path = ''$.defaults'' in
      bindE (mf_object path v) (\<lambda>raw.
      bindE (mf_reject_unknown path default_fields raw) (\<lambda>_.
      bindE (mf_required path ''timeout_seconds'' raw) (\<lambda>t.
      bindE (mf_integer (path @ ''.timeout_seconds'') 1 86400 t) (\<lambda>timeout.
      bindE (mf_required path ''network'' raw) (\<lambda>n.
      bindE (mf_network (path @ ''.network'') n) (\<lambda>network.
      bindE (mf_environment (path @ ''.environment'') (dict_get raw ''environment'' (JObj []))) (\<lambda>environment.
      Inr \<lparr>md_timeout_seconds = timeout, md_network = network, md_environment = environment\<rparr>))))))))"

text \<open>\<open>SourceMode(_string(_required(..)))\<close>: every failure inside the \<open>try\<close> is a
  \<open>ValueError\<close> and is reported as one error of the field.\<close>

definition intent_source_mode :: "string \<Rightarrow> json dict \<Rightarrow> contract_error + source_mode" where
  "intent_source_mode path defn =
     (let bad = Inl (ManifestContractError
        (''must be '' @ repr_str ''live'' @ '' or '' @ repr_str ''immutable'') (path @ ''.source_mode''))
      in case bindE (mf_required path ''source_mode'' defn)
             (mf_string (path @ ''.source_mode'') 1 16) of
           Inl _ \<Rightarrow> bad
         | Inr s \<Rightarrow> if s = ''live'' then Inr LIVE else if s = ''immutable'' then Inr IMMUTABLE else bad)"

definition raw_item :: "json dict \<Rightarrow> string \<Rightarrow> contract_error + json" where
  "raw_item raw name = (case map_of raw name of None \<Rightarrow> Inl (PyKeyError name) | Some v \<Rightarrow> Inr v)"

definition parse_intent :: "json dict \<Rightarrow> string \<Rightarrow> contract_error + string \<times> intent_contract" where
  "parse_intent raw raw_name =
     bindE (mf_name (''$.intents.'' @ raw_name) (JStr raw_name)) (\<lambda>name.
     let path = ''$.intents.'' @ name in
     bindE (ensure (name \<in> set allowed_intents) (ManifestContractError ''unsupported intent'' path)) (\<lambda>_.
     bindE (raw_item raw name) (\<lambda>v.
     bindE (mf_object path v) (\<lambda>defn.
     bindE (mf_reject_unknown path intent_fields defn) (\<lambda>_.
     bindE (intent_source_mode path defn) (\<lambda>source_mode.
     bindE (ensure (\<not> (name \<in> {''change'', ''checkpoint''} \<and> source_mode \<noteq> LIVE))
       (ManifestContractError ''change and checkpoint intents must use live source mode'' path)) (\<lambda>_.
     bindE (ensure (\<not> (name \<in> {''handoff'', ''release'', ''manual''} \<and> source_mode \<noteq> IMMUTABLE))
       (ManifestContractError
         ''handoff, release, and manual intents must use immutable source mode'' path)) (\<lambda>_.
     bindE (mf_boolean (path @ ''.allow_reuse'') (dict_get defn ''allow_reuse'' (JBool False))) (\<lambda>allow_reuse.
     bindE (ensure (\<not> (source_mode = LIVE \<and> allow_reuse))
       (ManifestContractError ''live intent results cannot be reused'' (path @ ''.allow_reuse''))) (\<lambda>_.
     bindE (ensure (\<not> (name = ''release'' \<and> allow_reuse))
       (ManifestContractError ''release evidence cannot be reused'' (path @ ''.allow_reuse''))) (\<lambda>_.
     Inr (name, \<lparr>ic_name = name, ic_source_mode = source_mode, ic_allow_reuse = allow_reuse\<rparr>))))))))))))"

definition parse_intents :: "json \<Rightarrow> contract_error + intent_contract dict" where
  "parse_intents v =
     bindE (mf_object ''$.intents'' v) (\<lambda>raw.
     bindE (ensure (\<not> (raw = [] \<or> length raw > length allowed_intents))
       (ManifestContractError ''must declare at least one intent'' ''$.intents'')) (\<lambda>_.
     mapE (parse_intent raw) (sorted_set (keys raw))))"

definition parse_fixture :: "json dict \<Rightarrow> string \<Rightarrow> contract_error + string \<times> fixture_contract" where
  "parse_fixture raw raw_name =
     bindE (mf_name (''$.fixtures.'' @ raw_name) (JStr raw_name)) (\<lambda>name.
     let path = ''$.fixtures.'' @ name in
     bindE (raw_item raw name) (\<lambda>v.
     bindE (mf_object path v) (\<lambda>defn.
     bindE (mf_reject_unknown path fixture_fields defn) (\<lambda>_.
     bindE (mf_required path ''template'' defn) (\<lambda>t.
     bindE (mf_string (path @ ''.template'') 1 128 t) (\<lambda>template.
     bindE (ensure (name_re 127 template)
       (ManifestContractError ''invalid sealed template name'' path)) (\<lambda>_.
     bindE (fixture_network (path @ ''.network'') (dict_get defn ''network'' (JStr ''loopback''))) (\<lambda>network.
     Inr (name, \<lparr>fc_name = name, fc_template = template, fc_network = network\<rparr>)))))))))"

definition parse_fixtures :: "json \<Rightarrow> contract_error + fixture_contract dict" where
  "parse_fixtures v =
     bindE (mf_object ''$.fixtures'' v) (\<lambda>raw.
     bindE (ensure (length raw \<le> 64)
       (ManifestContractError ''must contain at most 64 fixtures'' ''$.fixtures'')) (\<lambda>_.
     mapE (parse_fixture raw) (sorted_set (keys raw))))"

definition parse_credential :: "json dict \<Rightarrow> string \<Rightarrow> contract_error + string \<times> credential_contract" where
  "parse_credential raw raw_name =
     bindE (mf_name (''$.credentials.'' @ raw_name) (JStr raw_name)) (\<lambda>name.
     let path = ''$.credentials.'' @ name in
     bindE (raw_item raw name) (\<lambda>v.
     bindE (mf_object path v) (\<lambda>defn.
     bindE (mf_reject_unknown path credential_fields defn) (\<lambda>_.
     bindE (mf_required path ''binding'' defn) (\<lambda>b.
     bindE (mf_string (path @ ''.binding'') 1 128 b) (\<lambda>binding.
     bindE (ensure (name_re 127 binding)
       (ManifestContractError ''invalid administrator-sealed credential binding'' (path @ ''.binding''))) (\<lambda>_.
     Inr (name, \<lparr>cc_name = name, cc_binding = binding\<rparr>))))))))"

definition parse_credentials :: "json \<Rightarrow> contract_error + credential_contract dict" where
  "parse_credentials v =
     bindE (mf_object ''$.credentials'' v) (\<lambda>raw.
     bindE (ensure (length raw \<le> 64)
       (ManifestContractError ''must contain at most 64 operational credentials'' ''$.credentials'')) (\<lambda>_.
     mapE (parse_credential raw) (sorted_set (keys raw))))"

definition parse_state_handle ::
  "repository_root \<Rightarrow> json dict \<Rightarrow> string \<Rightarrow> state_handle_contract dict \<times> string list
     \<Rightarrow> contract_error + state_handle_contract dict \<times> string list" where
  "parse_state_handle rr raw raw_name acc =
     bindE (mf_name (''$.state_handles.'' @ raw_name) (JStr raw_name)) (\<lambda>name.
     let path = ''$.state_handles.'' @ name in
     bindE (raw_item raw name) (\<lambda>v.
     bindE (mf_object path v) (\<lambda>defn.
     bindE (mf_reject_unknown path state_handle_fields defn) (\<lambda>_.
     bindE (mf_required path ''kind'' defn) (\<lambda>k.
     bindE (mf_string (path @ ''.kind'') 1 32 k) (\<lambda>kind.
     bindE (ensure (kind = ''sqlite'')
       (ManifestContractError ''only sqlite state handles are supported'' (path @ ''.kind''))) (\<lambda>_.
     bindE (mf_required path ''path'' defn) (\<lambda>p.
     bindE (normalize_repository_path (path @ ''.path'') False False p) (\<lambda>relative.
     bindE (ensure (\<not> (relative = ''.'' \<or> length (posix_names relative) \<le> 1))
       (ManifestContractError ''sqlite state handle must name a file below a contained directory''
         (path @ ''.path''))) (\<lambda>_.
     bindE (verify_host_containment rr (path @ ''.path'') relative) (\<lambda>_.
     bindE (mf_required path ''environment'' defn) (\<lambda>e.
     bindE (mf_string (path @ ''.environment'') 1 64 e) (\<lambda>environment.
     bindE (ensure (\<not> (\<not> environment_name environment \<or> secret_environment_name environment))
       (ManifestContractError ''state handle environment name is unsafe'' (path @ ''.environment''))) (\<lambda>_.
     bindE (ensure (environment \<notin> set (snd acc))
       (ManifestContractError ''state handle environment name is duplicated'' (path @ ''.environment''))) (\<lambda>_.
     Inr (fst acc @ [(name, \<lparr>sh_name = name, sh_kind = kind, sh_path = relative,
            sh_environment = environment\<rparr>)], environment # snd acc))))))))))))))))"

definition parse_state_handles ::
  "repository_root \<Rightarrow> json \<Rightarrow> contract_error + state_handle_contract dict" where
  "parse_state_handles rr v =
     bindE (mf_object ''$.state_handles'' v) (\<lambda>raw.
     bindE (ensure (length raw \<le> 16)
       (ManifestContractError ''must contain at most 16 repository state handles'' ''$.state_handles'')) (\<lambda>_.
     bindE (foldE (parse_state_handle rr raw) (sorted_set (keys raw)) ([], [])) (\<lambda>acc.
     Inr (fst acc))))"

definition parse_artifact ::
  "repository_root \<Rightarrow> string \<Rightarrow> nat \<times> json \<Rightarrow> artifact_contract list \<times> string list
     \<Rightarrow> contract_error + artifact_contract list \<times> string list" where
  "parse_artifact rr path ix acc =
     (let item_path = index_path path (fst ix) in
      bindE (mf_object item_path (snd ix)) (\<lambda>raw.
      bindE (mf_reject_unknown item_path artifact_fields raw) (\<lambda>_.
      bindE (mf_required item_path ''name'' raw) (\<lambda>n.
      bindE (mf_name (item_path @ ''.name'') n) (\<lambda>name.
      bindE (ensure (name \<notin> set (snd acc))
        (ManifestContractError ''duplicate artifact name'' (item_path @ ''.name''))) (\<lambda>_.
      bindE (mf_required item_path ''kind'' raw) (\<lambda>k.
      bindE (mf_string (item_path @ ''.kind'') 1 32 k) (\<lambda>kind.
      bindE (ensure (kind \<in> set allowed_artifact_kinds)
        (ManifestContractError ''unsupported artifact kind'' (item_path @ ''.kind''))) (\<lambda>_.
      bindE (mf_required item_path ''path'' raw) (\<lambda>p.
      bindE (normalize_repository_path (item_path @ ''.path'') True False p) (\<lambda>artifact_path.
      bindE (verify_pattern_host_containment rr (item_path @ ''.path'') artifact_path) (\<lambda>_.
      bindE (mf_boolean (item_path @ ''.required'') (dict_get raw ''required'' (JBool False))) (\<lambda>required.
      bindE (mf_integer (item_path @ ''.max_bytes'') 1 (1024 * 1024 * 1024)
        (dict_get raw ''max_bytes'' (JInt (16 * 1024 * 1024)))) (\<lambda>max_bytes.
      Inr (fst acc @ [\<lparr>ac_name = name, ac_path = artifact_path, ac_kind = kind, ac_required = required,
             ac_max_bytes = max_bytes\<rparr>], name # snd acc)))))))))))))))"

definition parse_artifacts ::
  "repository_root \<Rightarrow> string \<Rightarrow> json \<Rightarrow> contract_error + artifact_contract list" where
  "parse_artifacts rr target_path v =
     (let path = target_path @ ''.artifacts'' in
      case v of JArr items \<Rightarrow>
        bindE (ensure (length items \<le> 32)
          (ManifestContractError ''must contain at most 32 items'' path)) (\<lambda>_.
        bindE (foldE (parse_artifact rr path) (enumerate 0 items) ([], [])) (\<lambda>acc. Inr (fst acc)))
      | _ \<Rightarrow> Inl (ManifestContractError ''must be an array'' path))"

definition parse_shard :: "string \<Rightarrow> json \<Rightarrow> contract_error + shard_policy" where
  "parse_shard target_path v =
     (let path = target_path @ ''.shard'' in
      bindE (mf_object path v) (\<lambda>raw.
      bindE (mf_reject_unknown path shard_fields raw) (\<lambda>_.
      bindE (mf_string (path @ ''.mode'') 1 16 (dict_get raw ''mode'' (JStr ''none''))) (\<lambda>mode.
      bindE (ensure (mode \<in> set allowed_shard_modes)
        (ManifestContractError ''unsupported shard mode'' (path @ ''.mode''))) (\<lambda>_.
      bindE (mf_integer (path @ ''.max_shards'') 1 64 (dict_get raw ''max_shards'' (JInt 1))) (\<lambda>max_shards.
      bindE (ensure (\<not> (mode = ''none'' \<and> max_shards \<noteq> 1))
        (ManifestContractError ''unsharded targets must have max_shards 1'' path)) (\<lambda>_.
      Inr \<lparr>sp_mode = mode, sp_max_shards = max_shards\<rparr>)))))))"

section \<open>Targets\<close>

text \<open>The loop body of \<open>_parse_targets\<close>, in the order of its statements.\<close>

definition target_head ::
  "repository_root \<Rightarrow> string \<Rightarrow> json dict
     \<Rightarrow> contract_error + string \<times> string \<times> string \<times> string list" where
  "target_head rr path defn =
     bindE (mf_required path ''driver'' defn) (\<lambda>d.
     bindE (mf_string (path @ ''.driver'') 1 32 d) (\<lambda>driver.
     bindE (ensure (driver \<in> set allowed_drivers)
       (ManifestContractError ''unsupported target driver'' (path @ ''.driver''))) (\<lambda>_.
     bindE (mf_required path ''reporter'' defn) (\<lambda>r.
     bindE (mf_string (path @ ''.reporter'') 1 32 r) (\<lambda>reporter.
     bindE (ensure (reporter \<in> set (reporters_by_driver driver))
       (ManifestContractError (''reporter is incompatible with '' @ driver @ '' driver'')
         (path @ ''.reporter''))) (\<lambda>_.
     bindE (normalize_repository_path (path @ ''.cwd'') False True (dict_get defn ''cwd'' (JStr ''.''))) (\<lambda>cwd.
     bindE (verify_host_containment rr (path @ ''.cwd'') cwd) (\<lambda>_.
     bindE (mf_required path ''inputs'' defn) (\<lambda>i.
     bindE (mf_string_list (path @ ''.inputs'') 512 False 512 True i) (\<lambda>input_values.
     bindE (mapE (\<lambda>(ix, item).
         normalize_repository_path (index_path (path @ ''.inputs'') ix) True False (JStr item))
         (enumerate 0 input_values)) (\<lambda>inputs.
     bindE (mapE (\<lambda>(ix, item).
         verify_pattern_host_containment rr (index_path (path @ ''.inputs'') ix) item)
         (enumerate 0 inputs)) (\<lambda>_.
     Inr (driver, reporter, cwd, inputs)))))))))))))"

definition target_state_handles ::
  "string \<Rightarrow> json dict \<Rightarrow> intent_contract dict \<Rightarrow> state_handle_contract dict \<Rightarrow> string list
     \<Rightarrow> contract_error + string list" where
  "target_state_handles path defn intents state_handles target_intents =
     bindE (name_list (path @ ''.state_handles'') 8 True (dict_get defn ''state_handles'' (JArr []))) (\<lambda>handles.
     bindE (ensure (length (remdups handles) = length handles)
       (ManifestContractError ''state handle references must be unique'' (path @ ''.state_handles''))) (\<lambda>_.
     bindE (reject_missing (path @ ''.state_handles'') ''unknown state handle(s): '' handles (keys state_handles)) (\<lambda>_.
     let reusable_state_intents = sort (filter (\<lambda>n. handles \<noteq> [] \<and>
           (case map_of intents n of None \<Rightarrow> False | Some ic \<Rightarrow> ic_allow_reuse ic)) target_intents) in
     bindE (ensure (reusable_state_intents = [])
       (ManifestContractError (''live state handles require non-reusable intent(s): ''
         @ join '', '' reusable_state_intents) (path @ ''.intents''))) (\<lambda>_.
     Inr handles))))"

definition target_refs ::
  "string \<Rightarrow> json dict \<Rightarrow> intent_contract dict \<Rightarrow> fixture_contract dict \<Rightarrow> credential_contract dict
     \<Rightarrow> contract_error + string list \<times> string list \<times> string list \<times> string list" where
  "target_refs path defn intents fixtures credentials =
     bindE (name_list (path @ ''.depends_on'') 512 True (dict_get defn ''depends_on'' (JArr []))) (\<lambda>deps.
     bindE (mf_required path ''intents'' defn) (\<lambda>i.
     bindE (name_list (path @ ''.intents'') 512 False i) (\<lambda>target_intents.
     bindE (reject_missing (path @ ''.intents'') ''unknown intent(s): '' target_intents (keys intents)) (\<lambda>_.
     bindE (name_list (path @ ''.fixtures'') 512 True (dict_get defn ''fixtures'' (JArr []))) (\<lambda>target_fixtures.
     bindE (reject_missing (path @ ''.fixtures'') ''unknown fixture(s): '' target_fixtures (keys fixtures)) (\<lambda>_.
     bindE (name_list (path @ ''.credentials'') 512 True (dict_get defn ''credentials'' (JArr []))) (\<lambda>target_credentials.
     bindE (reject_missing (path @ ''.credentials'') ''unknown operational credential(s): ''
       target_credentials (keys credentials)) (\<lambda>_.
     bindE (ensure (\<not> (target_credentials \<noteq> [] \<and> target_intents \<noteq> [''manual'']))
       (ManifestContractError ''operational credentials require a manual-only target'' (path @ ''.intents''))) (\<lambda>_.
     Inr (sort deps, target_intents, target_fixtures, target_credentials))))))))))"

definition target_network ::
  "string \<Rightarrow> json dict \<Rightarrow> manifest_defaults \<Rightarrow> fixture_contract dict \<Rightarrow> string list \<Rightarrow> string list
     \<Rightarrow> contract_error + string" where
  "target_network path defn defaults fixtures target_intents target_fixtures =
     bindE (mf_network (path @ ''.network'') (dict_get defn ''network'' (JStr (md_network defaults)))) (\<lambda>network.
     bindE (ensure (\<not> (network = ''host-loopback'' \<and> target_intents \<noteq> [''manual'']))
       (ManifestContractError ''host-loopback requires a manual-only target'' (path @ ''.intents''))) (\<lambda>_.
     bindE (ensure (\<not> (network = ''host-loopback'' \<and> target_fixtures \<noteq> []))
       (ManifestContractError ''host-loopback targets cannot declare fixtures'' (path @ ''.fixtures''))) (\<lambda>_.
     bindE (mapE (\<lambda>fixture_name. case map_of fixtures fixture_name of
           None \<Rightarrow> Inl (PyKeyError fixture_name)
         | Some fixture \<Rightarrow> ensure (\<not> network_rank network < network_rank (fc_network fixture))
             (ManifestContractError (''network policy cannot reach fixture '' @ repr_str fixture_name)
               (path @ ''.network''))) target_fixtures) (\<lambda>_.
     Inr network))))"

definition target_environment ::
  "string \<Rightarrow> json dict \<Rightarrow> manifest_defaults \<Rightarrow> state_handle_contract dict \<Rightarrow> string list
     \<Rightarrow> contract_error + string dict" where
  "target_environment path defn defaults state_handles handles =
     bindE (mf_environment (path @ ''.environment'') (dict_get defn ''environment'' (JObj []))) (\<lambda>own.
     let environment = dict_update (md_environment defaults) own in
     bindE (mapE (\<lambda>name. case map_of state_handles name of
           None \<Rightarrow> Inl (PyKeyError name) | Some h \<Rightarrow> Inr (sh_environment h)) handles) (\<lambda>names.
     let collisions = sort (filter (\<lambda>n. has_key n environment) names) in
     bindE (ensure (collisions = [])
       (ManifestContractError (''state handle environment conflicts with target environment: ''
         @ join '', '' collisions) (path @ ''.environment''))) (\<lambda>_.
     Inr (sort_key fst environment))))"

definition parse_target ::
  "repository_root \<Rightarrow> manifest_defaults \<Rightarrow> intent_contract dict \<Rightarrow> fixture_contract dict
     \<Rightarrow> credential_contract dict \<Rightarrow> state_handle_contract dict \<Rightarrow> json dict \<Rightarrow> string
     \<Rightarrow> contract_error + string \<times> target_contract" where
  "parse_target rr defaults intents fixtures credentials state_handles raw raw_name =
     bindE (mf_name (''$.targets.'' @ raw_name) (JStr raw_name)) (\<lambda>name.
     let path = ''$.targets.'' @ name in
     bindE (raw_item raw name) (\<lambda>v.
     bindE (mf_object path v) (\<lambda>defn.
     bindE (mf_reject_unknown path target_fields defn) (\<lambda>_.
     bindE (target_head rr path defn) (\<lambda>(driver, reporter, cwd, inputs).
     bindE (target_refs path defn intents fixtures credentials)
       (\<lambda>(dependencies, target_intents, target_fixtures, target_credentials).
     bindE (target_state_handles path defn intents state_handles target_intents) (\<lambda>handles.
     bindE (target_network path defn defaults fixtures target_intents target_fixtures) (\<lambda>network.
     bindE (target_environment path defn defaults state_handles handles) (\<lambda>environment.
     bindE (mf_required path ''argv'' defn) (\<lambda>a.
     bindE (mf_argv (path @ ''.argv'') driver a) (\<lambda>argv.
     bindE (mf_integer (path @ ''.timeout_seconds'') 1 86400
       (dict_get defn ''timeout_seconds'' (JInt (md_timeout_seconds defaults)))) (\<lambda>timeout.
     bindE (name_list (path @ ''.exclusive_resources'') 32 True
       (dict_get defn ''exclusive_resources'' (JArr []))) (\<lambda>exclusive.
     bindE (parse_shard path (dict_get defn ''shard'' (JObj []))) (\<lambda>shard.
     bindE (parse_artifacts rr path (dict_get defn ''artifacts'' (JArr []))) (\<lambda>artifacts.
     Inr (name, \<lparr>tc_name = name, tc_driver = driver, tc_reporter = reporter, tc_argv = argv,
       tc_cwd = cwd, tc_inputs = inputs, tc_depends_on = dependencies, tc_intents = target_intents,
       tc_timeout_seconds = timeout, tc_network = network, tc_exclusive_resources = exclusive,
       tc_fixtures = target_fixtures, tc_credentials = target_credentials, tc_shard = shard,
       tc_artifacts = artifacts, tc_environment = environment, tc_state_handles = handles\<rparr>))))))))))))))))"

text \<open>
  \<open>_reject_dependency_cycles\<close>: the nested \<open>visit\<close> with its stack \<open>visiting\<close> and set
  \<open>visited\<close>; a list of names is visited from left to right.
\<close>

lemma unvisited_decreases:
  assumes "name \<notin> set visiting" "map_of targets name = Some target"
  shows "card (fst ` set targets - insert name (set visiting)) < card (fst ` set targets - set visiting)"
proof (rule psubset_card_mono)
  have "name \<in> fst ` set targets" using assms(2) by (rule map_of_Some_keys)
  then show "fst ` set targets - insert name (set visiting) \<subset> fst ` set targets - set visiting"
    using assms(1) by auto
qed simp

function visit_names ::
  "target_contract dict \<Rightarrow> string list \<Rightarrow> string list \<Rightarrow> string list \<Rightarrow> contract_error + string list" where
  "visit_names targets visiting [] visited = Inr visited"
| "visit_names targets visiting (name # names) visited =
     (if name \<in> set visited then visit_names targets visiting names visited
      else if name \<in> set visiting then
        Inl (ManifestContractError
          (''dependency cycle: '' @ join '' -> '' (dropWhile (\<lambda>n. n \<noteq> name) visiting @ [name]))
          (''$.targets.'' @ name @ ''.depends_on''))
      else (case map_of targets name of
              None \<Rightarrow> Inl (PyKeyError name)
            | Some target \<Rightarrow>
                bindE (visit_names targets (visiting @ [name]) (tc_depends_on target) visited) (\<lambda>visited'.
                visit_names targets visiting names (name # visited'))))"
  by pat_completeness auto
termination
  by (relation "measures [\<lambda>(targets, visiting, names, visited). card (fst ` set targets - set visiting),
    \<lambda>(targets, visiting, names, visited). length names]") (auto intro: unvisited_decreases)

definition reject_dependency_cycles :: "target_contract dict \<Rightarrow> contract_error + unit" where
  "reject_dependency_cycles targets =
     bindE (visit_names targets [] (sorted_set (keys targets)) []) (\<lambda>_. Inr ())"

definition check_dependencies :: "target_contract dict \<Rightarrow> contract_error + unit" where
  "check_dependencies targets =
     bindE (mapE (\<lambda>(_, target).
       let path = ''$.targets.'' @ tc_name target @ ''.depends_on'' in
       bindE (reject_missing path ''unknown dependency target(s): '' (tc_depends_on target) (keys targets)) (\<lambda>_.
       ensure (tc_name target \<notin> set (tc_depends_on target))
         (ManifestContractError ''target cannot depend on itself'' path))) targets) (\<lambda>_. Inr ())"

definition check_intent_coverage ::
  "intent_contract dict \<Rightarrow> target_contract dict \<Rightarrow> contract_error + unit" where
  "check_intent_coverage intents targets =
     bindE (mapE (\<lambda>intent_name.
       ensure (list_ex (\<lambda>(_, target). intent_name \<in> set (tc_intents target)) targets)
         (ManifestContractError ''intent must be required by at least one target''
           (''$.intents.'' @ intent_name))) (keys intents)) (\<lambda>_. Inr ())"

definition parse_targets ::
  "repository_root \<Rightarrow> manifest_defaults \<Rightarrow> intent_contract dict \<Rightarrow> fixture_contract dict
     \<Rightarrow> credential_contract dict \<Rightarrow> state_handle_contract dict \<Rightarrow> json
     \<Rightarrow> contract_error + target_contract dict" where
  "parse_targets rr defaults intents fixtures credentials state_handles v =
     bindE (mf_object ''$.targets'' v) (\<lambda>raw.
     bindE (ensure (\<not> (raw = [] \<or> length raw > 512))
       (ManifestContractError ''must contain 1..512 targets'' ''$.targets'')) (\<lambda>_.
     bindE (mapE (parse_target rr defaults intents fixtures credentials state_handles raw)
       (sorted_set (keys raw))) (\<lambda>targets.
     bindE (check_dependencies targets) (\<lambda>_.
     bindE (reject_dependency_cycles targets) (\<lambda>_.
     bindE (check_intent_coverage intents targets) (\<lambda>_.
     Inr targets))))))"

section \<open>Evidence policies\<close>

definition parse_evidence_policy ::
  "intent_contract dict \<Rightarrow> target_contract dict \<Rightarrow> json dict \<Rightarrow> string
     \<Rightarrow> contract_error + string \<times> evidence_policy" where
  "parse_evidence_policy intents targets raw raw_name =
     bindE (mf_name (''$.evidence_policies.'' @ raw_name) (JStr raw_name)) (\<lambda>name.
     let path = ''$.evidence_policies.'' @ name in
     bindE (raw_item raw name) (\<lambda>v.
     bindE (mf_object path v) (\<lambda>defn.
     bindE (mf_reject_unknown path evidence_fields defn) (\<lambda>_.
     bindE (mf_required path ''intent'' defn) (\<lambda>i.
     bindE (mf_name (path @ ''.intent'') i) (\<lambda>intent.
     case map_of intents intent of
       None \<Rightarrow> Inl (ManifestContractError ''unknown intent'' (path @ ''.intent''))
     | Some intent_contract \<Rightarrow>
     bindE (ensure (ic_source_mode intent_contract = IMMUTABLE)
       (ManifestContractError ''evidence policies require an immutable intent'' (path @ ''.intent''))) (\<lambda>_.
     bindE (mf_required path ''required_targets'' defn) (\<lambda>r.
     bindE (name_list (path @ ''.required_targets'') 512 False r) (\<lambda>names.
     let required_targets = sort names in
     bindE (reject_missing (path @ ''.required_targets'') ''unknown target(s): ''
       required_targets (keys targets)) (\<lambda>_.
     let outside_intent = sort (filter (\<lambda>n. case map_of targets n of
           None \<Rightarrow> True | Some t \<Rightarrow> intent \<notin> set (tc_intents t)) required_targets) in
     bindE (ensure (outside_intent = [])
       (ManifestContractError (''target(s) do not declare this intent: '' @ join '', '' outside_intent)
         (path @ ''.required_targets''))) (\<lambda>_.
     bindE (mf_boolean (path @ ''.allow_reuse'') (dict_get defn ''allow_reuse'' (JBool False))) (\<lambda>allow_reuse.
     bindE (ensure (\<not> (allow_reuse \<and> \<not> ic_allow_reuse intent_contract))
       (ManifestContractError ''policy cannot broaden the intent reuse policy'' (path @ ''.allow_reuse''))) (\<lambda>_.
     bindE (mf_required path ''max_age_seconds'' defn) (\<lambda>m.
     bindE (mf_integer (path @ ''.max_age_seconds'') 1 31536000 m) (\<lambda>max_age.
     Inr (name, \<lparr>ep_name = name, ep_intent = intent, ep_required_targets = required_targets,
       ep_max_age_seconds = max_age, ep_allow_reuse = allow_reuse\<rparr>))))))))))))))))"

definition parse_evidence_policies ::
  "intent_contract dict \<Rightarrow> target_contract dict \<Rightarrow> json \<Rightarrow> contract_error + evidence_policy dict" where
  "parse_evidence_policies intents targets v =
     bindE (mf_object ''$.evidence_policies'' v) (\<lambda>raw.
     bindE (ensure (length raw \<le> 64)
       (ManifestContractError ''must contain at most 64 evidence policies'' ''$.evidence_policies'')) (\<lambda>_.
     mapE (parse_evidence_policy intents targets raw) (sorted_set (keys raw))))"

section \<open>The whole manifest\<close>

definition hex_char :: "char \<Rightarrow> bool" where
  "hex_char c \<longleftrightarrow> digit c \<or> in_range (CHR ''a'') (CHR ''f'') c"

definition is_sha256 :: "string \<Rightarrow> bool" where
  "is_sha256 s \<longleftrightarrow> length s = 64 \<and> list_all hex_char s"

definition evidence_policy_document :: "evidence_policy \<Rightarrow> json" where
  "evidence_policy_document p = JObj
     [(''name'', JStr (ep_name p)), (''intent'', JStr (ep_intent p)),
      (''required_targets'', jstrs (ep_required_targets p)),
      (''max_age_seconds'', JInt (ep_max_age_seconds p)),
      (''allow_reuse'', JBool (ep_allow_reuse p))]"

definition evidence_policy_fingerprint :: "pylib \<Rightarrow> evidence_policy \<Rightarrow> string" where
  "evidence_policy_fingerprint L p = deterministic_fingerprint L (evidence_policy_document p)"

definition defaults_document :: "manifest_defaults \<Rightarrow> json" where
  "defaults_document d = JObj
     [(''timeout_seconds'', JInt (md_timeout_seconds d)), (''network'', JStr (md_network d)),
      (''environment'', jdict JStr (md_environment d))]"

definition intent_document :: "intent_contract \<Rightarrow> json" where
  "intent_document i = JObj
     [(''source_mode'', JStr (source_mode_value (ic_source_mode i))),
      (''allow_reuse'', JBool (ic_allow_reuse i))]"

definition fixture_document :: "fixture_contract \<Rightarrow> json" where
  "fixture_document f = JObj [(''template'', JStr (fc_template f)), (''network'', JStr (fc_network f))]"

definition credential_document :: "credential_contract \<Rightarrow> json" where
  "credential_document c = JObj [(''binding'', JStr (cc_binding c))]"

definition state_handle_document :: "state_handle_contract \<Rightarrow> json" where
  "state_handle_document h = JObj
     [(''kind'', JStr (sh_kind h)), (''path'', JStr (sh_path h)), (''environment'', JStr (sh_environment h))]"

definition artifact_document :: "artifact_contract \<Rightarrow> json" where
  "artifact_document a = JObj
     [(''name'', JStr (ac_name a)), (''path'', JStr (ac_path a)), (''kind'', JStr (ac_kind a)),
      (''required'', JBool (ac_required a)), (''max_bytes'', JInt (ac_max_bytes a))]"

definition target_document :: "target_contract \<Rightarrow> json" where
  "target_document t = JObj
     [(''driver'', JStr (tc_driver t)), (''reporter'', JStr (tc_reporter t)), (''argv'', jstrs (tc_argv t)),
      (''cwd'', JStr (tc_cwd t)), (''inputs'', jstrs (tc_inputs t)), (''depends_on'', jstrs (tc_depends_on t)),
      (''intents'', jstrs (tc_intents t)), (''timeout_seconds'', JInt (tc_timeout_seconds t)),
      (''network'', JStr (tc_network t)), (''exclusive_resources'', jstrs (tc_exclusive_resources t)),
      (''fixtures'', jstrs (tc_fixtures t)), (''credentials'', jstrs (tc_credentials t)),
      (''state_handles'', jstrs (tc_state_handles t)),
      (''shard'', JObj [(''mode'', JStr (sp_mode (tc_shard t))), (''max_shards'', JInt (sp_max_shards (tc_shard t)))]),
      (''artifacts'', JArr (map artifact_document (tc_artifacts t))),
      (''environment'', jdict JStr (tc_environment t))]"

definition policy_document :: "evidence_policy \<Rightarrow> json" where
  "policy_document p = JObj
     [(''intent'', JStr (ep_intent p)), (''required_targets'', jstrs (ep_required_targets p)),
      (''max_age_seconds'', JInt (ep_max_age_seconds p)), (''allow_reuse'', JBool (ep_allow_reuse p))]"

definition manifest_to_document :: "test_manifest \<Rightarrow> json" where
  "manifest_to_document m = JObj
     [(''schema_version'', JInt (tm_schema_version m)),
      (''defaults'', defaults_document (tm_defaults m)),
      (''global_inputs'', jstrs (tm_global_inputs m)),
      (''intents'', jdict intent_document (tm_intents m)),
      (''fixtures'', jdict fixture_document (tm_fixtures m)),
      (''credentials'', jdict credential_document (tm_credentials m)),
      (''state_handles'', jdict state_handle_document (tm_state_handles m)),
      (''targets'', jdict target_document (tm_targets m)),
      (''evidence_policies'', jdict policy_document (tm_evidence_policies m))]"

definition schema_version_field :: "json \<Rightarrow> contract_error + int" where
  "schema_version_field v =
     (case v of
        JInt i \<Rightarrow> bindE (ensure (i = manifest_schema_version)
          (ManifestContractError (''only manifest schema '' @ show_int manifest_schema_version
            @ '' is supported'') ''$.schema_version'')) (\<lambda>_. Inr manifest_schema_version)
      | _ \<Rightarrow> Inl (ManifestContractError ''must be an integer'' ''$.schema_version''))"

definition parse_global_inputs :: "repository_root \<Rightarrow> json \<Rightarrow> contract_error + string list" where
  "parse_global_inputs rr v =
     bindE (mf_string_list ''$.global_inputs'' 512 False 512 True v) (\<lambda>global_values.
     bindE (mapE (\<lambda>(i, item).
         normalize_repository_path (index_path ''$.global_inputs'' i) True False (JStr item))
         (enumerate 0 global_values)) (\<lambda>global_inputs.
     bindE (mapE (\<lambda>(i, item).
         verify_pattern_host_containment rr (index_path ''$.global_inputs'' i) item)
         (enumerate 0 global_inputs)) (\<lambda>_.
     bindE (ensure (manifest_relative_path \<in> set global_inputs)
       (ManifestContractError (''must include '' @ repr_str manifest_relative_path) ''$.global_inputs'')) (\<lambda>_.
     Inr global_inputs))))"

definition check_unused_handles ::
  "state_handle_contract dict \<Rightarrow> target_contract dict \<Rightarrow> contract_error + unit" where
  "check_unused_handles state_handles targets =
     (let unused = sorted_set (filter (\<lambda>n. \<not> list_ex (\<lambda>(_, t). n \<in> set (tc_state_handles t)) targets)
          (keys state_handles))
      in ensure (unused = []) (ManifestContractError
           (''state handle(s) are not attached to a target: '' @ join '', '' unused) ''$.state_handles''))"

definition parse_test_manifest ::
  "pylib \<Rightarrow> repository_root \<Rightarrow> json \<Rightarrow> contract_error + test_manifest" where
  "parse_test_manifest L rr document =
     bindE (mf_object ''$'' document) (\<lambda>raw.
     bindE (mf_reject_unknown ''$'' top_level_fields raw) (\<lambda>_.
     bindE (mf_required ''$'' ''schema_version'' raw) (\<lambda>sv.
     bindE (schema_version_field sv) (\<lambda>schema_version.
     bindE (mf_required ''$'' ''defaults'' raw) (\<lambda>d.
     bindE (parse_defaults d) (\<lambda>defaults.
     bindE (mf_required ''$'' ''intents'' raw) (\<lambda>i.
     bindE (parse_intents i) (\<lambda>intents.
     bindE (mf_required ''$'' ''fixtures'' raw) (\<lambda>f.
     bindE (parse_fixtures f) (\<lambda>fixtures.
     bindE (parse_credentials (dict_get raw ''credentials'' (JObj []))) (\<lambda>credentials.
     bindE (parse_state_handles rr (dict_get raw ''state_handles'' (JObj []))) (\<lambda>state_handles.
     bindE (mf_required ''$'' ''global_inputs'' raw) (\<lambda>g.
     bindE (parse_global_inputs rr g) (\<lambda>global_inputs.
     bindE (mf_required ''$'' ''targets'' raw) (\<lambda>t.
     bindE (parse_targets rr defaults intents fixtures credentials state_handles t) (\<lambda>targets.
     bindE (check_unused_handles state_handles targets) (\<lambda>_.
     bindE (mf_required ''$'' ''evidence_policies'' raw) (\<lambda>e.
     bindE (parse_evidence_policies intents targets e) (\<lambda>evidence_policies.
     let provisional = \<lparr>tm_schema_version = schema_version, tm_defaults = defaults,
       tm_global_inputs = global_inputs, tm_targets = targets, tm_intents = intents,
       tm_fixtures = fixtures, tm_credentials = credentials,
       tm_evidence_policies = evidence_policies, tm_fingerprint = [],
       tm_state_handles = state_handles\<rparr> in
     Inr (provisional\<lparr>tm_fingerprint :=
       deterministic_fingerprint L (manifest_to_document provisional)\<rparr>))))))))))))))))))))"

text \<open>\<open>safe_history_shard_ceiling\<close>: the shard count a trusted adapter can honour.\<close>

definition safe_history_shard_ceiling :: "target_contract \<Rightarrow> int" where
  "safe_history_shard_ceiling t =
     (if sp_mode (tc_shard t) \<noteq> ''history'' \<or> sp_max_shards (tc_shard t) \<le> 1 then 1
      else if tc_driver t = ''pytest'' then sp_max_shards (tc_shard t)
      else if tc_driver t = ''node'' \<and>
          list_ex (\<lambda>a. a = ''--test'' \<or> starts_with ''--test='' a) (drop 1 (tc_argv t))
        then sp_max_shards (tc_shard t)
      else 1)"

end
