(* ===== verification/Manifest_Laws.thy ===== *)
theory Manifest_Laws
  imports Manifest
begin

text \<open>
  What a parsed manifest guarantees. The dependency relation of the targets is closed and
  acyclic (the depth-first search of \<open>_reject_dependency_cycles\<close> is sound, complete and
  reports a real cycle), every reference resolves, and the authority rules of the harness
  (operational credentials, host networking, live state, reuse) hold of every target.
\<close>

section \<open>The dependency relation\<close>

definition dep_rel :: "target_contract dict \<Rightarrow> (string \<times> string) set" where
  "dep_rel targets = {(a, b). \<exists>t. map_of targets a = Some t \<and> b \<in> set (tc_depends_on t)}"

definition deps_closed :: "target_contract dict \<Rightarrow> bool" where
  "deps_closed targets \<longleftrightarrow> (\<forall>(_, t) \<in> set targets. set (tc_depends_on t) \<subseteq> fst ` set targets)"

lemma dep_rel_iff: "map_of targets a = Some t \<Longrightarrow> (a, b) \<in> dep_rel targets \<longleftrightarrow> b \<in> set (tc_depends_on t)"
  by (simp add: dep_rel_def)

lemma deps_closedD:
  "deps_closed targets \<Longrightarrow> map_of targets a = Some t \<Longrightarrow> set (tc_depends_on t) \<subseteq> fst ` set targets"
  by (fastforce simp: deps_closed_def dest: map_of_SomeD)

lemma dep_rel_closed: "deps_closed targets \<Longrightarrow> (a, b) \<in> dep_rel targets \<Longrightarrow> b \<in> fst ` set targets"
  using deps_closedD by (fastforce simp: dep_rel_def)

lemma dep_rel_source: "(a, b) \<in> dep_rel targets \<Longrightarrow> a \<in> fst ` set targets"
  by (auto simp: dep_rel_def dest: map_of_Some_keys)

lemma finite_dep_rel: "finite (dep_rel targets)"
proof (rule finite_subset)
  show "dep_rel targets \<subseteq> (\<Union>(a, t) \<in> set targets. {a} \<times> set (tc_depends_on t))"
    by (fastforce simp: dep_rel_def dest: map_of_SomeD)
qed auto

section \<open>The depth-first search\<close>

text \<open>The nodes finished by the search are closed under dependencies and hold no cycle.\<close>

definition finished :: "(string \<times> string) set \<Rightarrow> string set \<Rightarrow> bool" where
  "finished R V \<longleftrightarrow> R `` V \<subseteq> V \<and> acyclic (R \<inter> V \<times> V)"

lemma finished_insert:
  assumes V: "finished R V" and n: "n \<notin> V" and deps: "R `` {n} \<subseteq> V"
  shows "finished R (insert n V)"
proof -
  have closed: "R `` V \<subseteq> V" and acyc: "acyclic (R \<inter> V \<times> V)" using V by (auto simp: finished_def)
  have no_n: "(x, n) \<notin> (R \<inter> insert n V \<times> insert n V)" for x
    using closed deps n by blast
  have stay: "y \<in> V \<and> (x, y) \<in> (R \<inter> V \<times> V)\<^sup>+"
    if "(x, y) \<in> (R \<inter> insert n V \<times> insert n V)\<^sup>+" "x \<in> V" for x y
    using that
  proof (induction rule: trancl_induct)
    case (base y) then show ?case using closed by blast
  next
    case (step y z)
    then have "y \<in> V" "(y, z) \<in> R \<inter> V \<times> V" using closed by blast+
    with step show ?case by (meson IntE SigmaE2 trancl.trancl_into_trancl)
  qed
  have "acyclic (R \<inter> insert n V \<times> insert n V)"
  proof (rule acyclicI, rule allI, rule notI)
    fix x assume loop: "(x, x) \<in> (R \<inter> insert n V \<times> insert n V)\<^sup>+"
    show False
    proof (cases "x \<in> V")
      case True
      with stay [OF loop] acyc show False by (simp add: acyclic_def)
    next
      case False
      then have "x = n" using loop by (metis IntE SigmaE2 insertE tranclD)
      with loop no_n show False by (metis tranclE)
    qed
  qed
  then show ?thesis using closed deps by (auto simp: finished_def)
qed

lemma visit_names_sound:
  assumes "visit_names targets visiting names visited = Inr visited'"
    and "finished (dep_rel targets) (set visited)" and "set visited \<inter> set visiting = {}"
  shows "finished (dep_rel targets) (set visited') \<and> set visited \<union> set names \<subseteq> set visited'
    \<and> set visited' \<inter> set visiting = {}"
  using assms
proof (induction targets visiting names visited arbitrary: visited' rule: visit_names.induct)
  case (2 targets visiting name names visited)
  show ?case
  proof (cases "name \<in> set visited")
    case True
    with 2 show ?thesis by auto
  next
    case new: False
    with "2.prems"(1) obtain target where
      fresh: "name \<notin> set visiting" and t: "map_of targets name = Some target"
      by (auto split: if_splits option.splits)
    with new "2.prems"(1) obtain inner where
      inner: "visit_names targets (visiting @ [name]) (tc_depends_on target) visited = Inr inner"
      and outer: "visit_names targets visiting names (name # inner) = Inr visited'"
      by (auto simp: bindE_Inr_iff)
    have I: "finished (dep_rel targets) (set inner)" "set visited \<union> set (tc_depends_on target) \<subseteq> set inner"
      "set inner \<inter> set (visiting @ [name]) = {}"
      using "2.IH"(2) [OF new fresh t inner "2.prems"(2)] new "2.prems"(3) by auto
    have "dep_rel targets `` {name} \<subseteq> set inner" using I(2) by (auto simp: dep_rel_iff [OF t])
    then have "finished (dep_rel targets) (set (name # inner))"
      using finished_insert [OF I(1)] I(3) by simp
    from "2.IH"(3) [OF new fresh t inner outer this] I fresh show ?thesis by auto
  qed
qed auto

lemma visit_names_complete:
  assumes "acyclic (dep_rel targets)" and "deps_closed targets"
    and "set names \<subseteq> fst ` set targets"
    and "\<And>s n. s \<in> set visiting \<Longrightarrow> n \<in> set names \<Longrightarrow> (s, n) \<in> (dep_rel targets)\<^sup>+"
  shows "\<exists>visited'. visit_names targets visiting names visited = Inr visited'"
  using assms
proof (induction targets visiting names visited rule: visit_names.induct)
  case (2 targets visiting name names visited)
  show ?case
  proof (cases "name \<in> set visited")
    case True
    with 2 show ?thesis by auto
  next
    case new: False
    have fresh: "name \<notin> set visiting"
      using "2.prems"(1,4) by (auto simp: acyclic_def)
    obtain target where t: "map_of targets name = Some target"
      using "2.prems"(3) in_keys_map_of [of name targets] by auto
    have reach: "(s, d) \<in> (dep_rel targets)\<^sup>+"
      if "s \<in> set (visiting @ [name])" "d \<in> set (tc_depends_on target)" for s d
      using that "2.prems"(4) [of s name] t
      by (auto simp: dep_rel_iff [OF t, symmetric] intro: trancl.trancl_into_trancl)
    obtain inner where inner:
      "visit_names targets (visiting @ [name]) (tc_depends_on target) visited = Inr inner"
      using "2.IH"(2) [OF new fresh t "2.prems"(1,2) deps_closedD [OF "2.prems"(2) t] reach] by auto
    obtain visited' where "visit_names targets visiting names (name # inner) = Inr visited'"
      using "2.IH"(3) [OF new fresh t inner "2.prems"(1,2)] "2.prems"(3,4) by auto
    with inner t new fresh show ?thesis by auto
  qed
qed auto

lemma successively_dropWhile:
  "successively P (xs @ [y]) \<Longrightarrow> y \<in> set xs
    \<Longrightarrow> successively P (dropWhile (\<lambda>n. n \<noteq> y) xs @ [y])"
  by (induction xs) (auto simp: successively_Cons split: if_splits)

lemma dropWhile_neq_Cons: "y \<in> set xs \<Longrightarrow> \<exists>rest. dropWhile (\<lambda>n. n \<noteq> y) xs = y # rest"
  by (induction xs) auto

text \<open>The error of the search names a closed walk of the relation.\<close>

definition cycle_error :: "(string \<times> string) set \<Rightarrow> contract_error \<Rightarrow> bool" where
  "cycle_error R e \<longleftrightarrow> (\<exists>n walk. e = ManifestContractError
       (''dependency cycle: '' @ join '' -> '' (n # walk @ [n])) (''$.targets.'' @ n @ ''.depends_on'')
     \<and> successively (\<lambda>a b. (a, b) \<in> R) (n # walk @ [n]))"

lemma visit_names_error:
  assumes "visit_names targets visiting names visited = Inl e" and "deps_closed targets"
    and "set names \<subseteq> fst ` set targets"
    and "\<And>n. n \<in> set names \<Longrightarrow> successively (\<lambda>a b. (a, b) \<in> dep_rel targets) (visiting @ [n])"
  shows "cycle_error (dep_rel targets) e"
  using assms
proof (induction targets visiting names visited rule: visit_names.induct)
  case (2 targets visiting name names visited)
  obtain target where t: "map_of targets name = Some target"
    using "2.prems"(3) in_keys_map_of [of name targets] by auto
  consider "name \<in> set visited" | "name \<notin> set visited" "name \<in> set visiting"
    | "name \<notin> set visited" "name \<notin> set visiting" by blast
  then show ?case
  proof cases
    case 1
    with 2 show ?thesis by auto
  next
    case 2
    have walk: "successively (\<lambda>a b. (a, b) \<in> dep_rel targets)
        (dropWhile (\<lambda>n. n \<noteq> name) visiting @ [name])"
      using "2.prems"(4) 2 by (intro successively_dropWhile) auto
    obtain rest where rest: "dropWhile (\<lambda>n. n \<noteq> name) visiting = name # rest"
      using dropWhile_neq_Cons [OF 2(2)] by blast
    have "e = ManifestContractError (''dependency cycle: '' @ join '' -> '' (name # rest @ [name]))
        (''$.targets.'' @ name @ ''.depends_on'')"
      using "2.prems"(1) 2 rest by simp
    with walk rest show ?thesis unfolding cycle_error_def by auto
  next
    case 3
    show ?thesis
    proof (cases "visit_names targets (visiting @ [name]) (tc_depends_on target) visited")
      case (Inl e')
      have step: "successively (\<lambda>a b. (a, b) \<in> dep_rel targets) ((visiting @ [name]) @ [d])"
        if "d \<in> set (tc_depends_on target)" for d
        using "2.prems"(4) [of name] that by (simp add: successively_append_iff dep_rel_iff [OF t])
      from Inl "2.prems"(1) 3 t have "e' = e" by simp
      with Inl show ?thesis
        using "2.IH"(2) [OF 3 t _ "2.prems"(2) deps_closedD [OF "2.prems"(2) t] step] by simp
    next
      case (Inr inner)
      with "2.prems"(1) 3 t have "visit_names targets visiting names (name # inner) = Inl e" by simp
      then show ?thesis using "2.IH"(3) [OF 3 t Inr _ "2.prems"(2)] "2.prems"(3,4) by auto
    qed
  qed
qed auto

lemma reject_dependency_cycles_iff:
  assumes "deps_closed targets"
  shows "reject_dependency_cycles targets = Inr () \<longleftrightarrow> acyclic (dep_rel targets)"
proof
  assume "reject_dependency_cycles targets = Inr ()"
  then obtain V where V: "visit_names targets [] (sorted_set (keys targets)) [] = Inr V"
    by (auto simp: reject_dependency_cycles_def bindE_Inr_iff)
  have "finished (dep_rel targets) (set [])" by (simp add: finished_def acyclic_def)
  from visit_names_sound [OF V this] have fin: "finished (dep_rel targets) (set V)"
    and all: "fst ` set targets \<subseteq> set V" by auto
  have "dep_rel targets \<inter> set V \<times> set V = dep_rel targets"
    using all dep_rel_source dep_rel_closed [OF assms] by (auto 0 4)
  with fin show "acyclic (dep_rel targets)" by (simp add: finished_def)
next
  assume "acyclic (dep_rel targets)"
  from visit_names_complete [OF this assms, of "sorted_set (keys targets)" "[]" "[]"]
  show "reject_dependency_cycles targets = Inr ()"
    by (auto simp: reject_dependency_cycles_def)
qed

lemma reject_dependency_cycles_error:
  assumes "deps_closed targets" "reject_dependency_cycles targets = Inl e"
  shows "cycle_error (dep_rel targets) e"
  using assms visit_names_error [of targets "[]" "sorted_set (keys targets)" "[]" e]
  by (auto simp: reject_dependency_cycles_def bindE_Inl_iff)

section \<open>Successful validators\<close>

lemma mf_object_Inr_iff [result_simps]: "mf_object path v = Inr kvs \<longleftrightarrow> v = JObj kvs"
  by (auto simp: mf_object_def split: json.splits)

lemma mf_boolean_Inr_iff [result_simps]: "mf_boolean path v = Inr b \<longleftrightarrow> v = JBool b"
  by (auto simp: mf_boolean_def split: json.splits)

lemma mf_integer_Inr_iff [result_simps]:
  "mf_integer path lo hi v = Inr i \<longleftrightarrow> v = JInt i \<and> lo \<le> i \<and> i \<le> hi"
  by (auto simp: mf_integer_def split: json.splits if_splits)

lemma mf_required_Inr_iff [result_simps]: "mf_required path f v = Inr x \<longleftrightarrow> map_of v f = Some x"
  by (auto simp: mf_required_def split: option.splits)

lemma raw_item_Inr_iff [result_simps]: "raw_item raw n = Inr x \<longleftrightarrow> map_of raw n = Some x"
  by (auto simp: raw_item_def split: option.splits)

lemma mf_reject_unknown_Inr_iff [result_simps]:
  "mf_reject_unknown path allowed v = Inr u \<longleftrightarrow> fst ` set v \<subseteq> set allowed"
  by (auto simp: mf_reject_unknown_def Let_def filter_empty_conv)

lemma reject_missing_Inr_iff [result_simps]:
  "reject_missing path msg wanted known = Inr u \<longleftrightarrow> set wanted \<subseteq> set known"
  by (auto simp: reject_missing_def Let_def filter_empty_conv)

lemma name_re_length: "name_re n s \<Longrightarrow> s \<noteq> [] \<and> length s \<le> Suc n"
  by (auto simp: name_re_def split: list.splits)

lemma name_char_code: "lower_letter d \<or> digit d \<or> d \<in> set ''_.-'' \<Longrightarrow> 45 \<le> code_of d"
  by (auto simp: lower_letter_def digit_def in_range_def code_of_def)

lemma name_re_code: "name_re n s \<Longrightarrow> c \<in> set s \<Longrightarrow> 45 \<le> code_of c"
  using name_char_code by (fastforce simp: name_re_def list_all_iff split: list.splits)

lemma name_re_chars: "name_re n s \<Longrightarrow> set s \<inter> {CHR 0x00, CHR 0x0D, CHR 0x0A} = {}"
  using name_re_code [of n s "CHR 0x00"] name_re_code [of n s "CHR 0x0D"] name_re_code [of n s "CHR 0x0A"]
  by (simp add: code_of_def) blast

lemma mf_name_Inr_iff [result_simps]: "mf_name path v = Inr n \<longleftrightarrow> v = JStr n \<and> name_re 63 n"
proof (cases "name_re 63 n")
  case True
  from name_re_length [OF this] name_re_chars [OF this] True show ?thesis
    by (simp add: mf_name_def bindE_Inr_iff mf_string_Inr_iff Suc_le_eq)
qed (simp add: mf_name_def bindE_Inr_iff)

lemma mapE_enumerate_iff:
  assumes "\<And>i x y. f i x = Inr y \<longleftrightarrow> x = g y \<and> P y"
  shows "mapE (\<lambda>(i, x). f i x) (enumerate k xs) = Inr ys \<longleftrightarrow> xs = map g ys \<and> (\<forall>y \<in> set ys. P y)"
  by (induction xs arbitrary: k ys) (auto simp: bindE_Inr_iff assms Cons_eq_map_conv)

definition plain_text :: "nat \<Rightarrow> string \<Rightarrow> bool" where
  "plain_text n x \<longleftrightarrow> x \<noteq> [] \<and> length x \<le> n \<and> set x \<inter> {CHR 0x00, CHR 0x0D, CHR 0x0A} = {}"

lemma mf_string_list_Inr_iff [result_simps]:
  "mf_string_list path m e im u v = Inr xs \<longleftrightarrow>
     v = jstrs xs \<and> (xs = [] \<longrightarrow> e) \<and> length xs \<le> m \<and> (u \<longrightarrow> distinct xs) \<and> (\<forall>x \<in> set xs. plain_text im x)"
proof (cases v)
  case (JArr items)
  have *: "mapE (\<lambda>(i, item). mf_string (index_path path i) (Suc 0) im item) (enumerate 0 items) = Inr ys \<longleftrightarrow>
      items = map JStr ys \<and> (\<forall>x \<in> set ys. plain_text im x)" for ys
    by (rule mapE_enumerate_iff) (auto simp: mf_string_Inr_iff plain_text_def Suc_le_eq)
  have d: "length (remdups ys) = length ys \<longleftrightarrow> distinct ys" for ys :: "string list"
    by (metis distinct_remdups length_remdups_card_conv card_distinct distinct_card)
  show ?thesis
    by (auto simp: JArr mf_string_list_def bindE_Inr_iff * jstrs_def d)
qed (auto simp: mf_string_list_def jstrs_def)

lemma name_re_plain: "name_re 63 x \<Longrightarrow> plain_text 512 x"
  using name_re_length [of 63 x] name_re_chars [of 63 x] by (simp add: plain_text_def)

lemma name_list_Inr_iff [result_simps]:
  "name_list path m e v = Inr xs \<longleftrightarrow>
     v = jstrs xs \<and> (xs = [] \<longrightarrow> e) \<and> length xs \<le> m \<and> distinct xs \<and> (\<forall>x \<in> set xs. name_re 63 x)"
proof -
  have *: "mapE (\<lambda>(i, item). mf_name (index_path path i) (JStr item)) (enumerate 0 ys) = Inr xs \<longleftrightarrow>
      ys = map id xs \<and> (\<forall>x \<in> set xs. name_re 63 x)" for ys
    by (rule mapE_enumerate_iff) (auto simp: mf_name_Inr_iff)
  show ?thesis
    by (auto simp: name_list_def bindE_Inr_iff * mf_string_list_Inr_iff name_re_plain)
qed

section \<open>What the parsed sections satisfy\<close>

definition canonical_dict :: "('v \<Rightarrow> string) \<Rightarrow> 'v dict \<Rightarrow> bool" where
  "canonical_dict name_of d \<longleftrightarrow>
     sorted (keys d) \<and> distinct (keys d) \<and> (\<forall>(k, v) \<in> set d. name_of v = k \<and> name_re 63 k)"

lemma canonical_dict_ok: "canonical_dict f d \<Longrightarrow> dict_ok d"
  by (simp add: canonical_dict_def dict_ok_def)

lemma canonical_dict_map_of:
  "canonical_dict f d \<Longrightarrow> map_of d k = Some v \<longleftrightarrow> (k, v) \<in> set d"
  by (rule map_of_Some_iff [OF canonical_dict_ok])

lemma section_canonical:
  assumes "list_all2 (\<lambda>k y. fst y = k \<and> name_of (snd y) = k \<and> name_re 63 k \<and> P y) (sorted_set ks) d"
  shows "canonical_dict name_of d \<and> (\<forall>y \<in> set d. P y)"
proof -
  have "keys d = sorted_set ks"
    using assms by (simp add: list_all2_conv_all_nth list_eq_iff_nth_eq)
  moreover have "\<forall>y \<in> set d. name_of (snd y) = fst y \<and> name_re 63 (fst y) \<and> P y"
    using assms by (fastforce simp: list_all2_conv_all_nth in_set_conv_nth)
  ultimately show ?thesis by (auto simp: canonical_dict_def)
qed

lemma section_parsed:
  assumes "mapE f (sorted_set ks) = Inr d"
    and "\<And>k y. f k = Inr y \<Longrightarrow> fst y = k \<and> name_of (snd y) = k \<and> name_re 63 k \<and> P y"
  shows "canonical_dict name_of d \<and> (\<forall>y \<in> set d. P y)"
  using assms by (intro section_canonical [where ks = ks]) (auto simp: mapE_Inr_iff elim: list_all2_mono)

definition intent_ok :: "string \<times> intent_contract \<Rightarrow> bool" where
  "intent_ok ni \<longleftrightarrow> fst ni \<in> set allowed_intents \<and>
     (ic_source_mode (snd ni) = LIVE \<longleftrightarrow> fst ni \<in> {''change'', ''checkpoint''}) \<and>
     (ic_allow_reuse (snd ni) \<longrightarrow> ic_source_mode (snd ni) = IMMUTABLE \<and> fst ni \<noteq> ''release'')"

lemma bindE_InrE: "bindE m f = Inr y \<Longrightarrow> (\<And>x. m = Inr x \<Longrightarrow> f x = Inr y \<Longrightarrow> thesis) \<Longrightarrow> thesis"
  by (auto simp: bindE_Inr_iff)

lemma intent_rules:
  assumes "k \<in> set allowed_intents" "\<not> (k \<in> {''change'', ''checkpoint''} \<and> sm \<noteq> LIVE)"
    "\<not> (k \<in> {''handoff'', ''release'', ''manual''} \<and> sm \<noteq> IMMUTABLE)"
    "\<not> (sm = LIVE \<and> ar)" "\<not> (k = ''release'' \<and> ar)"
  shows "intent_ok (k, \<lparr>ic_name = k, ic_source_mode = sm, ic_allow_reuse = ar\<rparr>)"
  using assms by (cases sm) (auto simp: allowed_intents_def intent_ok_def)

lemma parse_intent_ok:
  assumes "parse_intent raw k = Inr y"
  shows "fst y = k \<and> ic_name (snd y) = k \<and> name_re 63 k \<and> intent_ok y"
  using assms unfolding parse_intent_def Let_def
  by (elim bindE_InrE) (simp only: ensure_Inr_iff mf_name_Inr_iff json.inject sum.inject,
    elim conjE, hypsubst, simp only: fst_conv snd_conv intent_contract.simps intent_rules simp_thms)

lemma parse_intents_ok:
  assumes "parse_intents v = Inr d"
  shows "canonical_dict ic_name d \<and> (\<forall>y \<in> set d. intent_ok y)"
  using assms parse_intent_ok unfolding parse_intents_def
  by (auto simp: result_simps simp del: mapE_Inr_iff intro!: section_parsed)

definition fixture_ok :: "string \<times> fixture_contract \<Rightarrow> bool" where
  "fixture_ok nf \<longleftrightarrow> name_re 127 (fc_template (snd nf)) \<and> fc_network (snd nf) \<in> set allowed_fixture_network"

lemma parse_fixture_ok:
  assumes "parse_fixture raw k = Inr y"
  shows "fst y = k \<and> fc_name (snd y) = k \<and> name_re 63 k \<and> fixture_ok y"
  using assms unfolding parse_fixture_def Let_def fixture_network_def
  by (auto simp: result_simps fixture_ok_def)

lemma parse_fixtures_ok:
  assumes "parse_fixtures v = Inr d"
  shows "canonical_dict fc_name d \<and> (\<forall>y \<in> set d. fixture_ok y)"
  using assms parse_fixture_ok unfolding parse_fixtures_def
  by (auto simp: bindE_Inr_iff mf_object_Inr_iff intro!: section_parsed)

definition credential_ok :: "string \<times> credential_contract \<Rightarrow> bool" where
  "credential_ok nc \<longleftrightarrow> name_re 127 (cc_binding (snd nc))"

lemma parse_credential_ok:
  assumes "parse_credential raw k = Inr y"
  shows "fst y = k \<and> cc_name (snd y) = k \<and> name_re 63 k \<and> credential_ok y"
  using assms unfolding parse_credential_def Let_def
  by (auto simp: result_simps credential_ok_def)

lemma parse_credentials_ok:
  assumes "parse_credentials v = Inr d"
  shows "canonical_dict cc_name d \<and> (\<forall>y \<in> set d. credential_ok y)"
  using assms parse_credential_ok unfolding parse_credentials_def
  by (auto simp: bindE_Inr_iff mf_object_Inr_iff intro!: section_parsed)

lemma foldE_trace:
  assumes "foldE f xs s = Inr s'"
    and "\<And>x s s'. f x s = Inr s' \<Longrightarrow> \<exists>y. out s' = out s @ [y] \<and> R x y"
  shows "\<exists>ys. out s' = out s @ ys \<and> list_all2 R xs ys"
  using assms(1)
proof (induction xs arbitrary: s)
  case (Cons x xs)
  then obtain t where t: "f x s = Inr t" "foldE f xs t = Inr s'" by (auto simp: bindE_Inr_iff)
  obtain y where y: "out t = out s @ [y]" "R x y" using assms(2) [OF t(1)] by blast
  obtain ys where "out s' = out t @ ys" "list_all2 R xs ys" using Cons.IH [OF t(2)] by blast
  with y show ?case by (intro exI [of _ "y # ys"]) simp
qed simp

definition state_handle_ok :: "string \<times> state_handle_contract \<Rightarrow> bool" where
  "state_handle_ok nh \<longleftrightarrow> sh_kind (snd nh) = ''sqlite'' \<and> repository_path False (sh_path (snd nh)) \<and>
     environment_name (sh_environment (snd nh)) \<and> \<not> secret_environment_name (sh_environment (snd nh))"

lemma parse_state_handle_ok:
  assumes "parse_state_handle rr raw k acc = Inr acc'"
  shows "\<exists>h. fst acc' = fst acc @ [(k, h)] \<and> snd acc' = sh_environment h # snd acc \<and>
    sh_environment h \<notin> set (snd acc) \<and> sh_name h = k \<and> name_re 63 k \<and> state_handle_ok (k, h)"
  using assms unfolding parse_state_handle_def Let_def
  by (elim bindE_InrE) (auto simp: mf_name_Inr_iff state_handle_ok_def normalize_repository_path_iff
    mf_string_Inr_iff)

lemma parse_state_handles_ok:
  assumes "parse_state_handles rr v = Inr d"
  shows "canonical_dict sh_name d \<and> (\<forall>y \<in> set d. state_handle_ok y) \<and>
    distinct (map (\<lambda>(_, h). sh_environment h) d)"
proof -
  from assms obtain raw acc where d: "fst acc = d"
    and f: "foldE (parse_state_handle rr raw) (sorted_set (keys raw)) ([], []) = Inr acc"
    unfolding parse_state_handles_def by (auto simp: bindE_Inr_iff mf_object_Inr_iff)
  let ?R = "\<lambda>k y. fst y = k \<and> sh_name (snd y) = k \<and> name_re 63 k \<and> state_handle_ok y"
  have "list_all2 ?R (sorted_set (keys raw)) d"
    using foldE_trace [OF f, of fst ?R] parse_state_handle_ok d by fastforce
  then have "canonical_dict sh_name d \<and> (\<forall>y \<in> set d. state_handle_ok y)" by (rule section_canonical)
  moreover have "snd acc = rev (map (\<lambda>(_, h). sh_environment h) (fst acc)) \<and> distinct (snd acc)"
    by (rule foldE_invariant [OF f]) (use parse_state_handle_ok in fastforce)+
  ultimately show ?thesis using d by (metis distinct_rev)
qed

definition environment_ok :: "string dict \<Rightarrow> bool" where
  "environment_ok d \<longleftrightarrow> sorted (keys d) \<and> distinct (keys d) \<and>
     (\<forall>k \<in> fst ` set d. environment_name k \<and> \<not> secret_environment_name k)"

lemma environment_step_ok:
  assumes "environment_step path raw k acc = Inr acc'"
  shows "\<exists>y. fst acc' = fst acc @ [y] \<and> fst y = k \<and> environment_name k \<and> \<not> secret_environment_name k"
  using assms unfolding environment_step_def Let_def by (elim bindE_InrE) auto

lemma mf_environment_ok:
  assumes "mf_environment path v = Inr d"
  shows "environment_ok d"
proof -
  from assms obtain raw total where
    f: "foldE (environment_step path raw) (sorted_set (keys raw)) ([], 0) = Inr (d, total)"
    unfolding mf_environment_def by (auto simp: bindE_Inr_iff)
  let ?R = "\<lambda>k y. fst y = k \<and> environment_name k \<and> \<not> secret_environment_name k"
  have l: "list_all2 ?R (sorted_set (keys raw)) d"
    using foldE_trace [OF f, of fst ?R] environment_step_ok by fastforce
  then have "keys d = sorted_set (keys raw)"
    by (simp add: list_all2_conv_all_nth list_eq_iff_nth_eq)
  moreover have "\<forall>k \<in> fst ` set d. environment_name k \<and> \<not> secret_environment_name k"
    using l by (fastforce simp: list_all2_conv_all_nth in_set_conv_nth)
  ultimately show ?thesis by (simp add: environment_ok_def)
qed

lemma sorted_keys_sort_key: "sorted (keys (sort_key fst d))"
  by simp

lemma merged_environment_ok:
  assumes "environment_ok d" "environment_ok e"
  shows "environment_ok (sort_key fst (dict_update d e))"
proof -
  have "dict_ok d" using assms by (simp add: environment_ok_def dict_ok_def)
  then have "distinct (keys (sort_key fst (dict_update d e)))"
    using dict_ok_dict_update [of d e] unfolding dict_ok_def
    by (metis distinct_map distinct_sort set_sort)
  moreover have "\<forall>k \<in> fst ` set (dict_update d e). environment_name k \<and> \<not> secret_environment_name k"
    using assms by (auto simp: environment_ok_def)
  ultimately show ?thesis by (simp add: environment_ok_def)
qed

lemma mf_network_ok: "mf_network path v = Inr n \<Longrightarrow> n \<in> set allowed_network"
  by (auto simp: mf_network_def bindE_Inr_iff)

lemma parse_defaults_ok:
  assumes "parse_defaults v = Inr d"
  shows "1 \<le> md_timeout_seconds d \<and> md_timeout_seconds d \<le> 86400 \<and>
    md_network d \<in> set allowed_network \<and> environment_ok (md_environment d)"
  using assms unfolding parse_defaults_def Let_def
  by (elim bindE_InrE) (auto simp: mf_integer_Inr_iff dest: mf_network_ok mf_environment_ok)

definition artifact_ok :: "artifact_contract \<Rightarrow> bool" where
  "artifact_ok a \<longleftrightarrow> name_re 63 (ac_name a) \<and> ac_kind a \<in> set allowed_artifact_kinds \<and>
     repository_path True (ac_path a) \<and> 1 \<le> ac_max_bytes a \<and> ac_max_bytes a \<le> 1024 * 1024 * 1024"

lemma parse_artifact_ok:
  assumes "parse_artifact rr path ix acc = Inr acc'"
  shows "\<exists>a. fst acc' = fst acc @ [a] \<and> snd acc' = ac_name a # snd acc \<and>
    ac_name a \<notin> set (snd acc) \<and> artifact_ok a"
  using assms unfolding parse_artifact_def Let_def
  by (elim bindE_InrE) (auto simp: mf_name_Inr_iff artifact_ok_def normalize_repository_path_iff
    mf_integer_Inr_iff)

lemma parse_artifacts_ok:
  assumes "parse_artifacts rr path v = Inr as"
  shows "(\<forall>a \<in> set as. artifact_ok a) \<and> distinct (map ac_name as)"
proof -
  from assms obtain items acc where as: "fst acc = as"
    and f: "foldE (parse_artifact rr (path @ ''.artifacts'')) (enumerate 0 items) ([], []) = Inr acc"
    unfolding parse_artifacts_def Let_def by (auto simp: bindE_Inr_iff split: json.splits)
  have "(\<forall>a \<in> set (fst acc). artifact_ok a) \<and> snd acc = rev (map ac_name (fst acc)) \<and> distinct (snd acc)"
    by (rule foldE_invariant [OF f]) (use parse_artifact_ok in fastforce)+
  then show ?thesis using as by (metis distinct_rev)
qed

definition shard_ok :: "shard_policy \<Rightarrow> bool" where
  "shard_ok s \<longleftrightarrow> sp_mode s \<in> set allowed_shard_modes \<and> 1 \<le> sp_max_shards s \<and> sp_max_shards s \<le> 64 \<and>
     (sp_mode s = ''none'' \<longrightarrow> sp_max_shards s = 1)"

lemma parse_shard_ok: "parse_shard path v = Inr s \<Longrightarrow> shard_ok s"
  unfolding parse_shard_def Let_def
  by (elim bindE_InrE) (auto simp: shard_ok_def mf_integer_Inr_iff)

definition argv_ok :: "string \<Rightarrow> string list \<Rightarrow> bool" where
  "argv_ok driver argv \<longleftrightarrow> argv \<noteq> [] \<and> lower (posix_name (hd argv)) \<notin> set forbidden_executables \<and>
     (case required_executable driver of None \<Rightarrow> True | Some e \<Rightarrow> hd argv = e) \<and>
     (\<forall>a \<in> set argv. CHR ''{'' \<in> set a \<or> CHR ''}'' \<in> set a \<longrightarrow> a \<in> set allowed_arg_placeholders)"

lemma mf_argv_ok:
  assumes "mf_argv path driver v = Inr argv"
  shows "argv_ok driver argv"
proof -
  let ?f = "\<lambda>i item. ensure (\<not> ((CHR ''{'' \<in> set item \<or> CHR ''}'' \<in> set item) \<and>
      item \<notin> set allowed_arg_placeholders))
    (ManifestContractError ''contains an unsupported placeholder'' (index_path path i))"
  have placeholders: "CHR ''{'' \<in> set a \<or> CHR ''}'' \<in> set a \<longrightarrow> a \<in> set allowed_arg_placeholders"
    if "mapE (\<lambda>(i, item). ?f i item) (enumerate 0 xs) = Inr us" "a \<in> set xs" for xs us a
  proof -
    from that(2) obtain i where i: "i < length xs" "xs ! i = a" by (auto simp: in_set_conv_nth)
    then show ?thesis using that(1)
      by (auto simp: mapE_Inr_iff split_beta list_all2_conv_all_nth nth_enumerate_eq)
  qed
  from assms obtain xs us where
    xs: "mf_string_list path 256 False 4096 False v = Inr xs"
    and us: "mapE (\<lambda>(i, item). ?f i item) (enumerate 0 xs) = Inr us"
    and rest: "argv = xs" "lower (posix_name (hd xs)) \<notin> set forbidden_executables"
      "case required_executable driver of None \<Rightarrow> True | Some e \<Rightarrow> hd xs = e"
    unfolding mf_argv_def Let_def by (elim bindE_InrE) (auto split: option.splits)
  with placeholders [OF us] xs show ?thesis
    by (auto simp: argv_ok_def mf_string_list_Inr_iff)
qed

definition head_ok :: "string \<times> string \<times> string \<times> string list \<Rightarrow> bool" where
  "head_ok = (\<lambda>(driver, reporter, cwd, inputs). driver \<in> set allowed_drivers \<and>
     reporter \<in> set (reporters_by_driver driver) \<and> (cwd = ''.'' \<or> repository_path False cwd) \<and>
     inputs \<noteq> [] \<and> (\<forall>i \<in> set inputs. repository_path True i))"

lemma normalize_inputs:
  "mapE (\<lambda>(i, item). normalize_repository_path (index_path path i) True False (JStr item)) (enumerate k xs)
     = Inr ys \<longleftrightarrow> xs = map id ys \<and> (\<forall>y \<in> set ys. repository_path True y)"
  by (rule mapE_enumerate_iff) (auto simp: normalize_repository_path_iff)

lemma target_head_ok: "target_head rr path defn = Inr h \<Longrightarrow> head_ok h"
  unfolding target_head_def
  by (elim bindE_InrE) (auto simp: head_ok_def normalize_inputs mf_string_list_Inr_iff
    normalize_repository_path_iff split: if_splits)


definition refs_ok :: "intent_contract dict \<Rightarrow> fixture_contract dict \<Rightarrow> credential_contract dict
    \<Rightarrow> string list \<times> string list \<times> string list \<times> string list \<Rightarrow> bool" where
  "refs_ok intents fixtures credentials = (\<lambda>(deps, tis, tfs, tcs).
     sorted deps \<and> distinct deps \<and> tis \<noteq> [] \<and> distinct tis \<and> set tis \<subseteq> fst ` set intents \<and>
     set tfs \<subseteq> fst ` set fixtures \<and> set tcs \<subseteq> fst ` set credentials \<and>
     (tcs \<noteq> [] \<longrightarrow> tis = [''manual'']))"

lemma target_refs_ok:
  "target_refs path defn intents fixtures credentials = Inr r \<Longrightarrow> refs_ok intents fixtures credentials r"
  unfolding target_refs_def
  by (elim bindE_InrE) (auto simp: refs_ok_def name_list_Inr_iff reject_missing_Inr_iff)

definition handles_ok ::
  "intent_contract dict \<Rightarrow> state_handle_contract dict \<Rightarrow> string list \<Rightarrow> string list \<Rightarrow> bool" where
  "handles_ok intents state_handles tis hs \<longleftrightarrow> distinct hs \<and> length hs \<le> 8 \<and> set hs \<subseteq> fst ` set state_handles \<and>
     (hs \<noteq> [] \<longrightarrow> (\<forall>n \<in> set tis. \<forall>i. map_of intents n = Some i \<longrightarrow> \<not> ic_allow_reuse i))"

lemma target_state_handles_ok:
  "target_state_handles path defn intents state_handles tis = Inr hs \<Longrightarrow> handles_ok intents state_handles tis hs"
  unfolding target_state_handles_def Let_def
  by (elim bindE_InrE) (auto simp: handles_ok_def name_list_Inr_iff reject_missing_Inr_iff filter_empty_conv
    split: option.splits)

definition network_ok :: "fixture_contract dict \<Rightarrow> string list \<Rightarrow> string list \<Rightarrow> string \<Rightarrow> bool" where
  "network_ok fixtures tis tfs network \<longleftrightarrow> network \<in> set allowed_network \<and>
     (network = ''host-loopback'' \<longrightarrow> tis = [''manual''] \<and> tfs = []) \<and>
     (\<forall>n \<in> set tfs. \<exists>f. map_of fixtures n = Some f \<and> network_rank (fc_network f) \<le> network_rank network)"

lemma mapE_unit_iff: "(\<exists>us. mapE f xs = Inr us) \<longleftrightarrow> (\<forall>x \<in> set xs. \<exists>u. f x = Inr u)"
  by (induction xs) (auto simp: bindE_Inr_iff)

lemma mapE_InrD: "mapE f xs = Inr us \<Longrightarrow> x \<in> set xs \<Longrightarrow> \<exists>u. f x = Inr u"
  by (meson mapE_unit_iff)

lemma target_network_ok:
  "target_network path defn defaults fixtures tis tfs = Inr n \<Longrightarrow> network_ok fixtures tis tfs n"
  unfolding target_network_def
  by (elim bindE_InrE) (auto simp: network_ok_def not_less dest: mf_network_ok mapE_InrD split: option.splits)

definition target_env_ok ::
  "state_handle_contract dict \<Rightarrow> string list \<Rightarrow> string dict \<Rightarrow> bool" where
  "target_env_ok state_handles hs env \<longleftrightarrow> environment_ok env \<and>
     (\<forall>n \<in> set hs. \<exists>h. map_of state_handles n = Some h \<and> sh_environment h \<notin> fst ` set env)"

lemma handle_names:
  assumes "mapE (\<lambda>name. case map_of state_handles name of
      None \<Rightarrow> Inl (PyKeyError name) | Some h \<Rightarrow> Inr (sh_environment h)) hs = Inr names"
  shows "set hs \<subseteq> fst ` set state_handles \<and> names = map (\<lambda>n. sh_environment (the (map_of state_handles n))) hs"
  using assms
proof (induction hs arbitrary: names)
  case (Cons n hs)
  then show ?case by (auto simp: bindE_Inr_iff dest: map_of_Some_keys split: option.splits)
qed simp

lemma target_environment_ok:
  assumes "target_environment path defn defaults state_handles hs = Inr env"
    and "environment_ok (md_environment defaults)"
  shows "target_env_ok state_handles hs env"
  using assms unfolding target_environment_def Let_def
proof (elim bindE_InrE)
  fix own names u
  assume own: "mf_environment (path @ ''.environment'') (dict_get defn ''environment'' (JObj [])) = Inr own"
    and names: "mapE (\<lambda>name. case map_of state_handles name of
           None \<Rightarrow> Inl (PyKeyError name) | Some h \<Rightarrow> Inr (sh_environment h)) hs = Inr names"
    and coll: "ensure (sort (filter (\<lambda>n. has_key n (dict_update (md_environment defaults) own)) names) = [])
      (ManifestContractError (''state handle environment conflicts with target environment: ''
         @ join '', '' (sort (filter (\<lambda>n. has_key n (dict_update (md_environment defaults) own)) names)))
         (path @ ''.environment'')) = Inr u"
    and env: "Inr (sort_key fst (dict_update (md_environment defaults) own)) = Inr env"
  have known: "\<exists>h. map_of state_handles x = Some h" if "x \<in> set hs" for x
    using in_keys_map_of [OF subsetD [OF conjunct1 [OF handle_names [OF names]] that]] .
  have "filter (\<lambda>n. has_key n (dict_update (md_environment defaults) own)) names = []"
    using coll by (simp only: ensure_Inr_iff sort_key_eq_Nil_iff)
  moreover have "set env = set (dict_update (md_environment defaults) own)" using env by auto
  ultimately have fresh: "\<forall>y \<in> set names. y \<notin> fst ` set env"
    by (simp add: filter_empty_conv del: keys_dict_update)
  have "environment_ok env"
    using merged_environment_ok [OF assms(2) mf_environment_ok [OF own]] env by simp
  moreover have "\<exists>h. map_of state_handles x = Some h \<and> sh_environment h \<notin> fst ` set env" if x: "x \<in> set hs" for x
  proof -
    obtain h where h: "map_of state_handles x = Some h" using known [OF x] by blast
    have "sh_environment (the (map_of state_handles x)) \<in> set names"
      using conjunct2 [OF handle_names [OF names]] x by simp
    with h fresh show ?thesis by simp
  qed
  ultimately show ?thesis by (simp add: target_env_ok_def)
qed

definition target_ok ::
  "intent_contract dict \<Rightarrow> fixture_contract dict \<Rightarrow> credential_contract dict \<Rightarrow> state_handle_contract dict
     \<Rightarrow> string \<times> target_contract \<Rightarrow> bool" where
  "target_ok intents fixtures credentials state_handles nt \<longleftrightarrow> (let t = snd nt in
     head_ok (tc_driver t, tc_reporter t, tc_cwd t, tc_inputs t) \<and>
     refs_ok intents fixtures credentials (tc_depends_on t, tc_intents t, tc_fixtures t, tc_credentials t) \<and>
     handles_ok intents state_handles (tc_intents t) (tc_state_handles t) \<and>
     network_ok fixtures (tc_intents t) (tc_fixtures t) (tc_network t) \<and>
     target_env_ok state_handles (tc_state_handles t) (tc_environment t) \<and>
     argv_ok (tc_driver t) (tc_argv t) \<and> 1 \<le> tc_timeout_seconds t \<and> tc_timeout_seconds t \<le> 86400 \<and>
     distinct (tc_exclusive_resources t) \<and> shard_ok (tc_shard t) \<and>
     (\<forall>a \<in> set (tc_artifacts t). artifact_ok a) \<and> distinct (map ac_name (tc_artifacts t)))"

lemma parse_target_ok:
  assumes "parse_target rr defaults intents fixtures credentials state_handles raw k = Inr y"
    and env: "environment_ok (md_environment defaults)"
  shows "fst y = k \<and> tc_name (snd y) = k \<and> name_re 63 k \<and>
    target_ok intents fixtures credentials state_handles y"
  using assms(1) unfolding parse_target_def Let_def
  by (elim bindE_InrE) (auto simp: target_ok_def mf_name_Inr_iff mf_integer_Inr_iff name_list_Inr_iff
    elim!: bindE_InrE dest!: target_head_ok target_refs_ok target_state_handles_ok target_network_ok
      target_environment_ok [OF _ env] mf_argv_ok parse_shard_ok parse_artifacts_ok)

lemma check_dependencies_ok:
  assumes "check_dependencies targets = Inr u"
  shows "deps_closed targets"
proof -
  have "set (tc_depends_on t) \<subseteq> fst ` set targets" if "(n, t) \<in> set targets" for n t
  proof -
    from assms obtain us where "mapE (\<lambda>(_, target).
       let path = ''$.targets.'' @ tc_name target @ ''.depends_on'' in
       bindE (reject_missing path ''unknown dependency target(s): '' (tc_depends_on target) (keys targets)) (\<lambda>_.
       ensure (tc_name target \<notin> set (tc_depends_on target))
         (ManifestContractError ''target cannot depend on itself'' path))) targets = Inr us"
      unfolding check_dependencies_def by (auto simp: bindE_Inr_iff)
    from mapE_InrD [OF this that] show ?thesis
      by (auto simp: Let_def bindE_Inr_iff reject_missing_Inr_iff)
  qed
  then show ?thesis by (auto simp: deps_closed_def)
qed

definition intents_covered :: "intent_contract dict \<Rightarrow> target_contract dict \<Rightarrow> bool" where
  "intents_covered intents targets \<longleftrightarrow>
     (\<forall>n \<in> fst ` set intents. \<exists>(_, t) \<in> set targets. n \<in> set (tc_intents t))"

lemma check_intent_coverage_ok: "check_intent_coverage intents targets = Inr u \<Longrightarrow> intents_covered intents targets"
  unfolding check_intent_coverage_def
  by (elim bindE_InrE) (force simp: intents_covered_def list_ex_iff dest: mapE_InrD)

lemma parse_targets_ok:
  assumes "parse_targets rr defaults intents fixtures credentials state_handles v = Inr targets"
    and env: "environment_ok (md_environment defaults)"
  shows "canonical_dict tc_name targets \<and> (\<forall>y \<in> set targets. target_ok intents fixtures credentials state_handles y) \<and>
    targets \<noteq> [] \<and> deps_closed targets \<and> acyclic (dep_rel targets) \<and> intents_covered intents targets"
  using assms(1) unfolding parse_targets_def
proof (elim bindE_InrE)
  fix raw u1 ts u2 u3 u4
  assume raw: "ensure (\<not> (raw = [] \<or> 512 < length raw)) (ManifestContractError ''must contain 1..512 targets'' ''$.targets'') = Inr u1"
    and ts: "mapE (parse_target rr defaults intents fixtures credentials state_handles raw) (sorted_set (keys raw)) = Inr ts"
    and deps: "check_dependencies ts = Inr u2" and cycles: "reject_dependency_cycles ts = Inr u3"
    and cov: "check_intent_coverage intents ts = Inr u4" and eq: "Inr ts = Inr targets"
  have "canonical_dict tc_name ts \<and> (\<forall>y \<in> set ts. target_ok intents fixtures credentials state_handles y)"
    using ts by (rule section_parsed) (rule parse_target_ok [OF _ env])
  moreover have "ts \<noteq> []" using raw ts by (auto simp: mapE_Inr_iff)
  moreover have "acyclic (dep_rel ts)" using cycles check_dependencies_ok [OF deps] by (simp flip: reject_dependency_cycles_iff)
  ultimately show ?thesis using eq check_dependencies_ok [OF deps] check_intent_coverage_ok [OF cov] by simp
qed

definition policy_ok ::
  "intent_contract dict \<Rightarrow> target_contract dict \<Rightarrow> string \<times> evidence_policy \<Rightarrow> bool" where
  "policy_ok intents targets np \<longleftrightarrow> (let p = snd np in
     (\<exists>ic. map_of intents (ep_intent p) = Some ic \<and> ic_source_mode ic = IMMUTABLE \<and>
        (ep_allow_reuse p \<longrightarrow> ic_allow_reuse ic)) \<and>
     ep_required_targets p \<noteq> [] \<and> sorted (ep_required_targets p) \<and> distinct (ep_required_targets p) \<and>
     (\<forall>n \<in> set (ep_required_targets p). \<exists>t. map_of targets n = Some t \<and> ep_intent p \<in> set (tc_intents t)) \<and>
     1 \<le> ep_max_age_seconds p \<and> ep_max_age_seconds p \<le> 31536000)"

lemma outside_intent_iff:
  "filter (\<lambda>n. case map_of targets n of None \<Rightarrow> True | Some t \<Rightarrow> i \<notin> set (tc_intents t)) xs = [] \<longleftrightarrow>
     (\<forall>n \<in> set xs. \<exists>t. map_of targets n = Some t \<and> i \<in> set (tc_intents t))"
  by (auto simp: filter_empty_conv split: option.splits)

lemma parse_evidence_policy_ok:
  assumes "parse_evidence_policy intents targets raw k = Inr y"
  shows "fst y = k \<and> ep_name (snd y) = k \<and> name_re 63 k \<and> policy_ok intents targets y"
  using assms unfolding parse_evidence_policy_def Let_def
  apply (elim bindE_InrE)
  apply (split option.split_asm)
   apply (simp only: sum.distinct)
  apply (elim bindE_InrE)
  apply (simp only: ensure_Inr_iff sort_key_eq_Nil_iff outside_intent_iff set_sort)
  apply (auto simp: policy_ok_def mf_name_Inr_iff mf_integer_Inr_iff name_list_Inr_iff)
  done

lemma parse_evidence_policies_ok:
  assumes "parse_evidence_policies intents targets v = Inr d"
  shows "canonical_dict ep_name d \<and> (\<forall>y \<in> set d. policy_ok intents targets y)"
  using assms parse_evidence_policy_ok unfolding parse_evidence_policies_def
  by (auto simp: bindE_Inr_iff mf_object_Inr_iff intro!: section_parsed)

section \<open>The contract of a parsed manifest\<close>

definition manifest_ok :: "test_manifest \<Rightarrow> bool" where
  "manifest_ok m \<longleftrightarrow>
     canonical_dict ic_name (tm_intents m) \<and> (\<forall>y \<in> set (tm_intents m). intent_ok y) \<and>
     canonical_dict fc_name (tm_fixtures m) \<and> (\<forall>y \<in> set (tm_fixtures m). fixture_ok y) \<and>
     canonical_dict cc_name (tm_credentials m) \<and> (\<forall>y \<in> set (tm_credentials m). credential_ok y) \<and>
     canonical_dict sh_name (tm_state_handles m) \<and> (\<forall>y \<in> set (tm_state_handles m). state_handle_ok y) \<and>
     distinct (map (\<lambda>(_, h). sh_environment h) (tm_state_handles m)) \<and>
     canonical_dict tc_name (tm_targets m) \<and> tm_targets m \<noteq> [] \<and>
     (\<forall>y \<in> set (tm_targets m). target_ok (tm_intents m) (tm_fixtures m) (tm_credentials m) (tm_state_handles m) y) \<and>
     deps_closed (tm_targets m) \<and> acyclic (dep_rel (tm_targets m)) \<and>
     intents_covered (tm_intents m) (tm_targets m) \<and>
     canonical_dict ep_name (tm_evidence_policies m) \<and>
     (\<forall>y \<in> set (tm_evidence_policies m). policy_ok (tm_intents m) (tm_targets m) y) \<and>
     manifest_relative_path \<in> set (tm_global_inputs m) \<and>
     (\<forall>i \<in> set (tm_global_inputs m). repository_path True i)"

lemma parse_global_inputs_ok:
  "parse_global_inputs rr v = Inr gs \<Longrightarrow>
     manifest_relative_path \<in> set gs \<and> (\<forall>i \<in> set gs. repository_path True i)"
  unfolding parse_global_inputs_def by (elim bindE_InrE) (auto simp: normalize_inputs)

lemma manifest_to_document_fingerprint [simp]:
  "manifest_to_document (m\<lparr>tm_fingerprint := f\<rparr>) = manifest_to_document m"
  by (simp add: manifest_to_document_def)

lemma parse_test_manifest_ok:
  assumes "parse_test_manifest L rr doc = Inr m"
  shows "manifest_ok m \<and> tm_fingerprint m = deterministic_fingerprint L (manifest_to_document m)"
  using assms unfolding parse_test_manifest_def Let_def
proof (elim bindE_InrE)
  fix ds "is" fs cs hs gs ts es d i f g t e and sv :: int and raw
  assume p: "parse_defaults d = Inr ds" "parse_intents i = Inr is" "parse_fixtures f = Inr fs"
    "parse_credentials (dict_get raw ''credentials'' (JObj [])) = Inr cs"
    "parse_state_handles rr (dict_get raw ''state_handles'' (JObj [])) = Inr hs"
    "parse_global_inputs rr g = Inr gs" "parse_targets rr ds is fs cs hs t = Inr ts"
    "parse_evidence_policies is ts e = Inr es"
  let ?p = "\<lparr>tm_schema_version = sv, tm_defaults = ds, tm_global_inputs = gs, tm_targets = ts,
    tm_intents = is, tm_fixtures = fs, tm_credentials = cs, tm_evidence_policies = es,
    tm_fingerprint = [], tm_state_handles = hs\<rparr>"
  assume m: "Inr (?p\<lparr>tm_fingerprint := deterministic_fingerprint L (manifest_to_document ?p)\<rparr>) = Inr m"
  have "environment_ok (md_environment ds)" using parse_defaults_ok [OF p(1)] by simp
  from parse_intents_ok [OF p(2)] parse_fixtures_ok [OF p(3)] parse_credentials_ok [OF p(4)]
    parse_state_handles_ok [OF p(5)] parse_global_inputs_ok [OF p(6)] parse_targets_ok [OF p(7) this]
    parse_evidence_policies_ok [OF p(8)]
  have "manifest_ok ?p" by (simp add: manifest_ok_def)
  moreover have "m = ?p\<lparr>tm_fingerprint := deterministic_fingerprint L (manifest_to_document ?p)\<rparr>"
    using m by (simp only: sum.inject)
  ultimately show ?thesis by (simp add: manifest_ok_def manifest_to_document_def)
qed

section \<open>Properties of the manifest contract\<close>

lemma cycle_error_not_acyclic: "cycle_error R e \<Longrightarrow> \<not> acyclic R"
proof -
  have walk: "(a, b) \<in> R\<^sup>+" if "successively (\<lambda>a b. (a, b) \<in> R) (a # xs @ [b])" for a b xs
    using that
  proof (induction xs arbitrary: a)
    case (Cons x xs)
    then show ?case by (auto intro: trancl_into_trancl2)
  qed auto
  assume "cycle_error R e"
  then show ?thesis using walk unfolding cycle_error_def acyclic_def by blast
qed

text \<open>
  C22. \<open>_reject_dependency_cycles\<close> is a correct cycle check: on targets whose dependencies are
  all declared it succeeds exactly when the dependency relation is acyclic, and otherwise its error
  message spells out a closed walk along real dependencies.
\<close>
theorem reject_dependency_cycles_correct:
  assumes "deps_closed targets"
  shows "(reject_dependency_cycles targets = Inr () \<longleftrightarrow> acyclic (dep_rel targets)) \<and>
    (\<forall>e. reject_dependency_cycles targets = Inl e \<longrightarrow> cycle_error (dep_rel targets) e)"
  using reject_dependency_cycles_iff [OF assms] reject_dependency_cycles_error [OF assms] by blast

text \<open>
  C26. Graph contract of a parsed manifest: target names are unique, sorted and equal to their
  keys, every dependency is a declared target, the dependency relation is acyclic, and every
  declared intent is required by at least one target.
\<close>
theorem parse_test_manifest_graph:
  assumes "parse_test_manifest L rr doc = Inr m"
  shows "tm_targets m \<noteq> [] \<and> canonical_dict tc_name (tm_targets m) \<and> deps_closed (tm_targets m) \<and>
    acyclic (dep_rel (tm_targets m)) \<and> intents_covered (tm_intents m) (tm_targets m)"
  using parse_test_manifest_ok [OF assms] by (simp add: manifest_ok_def)

text \<open>
  C27. Authority contract of a parsed manifest: a target with operational credentials or with
  host-loopback networking runs for the manual intent only, a host-loopback target has no fixtures,
  every fixture of a target is declared and reachable under the target's network policy, a target
  that touches live state never serves a reusable intent, its environment names are well formed and
  never secret-like, and its executable is not a shell or an environment trampoline.
\<close>
theorem parse_test_manifest_authority:
  assumes "parse_test_manifest L rr doc = Inr m" and "(n, t) \<in> set (tm_targets m)"
  shows "(tc_credentials t \<noteq> [] \<or> tc_network t = ''host-loopback'' \<longrightarrow> tc_intents t = [''manual'']) \<and>
    (tc_network t = ''host-loopback'' \<longrightarrow> tc_fixtures t = []) \<and>
    (\<forall>f \<in> set (tc_fixtures t). \<exists>fc. map_of (tm_fixtures m) f = Some fc \<and>
       network_rank (fc_network fc) \<le> network_rank (tc_network t)) \<and>
    (tc_state_handles t \<noteq> [] \<longrightarrow> (\<forall>i \<in> set (tc_intents t). \<forall>ic.
       map_of (tm_intents m) i = Some ic \<longrightarrow> \<not> ic_allow_reuse ic)) \<and>
    (\<forall>k \<in> fst ` set (tc_environment t). environment_name k \<and> \<not> secret_environment_name k) \<and>
    tc_argv t \<noteq> [] \<and> lower (posix_name (hd (tc_argv t))) \<notin> set forbidden_executables"
proof -
  have "target_ok (tm_intents m) (tm_fixtures m) (tm_credentials m) (tm_state_handles m) (n, t)"
    using parse_test_manifest_ok [OF assms(1)] assms(2) by (simp add: manifest_ok_def)
  then have parts: "refs_ok (tm_intents m) (tm_fixtures m) (tm_credentials m)
      (tc_depends_on t, tc_intents t, tc_fixtures t, tc_credentials t)"
    "handles_ok (tm_intents m) (tm_state_handles m) (tc_intents t) (tc_state_handles t)"
    "network_ok (tm_fixtures m) (tc_intents t) (tc_fixtures t) (tc_network t)"
    "environment_ok (tc_environment t)" "argv_ok (tc_driver t) (tc_argv t)"
    by (simp_all add: target_ok_def target_env_ok_def)
  show ?thesis
    by (intro conjI) (use parts in \<open>auto simp only: refs_ok_def handles_ok_def network_ok_def
      environment_ok_def argv_ok_def case_prod_conv\<close>)
qed

text \<open>
  Reuse contract of a parsed manifest: exactly the change and checkpoint intents run from live
  sources, only immutable intents other than release may be reused, and an evidence policy names an
  immutable intent, does not broaden its reuse, and requires declared targets of that intent.
\<close>
lemma parse_test_manifest_evidence:
  assumes "parse_test_manifest L rr doc = Inr m"
  shows "(\<forall>(n, i) \<in> set (tm_intents m).
      (ic_source_mode i = LIVE \<longleftrightarrow> n \<in> {''change'', ''checkpoint''}) \<and>
      (ic_allow_reuse i \<longrightarrow> ic_source_mode i = IMMUTABLE \<and> n \<noteq> ''release'')) \<and>
    (\<forall>(n, p) \<in> set (tm_evidence_policies m). \<exists>i. map_of (tm_intents m) (ep_intent p) = Some i \<and>
      ic_source_mode i = IMMUTABLE \<and> (ep_allow_reuse p \<longrightarrow> ic_allow_reuse i) \<and>
      ep_required_targets p \<noteq> [] \<and>
      (\<forall>r \<in> set (ep_required_targets p). \<exists>t. map_of (tm_targets m) r = Some t \<and> ep_intent p \<in> set (tc_intents t)))"
proof -
  have "\<forall>y \<in> set (tm_intents m). intent_ok y"
    "\<forall>y \<in> set (tm_evidence_policies m). policy_ok (tm_intents m) (tm_targets m) y"
    using parse_test_manifest_ok [OF assms] by (simp_all add: manifest_ok_def)
  then show ?thesis
    by (intro conjI) (fastforce simp only: intent_ok_def fst_conv snd_conv,
      fastforce simp only: policy_ok_def Let_def snd_conv)
qed

end
