(* ===== verification/Manifest_Samples.thy ===== *)
theory Manifest_Samples
  imports Manifest_Laws
begin

text \<open>
  A small manifest with two targets, evaluated by the parser, at which the properties of the
  manifest contract are applied.
\<close>

section \<open>A sample manifest\<close>

definition sample_lib :: pylib where
  "sample_lib = \<lparr>sha256_hexdigest = (\<lambda>s. replicate 64 (CHR ''a'')), float_repr = (\<lambda>x. ''0.5'')\<rparr>"

definition sample_target :: "string \<Rightarrow> string list \<Rightarrow> json" where
  "sample_target path deps = JObj
     [(''driver'', JStr ''pytest''), (''reporter'', JStr ''pytest-events''),
      (''argv'', jstrs [''{python}'', ''-m'', ''pytest'']), (''inputs'', jstrs [path]),
      (''depends_on'', jstrs deps), (''intents'', jstrs [''change'', ''release''])]"

definition sample_document :: json where
  "sample_document = JObj
     [(''schema_version'', JInt 4),
      (''defaults'', JObj [(''timeout_seconds'', JInt 60), (''network'', JStr ''none'')]),
      (''global_inputs'', jstrs [''.codex/tests.json'']),
      (''intents'', JObj [(''change'', JObj [(''source_mode'', JStr ''live'')]),
         (''release'', JObj [(''source_mode'', JStr ''immutable'')])]),
      (''fixtures'', JObj []),
      (''targets'', JObj [(''unit'', sample_target ''lib/**'' []), (''api'', sample_target ''api/*.py'' [''unit''])]),
      (''evidence_policies'', JObj [(''ship'', JObj [(''intent'', JStr ''release''),
         (''required_targets'', jstrs [''api'']), (''max_age_seconds'', JInt 3600)])])]"

definition sample_contract :: "string \<Rightarrow> string \<Rightarrow> string list \<Rightarrow> target_contract" where
  "sample_contract name path deps = \<lparr>tc_name = name, tc_driver = ''pytest'', tc_reporter = ''pytest-events'',
     tc_argv = [''{python}'', ''-m'', ''pytest''], tc_cwd = ''.'', tc_inputs = [path], tc_depends_on = deps,
     tc_intents = [''change'', ''release''], tc_timeout_seconds = 60, tc_network = ''none'',
     tc_exclusive_resources = [], tc_fixtures = [], tc_credentials = [],
     tc_shard = \<lparr>sp_mode = ''none'', sp_max_shards = 1\<rparr>, tc_artifacts = [], tc_environment = [],
     tc_state_handles = []\<rparr>"

definition sample_manifest :: test_manifest where
  "sample_manifest = \<lparr>tm_schema_version = 4,
     tm_defaults = \<lparr>md_timeout_seconds = 60, md_network = ''none'', md_environment = []\<rparr>,
     tm_global_inputs = [''.codex/tests.json''],
     tm_targets = [(''api'', sample_contract ''api'' ''api/*.py'' [''unit'']),
       (''unit'', sample_contract ''unit'' ''lib/**'' [])],
     tm_intents = [(''change'', \<lparr>ic_name = ''change'', ic_source_mode = LIVE, ic_allow_reuse = False\<rparr>),
       (''release'', \<lparr>ic_name = ''release'', ic_source_mode = IMMUTABLE, ic_allow_reuse = False\<rparr>)],
     tm_fixtures = [], tm_credentials = [],
     tm_evidence_policies = [(''ship'', \<lparr>ep_name = ''ship'', ep_intent = ''release'',
       ep_required_targets = [''api''], ep_max_age_seconds = 3600, ep_allow_reuse = False\<rparr>)],
     tm_fingerprint = replicate 64 (CHR ''a''), tm_state_handles = []\<rparr>"

lemma sample_parses: "parse_test_manifest sample_lib None sample_document = Inr sample_manifest"
  by code_simp

definition sample_cycle :: "target_contract dict" where
  "sample_cycle = [(''a'', sample_contract ''a'' ''a.py'' [''b'']), (''b'', sample_contract ''b'' ''b.py'' [''a''])]"

theorem reject_dependency_cycles_witness: "\<not> acyclic (dep_rel sample_cycle)"
  using reject_dependency_cycles_correct [of sample_cycle]
  by (simp add: sample_cycle_def sample_contract_def deps_closed_def reject_dependency_cycles_def sorted_set_def)

theorem parse_test_manifest_graph_witness:
  "deps_closed (tm_targets sample_manifest) \<and> acyclic (dep_rel (tm_targets sample_manifest))"
  using parse_test_manifest_graph [OF sample_parses] by simp

theorem parse_test_manifest_authority_witness:
  "lower (posix_name (hd (tc_argv (sample_contract ''unit'' ''lib/**'' [])))) \<notin> set forbidden_executables"
  using parse_test_manifest_authority [OF sample_parses, of "''unit''" "sample_contract ''unit'' ''lib/**'' []"]
  by (simp add: sample_manifest_def)

end
