(* ===== verification/Planner.thy ===== *)
theory Planner
  imports Manifest_Laws
begin

text \<open>
  \<open>universal_test_planner.py\<close>: changed paths, source identities, the bidirectional closure over
  the dependency graph, dependency waves and \<open>create_test_plan\<close>. A Python set is a list here,
  read through its members and sorted where the code sorts it; a dictionary of sets is an
  association list.
\<close>

section \<open>Errors and constants\<close>

datatype plan_error =
    TestPlanError string
  | PlanContractError contract_error  \<comment> \<open>a contract error or \<open>KeyError\<close> that is not caught\<close>

definition error_text :: "contract_error \<Rightarrow> string" where
  "error_text e = (case e of ManifestContractError msg path \<Rightarrow> path @ '': '' @ msg | PyKeyError k \<Rightarrow> repr_str k)"

definition lift_contract :: "contract_error + 'a \<Rightarrow> plan_error + 'a" where
  "lift_contract r = (case r of Inl e \<Rightarrow> Inl (PlanContractError e) | Inr x \<Rightarrow> Inr x)"

text \<open>\<open>except ValueError as error: raise TestPlanError(str(error))\<close>.\<close>

definition catch_contract :: "contract_error + 'a \<Rightarrow> plan_error + 'a" where
  "catch_contract r =
     (case r of Inl (ManifestContractError m p) \<Rightarrow> Inl (TestPlanError (error_text (ManifestContractError m p)))
      | Inl (PyKeyError k) \<Rightarrow> Inl (PlanContractError (PyKeyError k))
      | Inr x \<Rightarrow> Inr x)"

lemma lift_contract_Inr_iff [result_simps]: "lift_contract r = Inr x \<longleftrightarrow> r = Inr x"
  by (auto simp: lift_contract_def split: sum.splits)

lemma catch_contract_Inr_iff [result_simps]: "catch_contract r = Inr x \<longleftrightarrow> r = Inr x"
  by (auto simp: catch_contract_def split: sum.splits contract_error.splits)

definition default_launch_timeout_seconds :: int where "default_launch_timeout_seconds = 300"
definition max_execution_timeout_seconds :: int where "max_execution_timeout_seconds = 86400"
definition max_launch_timeout_seconds :: int where "max_launch_timeout_seconds = 3600"
definition max_selection_reasons :: nat where "max_selection_reasons = 32"

section \<open>Changed paths\<close>

datatype change_status = ADDED | MODIFIED | DELETED | RENAMED | UNTRACKED

definition change_status_value :: "change_status \<Rightarrow> string" where
  "change_status_value s = (case s of ADDED \<Rightarrow> ''added'' | MODIFIED \<Rightarrow> ''modified'' | DELETED \<Rightarrow> ''deleted''
     | RENAMED \<Rightarrow> ''renamed'' | UNTRACKED \<Rightarrow> ''untracked'')"

definition change_status_of :: "string \<Rightarrow> change_status option" where
  "change_status_of s =
     map_of (map (\<lambda>c. (change_status_value c, c)) [ADDED, MODIFIED, DELETED, RENAMED, UNTRACKED]) s"

record changed_path =
  cp_path :: string
  cp_status :: change_status
  cp_previous_path :: "string option"

text \<open>\<open>ChangedPath.__post_init__\<close>: \<open>previous\<close> is \<open>None\<close> or the raw value.\<close>

definition new_changed_path ::
  "json \<Rightarrow> string \<Rightarrow> json option \<Rightarrow> plan_error + changed_path" where
  "new_changed_path path status previous =
     bindE (catch_contract (normalize_repository_path ''change.path'' False False path)) (\<lambda>normalized.
     case change_status_of status of
       None \<Rightarrow> Inl (TestPlanError (''unsupported change status: '' @ status))
     | Some st \<Rightarrow>
         if st = RENAMED then
           (case previous of
              None \<Rightarrow> Inl (TestPlanError ''renamed changes require previous_path'')
            | Some raw \<Rightarrow>
                bindE (catch_contract (normalize_repository_path ''change.previous_path'' False False raw)) (\<lambda>prev.
                bindE (ensure (prev \<noteq> normalized) (TestPlanError ''renamed change paths must differ'')) (\<lambda>_.
                Inr \<lparr>cp_path = normalized, cp_status = st, cp_previous_path = Some prev\<rparr>)))
         else bindE (ensure (previous = None)
                (TestPlanError ''previous_path is valid only for renamed changes'')) (\<lambda>_.
              Inr \<lparr>cp_path = normalized, cp_status = st, cp_previous_path = None\<rparr>))"

definition affected_paths :: "changed_path \<Rightarrow> string list" where
  "affected_paths c = (case cp_previous_path c of None \<Rightarrow> [cp_path c] | Some p \<Rightarrow> [p, cp_path c])"

definition change_document :: "changed_path \<Rightarrow> json" where
  "change_document c = JObj [(''path'', JStr (cp_path c)),
     (''status'', JStr (change_status_value (cp_status c))),
     (''previous_path'', jopt JStr (cp_previous_path c))]"

definition change_key :: "changed_path \<Rightarrow> string \<times> string \<times> string" where
  "change_key c = (cp_path c, change_status_value (cp_status c),
     case cp_previous_path c of None \<Rightarrow> [] | Some p \<Rightarrow> p)"

text \<open>\<open>_normalized_changes\<close>: the first of each equal triple, then a stable sort.\<close>

fun first_occurrences :: "'a list \<Rightarrow> 'a list \<Rightarrow> 'a list" where
  "first_occurrences seen [] = []"
| "first_occurrences seen (x # xs) =
     (if x \<in> set seen then first_occurrences seen xs else x # first_occurrences (x # seen) xs)"

definition normalized_changes :: "changed_path list \<Rightarrow> changed_path list" where
  "normalized_changes changes = sort_key change_key (first_occurrences [] changes)"

section \<open>Source identity and timeouts\<close>

record source_identity =
  si_mode :: source_mode
  si_repository_id :: string
  si_content_fingerprint :: string
  si_original_root :: string
  si_temporary_root :: "string option"
  si_snapshot_id :: "string option"

definition rstrip_slash :: "string \<Rightarrow> string" where
  "rstrip_slash s = rev (dropWhile (\<lambda>c. c = CHR ''/'') (rev s))"

definition absolute_path :: "string \<Rightarrow> json \<Rightarrow> plan_error + string" where
  "absolute_path field v =
     (let bad = Inl (TestPlanError (field @ '' must be one canonical absolute path'')) in
      case v of JStr s \<Rightarrow>
        if s = [] \<or> length s > 4096 then bad else
        bindE (ensure (\<not> list_ex (\<lambda>c. c \<in> set s) [CHR 0x00, CHR 0x0D, CHR 0x0A, CHR 0x5C])
          (TestPlanError (field @ '' must be a POSIX path''))) (\<lambda>_.
        bindE (ensure (\<not> (posix_root s = [] \<or> list_ex (\<lambda>p. p \<in> {''.'', ''..''}) (posix_parts s)))
          (TestPlanError (field @ '' must be a normalized absolute path''))) (\<lambda>_.
        let normalized = posix_str s in
        bindE (ensure (\<not> (normalized \<noteq> rstrip_slash s \<and> s \<noteq> ''/''))
          (TestPlanError (field @ '' must be normalized''))) (\<lambda>_.
        Inr normalized)))
      | _ \<Rightarrow> bad)"

definition bounded_identifier :: "json \<Rightarrow> string option" where
  "bounded_identifier v = (case v of JStr s \<Rightarrow> if s = [] \<or> length s > 256 then None else Some s | _ \<Rightarrow> None)"

text \<open>\<open>SourceIdentity.__post_init__\<close>; \<open>JNull\<close> is Python's \<open>None\<close>.\<close>

definition new_source_identity ::
  "string \<Rightarrow> json \<Rightarrow> json \<Rightarrow> json \<Rightarrow> json \<Rightarrow> json \<Rightarrow> plan_error + source_identity" where
  "new_source_identity mode repository_id content_fingerprint original_root temporary_root snapshot_id =
     bindE (if mode = ''live'' then Inr LIVE else if mode = ''immutable'' then Inr IMMUTABLE
            else Inl (TestPlanError ''source mode must be live or immutable'')) (\<lambda>m.
     bindE (case bounded_identifier repository_id of
         None \<Rightarrow> Inl (TestPlanError ''repository_id must identify one configured repository'')
       | Some s \<Rightarrow> Inr s) (\<lambda>repository.
     bindE (case content_fingerprint of
         JStr s \<Rightarrow> if is_sha256 s then Inr s
           else Inl (TestPlanError ''content_fingerprint must be a lowercase SHA-256 digest'')
       | _ \<Rightarrow> Inl (TestPlanError ''content_fingerprint must be a lowercase SHA-256 digest'')) (\<lambda>content.
     bindE (absolute_path ''original_root'' original_root) (\<lambda>original.
     bindE (if temporary_root = JNull then Inr None else
         bindE (absolute_path ''temporary_root'' temporary_root) (\<lambda>temporary.
         bindE (ensure (temporary \<noteq> original)
           (TestPlanError ''temporary_root must differ from original_root'')) (\<lambda>_.
         Inr (Some temporary)))) (\<lambda>temporary.
     bindE (if m = IMMUTABLE then
         (case bounded_identifier snapshot_id of
            None \<Rightarrow> Inl (TestPlanError ''immutable sources require snapshot_id'')
          | Some s \<Rightarrow> Inr (Some s))
         else bindE (ensure (snapshot_id = JNull)
           (TestPlanError ''live sources cannot claim snapshot_id'')) (\<lambda>_. Inr None)) (\<lambda>snapshot.
     Inr \<lparr>si_mode = m, si_repository_id = repository, si_content_fingerprint = content,
       si_original_root = original, si_temporary_root = temporary, si_snapshot_id = snapshot\<rparr>))))))"

definition source_document :: "source_identity \<Rightarrow> json" where
  "source_document s = JObj
     [(''mode'', JStr (source_mode_value (si_mode s))), (''repository_id'', JStr (si_repository_id s)),
      (''content_fingerprint'', JStr (si_content_fingerprint s)),
      (''original_root'', JStr (si_original_root s)),
      (''temporary_root'', jopt JStr (si_temporary_root s)),
      (''snapshot_id'', jopt JStr (si_snapshot_id s))]"

record test_plan_timeouts =
  pt_execution_seconds :: "int option"
  pt_launch_seconds :: int

definition new_timeouts :: "json \<Rightarrow> json \<Rightarrow> plan_error + test_plan_timeouts" where
  "new_timeouts execution launch =
     bindE (case execution of
         JNull \<Rightarrow> Inr None
       | JInt i \<Rightarrow> if 1 \<le> i \<and> i \<le> max_execution_timeout_seconds then Inr (Some i)
           else Inl (TestPlanError (''execution timeout must be from 1 through ''
             @ show_int max_execution_timeout_seconds @ '' seconds''))
       | _ \<Rightarrow> Inl (TestPlanError (''execution timeout must be from 1 through ''
             @ show_int max_execution_timeout_seconds @ '' seconds''))) (\<lambda>e.
     case launch of
       JInt l \<Rightarrow> if 1 \<le> l \<and> l \<le> max_launch_timeout_seconds
         then Inr \<lparr>pt_execution_seconds = e, pt_launch_seconds = l\<rparr>
         else Inl (TestPlanError (''launch timeout must be from 1 through ''
             @ show_int max_launch_timeout_seconds @ '' seconds''))
     | _ \<Rightarrow> Inl (TestPlanError (''launch timeout must be from 1 through ''
             @ show_int max_launch_timeout_seconds @ '' seconds'')))"

definition timeouts_document :: "test_plan_timeouts \<Rightarrow> json" where
  "timeouts_document t = JObj [(''execution_seconds'', jopt JInt (pt_execution_seconds t)),
     (''launch_seconds'', JInt (pt_launch_seconds t))]"

section \<open>Source content fingerprint\<close>

definition digests_step ::
  "string \<Rightarrow> string \<times> json \<Rightarrow> string dict \<Rightarrow> plan_error + string dict" where
  "digests_step field item acc =
     bindE (catch_contract (normalize_repository_path (field @ ''.'' @ fst item) False False (JStr (fst item)))) (\<lambda>safe_path.
     case snd item of
       JStr d \<Rightarrow> if is_sha256 d then Inr (dict_put safe_path d acc)
         else Inl (TestPlanError (field @ ''.'' @ safe_path @ '' must be a SHA-256 digest''))
     | _ \<Rightarrow> Inl (TestPlanError (field @ ''.'' @ safe_path @ '' must be a SHA-256 digest'')))"

definition digests :: "string \<Rightarrow> json dict \<Rightarrow> plan_error + string dict" where
  "digests field raw = bindE (foldE (digests_step field) raw []) (\<lambda>d. Inr (sort_key fst d))"

definition toolchain_step :: "string \<times> json \<Rightarrow> string dict \<Rightarrow> plan_error + string dict" where
  "toolchain_step item acc =
     (let bad = Inl (TestPlanError ''toolchain identities must be bounded name/value strings'') in
      case snd item of
        JStr v \<Rightarrow> if \<not> name_re 63 (fst item) \<or> v = [] \<or> length v > 256 \<or>
              list_ex (\<lambda>c. c \<in> set v) [CHR 0x00, CHR 0x0D, CHR 0x0A]
            then bad else Inr (dict_put (fst item) v acc)
      | _ \<Rightarrow> bad)"

definition fingerprint_source_content ::
  "pylib \<Rightarrow> json dict \<Rightarrow> json \<Rightarrow> json dict \<Rightarrow> json dict \<Rightarrow> plan_error + string" where
  "fingerprint_source_content L files manifest_fingerprint dependency_locks toolchain =
     bindE (ensure (files \<noteq> [])
       (TestPlanError ''source files must be a non-empty path-to-digest mapping'')) (\<lambda>_.
     bindE (case manifest_fingerprint of
         JStr s \<Rightarrow> if is_sha256 s then Inr s
           else Inl (TestPlanError ''manifest_fingerprint must be a lowercase SHA-256 digest'')
       | _ \<Rightarrow> Inl (TestPlanError ''manifest_fingerprint must be a lowercase SHA-256 digest'')) (\<lambda>mf.
     bindE (foldE toolchain_step toolchain []) (\<lambda>normalized_toolchain.
     bindE (digests ''files'' files) (\<lambda>fs.
     bindE (digests ''dependency_locks'' dependency_locks) (\<lambda>locks.
     Inr (deterministic_fingerprint L (JObj
       [(''schema_version'', JInt 1), (''manifest_fingerprint'', JStr mf),
        (''files'', jdict JStr fs), (''dependency_locks'', jdict JStr locks),
        (''toolchain'', jdict JStr (sort_key fst normalized_toolchain))])))))))"

section \<open>Selection over the dependency graph\<close>

definition lookup_target :: "target_contract dict \<Rightarrow> string \<Rightarrow> contract_error + target_contract" where
  "lookup_target targets name = (case map_of targets name of None \<Rightarrow> Inl (PyKeyError name) | Some t \<Rightarrow> Inr t)"

text \<open>\<open>_reverse_dependencies\<close>: every declared target with the names that depend on it.\<close>

definition reverse_edge :: "string \<Rightarrow> string \<Rightarrow> string list dict \<Rightarrow> contract_error + string list dict" where
  "reverse_edge name dependency rev_deps =
     (case map_of rev_deps dependency of
        None \<Rightarrow> Inl (PyKeyError dependency)
      | Some names \<Rightarrow> Inr (dict_put dependency (List.insert name names) rev_deps))"

definition reverse_dependencies :: "target_contract dict \<Rightarrow> contract_error + string list dict" where
  "reverse_dependencies targets =
     foldE (\<lambda>(_, t). foldE (reverse_edge (tc_name t)) (tc_depends_on t)) targets
       (map (\<lambda>(n, _). (n, [])) targets)"

definition add_reason :: "string \<Rightarrow> string \<Rightarrow> string list dict \<Rightarrow> string list dict" where
  "add_reason name reason reasons =
     dict_put name (List.insert reason (case map_of reasons name of None \<Rightarrow> [] | Some rs \<Rightarrow> rs)) reasons"

record closure_state =
  cs_selected :: "string list"
  cs_queue :: "string list"
  cs_reasons :: "string list dict"

definition reach_neighbour :: "string \<Rightarrow> string \<Rightarrow> closure_state \<Rightarrow> closure_state" where
  "reach_neighbour reason name st =
     (let st = st\<lparr>cs_reasons := add_reason name reason (cs_reasons st)\<rparr> in
      if name \<in> set (cs_selected st) then st
      else st\<lparr>cs_selected := name # cs_selected st, cs_queue := cs_queue st @ [name]\<rparr>)"

definition visit_target :: "string \<Rightarrow> string list \<Rightarrow> string list \<Rightarrow> closure_state \<Rightarrow> closure_state" where
  "visit_target name dependencies dependents st =
     fold (reach_neighbour (''dependent-of:'' @ name)) (sorted_set dependents)
       (fold (reach_neighbour (''dependency-of:'' @ name)) dependencies st)"

text \<open>The nodes the loop can ever enqueue bound it.\<close>

definition closure_universe :: "target_contract dict \<Rightarrow> string list dict \<Rightarrow> string set" where
  "closure_universe targets rev_deps =
     (\<Union>(_, t) \<in> set targets. set (tc_depends_on t)) \<union> (\<Union>(_, ns) \<in> set rev_deps. set ns)"

definition closure_measure :: "target_contract dict \<Rightarrow> string list dict \<Rightarrow> closure_state \<Rightarrow> nat" where
  "closure_measure targets rev_deps st =
     length (cs_queue st) + card (closure_universe targets rev_deps - set (cs_selected st))"

lemma finite_closure_universe: "finite (closure_universe targets rev_deps)"
  by (auto simp: closure_universe_def)

lemma reach_neighbour_measure:
  assumes "name \<in> closure_universe targets rev_deps"
  shows "closure_measure targets rev_deps (reach_neighbour reason name st) = closure_measure targets rev_deps st"
proof (cases "name \<in> set (cs_selected st)")
  case False
  let ?U = "closure_universe targets rev_deps"
  have "?U - insert name (set (cs_selected st)) = (?U - set (cs_selected st)) - {name}" by blast
  moreover have "card (?U - set (cs_selected st)) > 0"
    using False assms finite_closure_universe [of targets rev_deps] by (auto simp: card_gt_0_iff)
  ultimately show ?thesis using False assms finite_closure_universe [of targets rev_deps]
    by (simp add: reach_neighbour_def closure_measure_def Let_def card_Diff_singleton)
qed (simp add: reach_neighbour_def closure_measure_def Let_def)

lemma fold_reach_measure:
  "set names \<subseteq> closure_universe targets rev_deps \<Longrightarrow>
     closure_measure targets rev_deps (fold (reach_neighbour reason) names st) = closure_measure targets rev_deps st"
  by (induction names arbitrary: st) (simp_all add: reach_neighbour_measure)

lemma visit_target_measure:
  assumes "map_of targets name = Some t" "map_of rev_deps name = Some dependents"
  shows "closure_measure targets rev_deps (visit_target name (tc_depends_on t) dependents st)
    = closure_measure targets rev_deps st"
proof -
  have "set (tc_depends_on t) \<subseteq> closure_universe targets rev_deps" "set dependents \<subseteq> closure_universe targets rev_deps"
    using map_of_SomeD [OF assms(1)] map_of_SomeD [OF assms(2)] by (auto simp: closure_universe_def)
  then show ?thesis by (simp add: visit_target_def fold_reach_measure)
qed

function closure_loop ::
  "target_contract dict \<Rightarrow> string list dict \<Rightarrow> closure_state \<Rightarrow> contract_error + closure_state" where
  "closure_loop targets rev_deps st =
     (case cs_queue st of
        [] \<Rightarrow> Inr st
      | name # rest \<Rightarrow>
          (case map_of targets name of
             None \<Rightarrow> Inl (PyKeyError name)
           | Some t \<Rightarrow>
               (case map_of rev_deps name of
                  None \<Rightarrow> Inl (PyKeyError name)
                | Some dependents \<Rightarrow>
                    closure_loop targets rev_deps
                      (visit_target name (tc_depends_on t) dependents (st\<lparr>cs_queue := rest\<rparr>)))))"
  by pat_completeness auto
termination
  by (relation "measure (\<lambda>(targets, rev_deps, st). closure_measure targets rev_deps st)")
    (auto simp: visit_target_measure, simp add: closure_measure_def)

declare closure_loop.simps [simp del]

definition bidirectional_closure ::
  "target_contract dict \<Rightarrow> string list \<Rightarrow> string list dict
     \<Rightarrow> contract_error + string list \<times> string list dict" where
  "bidirectional_closure targets initial reasons =
     bindE (reverse_dependencies targets) (\<lambda>rev_deps.
     bindE (closure_loop targets rev_deps
       \<lparr>cs_selected = initial, cs_queue = sorted_set initial, cs_reasons = reasons\<rparr>) (\<lambda>st.
     Inr (cs_selected st, cs_reasons st)))"

definition bounded_selection_reasons :: "string list \<Rightarrow> string list" where
  "bounded_selection_reasons values =
     (let ordered = sorted_set (if values = [] then [''closure''] else values) in
      if length ordered \<le> max_selection_reasons then ordered
      else (let visible_count = max_selection_reasons - 1 in
        (''additional-reasons:'' @ show_int (int (length ordered) - int visible_count))
          # take visible_count ordered))"

text \<open>\<open>_dependency_waves\<close>.\<close>

definition wave_ready ::
  "target_contract dict \<Rightarrow> string list \<Rightarrow> string list \<Rightarrow> string list \<Rightarrow> contract_error + string list" where
  "wave_ready targets selected completed remaining =
     bindE (mapE (\<lambda>name. bindE (lookup_target targets name) (\<lambda>t.
       Inr (name, set (tc_depends_on t) \<inter> set selected \<subseteq> set completed))) remaining) (\<lambda>flags.
     Inr (sorted_set (map fst (filter snd flags))))"

definition wave_enabled :: "target_contract dict \<Rightarrow> string list \<Rightarrow> string list \<Rightarrow> string \<Rightarrow> bool" where
  "wave_enabled targets selected completed name \<longleftrightarrow>
     set (tc_depends_on (the (map_of targets name))) \<inter> set selected \<subseteq> set completed"

lemma wave_ready_Inr_iff:
  "wave_ready targets selected completed remaining = Inr ready \<longleftrightarrow>
     set remaining \<subseteq> fst ` set targets \<and>
     ready = sorted_set (filter (wave_enabled targets selected completed) remaining)"
proof -
  have "mapE (\<lambda>name. bindE (lookup_target targets name) (\<lambda>t.
       Inr (name, set (tc_depends_on t) \<inter> set selected \<subseteq> set completed))) xs = Inr flags \<longleftrightarrow>
     set xs \<subseteq> fst ` set targets \<and> flags = map (\<lambda>n. (n, wave_enabled targets selected completed n)) xs" for xs flags
  proof (induction xs arbitrary: flags)
    case (Cons x xs)
    show ?case
    proof (cases "map_of targets x")
      case None
      then have "x \<notin> fst ` set targets" by (simp add: map_of_eq_None_iff)
      with None show ?thesis by (simp add: lookup_target_def)
    next
      case (Some t)
      then have "x \<in> fst ` set targets" by (rule map_of_Some_keys)
      with Some Cons.IH show ?thesis by (auto simp: lookup_target_def wave_enabled_def bindE_Inr_iff)
    qed
  qed auto
  then show ?thesis by (auto simp: wave_ready_def bindE_Inr_iff filter_map comp_def)
qed

lemma wave_ready_members:
  "wave_ready targets selected completed remaining = Inr ready \<Longrightarrow> set ready \<subseteq> set remaining"
  by (auto simp: wave_ready_Inr_iff)

function waves_loop ::
  "target_contract dict \<Rightarrow> string list \<Rightarrow> string list \<Rightarrow> string list \<Rightarrow> plan_error + string list list" where
  "waves_loop targets selected completed remaining =
     (if remaining = [] then Inr [] else
      bindE (lift_contract (wave_ready targets selected completed remaining)) (\<lambda>ready.
      if ready = [] then Inl (TestPlanError ''selected target graph contains a dependency cycle'') else
      bindE (waves_loop targets selected (ready @ completed) (filter (\<lambda>n. n \<notin> set ready) remaining)) (\<lambda>waves.
      Inr (ready # waves))))"
  by pat_completeness auto

termination
proof (relation "measure (\<lambda>(targets, selected, completed, remaining). length remaining)", goal_cases)
  case (2 targets selected completed remaining ready)
  then obtain x where "x \<in> set ready" by (cases ready) auto
  moreover from this have "x \<in> set remaining"
    using 2 wave_ready_members [of targets selected completed remaining ready] by (auto simp: result_simps)
  ultimately show ?case by (auto intro: length_filter_less)
qed simp

declare waves_loop.simps [simp del]

definition dependency_waves ::
  "target_contract dict \<Rightarrow> string list \<Rightarrow> plan_error + string list list" where
  "dependency_waves targets selected = waves_loop targets selected [] (sorted_set selected)"

fun matches_any :: "string \<Rightarrow> string list \<Rightarrow> contract_error + bool" where
  "matches_any path [] = Inr False"
| "matches_any path (pattern # patterns) =
     bindE (repository_glob_matches pattern path) (\<lambda>b. if b then Inr True else matches_any path patterns)"

definition protected_build_input_names :: "string list" where
  "protected_build_input_names = [''build'', ''build.bazel'', ''cargo.lock'', ''cargo.toml'',
     ''cmakelists.txt'', ''composer.lock'', ''directory.build.props'', ''directory.build.targets'',
     ''gemfile.lock'', ''global.json'', ''go.mod'', ''go.sum'', ''gradle.properties'', ''makefile'',
     ''meson.build'', ''meson_options.txt'', ''noxfile.py'', ''npm-shrinkwrap.json'', ''package-lock.json'',
     ''package.json'', ''packages.lock.json'', ''pipfile.lock'', ''pnpm-lock.yaml'', ''poetry.lock'',
     ''pom.xml'', ''pyproject.toml'', ''setup.cfg'', ''setup.py'', ''tox.ini'', ''uv.lock'', ''workspace'',
     ''workspace.bazel'', ''yarn.lock'']"

definition protected_global_input :: "string \<Rightarrow> bool" where
  "protected_global_input path =
     (let name = lower (posix_name path) in
      if name \<in> set protected_build_input_names then True
      else if starts_with ''requirements'' name \<and> (ends_with ''.txt'' name \<or> ends_with ''.in'' name) then True
      else if list_ex (\<lambda>suffix. ends_with suffix name) [''.csproj'', ''.fsproj'', ''.vbproj'', ''.sln'', ''.gradle''] then True
      else let lowered = lower path in
        starts_with ''.github/workflows/'' lowered \<or>
        lowered \<in> set [''.gitlab-ci.yml'', ''azure-pipelines.yml'', ''bitbucket-pipelines.yml''])"

section \<open>Plans\<close>

record test_plan =
  tp_plan_id :: string
  tp_fingerprint :: string
  tp_execution_fingerprint :: string
  tp_manifest_fingerprint :: string
  tp_repository_id :: string
  tp_intent :: string
  tp_timeouts :: test_plan_timeouts
  tp_source :: source_identity
  tp_changes :: "changed_path list"
  tp_eligible_targets :: "string list"
  tp_selected_targets :: "string list"
  tp_dependency_waves :: "string list list"
  tp_dependencies :: "string list dict"
  tp_selection :: "string list dict"  \<comment> \<open>\<open>TargetSelection.reasons\<close> by target\<close>
  tp_complete_intent_fallback :: bool
  tp_reusable :: bool
  tp_evidence_policies :: "evidence_policy dict"
  tp_dependency_schema_version :: int

definition plan_policy_document :: "pylib \<Rightarrow> evidence_policy \<Rightarrow> json" where
  "plan_policy_document L p = JObj
     [(''intent'', JStr (ep_intent p)), (''required_targets'', jstrs (ep_required_targets p)),
      (''max_age_seconds'', JInt (ep_max_age_seconds p)), (''allow_reuse'', JBool (ep_allow_reuse p)),
      (''fingerprint'', JStr (evidence_policy_fingerprint L p))]"

definition plan_to_document :: "pylib \<Rightarrow> test_plan \<Rightarrow> json" where
  "plan_to_document L p = JObj (
     [(''plan_id'', JStr (tp_plan_id p)), (''fingerprint'', JStr (tp_fingerprint p)),
      (''execution_fingerprint'', JStr (tp_execution_fingerprint p)),
      (''manifest_fingerprint'', JStr (tp_manifest_fingerprint p)),
      (''repository_id'', JStr (tp_repository_id p)), (''intent'', JStr (tp_intent p)),
      (''timeouts'', timeouts_document (tp_timeouts p)), (''source'', source_document (tp_source p)),
      (''changes'', JArr (map change_document (tp_changes p))),
      (''eligible_targets'', jstrs (tp_eligible_targets p)),
      (''selected_targets'', jstrs (tp_selected_targets p)),
      (''dependency_waves'', JArr (map jstrs (tp_dependency_waves p))),
      (''selection'', jdict jstrs (tp_selection p)),
      (''complete_intent_fallback'', JBool (tp_complete_intent_fallback p)),
      (''reusable'', JBool (tp_reusable p)),
      (''evidence_policies'', jdict (plan_policy_document L) (tp_evidence_policies p))]
     @ (if 3 \<le> tp_dependency_schema_version p
        then [(''dependencies'', jdict jstrs (tp_dependencies p))] else []))"

definition selection_document ::
  "test_manifest \<Rightarrow> string \<Rightarrow> test_plan_timeouts \<Rightarrow> source_identity \<Rightarrow> changed_path list \<Rightarrow> string list
     \<Rightarrow> string list \<Rightarrow> string list list \<Rightarrow> string list dict \<Rightarrow> string list dict \<Rightarrow> bool \<Rightarrow> bool \<Rightarrow> json" where
  "selection_document manifest intent timeouts source changes eligible selected waves dependencies reasons
       fallback reusable = JObj
     [(''schema_version'', JInt 3), (''manifest_fingerprint'', JStr (tm_fingerprint manifest)),
      (''repository_id'', JStr (si_repository_id source)), (''intent'', JStr intent),
      (''timeouts'', timeouts_document timeouts), (''source'', source_document source),
      (''changes'', JArr (map change_document changes)), (''eligible_targets'', jstrs eligible),
      (''selected_targets'', jstrs selected), (''dependency_waves'', JArr (map jstrs waves)),
      (''dependencies'', jdict jstrs dependencies), (''selection'', jdict jstrs reasons),
      (''complete_intent_fallback'', JBool fallback), (''reusable'', JBool reusable)]"

definition execution_document ::
  "test_manifest \<Rightarrow> string \<Rightarrow> test_plan_timeouts \<Rightarrow> source_identity \<Rightarrow> string list \<Rightarrow> string list
     \<Rightarrow> string list list \<Rightarrow> string list dict \<Rightarrow> json" where
  "execution_document manifest intent timeouts source eligible selected waves dependencies = JObj
     [(''schema_version'', JInt 3), (''manifest_fingerprint'', JStr (tm_fingerprint manifest)),
      (''repository_id'', JStr (si_repository_id source)),
      (''source_mode'', JStr (source_mode_value (si_mode source))),
      (''content_fingerprint'', JStr (si_content_fingerprint source)), (''intent'', JStr intent),
      (''timeouts'', timeouts_document timeouts), (''eligible_targets'', jstrs eligible),
      (''selected_targets'', jstrs selected), (''dependency_waves'', JArr (map jstrs waves)),
      (''dependencies'', jdict jstrs dependencies)]"

text \<open>The two ways \<open>create_test_plan\<close> fills \<open>initial\<close> and \<open>reasons\<close>.\<close>

fun filterE :: "('a \<Rightarrow> 'e + bool) \<Rightarrow> 'a list \<Rightarrow> 'e + 'a list" where
  "filterE p [] = Inr []"
| "filterE p (x # xs) =
     bindE (p x) (\<lambda>b. bindE (filterE p xs) (\<lambda>ys. Inr (if b then x # ys else ys)))"

definition matching_targets ::
  "target_contract dict \<Rightarrow> string list \<Rightarrow> string \<Rightarrow> contract_error + string list" where
  "matching_targets targets eligible path =
     bindE (filterE (\<lambda>(_, t). if tc_name t \<in> set eligible then matches_any path (tc_inputs t) else Inr False) targets)
       (\<lambda>ts. Inr (map (\<lambda>(_, t). tc_name t) ts))"

record live_selection =
  ls_initial :: "string list"
  ls_reasons :: "string list dict"
  ls_unmatched :: "string list"
  ls_global :: "string list"
  ls_protected :: "string list"

definition add_reasons :: "string list \<Rightarrow> string \<Rightarrow> string list dict \<Rightarrow> string list dict" where
  "add_reasons names reason = fold (\<lambda>n. add_reason n reason) names"

definition classify_path ::
  "test_manifest \<Rightarrow> string list \<Rightarrow> string \<Rightarrow> live_selection \<Rightarrow> contract_error + live_selection" where
  "classify_path manifest eligible path st =
     (if protected_global_input path then Inr (st\<lparr>ls_protected := ls_protected st @ [path]\<rparr>) else
      bindE (matches_any path (tm_global_inputs manifest)) (\<lambda>g.
      if g then Inr (st\<lparr>ls_global := ls_global st @ [path]\<rparr>) else
      bindE (matching_targets (tm_targets manifest) eligible path) (\<lambda>names.
      if names \<noteq> [] then Inr (st\<lparr>ls_initial := ls_initial st @ names,
          ls_reasons := add_reasons names (''input:'' @ path) (ls_reasons st)\<rparr>)
      else Inr (st\<lparr>ls_unmatched := ls_unmatched st @ [path]\<rparr>))))"

definition live_paths :: "changed_path list \<Rightarrow> string list" where
  "live_paths changes = concat (map affected_paths changes)"

definition fallback_reason :: "live_selection \<Rightarrow> string" where
  "fallback_reason st =
     (if ls_protected st \<noteq> [] then ''protected-input:'' @ hd (ls_protected st)
      else if ls_global st \<noteq> [] then ''global-input:'' @ hd (ls_global st)
      else ''unmapped-input:'' @ hd (ls_unmatched st))"

definition select_live ::
  "test_manifest \<Rightarrow> string list \<Rightarrow> string list \<Rightarrow> changed_path list \<Rightarrow> string list
     \<Rightarrow> contract_error + string list \<times> string list dict \<times> bool" where
  "select_live manifest eligible intent_targets changes requested =
     bindE (foldE (classify_path manifest eligible) (live_paths changes)
       \<lparr>ls_initial = [], ls_reasons = [], ls_unmatched = [], ls_global = [], ls_protected = []\<rparr>) (\<lambda>st.
     let fallback = (ls_protected st \<noteq> [] \<or> ls_global st \<noteq> [] \<or> ls_unmatched st \<noteq> []);
         initial = (if fallback then ls_initial st @ intent_targets else ls_initial st);
         reasons = (if fallback then add_reasons intent_targets (fallback_reason st) (ls_reasons st)
                    else ls_reasons st)
     in Inr (initial @ requested, add_reasons requested ''requested'' reasons, fallback))"

definition select_immutable ::
  "string \<Rightarrow> string list \<Rightarrow> string list \<Rightarrow> string list \<times> string list dict \<times> bool" where
  "select_immutable intent intent_targets requested =
     (let by_request = (intent = ''manual'' \<and> requested \<noteq> []);
          immutable_base = (if by_request then requested else intent_targets)
      in (immutable_base, add_reasons immutable_base
            (if by_request then ''requested'' else ''required-by-intent:'' @ intent) [], False))"

definition intent_target_names :: "test_manifest \<Rightarrow> string \<Rightarrow> string list" where
  "intent_target_names manifest intent =
     map (\<lambda>(_, t). tc_name t) (filter (\<lambda>(_, t). intent \<in> set (tc_intents t)) (tm_targets manifest))"

definition plan_request_guards ::
  "test_manifest \<Rightarrow> string \<Rightarrow> intent_contract \<Rightarrow> source_identity \<Rightarrow> changed_path list \<Rightarrow> string list
     \<Rightarrow> plan_error + unit" where
  "plan_request_guards manifest intent intent_contract source changes requested =
     (let captured = (si_mode source = IMMUTABLE \<and> ic_source_mode intent_contract = LIVE);
          unknown = filter (\<lambda>n. n \<notin> set (keys (tm_targets manifest))) requested in
      bindE (ensure (\<not> (si_mode source \<noteq> ic_source_mode intent_contract \<and> \<not> captured))
        (TestPlanError (''intent '' @ repr_str intent @ '' requires ''
          @ source_mode_value (ic_source_mode intent_contract) @ '' source mode''))) (\<lambda>_.
      bindE (ensure (unknown = [])
        (TestPlanError (''unknown requested target(s): '' @ join '', '' unknown))) (\<lambda>_.
      bindE (ensure (\<not> (requested \<noteq> [] \<and> intent \<noteq> ''manual''))
        (TestPlanError ''explicit target selection is allowed only for manual intent'')) (\<lambda>_.
      ensure (\<not> (changes \<noteq> [] \<and> \<not> captured \<and> si_mode source = IMMUTABLE))
        (TestPlanError ''immutable intent plans do not accept live change paths'')))))"

definition create_test_plan ::
  "pylib \<Rightarrow> test_manifest \<Rightarrow> string \<Rightarrow> source_identity \<Rightarrow> changed_path list \<Rightarrow> string list \<Rightarrow> json \<Rightarrow> json
     \<Rightarrow> plan_error + test_plan" where
  "create_test_plan L manifest intent source changes requested_targets execution_timeout launch_timeout =
     bindE (new_timeouts execution_timeout launch_timeout) (\<lambda>timeouts.
     case map_of (tm_intents manifest) intent of
       None \<Rightarrow> Inl (TestPlanError (''manifest does not declare intent '' @ repr_str intent))
     | Some intent_contract \<Rightarrow>
     let captured = (si_mode source = IMMUTABLE \<and> ic_source_mode intent_contract = LIVE);
         changes' = normalized_changes changes;
         requested = sorted_set requested_targets;
         targets = tm_targets manifest;
         intent_targets = intent_target_names manifest intent in
     bindE (plan_request_guards manifest intent intent_contract source changes' requested) (\<lambda>_.
     bindE (ensure (intent_targets \<noteq> [])
       (TestPlanError (''intent '' @ repr_str intent @ '' has no required targets''))) (\<lambda>_.
     bindE (lift_contract (bidirectional_closure targets
       (if intent = ''manual'' then keys targets else intent_targets) [])) (\<lambda>(eligible_set, _).
     let eligible = sorted_set eligible_set in
     bindE (if si_mode source = IMMUTABLE \<and> \<not> captured
            then Inr (select_immutable intent intent_targets requested)
            else lift_contract (select_live manifest eligible intent_targets changes' requested))
       (\<lambda>(initial, reasons, fallback).
     bindE (lift_contract (bidirectional_closure targets initial reasons)) (\<lambda>(selected_set, reasons').
     let selected = sorted_set selected_set in
     bindE (if selected_set \<noteq> [] then dependency_waves targets selected else Inr []) (\<lambda>waves.
     bindE (lift_contract (mapE (\<lambda>name. bindE (lookup_target targets name) (\<lambda>t.
         Inr (name, sort (tc_depends_on t)))) selected)) (\<lambda>dependencies.
     let selection = map (\<lambda>name. (name, bounded_selection_reasons
           (case map_of reasons' name of None \<Rightarrow> [''closure''] | Some rs \<Rightarrow> rs))) selected;
         reusable = (ic_allow_reuse intent_contract \<and> si_mode source = IMMUTABLE);
         fingerprint = deterministic_fingerprint L (selection_document manifest intent timeouts source
           changes' eligible selected waves dependencies selection fallback reusable) in
     Inr \<lparr>tp_plan_id = ''plan-'' @ take 32 fingerprint, tp_fingerprint = fingerprint,
       tp_execution_fingerprint = deterministic_fingerprint L
         (execution_document manifest intent timeouts source eligible selected waves dependencies),
       tp_manifest_fingerprint = tm_fingerprint manifest, tp_repository_id = si_repository_id source,
       tp_intent = intent, tp_timeouts = timeouts, tp_source = source, tp_changes = changes',
       tp_eligible_targets = eligible, tp_selected_targets = selected, tp_dependency_waves = waves,
       tp_dependencies = dependencies, tp_selection = selection, tp_complete_intent_fallback = fallback,
       tp_reusable = reusable,
       tp_evidence_policies = filter (\<lambda>(_, p). ep_intent p = intent)
         (sort_key fst (tm_evidence_policies manifest)),
       tp_dependency_schema_version = 3\<rparr>))))))))"

end
