(* ===== verification/Planner_Laws.thy ===== *)
theory Planner_Laws
  imports Planner
begin

text \<open>
  What the planner guarantees on a manifest that satisfies its graph contract: the worklist of
  \<open>_bidirectional_closure\<close> computes reachability in both directions, \<open>_dependency_waves\<close> layers
  the selection so that prerequisites come first, and \<open>create_test_plan\<close> never drops a change.
\<close>

section \<open>The graph contract as an interface\<close>

definition dep_neighbours :: "target_contract dict \<Rightarrow> (string \<times> string) set" where
  "dep_neighbours targets = dep_rel targets \<union> (dep_rel targets)\<inverse>"

text \<open>A provider of targets promises canonical, closed and acyclic targets; the planner relies on
  nothing else.\<close>

locale target_provider =
  fixes provides :: "target_contract dict \<Rightarrow> bool"
  assumes canonical: "provides targets \<Longrightarrow> canonical_dict tc_name targets"
    and closed: "provides targets \<Longrightarrow> deps_closed targets"
    and acyc: "provides targets \<Longrightarrow> acyclic (dep_rel targets)"
begin

lemma name_key: "provides targets \<Longrightarrow> (n, t) \<in> set targets \<Longrightarrow> tc_name t = n"
  using canonical by (fastforce simp: canonical_dict_def)

lemma lookup: "provides targets \<Longrightarrow> map_of targets n = Some t \<longleftrightarrow> (n, t) \<in> set targets"
  by (rule canonical_dict_map_of [OF canonical])

lemma neighbours_keys: "provides targets \<Longrightarrow> (a, b) \<in> dep_neighbours targets \<Longrightarrow> b \<in> fst ` set targets"
  using dep_rel_closed [OF closed] dep_rel_source by (auto simp: dep_neighbours_def)

end

section \<open>Reverse dependencies\<close>

definition dependents_in :: "string list dict \<Rightarrow> string \<Rightarrow> string set" where
  "dependents_in rd n = (case map_of rd n of None \<Rightarrow> {} | Some ns \<Rightarrow> set ns)"

lemma reverse_edges:
  assumes "set ds \<subseteq> fst ` set rd"
  shows "\<exists>rd'. foldE (reverse_edge a) ds rd = Inr rd' \<and> fst ` set rd' = fst ` set rd \<and>
    (\<forall>n. dependents_in rd' n = dependents_in rd n \<union> (if n \<in> set ds then {a} else {}))"
  using assms
proof (induction ds arbitrary: rd)
  case (Cons d ds)
  then obtain ns where ns: "map_of rd d = Some ns" using in_keys_map_of [of d rd] by auto
  let ?rd = "dict_put d (List.insert a ns) rd"
  have keys: "fst ` set ?rd = fst ` set rd" using Cons.prems by auto
  have step: "dependents_in ?rd n = dependents_in rd n \<union> (if n = d then {a} else {})" for n
    using ns by (auto simp: dependents_in_def)
  have "set ds \<subseteq> fst ` set ?rd" using Cons.prems unfolding keys by simp
  from Cons.IH [OF this] obtain rd' where "foldE (reverse_edge a) ds ?rd = Inr rd'"
    "fst ` set rd' = fst ` set rd"
    "\<forall>n. dependents_in rd' n = dependents_in ?rd n \<union> (if n \<in> set ds then {a} else {})"
    unfolding keys by blast
  moreover have "reverse_edge a d rd = Inr ?rd" by (simp add: reverse_edge_def ns)
  ultimately show ?case by (auto simp: step)
qed simp

lemma reverse_targets:
  assumes "\<forall>(n, t) \<in> set ts. tc_name t = n \<and> set (tc_depends_on t) \<subseteq> fst ` set rd"
  shows "\<exists>rd'. foldE (\<lambda>(_, t). foldE (reverse_edge (tc_name t)) (tc_depends_on t)) ts rd = Inr rd' \<and>
    fst ` set rd' = fst ` set rd \<and>
    (\<forall>n. dependents_in rd' n = dependents_in rd n \<union> {a. \<exists>t. (a, t) \<in> set ts \<and> n \<in> set (tc_depends_on t)})"
  using assms
proof (induction ts arbitrary: rd)
  case (Cons p ts)
  obtain a t where p: "p = (a, t)" by (cases p)
  obtain rd1 where rd1: "foldE (reverse_edge (tc_name t)) (tc_depends_on t) rd = Inr rd1"
    "fst ` set rd1 = fst ` set rd"
    "\<And>n. dependents_in rd1 n = dependents_in rd n \<union> (if n \<in> set (tc_depends_on t) then {tc_name t} else {})"
    using reverse_edges [of "tc_depends_on t" rd "tc_name t"] Cons.prems p by auto
  obtain rd2 where rd2: "foldE (\<lambda>(_, t). foldE (reverse_edge (tc_name t)) (tc_depends_on t)) ts rd1 = Inr rd2"
    "fst ` set rd2 = fst ` set rd1"
    "\<And>n. dependents_in rd2 n = dependents_in rd1 n \<union> {a. \<exists>t. (a, t) \<in> set ts \<and> n \<in> set (tc_depends_on t)}"
    using Cons.IH [of rd1] Cons.prems rd1(2) by auto
  have "tc_name t = a" using Cons.prems p by auto
  with rd1 rd2 show ?case unfolding p by (intro exI [of _ rd2]) auto
qed simp

context target_provider
begin

lemma reverse_dependencies_exact:
  assumes P: "provides targets"
  shows "\<exists>rd. reverse_dependencies targets = Inr rd \<and> fst ` set rd = fst ` set targets \<and>
     (\<forall>n. dependents_in rd n = (dep_rel targets)\<inverse> `` {n})"
proof -
  let ?rd = "map (\<lambda>(n, _). (n, [])) targets :: string list dict"
  have keys: "fst ` set ?rd = fst ` set targets" by force
  have none: "dependents_in ?rd n = {}" for n
    by (auto simp: dependents_in_def dest!: map_of_SomeD split: option.splits)
  have "\<forall>(n, t) \<in> set targets. tc_name t = n \<and> set (tc_depends_on t) \<subseteq> fst ` set ?rd"
    using closed [OF P] name_key [OF P] unfolding keys by (auto simp: deps_closed_def)
  from reverse_targets [OF this] obtain rd where rd: "reverse_dependencies targets = Inr rd"
    "fst ` set rd = fst ` set targets"
    "\<And>n. dependents_in rd n = {a. \<exists>t. (a, t) \<in> set targets \<and> n \<in> set (tc_depends_on t)}"
    unfolding reverse_dependencies_def keys none by auto
  then show ?thesis by (auto simp: dep_rel_def lookup [OF P])
qed

end

section \<open>The worklist\<close>

definition reach_names :: "string list \<Rightarrow> closure_state \<Rightarrow> closure_state \<Rightarrow> bool" where
  "reach_names names st st' \<longleftrightarrow> set (cs_selected st') = set (cs_selected st) \<union> set names \<and>
     set (cs_queue st') = set (cs_queue st) \<union> (set names - set (cs_selected st))"

lemma fold_reach: "reach_names names st (fold (reach_neighbour reason) names st)"
proof (induction names arbitrary: st)
  case (Cons n names)
  show ?case using Cons [of "reach_neighbour reason n st"]
    by (auto simp: reach_names_def reach_neighbour_def Let_def split: if_splits)
qed (simp add: reach_names_def)

lemma visit_target_reach: "reach_names (dependencies @ dependents) st (visit_target name dependencies dependents st)"
  using fold_reach [of dependencies st "''dependency-of:'' @ name"]
    fold_reach [of "sorted_set dependents" "fold (reach_neighbour (''dependency-of:'' @ name)) dependencies st" "''dependent-of:'' @ name"]
  by (auto simp: reach_names_def visit_target_def)

definition worklist_ok :: "target_contract dict \<Rightarrow> string set \<Rightarrow> closure_state \<Rightarrow> bool" where
  "worklist_ok targets initial st \<longleftrightarrow> initial \<subseteq> set (cs_selected st) \<and> set (cs_selected st) \<subseteq> (dep_neighbours targets)\<^sup>* `` initial \<and>
     set (cs_selected st) \<subseteq> fst ` set targets \<and> set (cs_queue st) \<subseteq> set (cs_selected st) \<and>
     (dep_neighbours targets) `` (set (cs_selected st) - set (cs_queue st)) \<subseteq> set (cs_selected st)"

context target_provider
begin

lemma worklist_step:
  assumes P: "provides targets" and ok: "worklist_ok targets initial st" and q: "cs_queue st = n # rest"
    and t: "map_of targets n = Some t" and d: "set ds = (dep_rel targets)\<inverse> `` {n}"
  shows "worklist_ok targets initial (visit_target n (tc_depends_on t) ds (st\<lparr>cs_queue := rest\<rparr>))"
proof -
  let ?st = "visit_target n (tc_depends_on t) ds (st\<lparr>cs_queue := rest\<rparr>)"
  have "dep_rel targets `` {n} = set (tc_depends_on t)" using dep_rel_iff [OF t] by blast
  with d have new: "set (tc_depends_on t @ ds) = (dep_neighbours targets) `` {n}"
    by (simp add: dep_neighbours_def Un_Image)
  have sel: "set (cs_selected ?st) = set (cs_selected st) \<union> (dep_neighbours targets) `` {n}"
    and que: "set (cs_queue ?st) = set rest \<union> ((dep_neighbours targets) `` {n} - set (cs_selected st))"
    using visit_target_reach [of "tc_depends_on t" ds "st\<lparr>cs_queue := rest\<rparr>" n]
    unfolding reach_names_def new by simp_all
  have n: "n \<in> set (cs_selected st)" "n \<in> (dep_neighbours targets)\<^sup>* `` initial" "n \<in> fst ` set targets"
    using ok q by (auto simp: worklist_ok_def)
  have "(dep_neighbours targets) `` {n} \<subseteq> (dep_neighbours targets)\<^sup>* `` initial" using n(2) by (auto intro: rtrancl_into_rtrancl)
  moreover have "(dep_neighbours targets) `` {n} \<subseteq> fst ` set targets" using neighbours_keys [OF P] by blast
  moreover have "(dep_neighbours targets) `` (set (cs_selected ?st) - set (cs_queue ?st)) \<subseteq> set (cs_selected ?st)"
  proof
    fix y assume "y \<in> (dep_neighbours targets) `` (set (cs_selected ?st) - set (cs_queue ?st))"
    then obtain x where x: "(x, y) \<in> (dep_neighbours targets)" "x \<in> set (cs_selected st)" "x \<notin> set rest"
      unfolding sel que by blast
    show "y \<in> set (cs_selected ?st)"
    proof (cases "x = n")
      case True
      then show ?thesis using x unfolding sel by blast
    next
      case False
      then have "x \<in> set (cs_selected st) - set (cs_queue st)" using x q by simp
      then show ?thesis using ok x unfolding sel worklist_ok_def by blast
    qed
  qed
  ultimately show ?thesis using ok q n unfolding worklist_ok_def sel que by auto
qed

lemma closure_loop_exact:
  assumes P: "provides targets"
    and rd: "fst ` set rd = fst ` set targets" "\<And>n. dependents_in rd n = (dep_rel targets)\<inverse> `` {n}"
    and "worklist_ok targets initial st"
  shows "\<exists>st'. closure_loop targets rd st = Inr st' \<and> worklist_ok targets initial st' \<and> cs_queue st' = []"
  using assms(4)
proof (induction "closure_measure targets rd st" arbitrary: st rule: less_induct)
  case less
  show ?case
  proof (cases "cs_queue st")
    case Nil
    then show ?thesis using less.prems by (auto simp: closure_loop.simps)
  next
    case (Cons n rest)
    then have "n \<in> fst ` set targets" using less.prems by (auto simp: worklist_ok_def)
    then obtain t ds where t: "map_of targets n = Some t" and ds: "map_of rd n = Some ds"
      using rd(1) by (metis in_keys_map_of)
    let ?st = "visit_target n (tc_depends_on t) ds (st\<lparr>cs_queue := rest\<rparr>)"
    have "set ds = (dep_rel targets)\<inverse> `` {n}" using rd(2) [of n] ds by (simp add: dependents_in_def)
    then have ok: "worklist_ok targets initial ?st" using P less.prems Cons t by (intro worklist_step)
    have "closure_measure targets rd ?st < closure_measure targets rd st"
      using Cons by (simp add: visit_target_measure [OF t ds]) (simp add: closure_measure_def)
    from less.hyps [OF this ok] Cons t ds show ?thesis by (subst closure_loop.simps) simp
  qed
qed

lemma bidirectional_closure_exact:
  assumes P: "provides targets" and "set initial \<subseteq> fst ` set targets"
  shows "\<exists>selected reasons'. bidirectional_closure targets initial reasons = Inr (selected, reasons') \<and>
    set selected = (dep_neighbours targets)\<^sup>* `` set initial \<and> set selected \<subseteq> fst ` set targets"
proof -
  obtain rd where rd: "reverse_dependencies targets = Inr rd" "fst ` set rd = fst ` set targets"
    "\<And>n. dependents_in rd n = (dep_rel targets)\<inverse> `` {n}"
    using reverse_dependencies_exact [OF P] by blast
  let ?st = "\<lparr>cs_selected = initial, cs_queue = sorted_set initial, cs_reasons = reasons\<rparr>"
  have "worklist_ok targets (set initial) ?st" using assms(2) by (auto simp: worklist_ok_def)
  from closure_loop_exact [OF P rd(2,3) this] obtain st where st: "closure_loop targets rd ?st = Inr st"
    "worklist_ok targets (set initial) st" "cs_queue st = []" by blast
  have closed: "(dep_neighbours targets) `` set (cs_selected st) \<subseteq> set (cs_selected st)"
    and init: "set initial \<subseteq> set (cs_selected st)"
    and upper: "set (cs_selected st) \<subseteq> (dep_neighbours targets)\<^sup>* `` set initial" "set (cs_selected st) \<subseteq> fst ` set targets"
    using st by (auto simp: worklist_ok_def)
  have "(dep_neighbours targets)\<^sup>* `` set initial \<subseteq> set (cs_selected st)"
    using Image_closed_trancl [OF closed] init by blast
  with upper rd(1) st(1) show ?thesis by (auto simp: bidirectional_closure_def)
qed

end

section \<open>Dependency waves\<close>

text \<open>\<open>waves_from R selected done rest ws\<close>: the waves partition \<open>rest\<close>; the selected
  prerequisites of a target are done or in an earlier wave; and a target waits for the next wave
  only because one of its prerequisites is in the wave just before.\<close>

definition waves_from ::
  "(string \<times> string) set \<Rightarrow> string set \<Rightarrow> string set \<Rightarrow> string set \<Rightarrow> string list list \<Rightarrow> bool" where
  "waves_from R selected done_set rest ws \<longleftrightarrow>
     distinct (concat ws) \<and> set (concat ws) = rest \<and> (\<forall>w \<in> set ws. w \<noteq> [] \<and> sorted w) \<and>
     (\<forall>i < length ws. \<forall>n \<in> set (ws ! i). R `` {n} \<inter> selected \<subseteq> done_set \<union> set (concat (take i ws))) \<and>
     (\<forall>i. Suc i < length ws \<longrightarrow> (\<forall>n \<in> set (ws ! Suc i). \<exists>d \<in> set (ws ! i). (n, d) \<in> R))"

lemma waves_from_Nil: "waves_from R selected done_set {} []"
  by (simp add: waves_from_def)

lemma waves_from_Cons:
  assumes ws: "waves_from R selected (set w \<union> done_set) (rest - set w) ws"
    and w: "w \<noteq> []" "sorted w" "distinct w" "set w \<subseteq> rest"
    and ready: "\<forall>n \<in> rest. n \<in> set w \<longleftrightarrow> R `` {n} \<inter> selected \<subseteq> done_set"
  shows "waves_from R selected done_set rest (w # ws)"
proof -
  let ?D = "\<lambda>i. done_set \<union> set (concat (take i (w # ws)))"
  have part: "distinct (concat (w # ws))" "set (concat (w # ws)) = rest" "\<forall>v \<in> set (w # ws). v \<noteq> [] \<and> sorted v"
    using ws w by (auto simp: waves_from_def)
  have before: "R `` {n} \<inter> selected \<subseteq> ?D i" if "i < length (w # ws)" "n \<in> set ((w # ws) ! i)" for i n
  proof (cases i)
    case 0
    with that w ready show ?thesis by auto
  next
    case (Suc j)
    with that have "R `` {n} \<inter> selected \<subseteq> (set w \<union> done_set) \<union> set (concat (take j ws))"
      using ws by (simp add: waves_from_def)
    with Suc show ?thesis by auto
  qed
  have greedy: "\<exists>d \<in> set ((w # ws) ! i). (n, d) \<in> R" if "Suc i < length (w # ws)" "n \<in> set (ws ! i)" for i n
  proof (cases i)
    case 0
    have n: "n \<in> rest" "n \<notin> set w" using that ws unfolding waves_from_def by (auto dest: nth_mem)
    have "R `` {n} \<inter> selected \<subseteq> set w \<union> done_set" using before [of 1 n] that 0 by auto
    moreover have "\<not> R `` {n} \<inter> selected \<subseteq> done_set" using ready n by blast
    ultimately show ?thesis using 0 by auto
  next
    case (Suc j)
    with that ws show ?thesis by (simp add: waves_from_def)
  qed
  show ?thesis unfolding waves_from_def
    using part before greedy by (intro conjI allI impI ballI) (simp_all only: nth_Cons_Suc, simp_all)
qed

context target_provider
begin

lemma some_enabled:
  assumes P: "provides targets" and rem: "set remaining \<subseteq> fst ` set targets" "remaining \<noteq> []"
    and sel: "set selected \<subseteq> set completed \<union> set remaining"
  shows "\<exists>n \<in> set remaining. wave_enabled targets selected completed n"
proof -
  have "wf ((dep_rel targets)\<inverse>)" by (rule finite_acyclic_wf_converse [OF finite_dep_rel acyc [OF P]])
  moreover obtain x where "x \<in> set remaining" using rem(2) by (cases remaining) auto
  ultimately obtain n where n: "n \<in> set remaining" "\<And>d. (n, d) \<in> dep_rel targets \<Longrightarrow> d \<notin> set remaining"
    by (metis converse_iff wfE_min)
  then obtain t where t: "map_of targets n = Some t" using rem(1) by (metis in_keys_map_of subsetD)
  show ?thesis using n sel by (intro bexI [of _ n]) (auto simp: wave_enabled_def t dep_rel_iff [OF t])
qed

lemma wave_enabled_iff:
  assumes "n \<in> fst ` set targets"
  shows "wave_enabled targets selected completed n \<longleftrightarrow> dep_rel targets `` {n} \<inter> set selected \<subseteq> set completed"
proof -
  obtain t where t: "map_of targets n = Some t" using assms by (metis in_keys_map_of)
  then have "dep_rel targets `` {n} = set (tc_depends_on t)" using dep_rel_iff [OF t] by blast
  then show ?thesis by (simp add: wave_enabled_def t)
qed

lemma waves_loop_exact:
  assumes P: "provides targets" and "set remaining \<subseteq> fst ` set targets"
    and "set selected \<subseteq> set completed \<union> set remaining"
  shows "\<exists>ws. waves_loop targets selected completed remaining = Inr ws \<and>
    waves_from (dep_rel targets) (set selected) (set completed) (set remaining) ws"
  using assms(2,3)
proof (induction "length remaining" arbitrary: completed remaining rule: less_induct)
  case less
  show ?case
  proof (cases "remaining = []")
    case True
    then show ?thesis by (simp add: waves_loop.simps waves_from_Nil)
  next
    case False
    define ready where "ready = sorted_set (filter (wave_enabled targets selected completed) remaining)"
    have r: "wave_ready targets selected completed remaining = Inr ready"
      using less.prems(1) by (simp add: wave_ready_Inr_iff ready_def)
    have ne: "ready \<noteq> []"
      using some_enabled [OF P less.prems(1) False less.prems(2)] by (auto simp: ready_def filter_empty_conv)
    then obtain x where x: "x \<in> set ready" by (cases ready) auto
    let ?rest = "filter (\<lambda>n. n \<notin> set ready) remaining"
    have shorter: "length ?rest < length remaining"
      using x by (intro length_filter_less [of x]) (auto simp: ready_def)
    have "\<exists>ws. waves_loop targets selected (ready @ completed) ?rest = Inr ws \<and>
        waves_from (dep_rel targets) (set selected) (set (ready @ completed)) (set ?rest) ws"
      using less.prems by (intro less.hyps [OF shorter]) auto
    then obtain ws where ws: "waves_loop targets selected (ready @ completed) ?rest = Inr ws"
      "waves_from (dep_rel targets) (set selected) (set ready \<union> set completed) (set remaining - set ready) ws"
      by (auto simp: set_diff_eq)
    have "\<forall>n \<in> set remaining. n \<in> set ready \<longleftrightarrow> dep_rel targets `` {n} \<inter> set selected \<subseteq> set completed"
      using less.prems(1) wave_enabled_iff [of _ targets selected completed] by (auto simp only: ready_def
        set_sorted_set set_filter mem_Collect_eq subset_iff [of "set remaining"])
    then have "waves_from (dep_rel targets) (set selected) (set completed) (set remaining) (ready # ws)"
      using ws(2) ne by (intro waves_from_Cons) (simp_all, auto simp: ready_def)
    with ws(1) r False ne show ?thesis
      by (subst waves_loop.simps) (simp add: lift_contract_def)
  qed
qed

lemma dependency_waves_exact:
  assumes "provides targets" and "set selected \<subseteq> fst ` set targets"
  shows "\<exists>ws. dependency_waves targets selected = Inr ws \<and>
    waves_from (dep_rel targets) (set selected) {} (set selected) ws"
  using waves_loop_exact [OF assms(1), of "sorted_set selected" selected "[]"] assms(2)
  by (simp add: dependency_waves_def)

end

section \<open>The parser provides the graph\<close>

definition parsed_targets :: "target_contract dict \<Rightarrow> bool" where
  "parsed_targets ts \<longleftrightarrow> (\<exists>L rr doc m. parse_test_manifest L rr doc = Inr m \<and> ts = tm_targets m)"

lemma parsed_targetsI: "parse_test_manifest L rr doc = Inr m \<Longrightarrow> parsed_targets (tm_targets m)"
  by (auto simp: parsed_targets_def)

interpretation parsed: target_provider parsed_targets
  by unfold_locales (auto simp: parsed_targets_def manifest_ok_def dest!: parse_test_manifest_ok)

section \<open>Classification of changed paths\<close>

definition glob_hits :: "string \<Rightarrow> string \<Rightarrow> bool" where
  "glob_hits path pattern \<longleftrightarrow> glob_spec (split_on (CHR ''/'') pattern) (split_on (CHR ''/'') path)"

lemma repository_glob_matches_valid:
  "repository_path True pattern \<Longrightarrow> repository_path False path \<Longrightarrow>
     repository_glob_matches pattern path = Inr (glob_hits path pattern)"
  by (simp add: glob_matches_iff glob_hits_def)

lemma matches_any_valid:
  assumes "repository_path False path" "\<forall>p \<in> set patterns. repository_path True p"
  shows "matches_any path patterns = Inr (list_ex (glob_hits path) patterns)"
  using assms(2)
proof (induction patterns)
  case (Cons p ps)
  then show ?case using repository_glob_matches_valid [OF _ assms(1), of p] by simp
qed simp

lemma filterE_valid: "(\<And>x. x \<in> set xs \<Longrightarrow> p x = Inr (q x)) \<Longrightarrow> filterE p xs = Inr (filter q xs)"
  by (induction xs) auto

definition input_hits :: "test_manifest \<Rightarrow> string list \<Rightarrow> string \<Rightarrow> string list" where
  "input_hits m eligible path = map fst (filter (\<lambda>(n, t). n \<in> set eligible \<and> list_ex (glob_hits path) (tc_inputs t))
     (tm_targets m))"

definition global_hit :: "test_manifest \<Rightarrow> string \<Rightarrow> bool" where
  "global_hit m path \<longleftrightarrow> list_ex (glob_hits path) (tm_global_inputs m)"

lemma manifest_inputs_valid:
  "manifest_ok m \<Longrightarrow> (n, t) \<in> set (tm_targets m) \<Longrightarrow> tc_name t = n \<and> (\<forall>i \<in> set (tc_inputs t). repository_path True i)"
  by (fastforce simp: manifest_ok_def canonical_dict_def target_ok_def head_ok_def)

lemma matching_targets_valid:
  assumes m: "manifest_ok m" and path: "repository_path False path"
  shows "matching_targets (tm_targets m) eligible path = Inr (input_hits m eligible path)"
proof -
  have "filterE (\<lambda>(_, t). if tc_name t \<in> set eligible then matches_any path (tc_inputs t) else Inr False) (tm_targets m)
      = Inr (filter (\<lambda>(n, t). n \<in> set eligible \<and> list_ex (glob_hits path) (tc_inputs t)) (tm_targets m))"
    using manifest_inputs_valid [OF m] by (intro filterE_valid) (auto simp: matches_any_valid [OF path])
  moreover have "map (\<lambda>(_, t). tc_name t) (filter q (tm_targets m)) = map fst (filter q (tm_targets m))" for q
    by (rule map_cong) (auto dest: manifest_inputs_valid [OF m])
  ultimately show ?thesis by (simp add: matching_targets_def input_hits_def)
qed

lemma classify_path_valid:
  assumes m: "manifest_ok m" and path: "repository_path False path"
  shows "classify_path m eligible path st = Inr (
    if protected_global_input path then st\<lparr>ls_protected := ls_protected st @ [path]\<rparr>
    else if global_hit m path then st\<lparr>ls_global := ls_global st @ [path]\<rparr>
    else if input_hits m eligible path \<noteq> [] then st\<lparr>ls_initial := ls_initial st @ input_hits m eligible path,
      ls_reasons := add_reasons (input_hits m eligible path) (''input:'' @ path) (ls_reasons st)\<rparr>
    else st\<lparr>ls_unmatched := ls_unmatched st @ [path]\<rparr>)"
proof -
  have "matches_any path (tm_global_inputs m) = Inr (global_hit m path)"
    using m by (simp add: global_hit_def matches_any_valid [OF path] manifest_ok_def)
  then show ?thesis
    by (simp add: classify_path_def matching_targets_valid [OF m path])
qed

definition falls_back :: "test_manifest \<Rightarrow> string list \<Rightarrow> string \<Rightarrow> bool" where
  "falls_back m eligible path \<longleftrightarrow>
     protected_global_input path \<or> global_hit m path \<or> input_hits m eligible path = []"

definition path_flagged :: "live_selection \<Rightarrow> bool" where
  "path_flagged st \<longleftrightarrow> ls_protected st \<noteq> [] \<or> ls_global st \<noteq> [] \<or> ls_unmatched st \<noteq> []"

definition path_hits :: "test_manifest \<Rightarrow> string list \<Rightarrow> string \<Rightarrow> string set" where
  "path_hits m eligible path =
     (if protected_global_input path \<or> global_hit m path then {} else set (input_hits m eligible path))"

lemma classify_step:
  assumes "manifest_ok m" "repository_path False path"
  shows "\<exists>st'. classify_path m eligible path st = Inr st' \<and>
    set (ls_initial st') = set (ls_initial st) \<union> path_hits m eligible path \<and>
    (path_flagged st' \<longleftrightarrow> path_flagged st \<or> falls_back m eligible path)"
  unfolding classify_path_valid [OF assms] path_hits_def path_flagged_def falls_back_def by auto

lemma classify_paths_valid:
  assumes m: "manifest_ok m" and "\<forall>p \<in> set paths. repository_path False p"
  shows "\<exists>st'. foldE (classify_path m eligible) paths st = Inr st' \<and>
    set (ls_initial st') = set (ls_initial st) \<union> (\<Union>p \<in> set paths. path_hits m eligible p) \<and>
    (path_flagged st' \<longleftrightarrow> path_flagged st \<or> (\<exists>p \<in> set paths. falls_back m eligible p))"
  using assms(2)
proof (induction paths arbitrary: st)
  case (Cons p ps)
  then obtain st1 where st1: "classify_path m eligible p st = Inr st1"
    "set (ls_initial st1) = set (ls_initial st) \<union> path_hits m eligible p"
    "path_flagged st1 \<longleftrightarrow> path_flagged st \<or> falls_back m eligible p"
    using classify_step [OF m] by (metis list.set_intros(1))
  obtain st2 where st2: "foldE (classify_path m eligible) ps st1 = Inr st2"
    "set (ls_initial st2) = set (ls_initial st1) \<union> (\<Union>p \<in> set ps. path_hits m eligible p)"
    "path_flagged st2 \<longleftrightarrow> path_flagged st1 \<or> (\<exists>p \<in> set ps. falls_back m eligible p)"
    using Cons.IH [of st1] Cons.prems by auto
  show ?case using st1 st2 by (intro exI [of _ st2]) auto
qed simp

lemma select_live_valid:
  assumes m: "manifest_ok m" and "\<forall>p \<in> set (live_paths changes). repository_path False p"
  shows "\<exists>initial reasons. select_live m eligible its changes requested = Inr (initial, reasons,
      list_ex (falls_back m eligible) (live_paths changes)) \<and>
    set initial = (\<Union>p \<in> set (live_paths changes). path_hits m eligible p) \<union> set requested \<union>
      (if list_ex (falls_back m eligible) (live_paths changes) then set its else {})"
proof -
  let ?st0 = "\<lparr>ls_initial = [], ls_reasons = [], ls_unmatched = [], ls_global = [], ls_protected = []\<rparr>"
  obtain st where st: "foldE (classify_path m eligible) (live_paths changes) ?st0 = Inr st"
    "set (ls_initial st) = (\<Union>p \<in> set (live_paths changes). path_hits m eligible p)"
    "path_flagged st \<longleftrightarrow> (\<exists>p \<in> set (live_paths changes). falls_back m eligible p)"
    using classify_paths_valid [OF assms, of eligible ?st0] by (auto simp: path_flagged_def)
  then have fb: "(ls_protected st \<noteq> [] \<or> ls_global st \<noteq> [] \<or> ls_unmatched st \<noteq> [])
      = list_ex (falls_back m eligible) (live_paths changes)"
    by (simp add: path_flagged_def list_ex_iff)
  show ?thesis unfolding select_live_def st(1) bindE.simps Let_def fb using st(2) by (simp add: Un_ac)
qed

section \<open>Changes\<close>

definition change_ok :: "changed_path \<Rightarrow> bool" where
  "change_ok c \<longleftrightarrow> (\<forall>p \<in> set (affected_paths c). repository_path False p)"

lemma new_changed_path_ok:
  assumes "new_changed_path path status previous = Inr c"
  shows "change_ok c"
proof (cases "change_status_of status")
  case (Some st)
  note defs = catch_contract_Inr_iff normalize_repository_path_iff change_ok_def affected_paths_def
  show ?thesis
  proof (cases "st = RENAMED")
    case True
    with assms Some show ?thesis unfolding new_changed_path_def
      by (cases previous) (auto simp: defs elim!: bindE_InrE)
  next
    case False
    with assms Some show ?thesis unfolding new_changed_path_def
      by (elim bindE_InrE) (auto simp: defs elim!: bindE_InrE)
  qed
qed (use assms in \<open>auto simp: new_changed_path_def bindE_Inr_iff\<close>)

lemma set_first_occurrences: "set (first_occurrences seen xs) = set xs - set seen"
  by (induction seen xs rule: first_occurrences.induct) auto

lemma distinct_first_occurrences: "distinct (first_occurrences seen xs)"
  by (induction seen xs rule: first_occurrences.induct) (auto simp: set_first_occurrences)

lemma set_normalized_changes [simp]: "set (normalized_changes changes) = set changes"
  by (simp add: normalized_changes_def set_first_occurrences)

lemma change_status_value_inject: "change_status_value a = change_status_value b \<longleftrightarrow> a = b"
  by (cases a; cases b) (simp_all add: change_status_value_def)

lemma repository_path_not_Nil: "repository_path g s \<Longrightarrow> s \<noteq> []"
  by (simp add: repository_path_def)

lemma change_key_inject:
  assumes "change_ok c" "change_ok d" "change_key c = change_key d"
  shows "c = d"
proof -
  have "cp_previous_path x \<noteq> Some []" if "change_ok x" for x
    using that repository_path_not_Nil [of False "[]"] by (auto simp: change_ok_def affected_paths_def)
  then have "cp_previous_path c = cp_previous_path d"
    using assms by (cases "cp_previous_path c"; cases "cp_previous_path d") (auto simp: change_key_def)
  moreover have "cp_path c = cp_path d" "cp_status c = cp_status d"
    using assms(3) by (simp_all add: change_key_def change_status_value_inject)
  ultimately show ?thesis by simp
qed

lemma sort_key_unique:
  assumes "distinct xs" "distinct ys" "set xs = set ys" "inj_on f (set xs)"
  shows "sort_key f xs = sort_key f ys"
proof (rule sort_key_inj_key_eq)
  show "mset xs = mset (sort_key f ys)" using assms by (simp add: set_eq_iff_mset_eq_distinct)
qed (use assms in simp_all)

lemma normalized_changes_unique:
  assumes "\<forall>c \<in> set xs. change_ok c" "set xs = set ys"
  shows "normalized_changes xs = normalized_changes ys"
  unfolding normalized_changes_def using assms change_key_inject
  by (intro sort_key_unique) (auto simp: distinct_first_occurrences set_first_occurrences inj_on_def)

section \<open>Plans\<close>

lemma intent_target_names_set:
  assumes "manifest_ok m"
  shows "set (intent_target_names m intent) = {n. \<exists>t. (n, t) \<in> set (tm_targets m) \<and> intent \<in> set (tc_intents t)}"
  using manifest_inputs_valid [OF assms] by (force simp: intent_target_names_def)

lemma lookup_dependencies:
  assumes "set names \<subseteq> fst ` set targets"
  shows "mapE (\<lambda>name. bindE (lookup_target targets name) (\<lambda>t. Inr (name, sort (tc_depends_on t)))) names
    = Inr (map (\<lambda>n. (n, sort (tc_depends_on (the (map_of targets n))))) names)"
proof (rule mapE_all_Inr)
  fix n assume "n \<in> set names"
  then obtain t where "map_of targets n = Some t" using assms by (metis in_keys_map_of subsetD)
  then show "bindE (lookup_target targets n) (\<lambda>t. Inr (n, sort (tc_depends_on t)))
      = Inr (n, sort (tc_depends_on (the (map_of targets n))))"
    by (simp add: lookup_target_def)
qed

lemma bounded_reasons_length:
  "1 \<le> length (bounded_selection_reasons vs) \<and> length (bounded_selection_reasons vs) \<le> 32"
  by (auto simp: bounded_selection_reasons_def Let_def max_selection_reasons_def Suc_le_eq)

text \<open>The abstract selection: what a plan request asks for, before closure.\<close>

definition immutable_request :: "intent_contract \<Rightarrow> source_identity \<Rightarrow> bool" where
  "immutable_request ic source \<longleftrightarrow> si_mode source = IMMUTABLE \<and> ic_source_mode ic = IMMUTABLE"

definition requested_base ::
  "test_manifest \<Rightarrow> string \<Rightarrow> intent_contract \<Rightarrow> source_identity \<Rightarrow> string list \<Rightarrow> changed_path list
     \<Rightarrow> string list \<Rightarrow> string set" where
  "requested_base m intent ic source eligible changes requested =
     (if immutable_request ic source
      then (if intent = ''manual'' \<and> requested \<noteq> [] then set requested else set (intent_target_names m intent))
      else (\<Union>p \<in> set (live_paths changes). path_hits m eligible p) \<union> set requested \<union>
        (if list_ex (falls_back m eligible) (live_paths changes) then set (intent_target_names m intent) else {}))"

definition plan_refines ::
  "test_manifest \<Rightarrow> string \<Rightarrow> intent_contract \<Rightarrow> source_identity \<Rightarrow> changed_path list \<Rightarrow> string list
     \<Rightarrow> test_plan \<Rightarrow> bool" where
  "plan_refines m intent ic source changes requested p \<longleftrightarrow> (let N = (dep_neighbours (tm_targets m))\<^sup>* in
     sorted (tp_eligible_targets p) \<and> distinct (tp_eligible_targets p) \<and>
     set (tp_eligible_targets p) =
       N `` (if intent = ''manual'' then fst ` set (tm_targets m) else set (intent_target_names m intent)) \<and>
     sorted (tp_selected_targets p) \<and> distinct (tp_selected_targets p) \<and>
     set (tp_selected_targets p) =
       N `` requested_base m intent ic source (tp_eligible_targets p) (normalized_changes changes) requested \<and>
     (tp_complete_intent_fallback p \<longleftrightarrow> \<not> immutable_request ic source \<and>
       list_ex (falls_back m (tp_eligible_targets p)) (live_paths (normalized_changes changes))) \<and>
     waves_from (dep_rel (tm_targets m)) (set (tp_selected_targets p)) {} (set (tp_selected_targets p))
       (tp_dependency_waves p) \<and>
     tp_dependencies p = map (\<lambda>n. (n, sort (tc_depends_on (the (map_of (tm_targets m) n))))) (tp_selected_targets p) \<and>
     map fst (tp_selection p) = tp_selected_targets p \<and>
     (\<forall>(n, rs) \<in> set (tp_selection p). 1 \<le> length rs \<and> length rs \<le> 32) \<and>
     (tp_reusable p \<longleftrightarrow> ic_allow_reuse ic \<and> si_mode source = IMMUTABLE))"

lemma lift_contract_Inr: "lift_contract (Inr x) = Inr x"
  by (simp add: lift_contract_def)

lemma live_paths_valid:
  "\<forall>c \<in> set changes. change_ok c \<Longrightarrow> \<forall>p \<in> set (live_paths changes). repository_path False p"
  by (auto simp: live_paths_def change_ok_def)

lemma path_hits_keys: "path_hits m eligible p \<subseteq> fst ` set (tm_targets m)"
  by (auto simp: path_hits_def input_hits_def)

lemma guards_requested:
  "plan_request_guards m intent ic source changes requested = Inr u \<Longrightarrow> set requested \<subseteq> fst ` set (tm_targets m)"
  by (auto simp: plan_request_guards_def Let_def filter_empty_conv)

lemma initial_selection:
  assumes m: "manifest_ok m" and ch: "\<forall>c \<in> set changes. change_ok c"
  shows "\<exists>initial reasons. (if si_mode source = IMMUTABLE \<and> \<not> (si_mode source = IMMUTABLE \<and> ic_source_mode ic = LIVE)
      then Inr (select_immutable intent (intent_target_names m intent) requested)
      else lift_contract (select_live m eligible (intent_target_names m intent) changes requested))
    = Inr (initial, reasons, \<not> immutable_request ic source \<and> list_ex (falls_back m eligible) (live_paths changes)) \<and>
    set initial = requested_base m intent ic source eligible changes requested"
proof (cases "immutable_request ic source")
  case True
  then show ?thesis
    by (auto simp: immutable_request_def select_immutable_def requested_base_def Let_def)
next
  case False
  then have "\<not> (si_mode source = IMMUTABLE \<and> \<not> (si_mode source = IMMUTABLE \<and> ic_source_mode ic = LIVE))"
    by (cases "ic_source_mode ic") (auto simp: immutable_request_def)
  moreover obtain initial reasons where
    "select_live m eligible (intent_target_names m intent) changes requested =
       Inr (initial, reasons, list_ex (falls_back m eligible) (live_paths changes))"
    "set initial = (\<Union>p \<in> set (live_paths changes). path_hits m eligible p) \<union> set requested \<union>
      (if list_ex (falls_back m eligible) (live_paths changes) then set (intent_target_names m intent) else {})"
    using select_live_valid [OF m live_paths_valid [OF ch]] by blast
  ultimately show ?thesis using False
    by (simp add: lift_contract_def requested_base_def del: Un_insert_right)
qed

lemma requested_base_keys:
  assumes "manifest_ok m" "set requested \<subseteq> fst ` set (tm_targets m)"
  shows "requested_base m intent ic source eligible changes requested \<subseteq> fst ` set (tm_targets m)"
proof -
  have "set (intent_target_names m intent) \<subseteq> fst ` set (tm_targets m)"
    using intent_target_names_set [OF assms(1)] by force
  moreover have "(\<Union>p \<in> set (live_paths changes). path_hits m eligible p) \<subseteq> fst ` set (tm_targets m)"
    by (rule UN_least) (rule path_hits_keys)
  ultimately show ?thesis using assms(2) unfolding requested_base_def by auto
qed

lemma create_test_plan_run:
  assumes parsed: "parse_test_manifest L' rr doc = Inr m" and ch: "\<forall>c \<in> set changes. change_ok c"
    and ts: "new_timeouts execution launch = Inr timeouts" and ic: "map_of (tm_intents m) intent = Some ic"
    and g: "plan_request_guards m intent ic source (normalized_changes changes) (sorted_set requested) = Inr ()"
  shows "\<exists>p. create_test_plan L m intent source changes requested execution launch = Inr p \<and>
    plan_refines m intent ic source changes (sorted_set requested) p \<and> tp_timeouts p = timeouts \<and>
    tp_intent p = intent \<and> tp_source p = source \<and> tp_changes p = normalized_changes changes"
proof -
  have m: "manifest_ok m" and P: "parsed_targets (tm_targets m)"
    using parse_test_manifest_ok [OF parsed] parsed_targetsI [OF parsed] by simp_all
  let ?T = "tm_targets m" and ?I = "intent_target_names m intent" and ?ch = "normalized_changes changes"
    and ?rq = "sorted_set requested"
  have ne: "?I \<noteq> []"
  proof -
    have "intent \<in> fst ` set (tm_intents m)" using ic by (rule map_of_Some_keys)
    then have "\<exists>n t. (n, t) \<in> set ?T \<and> intent \<in> set (tc_intents t)"
      using m unfolding manifest_ok_def intents_covered_def by (metis (no_types, lifting) case_prodE)
    then show ?thesis using intent_target_names_set [OF m, of intent] by force
  qed
  have Ikeys: "set ?I \<subseteq> fst ` set ?T" using intent_target_names_set [OF m] by force
  let ?seed = "if intent = ''manual'' then keys ?T else ?I"
  have seed: "set ?seed = (if intent = ''manual'' then fst ` set ?T else set ?I)" by simp
  have "set ?seed \<subseteq> fst ` set ?T" unfolding seed using Ikeys by simp
  from parsed.bidirectional_closure_exact [OF P this, of "[]"] obtain es er where
    e: "bidirectional_closure ?T ?seed [] = Inr (es, er)"
      "set es = (dep_neighbours ?T)\<^sup>* `` (if intent = ''manual'' then fst ` set ?T else set ?I)"
    unfolding seed by blast
  let ?E = "sorted_set es"
  obtain initial reasons where i: "(if si_mode source = IMMUTABLE \<and> \<not> (si_mode source = IMMUTABLE \<and> ic_source_mode ic = LIVE)
      then Inr (select_immutable intent ?I ?rq) else lift_contract (select_live m ?E ?I ?ch ?rq))
    = Inr (initial, reasons, \<not> immutable_request ic source \<and> list_ex (falls_back m ?E) (live_paths ?ch))"
    "set initial = requested_base m intent ic source ?E ?ch ?rq"
    using initial_selection [OF m, of ?ch source ic intent ?rq ?E] ch by auto
  have "set initial \<subseteq> fst ` set ?T"
    using requested_base_keys [OF m guards_requested [OF g]] i(2) by simp
  from parsed.bidirectional_closure_exact [OF P this, of reasons] obtain ss sr where
    s: "bidirectional_closure ?T initial reasons = Inr (ss, sr)"
      "set ss = (dep_neighbours ?T)\<^sup>* `` set initial" "set ss \<subseteq> fst ` set ?T" by blast
  let ?S = "sorted_set ss"
  obtain ws where ws: "(if ss \<noteq> [] then dependency_waves ?T ?S else Inr []) = Inr ws"
    "waves_from (dep_rel ?T) (set ?S) {} (set ?S) ws"
    using parsed.dependency_waves_exact [OF P, of ?S] s(3) waves_from_Nil by (cases "ss = []") auto
  have deps: "mapE (\<lambda>name. bindE (lookup_target ?T name) (\<lambda>t. Inr (name, sort (tc_depends_on t)))) ?S
      = Inr (map (\<lambda>n. (n, sort (tc_depends_on (the (map_of ?T n))))) ?S)"
    using s(3) by (intro lookup_dependencies) simp
  have en: "ensure (?I \<noteq> []) e = Inr ()" for e :: plan_error using ne by simp
  show ?thesis
    unfolding create_test_plan_def ts ic bindE.simps option.case Let_def g en e(1) lift_contract_Inr
      prod.case i(1) s(1) ws(1) deps
    by (auto simp: plan_refines_def Let_def e(2) s(2) i(2) ws(2) [simplified set_sorted_set s(2) i(2)] comp_def
      bounded_reasons_length [simplified]
      split del: if_split)
qed

lemma create_test_plan_cases:
  assumes parsed: "parse_test_manifest L' rr doc = Inr m" and ch: "\<forall>c \<in> set changes. change_ok c"
  shows "(\<exists>p ic. create_test_plan L m intent source changes requested execution launch = Inr p \<and>
      map_of (tm_intents m) intent = Some ic \<and> plan_refines m intent ic source changes (sorted_set requested) p \<and>
      plan_request_guards m intent ic source (normalized_changes changes) (sorted_set requested) = Inr () \<and>
      tp_changes p = normalized_changes changes) \<or>
    (\<exists>e. create_test_plan L m intent source changes requested execution launch = Inl e \<and>
      (new_timeouts execution launch = Inl e \<or>
       (map_of (tm_intents m) intent = None \<and> e = TestPlanError (''manifest does not declare intent '' @ repr_str intent)) \<or>
       (\<exists>ic. map_of (tm_intents m) intent = Some ic \<and> plan_request_guards m intent ic source
          (normalized_changes changes) (sorted_set requested) = Inl e)))"
proof (cases "new_timeouts execution launch")
  case (Inl e)
  then show ?thesis by (simp add: create_test_plan_def)
next
  case ts: (Inr timeouts)
  show ?thesis
  proof (cases "map_of (tm_intents m) intent")
    case None
    then show ?thesis by (simp add: create_test_plan_def ts)
  next
    case ic: (Some ic)
    show ?thesis
    proof (cases "plan_request_guards m intent ic source (normalized_changes changes) (sorted_set requested)")
      case (Inl e)
      then show ?thesis by (simp add: create_test_plan_def ts ic Let_def)
    next
      case (Inr u)
      then show ?thesis using create_test_plan_run [OF parsed ch ts ic, of source requested L] ic by auto
    qed
  qed
qed

section \<open>Properties of the planner\<close>

text \<open>
  On the targets of a parsed manifest \<open>_bidirectional_closure\<close> always returns, and the
  selection is exactly what is reachable from the initial targets along dependencies and reverse
  dependencies, whatever reasons it records on the way.
\<close>
lemma bidirectional_closure_reachability:
  assumes "parse_test_manifest L rr doc = Inr m" and "set initial \<subseteq> fst ` set (tm_targets m)"
  shows "\<exists>selected reasons'. bidirectional_closure (tm_targets m) initial reasons = Inr (selected, reasons') \<and>
    set selected = (dep_neighbours (tm_targets m))\<^sup>* `` set initial"
  using parsed.bidirectional_closure_exact [OF parsed_targetsI [OF assms(1)] assms(2), of reasons] by blast

text \<open>
  C34. On the targets of a parsed manifest \<open>_dependency_waves\<close> never reports a cycle: its waves are
  non-empty, sorted and partition the selection, every selected prerequisite of a target lies in an
  earlier wave, and a target is postponed only when a prerequisite runs in the wave just before it.
\<close>
theorem dependency_waves_layered:
  assumes "parse_test_manifest L rr doc = Inr m" and "set selected \<subseteq> fst ` set (tm_targets m)"
  shows "\<exists>ws. dependency_waves (tm_targets m) selected = Inr ws \<and>
    waves_from (dep_rel (tm_targets m)) (set selected) {} (set selected) ws"
  by (rule parsed.dependency_waves_exact [OF parsed_targetsI [OF assms(1)] assms(2)])


text \<open>
  C35. \<open>create_test_plan\<close> fails only on a bad request: on a parsed manifest and validated changes the
  only errors are \<open>TestPlanError\<close>s of the timeouts, of an undeclared intent or of the request guards;
  neither a contract error, nor a missing key, nor a dependency cycle can surface.
\<close>
theorem create_test_plan_errors:
  assumes "parse_test_manifest L' rr doc = Inr m" and "\<forall>c \<in> set changes. change_ok c"
    and "create_test_plan L m intent source changes requested execution launch = Inl e"
  shows "new_timeouts execution launch = Inl e \<or>
    e = TestPlanError (''manifest does not declare intent '' @ repr_str intent) \<or>
    (\<exists>ic. map_of (tm_intents m) intent = Some ic \<and>
       plan_request_guards m intent ic source (normalized_changes changes) (sorted_set requested) = Inl e)"
  using create_test_plan_cases [OF assms(1,2), of L intent source requested execution launch] assms(3) by auto

text \<open>
  C3. No change is dropped: in a plan from live sources every path a change affects either maps to a
  selected target with a matching input, or puts the plan into the complete-intent fallback, in which
  every target of the intent is selected. A protected build or CI file always forces the fallback.
\<close>
theorem create_test_plan_keeps_changes:
  assumes "parse_test_manifest L' rr doc = Inr m" and ch: "\<forall>c \<in> set changes. change_ok c"
    and "create_test_plan L m intent source changes requested execution launch = Inr p"
    and live: "map_of (tm_intents m) intent = Some ic" "\<not> immutable_request ic source"
    and path: "c \<in> set changes" "path \<in> set (affected_paths c)"
  shows "(tp_complete_intent_fallback p \<and> set (intent_target_names m intent) \<subseteq> set (tp_selected_targets p)) \<or>
      (\<not> protected_global_input path \<and> (\<exists>n t. (n, t) \<in> set (tm_targets m) \<and>
        n \<in> set (tp_selected_targets p) \<and> list_ex (glob_hits path) (tc_inputs t)))"
proof -
  have r: "plan_refines m intent ic source changes (sorted_set requested) p"
    using create_test_plan_cases [OF assms(1) ch, of L intent source requested execution launch] assms(3) live by auto
  let ?E = "tp_eligible_targets p" and ?ps = "live_paths (normalized_changes changes)"
  let ?B = "requested_base m intent ic source ?E (normalized_changes changes) (sorted_set requested)"
  have base: "?B \<subseteq> set (tp_selected_targets p)" using r by (auto simp: plan_refines_def Let_def)
  have mem: "path \<in> set ?ps" using path by (auto simp: live_paths_def)
  have fb: "tp_complete_intent_fallback p \<longleftrightarrow> list_ex (falls_back m ?E) ?ps"
    using r live(2) by (simp add: plan_refines_def Let_def)
  show ?thesis
  proof (cases "tp_complete_intent_fallback p")
    case True
    then have "set (intent_target_names m intent) \<subseteq> ?B" using fb live(2) by (auto simp: requested_base_def)
    with True base show ?thesis by blast
  next
    case False
    then have "\<not> falls_back m ?E path" using fb mem by (auto simp: list_ex_iff)
    then have ok: "\<not> protected_global_input path" "input_hits m ?E path \<noteq> []"
      "path_hits m ?E path = set (input_hits m ?E path)"
      by (auto simp: falls_back_def path_hits_def)
    then obtain n t where n: "(n, t) \<in> set (tm_targets m)" "n \<in> path_hits m ?E path" "list_ex (glob_hits path) (tc_inputs t)"
      by (fastforce simp: input_hits_def filter_empty_conv)
    then have "n \<in> ?B" using mem live(2) by (auto simp: requested_base_def)
    with n base ok(1) show ?thesis by blast
  qed
qed

text \<open>
  Scope: a plan only selects eligible targets, with every prerequisite and every dependent of a
  selected target; and a plan from an immutable source selects every target of its intent unless
  targets were requested by hand.
\<close>
lemma create_test_plan_scope:
  assumes "parse_test_manifest L' rr doc = Inr m" and ch: "\<forall>c \<in> set changes. change_ok c"
    and "create_test_plan L m intent source changes requested execution launch = Inr p"
  shows "set (tp_selected_targets p) \<subseteq> set (tp_eligible_targets p) \<and>
    (\<forall>(a, b) \<in> dep_rel (tm_targets m). a \<in> set (tp_selected_targets p) \<longleftrightarrow> b \<in> set (tp_selected_targets p)) \<and>
    (\<forall>ic. map_of (tm_intents m) intent = Some ic \<and> immutable_request ic source \<and> requested = [] \<longrightarrow>
       set (intent_target_names m intent) \<subseteq> set (tp_selected_targets p))"
proof -
  obtain ic where ic: "map_of (tm_intents m) intent = Some ic"
    and r: "plan_refines m intent ic source changes (sorted_set requested) p"
    and g: "plan_request_guards m intent ic source (normalized_changes changes) (sorted_set requested) = Inr ()"
    using create_test_plan_cases [OF assms(1) ch, of L intent source requested execution launch] assms(3) by auto
  let ?N = "dep_neighbours (tm_targets m)" and ?E = "tp_eligible_targets p"
  let ?B = "requested_base m intent ic source ?E (normalized_changes changes) (sorted_set requested)"
  let ?seed = "if intent = ''manual'' then fst ` set (tm_targets m) else set (intent_target_names m intent)"
  have E: "set ?E = ?N\<^sup>* `` ?seed" and S: "set (tp_selected_targets p) = ?N\<^sup>* `` ?B"
    using r by (simp_all add: plan_refines_def Let_def)
  have m: "manifest_ok m" using parse_test_manifest_ok [OF assms(1)] by simp
  have its: "set (intent_target_names m intent) \<subseteq> ?seed"
    using intent_target_names_set [OF m] by force
  have rq: "set (sorted_set requested) \<subseteq> ?seed"
    using g guards_requested [OF g] by (auto simp: plan_request_guards_def Let_def)
  have hits: "path_hits m ?E q \<subseteq> set ?E" for q by (auto simp: path_hits_def input_hits_def)
  have seedE: "?seed \<subseteq> set ?E" unfolding E by blast
  have "?B \<subseteq> set ?E"
    using its rq seedE UN_least [of _ "path_hits m ?E", OF hits] unfolding requested_base_def
    by (auto split: if_splits)
  moreover have "?N\<^sup>* `` X \<subseteq> ?N\<^sup>* `` Y" if "X \<subseteq> ?N\<^sup>* `` Y" for X Y
    using that by (blast intro: rtrancl_trans)
  ultimately have "?N\<^sup>* `` ?B \<subseteq> set ?E" unfolding E by blast
  moreover have "a \<in> ?N\<^sup>* `` ?B \<longleftrightarrow> b \<in> ?N\<^sup>* `` ?B" if "(a, b) \<in> dep_rel (tm_targets m)" for a b
  proof -
    have "(a, b) \<in> ?N" "(b, a) \<in> ?N" using that by (auto simp: dep_neighbours_def)
    then show ?thesis by (auto intro: rtrancl_into_rtrancl)
  qed
  moreover have "set (intent_target_names m intent) \<subseteq> ?N\<^sup>* `` ?B" if "immutable_request ic source" "requested = []"
    using that by (auto simp: requested_base_def)
  ultimately show ?thesis unfolding S ic
    by (intro conjI ballI allI impI) (auto simp only: option.inject split_paired_all prod.case)
qed

text \<open>
  C36. Planning is deterministic in what was changed and requested: reordering or repeating the changed
  paths or the requested targets yields the very same plan, fingerprints included.
\<close>
theorem create_test_plan_order_independent:
  assumes "\<forall>c \<in> set changes. change_ok c" "set changes = set changes'" "set requested = set requested'"
  shows "create_test_plan L m intent source changes requested execution launch =
    create_test_plan L m intent source changes' requested' execution launch"
proof -
  have "normalized_changes changes = normalized_changes changes'"
    by (rule normalized_changes_unique [OF assms(1,2)])
  moreover have "sorted_set requested = sorted_set requested'" using assms(3) by (simp add: sorted_set_eq_iff)
  ultimately show ?thesis by (simp only: create_test_plan_def)
qed

end
