(* ===== verification/Planner_Samples.thy ===== *)
theory Planner_Samples
  imports Planner_Laws Manifest_Samples
begin

text \<open>The properties of the planner at the sample manifest and one changed file.\<close>

definition sample_source :: source_identity where
  "sample_source = \<lparr>si_mode = LIVE, si_repository_id = ''repo'',
     si_content_fingerprint = replicate 64 (CHR ''b''), si_original_root = ''/srv/repo'',
     si_temporary_root = None, si_snapshot_id = None\<rparr>"

definition sample_change :: changed_path where
  "sample_change = \<lparr>cp_path = ''lib/a.py'', cp_status = MODIFIED, cp_previous_path = None\<rparr>"

lemma sample_change_ok: "\<forall>c \<in> set [sample_change]. change_ok c"
  by (simp add: change_ok_def affected_paths_def sample_change_def) code_simp

lemma sample_plan_guards:
  "plan_request_guards sample_manifest ''change''
     \<lparr>ic_name = ''change'', ic_source_mode = LIVE, ic_allow_reuse = False\<rparr> sample_source
     (normalized_changes [sample_change]) (sorted_set []) = Inr ()"
  by (simp add: plan_request_guards_def sample_source_def)

lemma sample_intent:
  "map_of (tm_intents sample_manifest) ''change'' =
     Some \<lparr>ic_name = ''change'', ic_source_mode = LIVE, ic_allow_reuse = False\<rparr>"
  by (simp add: sample_manifest_def)

lemma sample_timeouts:
  "new_timeouts JNull (JInt 300) = Inr \<lparr>pt_execution_seconds = None, pt_launch_seconds = 300\<rparr>"
  by (simp add: new_timeouts_def max_launch_timeout_seconds_def)

definition sample_plan :: "plan_error + test_plan" where
  "sample_plan = create_test_plan sample_lib sample_manifest ''change'' sample_source [sample_change] [] JNull (JInt 300)"

lemma sample_plan_exists: "\<exists>p. sample_plan = Inr p"
  using create_test_plan_run [OF sample_parses sample_change_ok sample_timeouts sample_intent sample_plan_guards]
  unfolding sample_plan_def by blast

theorem dependency_waves_witness:
  "\<exists>ws. dependency_waves (tm_targets sample_manifest) [''api'', ''unit''] = Inr ws \<and> set (concat ws) = {''api'', ''unit''}"
proof -
  have "set [''api'', ''unit''] \<subseteq> fst ` set (tm_targets sample_manifest)" by (simp add: sample_manifest_def)
  from dependency_waves_layered [OF sample_parses this] obtain ws where
    "dependency_waves (tm_targets sample_manifest) [''api'', ''unit''] = Inr ws"
    "waves_from (dep_rel (tm_targets sample_manifest)) (set [''api'', ''unit'']) {} (set [''api'', ''unit'']) ws" by blast
  then show ?thesis unfolding waves_from_def by (intro exI [of _ ws]) simp
qed


theorem create_test_plan_errors_witness:
  "create_test_plan sample_lib sample_manifest ''nightly'' sample_source [sample_change] [] JNull (JInt 300) =
     Inl (TestPlanError (''manifest does not declare intent '' @ repr_str ''nightly''))"
proof -
  have none: "map_of (tm_intents sample_manifest) ''nightly'' = None" by (simp add: sample_manifest_def)
  then obtain e where e: "create_test_plan sample_lib sample_manifest ''nightly'' sample_source [sample_change] []
      JNull (JInt 300) = Inl e"
    by (simp add: create_test_plan_def sample_timeouts)
  from create_test_plan_errors [OF sample_parses sample_change_ok e] none sample_timeouts e show ?thesis by simp
qed

theorem create_test_plan_keeps_changes_witness:
  "\<exists>p. sample_plan = Inr p \<and> tp_selected_targets p \<noteq> []"
proof -
  obtain p where p: "sample_plan = Inr p" using sample_plan_exists ..
  have "intent_target_names sample_manifest ''change'' \<noteq> []"
    by (simp add: intent_target_names_def sample_manifest_def sample_contract_def)
  with create_test_plan_keeps_changes [OF sample_parses sample_change_ok p [unfolded sample_plan_def] sample_intent,
    of sample_change "''lib/a.py''"] p show ?thesis
    by (auto simp: immutable_request_def sample_source_def sample_change_def affected_paths_def)
qed

theorem create_test_plan_order_witness:
  "create_test_plan sample_lib sample_manifest ''manual'' sample_source [sample_change, sample_change] [''b'', ''a''] JNull (JInt 9) =
   create_test_plan sample_lib sample_manifest ''manual'' sample_source [sample_change] [''a'', ''b''] JNull (JInt 9)"
proof (rule create_test_plan_order_independent)
  show "\<forall>c \<in> set [sample_change, sample_change]. change_ok c" using sample_change_ok by simp
qed auto

end
