(* ===== verification/Float64.thy ===== *)
theory Float64
  imports Complex_Main "HOL-Library.Log_Nat"
begin

text \<open>
  Python \<open>float\<close>: IEEE double precision values as rationals, with round-to-nearest-even of a
  53-bit significand and the gradual underflow at \<open>2 ^ (-1074)\<close>. Magnitudes that overflow the
  format are outside the model. Lemmas: the rounding error, exactness on integers and
  monotonicity.
\<close>

datatype py_float = Finite rat | Infinite | NotANumber

definition round_even :: "rat \<Rightarrow> int" where
  "round_even y =
     (let f = \<lfloor>y\<rfloor>; r = y - of_int f in
      if r < 1 / 2 then f else if r > 1 / 2 then f + 1 else if even f then f else f + 1)"

text \<open>The exponent of the leading bit.\<close>

definition flog :: "rat \<Rightarrow> int" where
  "flog x =
     (let (n, d) = quotient_of x; e = int (floorlog 2 (nat n)) - int (floorlog 2 (nat d))
      in if 2 powi e \<le> x then e else e - 1)"

definition unit_exp :: "rat \<Rightarrow> int" where
  "unit_exp x = max (flog \<bar>x\<bar> - 52) (- 1074)"

definition fl64 :: "rat \<Rightarrow> rat" where
  "fl64 x = (if x = 0 then 0 else of_int (round_even (x / 2 powi unit_exp x)) * 2 powi unit_exp x)"

section \<open>Rounding to an integer\<close>

lemma round_even_of_int [simp]: "round_even (of_int i) = i"
  by (simp add: round_even_def)

lemma round_even_bounds: "\<bar>of_int (round_even y) - y\<bar> \<le> 1 / 2"
proof -
  have "of_int \<lfloor>y\<rfloor> \<le> y" "y < of_int \<lfloor>y\<rfloor> + 1" by linarith+
  then show ?thesis by (auto simp: round_even_def Let_def abs_le_iff)
qed

lemma round_even_mono:
  assumes "x \<le> y"
  shows "round_even x \<le> round_even y"
proof (cases "\<lfloor>x\<rfloor> = \<lfloor>y\<rfloor>")
  case True
  with assms show ?thesis by (auto simp: round_even_def Let_def)
next
  case False
  then have "\<lfloor>x\<rfloor> + 1 \<le> \<lfloor>y\<rfloor>" using assms floor_mono [of x y] by linarith
  moreover have "round_even x \<le> \<lfloor>x\<rfloor> + 1" "\<lfloor>y\<rfloor> \<le> round_even y"
    by (auto simp: round_even_def Let_def)
  ultimately show ?thesis by linarith
qed

lemma round_even_le: "x \<le> of_int k \<Longrightarrow> round_even x \<le> k"
  using round_even_mono [of x "of_int k"] by simp

lemma round_even_ge: "of_int k \<le> x \<Longrightarrow> k \<le> round_even x"
  using round_even_mono [of "of_int k" x] by simp

section \<open>The exponent\<close>

lemma floorlog2_bounds:
  assumes "0 < (i :: int)"
  shows "2 ^ floorlog 2 (nat i) \<le> 2 * i" "i < 2 ^ floorlog 2 (nat i)"
proof -
  let ?n = "nat i"
  have b: "2 ^ (floorlog 2 ?n - 1) \<le> ?n" "?n < 2 ^ floorlog 2 ?n"
    using floorlog_bounds [of ?n 2] assms by auto
  have pos: "0 < floorlog 2 ?n" using floorlog_eq_zero_iff [of 2 ?n] assms by auto
  then have "2 ^ floorlog 2 ?n = 2 * 2 ^ (floorlog 2 ?n - 1)" for z :: nat by (cases "floorlog 2 ?n") auto
  then have "2 ^ floorlog 2 ?n \<le> 2 * ?n" using b(1) by (metis mult_le_mono2)
  then have "int (2 ^ floorlog 2 ?n) \<le> int (2 * ?n)" by (simp only: of_nat_le_iff)
  then show "2 ^ floorlog 2 (nat i) \<le> 2 * i" using assms by simp
  from b(2) have "int ?n < int (2 ^ floorlog 2 ?n)" by (simp only: of_nat_less_iff)
  then show "i < 2 ^ floorlog 2 (nat i)" using assms by simp
qed

lemma flog_bounds:
  assumes "0 < x"
  shows "2 powi flog x \<le> x" "x < 2 powi (flog x + 1)"
proof -
  obtain n d where q: "quotient_of x = (n, d)" by (cases "quotient_of x")
  then have d: "0 < d" and x: "x = of_int n / of_int d"
    using quotient_of_denom_pos quotient_of_div by auto
  with assms have n: "0 < n" by (simp add: zero_less_divide_iff)
  define a b where "a = floorlog 2 (nat n)" and "b = floorlog 2 (nat d)"
  let ?e = "int a - int b"
  have bound: "2 ^ floorlog 2 (nat i) \<le> 2 * (of_int i :: rat)" "(of_int i :: rat) < 2 ^ floorlog 2 (nat i)"
    if "0 < i" for i
  proof -
    have "of_int (2 ^ floorlog 2 (nat i)) \<le> (of_int (2 * i) :: rat)"
      using floorlog2_bounds(1) [OF that] by (simp only: of_int_le_iff)
    then show "2 ^ floorlog 2 (nat i) \<le> 2 * (of_int i :: rat)" by simp
    have "(of_int i :: rat) < of_int (2 ^ floorlog 2 (nat i))"
      using floorlog2_bounds(2) [OF that] by (simp only: of_int_less_iff)
    then show "(of_int i :: rat) < 2 ^ floorlog 2 (nat i)" by simp
  qed
  note N = bound [OF n, folded a_def] and D = bound [OF d, folded b_def]
  have e: "(2 :: rat) powi ?e = 2 ^ a / 2 ^ b" by (simp add: power_int_diff)
  have d': "(0 :: rat) < of_int d" "(0 :: rat) < of_int n" using d n by simp_all
  have lower: "2 powi ?e / 2 \<le> x"
  proof -
    have "2 ^ a * of_int d \<le> (2 * of_int n) * (2 ^ b :: rat)"
      using N(1) D(2) d' by (intro mult_mono) auto
    then show ?thesis unfolding e x using d' by (simp add: field_simps)
  qed
  have upper: "x < 2 * 2 powi ?e"
  proof -
    have "of_int n * 2 ^ b < 2 ^ a * (2 * of_int d :: rat)"
      using N(2) D(1) d' by (intro mult_less_le_imp_less) auto
    then show ?thesis unfolding e x using d' by (simp add: field_simps)
  qed
  have f: "flog x = (if 2 powi ?e \<le> x then ?e else ?e - 1)"
    by (simp add: flog_def q a_def b_def Let_def)
  show "2 powi flog x \<le> x" using lower by (simp add: f power_int_diff)
  show "x < 2 powi (flog x + 1)" using upper
    by (cases "2 powi ?e \<le> x") (simp_all add: f, simp add: power_int_add)
qed

lemma flog_le_iff: "0 < x \<Longrightarrow> flog x < k \<longleftrightarrow> x < 2 powi k"
proof
  assume x: "0 < x" and "flog x < k"
  then have "(2 :: rat) powi (flog x + 1) \<le> 2 powi k" by (intro power_int_increasing) auto
  with flog_bounds(2) [OF x] show "x < 2 powi k" by linarith
next
  assume x: "0 < x" and "x < 2 powi k"
  with flog_bounds(1) [OF x] have "(2 :: rat) powi flog x < 2 powi k" by linarith
  then show "flog x < k" using power_int_increasing [of k "flog x" "2 :: rat"] by force
qed

lemma flog_mono: "0 < x \<Longrightarrow> x \<le> y \<Longrightarrow> flog x \<le> flog y"
  using flog_bounds [of x] flog_bounds [of y] flog_le_iff [of y "flog x"] by linarith

section \<open>The rounded value\<close>

lemma round_even_unique: "\<bar>y - of_int i\<bar> < 1 / 2 \<Longrightarrow> round_even y = i"
  using round_even_bounds [of y] by linarith

lemma fl64_0 [simp]: "fl64 0 = 0"
  by (simp add: fl64_def)

lemma fl64_grid: "x = of_int k * 2 powi unit_exp x \<Longrightarrow> fl64 x = x"
  by (cases "x = 0") (simp_all add: fl64_def, metis nonzero_mult_div_cancel_right power_int_not_zero
    round_even_of_int zero_neq_numeral)

lemma fl64_error:
  assumes "x \<noteq> 0"
  shows "\<bar>fl64 x - x\<bar> \<le> 2 powi unit_exp x / 2"
proof -
  let ?u = "2 powi unit_exp x :: rat"
  have u: "0 < ?u" by simp
  have "fl64 x - x = (of_int (round_even (x / ?u)) - x / ?u) * ?u"
    using assms u by (simp add: fl64_def field_simps)
  then have "\<bar>fl64 x - x\<bar> = \<bar>of_int (round_even (x / ?u)) - x / ?u\<bar> * ?u"
    using u by (simp add: abs_mult)
  also have "\<dots> \<le> 1 / 2 * ?u" using round_even_bounds u by (intro mult_right_mono) auto
  finally show ?thesis by simp
qed

lemma fl64_relative_error:
  assumes "1 \<le> x"
  shows "\<bar>fl64 x - x\<bar> \<le> x / 2 ^ 53"
proof -
  have "0 \<le> flog x" using assms flog_le_iff [of x 0] by force
  then have u: "unit_exp x = flog x - 52" using assms by (simp add: unit_exp_def)
  have "\<bar>fl64 x - x\<bar> \<le> 2 powi (flog x - 52) / 2" using fl64_error [of x] assms u by simp
  also have "\<dots> = 2 powi flog x / 2 ^ 53" by (simp add: power_int_diff)
  also have "\<dots> \<le> x / 2 ^ 53" using flog_bounds(1) [of x] assms by (simp add: divide_right_mono)
  finally show ?thesis .
qed

lemma fl64_of_int:
  assumes "\<bar>i\<bar> < 2 ^ 53"
  shows "fl64 (of_int i) = of_int i"
proof (cases "i = 0")
  case False
  let ?x = "of_int i :: rat"
  have "\<bar>?x\<bar> < of_int (2 ^ 53)" using assms by (simp only: of_int_abs [symmetric] of_int_less_iff)
  then have "flog \<bar>?x\<bar> < 53" using flog_le_iff [of "\<bar>?x\<bar>" 53] False by simp
  then have "unit_exp ?x \<le> 0" by (simp add: unit_exp_def)
  then obtain n where n: "unit_exp ?x = - int n" by (metis nonpos_int_cases)
  have "?x = of_int (i * 2 ^ n) * 2 powi unit_exp ?x" by (simp add: n power_int_minus)
  then show ?thesis by (rule fl64_grid)
qed simp

lemma fl64_nonneg: "0 \<le> x \<Longrightarrow> 0 \<le> fl64 x"
  using round_even_ge [of 0 "x / 2 powi unit_exp x"] by (simp add: fl64_def)

lemma fl64_mono_pos:
  assumes "0 < x" "x \<le> y"
  shows "fl64 x \<le> fl64 y"
proof (cases "unit_exp x = unit_exp y")
  case True
  have "round_even (x / 2 powi unit_exp y) \<le> round_even (y / 2 powi unit_exp y)"
    using assms by (intro round_even_mono divide_right_mono) auto
  then show ?thesis using assms True by (simp add: fl64_def mult_right_mono)
next
  case False
  have "flog x \<le> flog y" using assms by (rule flog_mono)
  with False assms have less: "flog x < flog y" and uy: "unit_exp y = flog y - 52"
    by (auto simp: unit_exp_def max_def split: if_splits)
  have ax: "\<bar>x\<bar> = x" "\<bar>y\<bar> = y" using assms by auto
  let ?ux = "unit_exp x"
  have "fl64 x \<le> 2 powi (flog y)"
  proof -
    have ux: "?ux \<le> flog y" using less uy unfolding unit_exp_def ax by linarith
    then obtain n where n: "flog y = ?ux + int n" by (metis zle_iff_zadd)
    have "x < 2 powi flog y" using flog_le_iff [of x "flog y"] less assms by simp
    then have "x / 2 powi ?ux \<le> of_int (2 ^ n)"
      by (simp add: n power_int_add divide_le_eq mult.commute less_imp_le)
    then have "round_even (x / 2 powi ?ux) \<le> 2 ^ n" by (rule round_even_le)
    then have "(of_int (round_even (x / 2 powi ?ux)) :: rat) \<le> 2 ^ n"
      by (metis of_int_le_iff of_int_numeral of_int_power)
    then show ?thesis using assms by (simp add: fl64_def n power_int_add mult.commute mult_right_mono)
  qed
  also have "\<dots> \<le> fl64 y"
  proof -
    have "of_int (2 ^ 52) \<le> y / 2 powi unit_exp y"
      using flog_bounds(1) [of y] assms by (simp add: uy power_int_diff le_divide_eq)
    then have "2 ^ 52 \<le> round_even (y / 2 powi unit_exp y)" by (rule round_even_ge)
    then have "2 ^ 52 \<le> (of_int (round_even (y / 2 powi unit_exp y)) :: rat)"
      by (metis of_int_le_iff of_int_numeral of_int_power)
    then have "2 ^ 52 * 2 powi unit_exp y \<le> of_int (round_even (y / 2 powi unit_exp y)) * (2 powi unit_exp y :: rat)"
      by (intro mult_right_mono) auto
    then show ?thesis using assms by (simp add: fl64_def uy power_int_diff)
  qed
  finally show ?thesis .
qed

lemma fl64_mono:
  assumes "0 \<le> x" "x \<le> y"
  shows "fl64 x \<le> fl64 y"
  using assms fl64_mono_pos [of x y] fl64_nonneg [of y] by (cases "x = 0") auto

end
