(* ===== verification/Store_Base.thy ===== *)
theory Store_Base
  imports Planner Float64
begin

text \<open>
  What the test store and the scheduler share: the error classes, the value classes of
  \<open>universal_test_store.py\<close>, the scalar validators \<open>_bounded_text\<close> .. \<open>_now\<close>, and the Python
  built-ins they use (\<open>str.strip\<close>, \<open>int(text, base)\<close>, \<open>uuid.UUID\<close>).
\<close>

section \<open>Errors\<close>

datatype store_error =
    StoreContractError string
  | StoreConflict string
  | StoreNotFound string
  | StoreIntegrityError string  \<comment> \<open>\<open>sqlite3.IntegrityError\<close>: a constraint of the schema\<close>
  | StoreInternalError string  \<comment> \<open>\<open>KeyError\<close> or \<open>AssertionError\<close>\<close>

section \<open>Python text\<close>

definition py_space :: "char \<Rightarrow> bool" where
  "py_space c \<longleftrightarrow> c \<in> set [CHR 0x09, CHR 0x0A, CHR 0x0B, CHR 0x0C, CHR 0x0D, CHR 0x1C, CHR 0x1D,
     CHR 0x1E, CHR 0x1F, CHR '' '', CHR 0x85, CHR 0xA0]"

definition strip_by :: "(char \<Rightarrow> bool) \<Rightarrow> string \<Rightarrow> string" where
  "strip_by p s = rev (dropWhile p (rev (dropWhile p s)))"

fun split_words :: "string \<Rightarrow> string \<Rightarrow> string list" where
  "split_words word [] = (if word = [] then [] else [word])"
| "split_words word (c # cs) =
     (if py_space c then (if word = [] then split_words [] cs else word # split_words [] cs)
      else split_words (word @ [c]) cs)"

definition line_break :: "char \<Rightarrow> bool" where
  "line_break c \<longleftrightarrow> c \<in> set [CHR 0x0A, CHR 0x0B, CHR 0x0C, CHR 0x0D, CHR 0x1C, CHR 0x1D, CHR 0x1E, CHR 0x85]"

fun split_lines :: "string \<Rightarrow> string \<Rightarrow> string list" where
  "split_lines line [] = (if line = [] then [] else [line])"
| "split_lines line (c # cs) =
     (if c = CHR 0x0D \<and> (case cs of d # _ \<Rightarrow> d = CHR 0x0A | [] \<Rightarrow> False) then split_lines line cs
      else if line_break c then line # split_lines [] cs
      else split_lines (line @ [c]) cs)"

definition digit_value :: "char \<Rightarrow> nat option" where
  "digit_value c =
     (if in_range (CHR ''0'') (CHR ''9'') c then Some (code_of c - 48)
      else if in_range (CHR ''a'') (CHR ''f'') c then Some (code_of c - 87)
      else if in_range (CHR ''A'') (CHR ''F'') c then Some (code_of c - 55)
      else None)"

definition digit_in :: "nat \<Rightarrow> char \<Rightarrow> bool" where
  "digit_in base c = (case digit_value c of None \<Rightarrow> False | Some v \<Rightarrow> v < base)"

text \<open>\<open>int(text, base)\<close> for base 10 and 16: one underscore may separate two digits.\<close>

fun int_digits :: "nat \<Rightarrow> nat \<Rightarrow> string \<Rightarrow> nat option" where
  "int_digits base acc [] = Some acc"
| "int_digits base acc (c # cs) =
     (if digit_in base c then int_digits base (acc * base + the (digit_value c)) cs
      else if c = CHR ''_'' \<and> (case cs of d # _ \<Rightarrow> digit_in base d | [] \<Rightarrow> False)
        then int_digits base acc cs
      else None)"

definition py_int :: "nat \<Rightarrow> string \<Rightarrow> int option" where
  "py_int base s =
     (let t = strip_by py_space s;
          negative = starts_with ''-'' t;
          u = (if negative \<or> starts_with ''+'' t then tl t else t);
          hexed = (base = 16 \<and> (starts_with ''0x'' u \<or> starts_with ''0X'' u));
          v = (if hexed then (case drop 2 u of CHR 0x5F # w \<Rightarrow> w | w \<Rightarrow> w) else u)
      in case v of
           [] \<Rightarrow> None
         | c # _ \<Rightarrow> if digit_in base c
             then map_option (\<lambda>n. if negative then - int n else int n) (int_digits base 0 v)
             else None)"

function remove_all :: "string \<Rightarrow> string \<Rightarrow> string" where
  "remove_all p s =
     (if s = [] then [] else if p \<noteq> [] \<and> starts_with p s then remove_all p (drop (length p) s)
      else hd s # remove_all p (tl s))"
  by pat_completeness auto
termination
  by (relation "measure (\<lambda>(p, s). length s)") auto

declare remove_all.simps [simp del]

fun hex_text :: "nat \<Rightarrow> nat \<Rightarrow> string" where
  "hex_text 0 v = []"
| "hex_text (Suc n) v = hex_text n (v div 16) @ [hex_digit (v mod 16)]"

text \<open>\<open>str(uuid.UUID(text))\<close>.\<close>

definition uuid_text :: "string \<Rightarrow> string option" where
  "uuid_text s =
     (let h = remove_all ''-'' (strip_by (\<lambda>c. c \<in> set ''{}'') (remove_all ''uuid:'' (remove_all ''urn:'' s)))
      in if length h \<noteq> 32 then None
         else (case py_int 16 h of
                 None \<Rightarrow> None
               | Some v \<Rightarrow> if v < 0 \<or> 2 ^ 128 \<le> v then None
                   else let x = hex_text 32 (nat v) in
                     Some (take 8 x @ ''-'' @ take 4 (drop 8 x) @ ''-'' @ take 4 (drop 12 x) @ ''-''
                       @ take 4 (drop 16 x) @ ''-'' @ drop 20 x)))"

section \<open>Validators\<close>

definition bounded_text :: "string \<Rightarrow> nat \<Rightarrow> bool \<Rightarrow> json \<Rightarrow> store_error + string" where
  "bounded_text field maximum allow_empty v =
     (case v of JStr s \<Rightarrow>
        if (s = [] \<and> \<not> allow_empty) \<or> length s > maximum \<or> CHR 0x00 \<in> set s
        then Inl (StoreContractError (field @ '' must be bounded text'')) else Inr s
      | _ \<Rightarrow> Inl (StoreContractError (field @ '' must be text'')))"

definition single_line :: "string \<Rightarrow> nat \<Rightarrow> json \<Rightarrow> store_error + string" where
  "single_line field maximum v =
     bindE (bounded_text field maximum False v) (\<lambda>text.
     bindE (ensure (\<not> (CHR 0x0D \<in> set text \<or> CHR 0x0A \<in> set text))
       (StoreContractError (field @ '' must be single-line text''))) (\<lambda>_. Inr text))"

definition alnum :: "char \<Rightarrow> bool" where
  "alnum c \<longleftrightarrow> in_range (CHR ''A'') (CHR ''Z'') c \<or> lower_letter c \<or> digit c"

definition safe_id_re :: "string \<Rightarrow> bool" where
  "safe_id_re s \<longleftrightarrow>
     (case s of [] \<Rightarrow> False
      | c # cs \<Rightarrow> alnum c \<and> length cs \<le> 255 \<and> list_all (\<lambda>d. alnum d \<or> d \<in> set ''_.:@/-'') cs)"

definition systemd_unit_re :: "string \<Rightarrow> bool" where
  "systemd_unit_re s \<longleftrightarrow> starts_with ''devcoordinator-test-'' s \<and> ends_with ''.service'' s \<and>
     (let mid = take (length s - 28) (drop 20 s) in
      28 < length s \<and> length mid \<le> 200 \<and> alnum (hd mid) \<and>
      list_all (\<lambda>d. alnum d \<or> d \<in> set ''_.@:-'') (tl mid))"

definition safe_id :: "string \<Rightarrow> json \<Rightarrow> store_error + string" where
  "safe_id field v =
     bindE (single_line field 256 v) (\<lambda>text.
     bindE (ensure (safe_id_re text)
       (StoreContractError (field @ '' contains unsupported characters''))) (\<lambda>_. Inr text))"

definition operation_id :: "string \<Rightarrow> store_error + string" where
  "operation_id s =
     (case uuid_text s of None \<Rightarrow> Inl (StoreContractError ''operation_id must be a UUID'') | Some t \<Rightarrow> Inr t)"

definition store_sha256 :: "string \<Rightarrow> json \<Rightarrow> store_error + string" where
  "store_sha256 field v =
     bindE (single_line field 64 v) (\<lambda>text.
     bindE (ensure (is_sha256 text)
       (StoreContractError (field @ '' must be a lowercase SHA-256 digest''))) (\<lambda>_. Inr text))"

definition positive_int :: "string \<Rightarrow> int \<Rightarrow> json \<Rightarrow> store_error + int" where
  "positive_int field maximum v =
     (case v of
        JInt i \<Rightarrow> if 1 \<le> i \<and> i \<le> maximum then Inr i
          else Inl (StoreContractError (field @ '' must be between 1 and '' @ show_int maximum))
      | _ \<Rightarrow> Inl (StoreContractError (field @ '' must be between 1 and '' @ show_int maximum)))"

text \<open>A Python number handed in from outside: \<open>int\<close> or \<open>float\<close>, or something else.\<close>

datatype py_number = PyInt int | PyFloat py_float | PyOther

definition to_float :: "py_number \<Rightarrow> py_float option" where
  "to_float v = (case v of PyInt i \<Rightarrow> Some (Finite (fl64 (of_int i))) | PyFloat f \<Rightarrow> Some f | PyOther \<Rightarrow> None)"

definition finite_nonnegative :: "string \<Rightarrow> py_number \<Rightarrow> store_error + rat" where
  "finite_nonnegative field v =
     (case to_float v of
        None \<Rightarrow> Inl (StoreContractError (field @ '' must be numeric''))
      | Some (Finite x) \<Rightarrow> if x < 0
          then Inl (StoreContractError (field @ '' must be finite and non-negative'')) else Inr x
      | Some _ \<Rightarrow> Inl (StoreContractError (field @ '' must be finite and non-negative'')))"

section \<open>Value classes\<close>

record target_resources =
  tr_estimated_seconds :: py_number
  tr_shard_count :: json
  tr_worktree_key :: "json option"
  tr_exclusive_resources :: "json list"
  tr_ttl_seconds :: "json option"

record runnable_target =
  rt_target_id :: string
  rt_run_id :: string
  rt_repository_id :: string
  rt_owner_uid :: int
  rt_priority :: int
  rt_queued_at :: rat
  rt_target_name :: string
  rt_wave_index :: int
  rt_shard_index :: int
  rt_shard_count :: int
  rt_estimated_seconds :: py_float
  rt_worktree_key :: string
  rt_source_mode :: string
  rt_exclusive_resources :: "string list"
  rt_memory_estimate_mib :: int
  rt_memory_estimate_source :: string
  rt_memory_sample_count :: int

end
