(* ===== verification/Scheduler.thy ===== *)
theory Scheduler
  imports Store_Base
begin

text \<open>
  \<open>universal_test_scheduler.py\<close>: the host memory probe, the operating-system reserve, and
  \<open>WeightedFairScheduler.select\<close> with its virtual runtimes. The probe's text is an argument
  (\<open>None\<close> when the file cannot be read or decoded).
\<close>

section \<open>Host memory\<close>

definition mib :: int where "mib = 1024 * 1024"
definition default_cold_start_mib :: int where "default_cold_start_mib = 512"
definition min_host_reserve_mib :: int where "min_host_reserve_mib = 1024"
definition max_host_reserve_mib :: int where "max_host_reserve_mib = 8192"

record host_memory_snapshot =
  hm_total_mib :: int
  hm_available_mib :: int
  hm_observed_at :: py_float

definition meminfo_line :: "string \<Rightarrow> int dict \<Rightarrow> unit + int dict" where
  "meminfo_line raw flds =
     (let name = takeWhile (\<lambda>c. c \<noteq> CHR '':'') raw; rest = dropWhile (\<lambda>c. c \<noteq> CHR '':'') raw in
      if rest = [] then Inr flds
      else (case split_words [] (tl rest) of
              [number, u] \<Rightarrow> if u \<noteq> ''kB'' then Inr flds
                else (case py_int 10 number of None \<Rightarrow> Inl () | Some v \<Rightarrow> Inr (dict_put name v flds))
            | _ \<Rightarrow> Inr flds))"

definition read_host_memory :: "string option \<Rightarrow> py_float \<Rightarrow> store_error + host_memory_snapshot" where
  "read_host_memory content now =
     (let unavailable = Inl (StoreContractError ''host MemAvailable is unavailable'') in
      case content of
        None \<Rightarrow> unavailable
      | Some txt \<Rightarrow>
          (case foldE meminfo_line (split_lines [] txt) [] of
             Inl _ \<Rightarrow> unavailable
           | Inr flds \<Rightarrow>
               (case (map_of flds ''MemTotal'', map_of flds ''MemAvailable'') of
                  (Some total_kib, Some available_kib) \<Rightarrow>
                    if total_kib \<le> 0 \<or> available_kib < 0 \<or> available_kib > total_kib
                    then Inl (StoreContractError ''host MemAvailable is invalid'')
                    else Inr \<lparr>hm_total_mib = max 1 (total_kib div 1024),
                           hm_available_mib = available_kib div 1024, hm_observed_at = now\<rparr>
                | _ \<Rightarrow> unavailable)))"

text \<open>\<open>math.ceil(total_mib * 0.05)\<close>, with the double nearest to 0.05 and a rounded product.\<close>

definition five_percent :: rat where "five_percent = fl64 (1 / 20)"

definition host_memory_reserve_mib :: "int \<Rightarrow> store_error + int" where
  "host_memory_reserve_mib total_mib =
     (if total_mib \<le> 0 then Inl (StoreContractError ''host total memory must be positive'')
      else Inr (max min_host_reserve_mib (min max_host_reserve_mib
        \<lceil>fl64 (fl64 (of_int total_mib) * five_percent)\<rceil>)))"

section \<open>The scheduler object\<close>

definition sched_weight :: "string \<Rightarrow> py_number \<Rightarrow> store_error + rat" where
  "sched_weight field v =
     (case to_float v of
        None \<Rightarrow> Inl (StoreContractError (field @ '' must be numeric''))
      | Some (Finite x) \<Rightarrow> if fl64 (1 / 100) \<le> x \<and> x \<le> 100 then Inr x
          else Inl (StoreContractError (field @ '' must be from 0.01 through 100''))
      | Some _ \<Rightarrow> Inl (StoreContractError (field @ '' must be from 0.01 through 100'')))"

record fair_scheduler =
  fs_uid_weights :: "(int \<times> rat) list"
  fs_repo_weights :: "(string \<times> rat) list"
  fs_uid_vruntime :: "(int \<times> rat) list"
  fs_repo_vruntime :: "(string \<times> rat) list"

definition new_fair_scheduler ::
  "(int \<times> py_number) list \<Rightarrow> (string \<times> py_number) list \<Rightarrow> store_error + fair_scheduler" where
  "new_fair_scheduler uid_weights repository_weights =
     bindE (mapE (\<lambda>(uid, v). bindE (sched_weight (''uid_weights.'' @ show_int uid) v) (\<lambda>w. Inr (uid, w))) uid_weights) (\<lambda>us.
     bindE (ensure (\<not> list_ex (\<lambda>(uid, _). uid < 0) us)
       (StoreContractError ''uid weight keys must be non-negative integers'')) (\<lambda>_.
     bindE (mapE (\<lambda>(repo, v). bindE (sched_weight (''repository_weights.'' @ repo) v) (\<lambda>w. Inr (repo, w)))
       repository_weights) (\<lambda>rs.
     bindE (ensure (\<not> list_ex (\<lambda>(repo, _). repo = [] \<or> length repo > 256) rs)
       (StoreContractError ''repository weight keys must be bounded'')) (\<lambda>_.
     Inr \<lparr>fs_uid_weights = us, fs_repo_weights = rs, fs_uid_vruntime = [], fs_repo_vruntime = []\<rparr>))))"

record active_allocation =
  aa_execution_id :: string
  aa_target_id :: string
  aa_repository_id :: string
  aa_owner_uid :: int
  aa_worktree_key :: string
  aa_source_mode :: string
  aa_exclusive_resources :: "string list"
  aa_memory_commitment_mib :: int
  aa_current_memory_bytes :: "int option"
  aa_runtime_active :: bool

record admission_rejection =
  ar_target_id :: string
  ar_reason :: string
  ar_required_mib :: "int option"
  ar_available_mib :: "int option"
  ar_reserve_mib :: "int option"
  ar_observed_at :: "py_float option"
  ar_source :: "string option"

record schedule_decision =
  sd_selected :: "runnable_target list"
  sd_rejected :: "admission_rejection list"
  sd_memory :: host_memory_snapshot
  sd_reserve_mib :: int
  sd_active_memory_reservation_mib :: int

definition validate_candidate :: "runnable_target \<Rightarrow> store_error + unit" where
  "validate_candidate c =
     bindE (ensure (\<not> (rt_owner_uid c < 0 \<or> rt_repository_id c = [] \<or> rt_worktree_key c = []))
       (StoreContractError ''candidate identity is invalid'')) (\<lambda>_.
     bindE (ensure (rt_source_mode c \<in> {''live'', ''immutable''})
       (StoreContractError ''candidate.source_mode is invalid'')) (\<lambda>_.
     bindE (ensure (\<not> (rt_memory_estimate_mib c \<le> 0 \<or> rt_memory_sample_count c < 0 \<or> rt_memory_estimate_source c = []))
       (StoreContractError ''candidate memory estimate is invalid'')) (\<lambda>_.
     case rt_estimated_seconds c of
       Finite x \<Rightarrow> ensure (0 < x)
         (StoreContractError ''candidate.estimated_seconds must be finite and positive'')
     | _ \<Rightarrow> Inl (StoreContractError ''candidate.estimated_seconds must be finite and positive''))))"

definition validate_allocation :: "active_allocation \<Rightarrow> store_error + unit" where
  "validate_allocation a =
     bindE (ensure (\<not> (aa_owner_uid a < 0 \<or> aa_repository_id a = [] \<or> aa_worktree_key a = []))
       (StoreContractError ''active identity is invalid'')) (\<lambda>_.
     bindE (ensure (aa_source_mode a \<in> {''live'', ''immutable''})
       (StoreContractError ''active.source_mode is invalid'')) (\<lambda>_.
     ensure (\<not> (aa_memory_commitment_mib a \<le> 0 \<or>
         (case aa_current_memory_bytes a of None \<Rightarrow> False | Some b \<Rightarrow> b < 0)))
       (StoreContractError ''active memory commitment is invalid'')))"

definition unrealized_memory_mib :: "active_allocation \<Rightarrow> int" where
  "unrealized_memory_mib a =
     (if \<not> aa_runtime_active a then 0
      else (case aa_current_memory_bytes a of
              None \<Rightarrow> aa_memory_commitment_mib a
            | Some b \<Rightarrow> max 0 (aa_memory_commitment_mib a - (b + mib - 1) div mib)))"

definition vruntime_of :: "('k \<times> rat) list \<Rightarrow> 'k \<Rightarrow> rat" where
  "vruntime_of m k = (case map_of m k of None \<Rightarrow> 0 | Some v \<Rightarrow> v)"

definition weight_of :: "('k \<times> rat) list \<Rightarrow> 'k \<Rightarrow> rat" where
  "weight_of m k = (case map_of m k of None \<Rightarrow> 1 | Some v \<Rightarrow> v)"

definition fair_key ::
  "fair_scheduler \<Rightarrow> runnable_target \<Rightarrow> int \<times> rat \<times> rat \<times> rat \<times> string \<times> string" where
  "fair_key fs c = (- rt_priority c, vruntime_of (fs_uid_vruntime fs) (rt_owner_uid c),
     vruntime_of (fs_repo_vruntime fs) (rt_repository_id c), rt_queued_at c, rt_repository_id c, rt_target_id c)"

definition correctness_rejection ::
  "string list \<Rightarrow> string list \<Rightarrow> runnable_target \<Rightarrow> string option" where
  "correctness_rejection live_worktrees exclusive c =
     (if rt_source_mode c = ''live'' \<and> rt_worktree_key c \<in> set live_worktrees then Some ''exact_worktree_busy''
      else if list_ex (\<lambda>r. r \<in> set exclusive) (rt_exclusive_resources c) then Some ''exclusive_resource_busy''
      else None)"

section \<open>One scheduling turn\<close>

record select_state =
  ss_pending :: "runnable_target list"
  ss_selected :: "runnable_target list"
  ss_rejected :: "admission_rejection dict"
  ss_remaining_mib :: int
  ss_live_worktrees :: "string list"
  ss_exclusive :: "string list"
  ss_fair :: fair_scheduler

definition plain_rejection :: "runnable_target \<Rightarrow> string \<Rightarrow> admission_rejection" where
  "plain_rejection c reason = \<lparr>ar_target_id = rt_target_id c, ar_reason = reason, ar_required_mib = None,
     ar_available_mib = None, ar_reserve_mib = None, ar_observed_at = None, ar_source = None\<rparr>"

definition memory_rejection ::
  "host_memory_snapshot \<Rightarrow> int \<Rightarrow> int \<Rightarrow> runnable_target \<Rightarrow> admission_rejection" where
  "memory_rejection snapshot reserve remaining c = \<lparr>ar_target_id = rt_target_id c, ar_reason = ''host_memory'',
     ar_required_mib = Some (rt_memory_estimate_mib c), ar_available_mib = Some remaining,
     ar_reserve_mib = Some reserve, ar_observed_at = Some (hm_observed_at snapshot),
     ar_source = Some (rt_memory_estimate_source c)\<rparr>"

text \<open>The rejection of a candidate in the present turn, or \<open>None\<close> when it is admissible.\<close>

definition admission ::
  "host_memory_snapshot \<Rightarrow> int \<Rightarrow> select_state \<Rightarrow> runnable_target \<Rightarrow> admission_rejection option" where
  "admission snapshot reserve st c =
     (case correctness_rejection (ss_live_worktrees st) (ss_exclusive st) c of
        Some reason \<Rightarrow> Some (plain_rejection c reason)
      | None \<Rightarrow> if rt_memory_estimate_mib c > ss_remaining_mib st
          then Some (memory_rejection snapshot reserve (ss_remaining_mib st) c) else None)"

definition finite_value :: "py_float \<Rightarrow> rat" where
  "finite_value f = (case f of Finite x \<Rightarrow> x | _ \<Rightarrow> 0)"

fun assoc_put :: "'k \<Rightarrow> 'v \<Rightarrow> ('k \<times> 'v) list \<Rightarrow> ('k \<times> 'v) list" where
  "assoc_put k v [] = [(k, v)]"
| "assoc_put k v ((k', v') # m) = (if k = k' then (k, v) # m else (k', v') # assoc_put k v m)"

definition charge :: "runnable_target \<Rightarrow> fair_scheduler \<Rightarrow> fair_scheduler" where
  "charge c fs =
     (let cost = max (fl64 (1 / 1000)) (finite_value (rt_estimated_seconds c)); u = rt_owner_uid c; r = rt_repository_id c in
      fs\<lparr>fs_uid_vruntime := assoc_put u
             (fl64 (vruntime_of (fs_uid_vruntime fs) u + fl64 (cost / weight_of (fs_uid_weights fs) u))) (fs_uid_vruntime fs),
         fs_repo_vruntime := assoc_put r
             (fl64 (vruntime_of (fs_repo_vruntime fs) r + fl64 (cost / weight_of (fs_repo_weights fs) r))) (fs_repo_vruntime fs)\<rparr>)"

definition admit :: "runnable_target \<Rightarrow> runnable_target list \<Rightarrow> select_state \<Rightarrow> select_state" where
  "admit c next_pending st = st\<lparr>ss_pending := next_pending, ss_selected := ss_selected st @ [c],
     ss_rejected := filter (\<lambda>(k, _). k \<noteq> rt_target_id c) (ss_rejected st),
     ss_remaining_mib := ss_remaining_mib st - rt_memory_estimate_mib c,
     ss_live_worktrees := (if rt_source_mode c = ''live'' then rt_worktree_key c # ss_live_worktrees st
       else ss_live_worktrees st),
     ss_exclusive := rt_exclusive_resources c @ ss_exclusive st, ss_fair := charge c (ss_fair st)\<rparr>"

text \<open>The \<open>for\<close> loop over the sorted \<open>pending\<close>: \<open>before\<close> is \<open>next_pending\<close> so far; the flag says
  whether a candidate was admitted.\<close>

fun scan_pending ::
  "host_memory_snapshot \<Rightarrow> int \<Rightarrow> runnable_target list \<Rightarrow> runnable_target list \<Rightarrow> runnable_target list
     \<Rightarrow> select_state \<Rightarrow> bool \<times> select_state" where
  "scan_pending snapshot reserve pending before [] st = (False, st\<lparr>ss_pending := before\<rparr>)"
| "scan_pending snapshot reserve pending before (c # cs) st =
     (case admission snapshot reserve st c of
        Some r \<Rightarrow> scan_pending snapshot reserve pending (before @ [c]) cs
          (st\<lparr>ss_rejected := dict_put (rt_target_id c) r (ss_rejected st)\<rparr>)
      | None \<Rightarrow> (True, admit c (before @ filter (\<lambda>item. rt_target_id item \<noteq> rt_target_id c \<and>
            rt_target_id item \<notin> rt_target_id ` set before) pending) st))"

definition select_turn :: "host_memory_snapshot \<Rightarrow> int \<Rightarrow> select_state \<Rightarrow> bool \<times> select_state" where
  "select_turn snapshot reserve st =
     (let pending = sort_key (fair_key (ss_fair st)) (ss_pending st)
      in scan_pending snapshot reserve pending [] pending st)"

lemma scan_pending_shorter:
  "scan_pending snapshot reserve (before @ cs) before cs st = (True, st') \<Longrightarrow>
     length (ss_pending st') < length (before @ cs)"
proof (induction cs arbitrary: before st)
  case (Cons c cs)
  show ?case
  proof (cases "admission snapshot reserve st c")
    case None
    let ?p = "\<lambda>item. rt_target_id item \<noteq> rt_target_id c \<and> rt_target_id item \<notin> rt_target_id ` set before"
    have "filter ?p (before @ c # cs) = filter ?p cs"
      by (auto simp: filter_empty_conv)
    then have "ss_pending st' = before @ filter ?p cs"
      using Cons.prems None by (auto simp: admit_def)
    then show ?thesis by (simp add: less_Suc_eq_le)
  next
    case (Some r)
    then show ?thesis using Cons.IH [of "before @ [c]"] Cons.prems by simp
  qed
qed simp

lemma select_turn_shorter:
  "select_turn snapshot reserve st = (True, st') \<Longrightarrow> length (ss_pending st') < length (ss_pending st)"
  using scan_pending_shorter [of snapshot reserve "[]" "sort_key (fair_key (ss_fair st)) (ss_pending st)" st st']
  by (simp add: select_turn_def Let_def)

function select_loop :: "host_memory_snapshot \<Rightarrow> int \<Rightarrow> nat \<Rightarrow> select_state \<Rightarrow> select_state" where
  "select_loop snapshot reserve capacity st =
     (if ss_pending st = [] \<or> length (ss_selected st) \<ge> capacity then st
      else (case select_turn snapshot reserve st of
              (admitted, st') \<Rightarrow> if admitted then select_loop snapshot reserve capacity st' else st'))"
  by pat_completeness auto
termination
  by (relation "measure (\<lambda>(snapshot, reserve, capacity, st). length (ss_pending st))")
    (auto dest!: select_turn_shorter [OF sym])

declare select_loop.simps [simp del]

definition validate_snapshot :: "host_memory_snapshot \<Rightarrow> store_error + unit" where
  "validate_snapshot s = ensure (\<not> (hm_total_mib s \<le> 0 \<or> \<not> (0 \<le> hm_available_mib s \<and> hm_available_mib s \<le> hm_total_mib s) \<or>
     (case hm_observed_at s of Finite t \<Rightarrow> t < 0 | _ \<Rightarrow> True)))
     (StoreContractError ''memory_probe returned an invalid snapshot'')"

fun unique_candidates :: "string list \<Rightarrow> runnable_target list \<Rightarrow> store_error + unit" where
  "unique_candidates seen [] = Inr ()"
| "unique_candidates seen (c # cs) =
     bindE (ensure (rt_target_id c \<notin> set seen) (StoreContractError ''candidate target_id is duplicated'')) (\<lambda>_.
     bindE (validate_candidate c) (\<lambda>_. unique_candidates (rt_target_id c # seen) cs))"

definition initial_select_state ::
  "fair_scheduler \<Rightarrow> int \<Rightarrow> runnable_target list \<Rightarrow> active_allocation list \<Rightarrow> select_state" where
  "initial_select_state fs remaining candidates active =
     \<lparr>ss_pending = candidates, ss_selected = [], ss_rejected = [], ss_remaining_mib = remaining,
      ss_live_worktrees = map aa_worktree_key (filter (\<lambda>a. aa_source_mode a = ''live'') active),
      ss_exclusive = concat (map aa_exclusive_resources active), ss_fair = fs\<rparr>"

text \<open>\<open>WeightedFairScheduler.select\<close>: the decision and the scheduler with its charged runtimes.
  \<open>probe\<close> is what the memory probe returned or raised.\<close>

definition select_targets ::
  "fair_scheduler \<Rightarrow> store_error + host_memory_snapshot \<Rightarrow> runnable_target list \<Rightarrow> active_allocation list
     \<Rightarrow> int option \<Rightarrow> store_error + schedule_decision \<times> fair_scheduler" where
  "select_targets fs probe candidates active launch_batch =
     bindE (ensure (case launch_batch of None \<Rightarrow> True | Some b \<Rightarrow> 0 < b)
       (StoreContractError ''launch_batch must be a positive integer'')) (\<lambda>_.
     bindE probe (\<lambda>snapshot.
     bindE (validate_snapshot snapshot) (\<lambda>_.
     bindE (host_memory_reserve_mib (hm_total_mib snapshot)) (\<lambda>reserve.
     bindE (unique_candidates [] candidates) (\<lambda>_.
     bindE (mapE validate_allocation active) (\<lambda>_.
     let reservation = sum_list (map unrealized_memory_mib active);
         remaining = max 0 (max 0 (hm_available_mib snapshot - reserve) - reservation);
         capacity = (case launch_batch of None \<Rightarrow> length candidates | Some b \<Rightarrow> nat b);
         st = select_loop snapshot reserve capacity (initial_select_state fs remaining candidates active)
     in Inr (\<lparr>sd_selected = ss_selected st, sd_rejected = map snd (sort_key fst (ss_rejected st)),
          sd_memory = snapshot, sd_reserve_mib = reserve,
          sd_active_memory_reservation_mib = reservation\<rparr>, ss_fair st)))))))"

end
