(* ===== verification/Scheduler_Laws.thy ===== *)
theory Scheduler_Laws
  imports Scheduler
begin

text \<open>
  What one scheduling turn guarantees: the memory budget is never exceeded, live worktrees and
  exclusive resources are never shared, the choice is the fair-key minimum of what is admissible,
  and nothing admissible is left over. The reserve computed in floating point is exactly five
  per cent, rounded up and clamped.
\<close>

section \<open>One pass over the pending candidates\<close>

definition admissible :: "select_state \<Rightarrow> runnable_target \<Rightarrow> bool" where
  "admissible st c \<longleftrightarrow> correctness_rejection (ss_live_worktrees st) (ss_exclusive st) c = None \<and>
     rt_memory_estimate_mib c \<le> ss_remaining_mib st"

lemma admission_None_iff: "admission snapshot reserve st c = None \<longleftrightarrow> admissible st c"
  by (auto simp: admission_def admissible_def split: option.splits)

definition same_gates :: "select_state \<Rightarrow> select_state \<Rightarrow> bool" where
  "same_gates st st' \<longleftrightarrow> ss_live_worktrees st' = ss_live_worktrees st \<and> ss_exclusive st' = ss_exclusive st \<and>
     ss_remaining_mib st' = ss_remaining_mib st \<and> ss_selected st' = ss_selected st \<and> ss_fair st' = ss_fair st"

lemma same_gates_admissible: "same_gates st st' \<Longrightarrow> admissible st' = admissible st"
  by (auto simp: same_gates_def admissible_def)

definition rejected_ids :: "select_state \<Rightarrow> string set" where
  "rejected_ids st = fst ` set (ss_rejected st)"

lemma scan_pending_cases:
  assumes "scan_pending snapshot reserve pending before cs st = (b, st')"
  shows "(\<not> b \<and> same_gates st st' \<and> ss_pending st' = before @ cs \<and> (\<forall>c \<in> set cs. \<not> admissible st c) \<and>
      rejected_ids st' = rejected_ids st \<union> rt_target_id ` set cs) \<or>
    (b \<and> (\<exists>xs c ys mid. cs = xs @ c # ys \<and> (\<forall>x \<in> set xs. \<not> admissible st x) \<and> admissible st c \<and>
      same_gates st mid \<and> rejected_ids mid = rejected_ids st \<union> rt_target_id ` set xs \<and>
      st' = admit c ((before @ xs) @ filter (\<lambda>item. rt_target_id item \<noteq> rt_target_id c \<and>
        rt_target_id item \<notin> rt_target_id ` set (before @ xs)) pending) mid))"
  using assms
proof (induction cs arbitrary: before st)
  case Nil
  then show ?case by (auto simp: same_gates_def rejected_ids_def)
next
  case (Cons c cs)
  show ?case
  proof (cases "admission snapshot reserve st c")
    case None
    then have "admissible st c" by (simp add: admission_None_iff)
    with None Cons.prems show ?thesis
      by (intro disjI2 conjI exI [of _ "[]"] exI [of _ c] exI [of _ cs] exI [of _ st]) (auto simp: same_gates_def)
  next
    case (Some r)
    let ?st = "st\<lparr>ss_rejected := dict_put (rt_target_id c) r (ss_rejected st)\<rparr>"
    have gates: "same_gates st ?st" and ids: "rejected_ids ?st = insert (rt_target_id c) (rejected_ids st)"
      by (auto simp: same_gates_def rejected_ids_def)
    have bad: "\<not> admissible st c" using Some admission_None_iff [of snapshot reserve st c] by simp
    from Some Cons.prems have "scan_pending snapshot reserve pending (before @ [c]) cs ?st = (b, st')" by simp
    from Cons.IH [OF this] show ?thesis
      unfolding same_gates_admissible [OF gates] ids
    proof (elim disjE conjE exE, goal_cases)
      case 1
      then show ?case using bad gates by (auto simp: same_gates_def)
    next
      case (2 xs d ys mid)
      then show ?case using bad gates
        by (intro disjI2 conjI exI [of _ "c # xs"] exI [of _ d] exI [of _ ys] exI [of _ mid])
          (auto simp: same_gates_def)
    qed
  qed
qed

definition distinct_ids :: "runnable_target list \<Rightarrow> bool" where
  "distinct_ids cs \<longleftrightarrow> distinct (map rt_target_id cs)"

lemma filter_others:
  assumes "distinct_ids (xs @ c # ys)"
  shows "filter (\<lambda>item. rt_target_id item \<noteq> rt_target_id c \<and> rt_target_id item \<notin> rt_target_id ` set xs) (xs @ c # ys) = ys"
proof -
  have "filter (\<lambda>item. rt_target_id item \<noteq> rt_target_id c \<and> rt_target_id item \<notin> rt_target_id ` set xs) ys = ys"
    using assms unfolding distinct_ids_def filter_id_conv by (auto simp: image_iff disjoint_iff)
  moreover have "filter (\<lambda>item. rt_target_id item \<noteq> rt_target_id c \<and> rt_target_id item \<notin> rt_target_id ` set xs) xs = []"
    by (auto simp: filter_empty_conv)
  ultimately show ?thesis by simp
qed

lemma distinct_ids_mset: "mset xs = mset ys \<Longrightarrow> distinct_ids xs \<longleftrightarrow> distinct_ids ys"
  unfolding distinct_ids_def by (metis mset_eq_imp_distinct_iff mset_map)

text \<open>The two outcomes of a turn.\<close>

lemma select_turn_rejects:
  assumes "select_turn snapshot reserve st = (False, st')"
  shows "same_gates st st' \<and> mset (ss_pending st') = mset (ss_pending st) \<and>
    (\<forall>c \<in> set (ss_pending st). \<not> admissible st c) \<and>
    rejected_ids st' = rejected_ids st \<union> rt_target_id ` set (ss_pending st)"
  using scan_pending_cases [OF assms [unfolded select_turn_def Let_def]] by auto

lemma select_turn_admits:
  assumes "select_turn snapshot reserve st = (True, st')" and "distinct_ids (ss_pending st)"
  shows "\<exists>c pending mid. st' = admit c pending mid \<and> same_gates st mid \<and> admissible st c \<and>
    mset (ss_pending st) = add_mset c (mset pending) \<and>
    (\<forall>d \<in> set (ss_pending st). admissible st d \<longrightarrow> fair_key (ss_fair st) c \<le> fair_key (ss_fair st) d) \<and>
    rejected_ids mid \<subseteq> rejected_ids st \<union> rt_target_id ` set pending"
proof -
  let ?P = "sort_key (fair_key (ss_fair st)) (ss_pending st)"
  have P: "mset ?P = mset (ss_pending st)" by simp
  from scan_pending_cases [OF assms(1) [unfolded select_turn_def Let_def]] obtain xs c ys mid where
    split: "?P = xs @ c # ys" and xs: "\<forall>x \<in> set xs. \<not> admissible st x" and c: "admissible st c"
    and mid: "same_gates st mid" "rejected_ids mid = rejected_ids st \<union> rt_target_id ` set xs"
    and st': "st' = admit c (xs @ filter (\<lambda>item. rt_target_id item \<noteq> rt_target_id c \<and>
        rt_target_id item \<notin> rt_target_id ` set xs) ?P) mid"
    by auto
  have "distinct_ids (xs @ c # ys)" using assms(2) distinct_ids_mset [OF P] split by simp
  then have st2: "st' = admit c (xs @ ys) mid" using st' split filter_others by simp
  have "mset (ss_pending st) = add_mset c (mset (xs @ ys))" using split P by simp
  moreover have "fair_key (ss_fair st) c \<le> fair_key (ss_fair st) d"
    if "d \<in> set (ss_pending st)" "admissible st d" for d
  proof -
    have "d \<in> set (c # ys)" using that xs split by (metis Un_iff set_append set_sort)
    moreover have "sorted (map (fair_key (ss_fair st)) (xs @ c # ys))" using split by (metis sorted_sort_key)
    ultimately show ?thesis by (auto simp: sorted_append)
  qed
  ultimately show ?thesis using st2 mid c by (intro exI [of _ c] exI [of _ "xs @ ys"] exI [of _ mid]) auto
qed

section \<open>The loop invariant\<close>

text \<open>What the selection consumed, relative to the state before the turn.\<close>

definition live_keys :: "runnable_target list \<Rightarrow> string list" where
  "live_keys cs = map rt_worktree_key (filter (\<lambda>c. rt_source_mode c = ''live'') cs)"

fun exclusive_disjoint :: "string set \<Rightarrow> runnable_target list \<Rightarrow> bool" where
  "exclusive_disjoint used [] = True"
| "exclusive_disjoint used (c # cs) \<longleftrightarrow>
     set (rt_exclusive_resources c) \<inter> used = {} \<and> exclusive_disjoint (used \<union> set (rt_exclusive_resources c)) cs"

lemma exclusive_disjoint_append:
  "exclusive_disjoint used (cs @ [c]) \<longleftrightarrow> exclusive_disjoint used cs \<and>
     set (rt_exclusive_resources c) \<inter> (used \<union> (\<Union>d \<in> set cs. set (rt_exclusive_resources d))) = {}"
  by (induction cs arbitrary: used) auto

definition turn_inv :: "select_state \<Rightarrow> select_state \<Rightarrow> bool" where
  "turn_inv st0 st \<longleftrightarrow>
     mset (ss_pending st) + mset (ss_selected st) = mset (ss_pending st0) \<and>
     ss_remaining_mib st = ss_remaining_mib st0 - sum_list (map rt_memory_estimate_mib (ss_selected st)) \<and>
     (ss_selected st \<noteq> [] \<longrightarrow> 0 \<le> ss_remaining_mib st) \<and>
     set (ss_live_worktrees st) = set (ss_live_worktrees st0) \<union> set (live_keys (ss_selected st)) \<and>
     distinct (live_keys (ss_selected st)) \<and> set (live_keys (ss_selected st)) \<inter> set (ss_live_worktrees st0) = {} \<and>
     set (ss_exclusive st) = set (ss_exclusive st0) \<union> (\<Union>c \<in> set (ss_selected st). set (rt_exclusive_resources c)) \<and>
     exclusive_disjoint (set (ss_exclusive st0)) (ss_selected st) \<and>
     rejected_ids st \<subseteq> rt_target_id ` set (ss_pending st)"

lemma turn_inv_admit:
  assumes inv: "turn_inv st0 st" and ids: "distinct_ids (ss_pending st0)"
    and gates: "same_gates st mid" and c: "admissible st c"
    and m: "mset (ss_pending st) = add_mset c (mset pending)"
    and rej: "rejected_ids mid \<subseteq> rejected_ids st \<union> rt_target_id ` set pending"
  shows "turn_inv st0 (admit c pending mid)"
proof -
  let ?st = "admit c pending mid"
  have sel: "ss_selected ?st = ss_selected st @ [c]" and rem: "ss_remaining_mib ?st = ss_remaining_mib st - rt_memory_estimate_mib c"
    and pend: "ss_pending ?st = pending"
    using gates by (simp_all add: admit_def same_gates_def)
  have live: "ss_live_worktrees ?st = live_keys [c] @ ss_live_worktrees st"
    and ex: "ss_exclusive ?st = rt_exclusive_resources c @ ss_exclusive st"
    using gates by (simp_all add: admit_def same_gates_def live_keys_def)
  have fresh: "set (live_keys [c]) \<inter> set (ss_live_worktrees st) = {}" "set (rt_exclusive_resources c) \<inter> set (ss_exclusive st) = {}"
    "rt_memory_estimate_mib c \<le> ss_remaining_mib st"
    using c by (auto simp: admissible_def correctness_rejection_def live_keys_def list_ex_iff split: if_splits)
  have keys: "live_keys (ss_selected st @ [c]) = live_keys (ss_selected st) @ live_keys [c]" by (simp add: live_keys_def)
  have dl: "distinct (live_keys [c])" by (simp add: live_keys_def)
  have setp: "set (ss_pending st) = insert c (set pending)" using m by (metis set_mset_add_mset_insert set_mset_mset)
  have perm: "mset (ss_pending st0) = mset (c # pending @ ss_selected st)"
    using inv m by (simp add: turn_inv_def)
  have fresh_id: "rt_target_id c \<notin> rt_target_id ` set pending"
    using ids distinct_ids_mset [OF perm] by (simp add: distinct_ids_def)
  have "rejected_ids ?st \<subseteq> rt_target_id ` set pending"
  proof -
    have "rejected_ids ?st \<subseteq> rejected_ids mid - {rt_target_id c}" by (auto simp: rejected_ids_def admit_def)
    also have "\<dots> \<subseteq> rt_target_id ` set pending" using rej inv setp by (auto simp: turn_inv_def)
    finally show ?thesis .
  qed
  with inv m fresh dl show ?thesis
    unfolding turn_inv_def sel rem live ex keys pend exclusive_disjoint_append
    by (intro conjI) (simp_all, auto)
qed

lemma turn_inv_reject:
  assumes "turn_inv st0 st" "same_gates st st'" "mset (ss_pending st') = mset (ss_pending st)"
    "rejected_ids st' = rejected_ids st \<union> rt_target_id ` set (ss_pending st)"
  shows "turn_inv st0 st' \<and> rejected_ids st' = rt_target_id ` set (ss_pending st')"
proof -
  have "set (ss_pending st') = set (ss_pending st)" using assms(3) by (rule mset_eq_setD)
  with assms show ?thesis by (auto simp: turn_inv_def same_gates_def)
qed

text \<open>The loop ends with its invariant; short of capacity, what is left is inadmissible and
  rejected with a reason.\<close>

lemma select_loop_inv:
  assumes "turn_inv st0 st" "distinct_ids (ss_pending st0)" "length (ss_selected st) \<le> capacity"
    and "select_loop snapshot reserve capacity st = st'"
  shows "turn_inv st0 st' \<and> length (ss_selected st') \<le> capacity \<and>
    (length (ss_selected st') < capacity \<longrightarrow>
      (\<forall>c \<in> set (ss_pending st'). \<not> admissible st' c) \<and> rejected_ids st' = rt_target_id ` set (ss_pending st'))"
  using assms(1,3,4)
proof (induction snapshot reserve capacity st rule: select_loop.induct)
  case (1 snapshot reserve capacity st)
  show ?case
  proof (cases "ss_pending st = [] \<or> length (ss_selected st) \<ge> capacity")
    case True
    then have "st' = st" using "1.prems"(3) by (subst (asm) select_loop.simps) simp
    moreover have "rejected_ids st \<subseteq> rt_target_id ` set (ss_pending st)"
      using "1.prems"(1) unfolding turn_inv_def by blast
    ultimately show ?thesis using True "1.prems"(1,2) by (cases "ss_pending st = []") simp_all
  next
    case False
    obtain b st1 where t: "select_turn snapshot reserve st = (b, st1)" by (cases "select_turn snapshot reserve st")
    have "mset (ss_pending st0) = mset (ss_pending st @ ss_selected st)" using "1.prems"(1) by (simp add: turn_inv_def)
    from distinct_ids_mset [OF this] have d: "distinct_ids (ss_pending st)"
      using assms(2) by (simp add: distinct_ids_def)
    show ?thesis
    proof (cases b)
      case True
      with t have t': "select_turn snapshot reserve st = (True, st1)" by simp
      from select_turn_admits [OF this d] obtain c pending mid where a: "st1 = admit c pending mid" "same_gates st mid" "admissible st c"
        "mset (ss_pending st) = add_mset c (mset pending)" "rejected_ids mid \<subseteq> rejected_ids st \<union> rt_target_id ` set pending"
        by blast
      then have inv: "turn_inv st0 st1" using turn_inv_admit [OF "1.prems"(1) assms(2)] by simp
      have len: "length (ss_selected st1) \<le> capacity" using a False by (simp add: admit_def same_gates_def)
      have "select_loop snapshot reserve capacity st1 = st'"
        using "1.prems"(3) t' False by (subst (asm) select_loop.simps) simp
      from 1(1) [OF False t [symmetric] True inv len this] show ?thesis .
    next
      case rejected: False
      with t False "1.prems"(3) have st1: "st' = st1" "select_turn snapshot reserve st = (False, st1)"
        by (subst (asm) select_loop.simps, simp)+
      from select_turn_rejects [OF st1(2)] have r: "same_gates st st1" "mset (ss_pending st1) = mset (ss_pending st)"
        "\<forall>c \<in> set (ss_pending st). \<not> admissible st c"
        "rejected_ids st1 = rejected_ids st \<union> rt_target_id ` set (ss_pending st)" by auto
      have "set (ss_pending st1) = set (ss_pending st)" using r(2) by (rule mset_eq_setD)
      with turn_inv_reject [OF "1.prems"(1) r(1,2,4)] r(1,3) "1.prems"(2) st1(1) show ?thesis
        by (simp add: same_gates_admissible) (simp add: same_gates_def)
    qed
  qed
qed

section \<open>Fairness of the whole turn\<close>

lemma select_loop_rule:
  assumes "turn_inv st0 st" and ids: "distinct_ids (ss_pending st0)" and "P st"
    and admits: "\<And>st c pending mid. turn_inv st0 st \<Longrightarrow> P st \<Longrightarrow> same_gates st mid \<Longrightarrow> admissible st c \<Longrightarrow>
      mset (ss_pending st) = add_mset c (mset pending) \<Longrightarrow>
      (\<forall>d \<in> set (ss_pending st). admissible st d \<longrightarrow> fair_key (ss_fair st) c \<le> fair_key (ss_fair st) d) \<Longrightarrow>
      P (admit c pending mid)"
    and rejects: "\<And>st st'. P st \<Longrightarrow> same_gates st st' \<Longrightarrow> P st'"
  shows "P (select_loop snapshot reserve capacity st)"
  using assms(1,3)
proof (induction snapshot reserve capacity st rule: select_loop.induct)
  case (1 snapshot reserve capacity st)
  show ?case
  proof (cases "ss_pending st = [] \<or> length (ss_selected st) \<ge> capacity")
    case True
    then show ?thesis using "1.prems"(2) by (subst select_loop.simps) simp
  next
    case False
    have "mset (ss_pending st0) = mset (ss_pending st @ ss_selected st)" using "1.prems"(1) by (simp add: turn_inv_def)
    from distinct_ids_mset [OF this] have d: "distinct_ids (ss_pending st)" using ids by (simp add: distinct_ids_def)
    obtain b st1 where t: "select_turn snapshot reserve st = (b, st1)" by (cases "select_turn snapshot reserve st")
    show ?thesis
    proof (cases b)
      case True
      with t have t': "select_turn snapshot reserve st = (True, st1)" by simp
      from select_turn_admits [OF t' d] obtain c pending mid where a: "st1 = admit c pending mid" "same_gates st mid"
        "admissible st c" "mset (ss_pending st) = add_mset c (mset pending)"
        "\<forall>d \<in> set (ss_pending st). admissible st d \<longrightarrow> fair_key (ss_fair st) c \<le> fair_key (ss_fair st) d"
        "rejected_ids mid \<subseteq> rejected_ids st \<union> rt_target_id ` set pending" by blast
      have "turn_inv st0 st1" using turn_inv_admit [OF "1.prems"(1) ids a(2,3,4,6)] a(1) by simp
      moreover have "P st1" using admits [OF "1.prems" a(2-5)] a(1) by simp
      ultimately show ?thesis using 1(1) [OF False t [symmetric] True] t' False
        by (subst select_loop.simps) simp
    next
      case rejected: False
      with t have t': "select_turn snapshot reserve st = (False, st1)" by simp
      then have "P st1" using rejects [OF "1.prems"(2)] select_turn_rejects [OF t'] by blast
      then show ?thesis using t' False by (subst select_loop.simps) simp
    qed
  qed
qed

text \<open>The gates after a sequence of admissions.\<close>

definition after_admitting :: "select_state \<Rightarrow> runnable_target list \<Rightarrow> select_state" where
  "after_admitting st cs = fold (\<lambda>c. admit c []) cs st"

lemma same_gates_admit: "same_gates st mid \<Longrightarrow> same_gates (admit c [] st) (admit c pending mid)"
  by (simp add: same_gates_def admit_def)

lemma same_gates_trans: "same_gates a b \<Longrightarrow> same_gates b c \<Longrightarrow> same_gates a c"
  by (simp add: same_gates_def)

definition fair_choice :: "select_state \<Rightarrow> runnable_target list \<Rightarrow> nat \<Rightarrow> bool" where
  "fair_choice st0 selected i \<longleftrightarrow> (let g = after_admitting st0 (take i selected) in
     admissible g (selected ! i) \<and>
     (\<forall>d \<in> set (ss_pending st0). d \<notin> set (take i selected) \<longrightarrow> admissible g d \<longrightarrow>
        fair_key (ss_fair g) (selected ! i) \<le> fair_key (ss_fair g) d))"

definition fair_inv :: "select_state \<Rightarrow> select_state \<Rightarrow> bool" where
  "fair_inv st0 st \<longleftrightarrow> same_gates (after_admitting st0 (ss_selected st)) st \<and>
     (\<forall>i < length (ss_selected st). fair_choice st0 (ss_selected st) i)"

lemma fair_inv_admit:
  assumes inv: "turn_inv st0 st" and fair: "fair_inv st0 st" and gates: "same_gates st mid" and c: "admissible st c"
    and least: "\<forall>d \<in> set (ss_pending st). admissible st d \<longrightarrow> fair_key (ss_fair st) c \<le> fair_key (ss_fair st) d"
  shows "fair_inv st0 (admit c pending mid)"
proof -
  let ?sel = "ss_selected st" and ?g = "after_admitting st0 (ss_selected st)"
  have sel: "ss_selected (admit c pending mid) = ?sel @ [c]" using gates by (simp add: admit_def same_gates_def)
  have g: "same_gates ?g st" using fair by (simp add: fair_inv_def)
  have "after_admitting st0 (?sel @ [c]) = admit c [] ?g" by (simp add: after_admitting_def)
  then have "same_gates (after_admitting st0 (?sel @ [c])) (admit c pending mid)"
    using same_gates_admit [OF same_gates_trans [OF g gates]] by simp
  moreover have "fair_choice st0 (?sel @ [c]) i" if "i < length (?sel @ [c])" for i
  proof (cases "i < length ?sel")
    case True
    then have "fair_choice st0 ?sel i" using fair by (simp add: fair_inv_def)
    with True show ?thesis by (simp add: fair_choice_def nth_append)
  next
    case False
    then have i: "i = length ?sel" using that by simp
    have "set (ss_pending st0) = set (ss_pending st) \<union> set ?sel"
      using inv by (metis mset_append mset_eq_setD set_append turn_inv_def)
    then have "\<forall>d \<in> set (ss_pending st0). d \<notin> set ?sel \<longrightarrow> admissible st d \<longrightarrow> fair_key (ss_fair st) c \<le> fair_key (ss_fair st) d"
      using least by blast
    moreover have "ss_fair ?g = ss_fair st" using g by (simp add: same_gates_def)
    ultimately show ?thesis using i c same_gates_admissible [OF g] by (simp add: fair_choice_def Let_def)
  qed
  ultimately show ?thesis unfolding fair_inv_def sel by blast
qed

lemma select_loop_fair:
  assumes "distinct_ids (ss_pending st0)" "ss_selected st0 = []" "turn_inv st0 st0"
  shows "fair_inv st0 (select_loop snapshot reserve capacity st0)"
proof (rule select_loop_rule [OF assms(3,1)])
  show "fair_inv st0 st0" using assms(2) by (simp add: fair_inv_def after_admitting_def same_gates_def)
  show "\<And>st st'. fair_inv st0 st \<Longrightarrow> same_gates st st' \<Longrightarrow> fair_inv st0 st'"
    using same_gates_trans by (auto simp: fair_inv_def) (simp_all add: same_gates_def)
qed (rule fair_inv_admit)

section \<open>The reserve\<close>

lemma five_percent_value: "five_percent = 3602879701896397 / 2 ^ 56"
  by code_simp

lemma five_percent_scaled: "five_percent = (1 + 1 / 2 ^ 54) / 20"
  by (simp add: five_percent_value)

lemma unit_exp_pos: "1 \<le> x \<Longrightarrow> unit_exp x = flog x - 52"
  using flog_le_iff [of x 0] by (simp add: unit_exp_def)

lemma fl64_barely_above:
  assumes "1 \<le> k" "k < 2 ^ 52"
  shows "fl64 (of_int k * (1 + 1 / 2 ^ 54)) = of_int k"
proof -
  let ?x = "of_int k * (1 + 1 / 2 ^ 54) :: rat"
  have k: "1 \<le> (of_int k :: rat)" "(of_int k :: rat) < 2 ^ 52"
    using assms by (simp, metis of_int_less_iff of_int_numeral of_int_power)
  then have x: "of_int k \<le> ?x" "0 < ?x" by (simp_all add: field_simps)
  define u where "u = unit_exp ?x"
  have u: "u = flog ?x - 52" using unit_exp_pos x k unfolding u_def by (meson order_trans)
  have bounds: "2 powi flog ?x \<le> ?x" "?x < 2 powi (flog ?x + 1)" using flog_bounds [OF x(2)] by auto
  have "flog ?x < 53"
  proof -
    have "?x < 2 powi 53" using k by (simp add: field_simps)
    then show ?thesis using flog_le_iff [OF x(2)] by blast
  qed
  then have "u \<le> 0" using u by simp
  then obtain n where n: "u = - int n" by (metis nonpos_int_cases)
  have p: "(2 :: rat) powi u = 1 / 2 ^ n" by (simp add: n power_int_minus divide_inverse)
  have "\<bar>?x / 2 powi u - of_int (k * 2 ^ n)\<bar> < 1 / 2"
  proof -
    have eq: "?x / 2 powi u - of_int (k * 2 ^ n) = of_int k * 2 ^ n / 2 ^ 54" by (simp add: p field_simps)
    have "of_int k * 2 ^ n < (2 :: rat) ^ 53"
    proof -
      have "of_int k * 2 ^ n \<le> ?x * 2 ^ n" using x by (intro mult_right_mono) auto
      also have "\<dots> < 2 powi (flog ?x + 1) * 2 ^ n" using bounds by (intro mult_strict_right_mono) auto
      also have "\<dots> = 2 powi (flog ?x + 1 - u)" by (simp add: power_int_diff p)
      also have "flog ?x + 1 - u = 53" using u by simp
      finally show ?thesis by simp
    qed
    then have "of_int k * 2 ^ n / 2 ^ 54 < (1 / 2 :: rat)" by simp
    moreover have "0 \<le> (of_int k * 2 ^ n / 2 ^ 54 :: rat)" using k by simp
    ultimately show ?thesis unfolding eq by (simp only: abs_of_nonneg)
  qed
  then have r: "round_even (?x / 2 powi u) = k * 2 ^ n" by (rule round_even_unique)
  have "?x \<noteq> 0" using x(2) by (rule less_imp_neq [symmetric])
  then have "fl64 ?x = of_int (round_even (?x / 2 powi u)) * 2 powi u"
    unfolding u_def by (simp only: fl64_def if_False)
  also have "\<dots> = of_int (k * 2 ^ n) * 2 powi u" by (simp only: r)
  also have "\<dots> = of_int k" by (simp add: p)
  finally show ?thesis .
qed

lemma reserve_ceiling:
  assumes "0 < t" "t \<le> 163840"
  shows "\<lceil>fl64 (of_int t * five_percent)\<rceil> = \<lceil>of_int t / 20 :: rat\<rceil>"
proof (cases "20 dvd t")
  case True
  then obtain k where k: "t = 20 * k" by blast
  then have "of_int t * five_percent = of_int k * (1 + 1 / 2 ^ 54)" by (simp add: five_percent_scaled)
  moreover have "fl64 (of_int k * (1 + 1 / 2 ^ 54)) = of_int k" using assms k by (intro fl64_barely_above) auto
  ultimately have "fl64 (of_int t * five_percent) = of_int k" by (simp only:)
  then show ?thesis by (simp only: ceiling_of_int) (simp add: k)
next
  case False
  define k where "k = t div 20"
  have m: "t = 20 * k + t mod 20" "0 \<le> t mod 20" "t mod 20 \<noteq> 0" "t mod 20 < 20"
    using False by (simp_all add: k_def dvd_eq_mod_eq_0)
  then have r: "20 * k + 1 \<le> t" "t \<le> 20 * k + 19" "0 \<le> k" "k \<le> 8192" using assms by linarith+
  let ?x = "of_int t * five_percent"
  have "of_int (20 * k + 1) \<le> (of_int t :: rat)" "(of_int t :: rat) \<le> of_int (20 * k + 19)" "(of_int k :: rat) \<le> of_int 8192"
    using r by (simp_all only: of_int_le_iff)
  then have T: "20 * of_int k + 1 \<le> (of_int t :: rat)" "(of_int t :: rat) \<le> 20 * of_int k + 19" "(of_int k :: rat) \<le> 8192"
    by simp_all
  have x: "of_int k + 1 / 20 \<le> ?x" "?x \<le> of_int k + 1 - 1 / 40"
  proof -
    have "?x = of_int t / 20 + of_int t / (20 * 2 ^ 54)" by (simp add: five_percent_scaled field_simps)
    moreover have "0 \<le> (of_int t / (20 * 2 ^ 54) :: rat)" using assms by simp
    moreover have "of_int t / (20 * 2 ^ 54) \<le> (1 / 40 :: rat)" using T by simp
    ultimately show "of_int k + 1 / 20 \<le> ?x" "?x \<le> of_int k + 1 - 1 / 40" using T by linarith+
  qed
  have err: "\<bar>fl64 ?x - ?x\<bar> < 1 / 40"
  proof (cases "1 \<le> ?x")
    case True
    have "\<bar>fl64 ?x - ?x\<bar> \<le> ?x / 2 ^ 53" using True by (rule fl64_relative_error)
    also have "\<dots> \<le> 8193 / 2 ^ 53" using x T by (intro divide_right_mono) auto
    also have "\<dots> < (1 / 40 :: rat)" by simp
    finally show ?thesis .
  next
    case False
    have "?x \<noteq> 0" "0 < ?x" using x r by (simp_all add: five_percent_value)
    then have "flog ?x < 0" using False flog_le_iff [of ?x 0] by simp
    then have "unit_exp ?x \<le> - 6" using \<open>0 < ?x\<close> by (simp add: unit_exp_def)
    then have "(2 :: rat) powi unit_exp ?x \<le> 2 powi (- 6)" by (intro power_int_increasing) auto
    with fl64_error [OF \<open>?x \<noteq> 0\<close>] show ?thesis by (simp add: power_int_minus)
  qed
  have "of_int k < fl64 ?x" "fl64 ?x \<le> of_int k + 1" using err x by (simp_all only: abs_less_iff) linarith+
  then have "\<lceil>fl64 ?x\<rceil> = k + 1" by (intro ceiling_unique) auto
  moreover have "\<lceil>of_int t / 20 :: rat\<rceil> = k + 1" using T by (intro ceiling_unique) (auto simp: field_simps)
  ultimately show ?thesis by simp
qed

lemma host_memory_reserve_exact:
  assumes "0 < t"
  shows "host_memory_reserve_mib t = Inr (max 1024 (min 8192 \<lceil>of_int t / 20 :: rat\<rceil>))"
proof (cases "t \<le> 163840")
  case True
  then have "fl64 (of_int t) = of_int t" using assms by (intro fl64_of_int) auto
  with True assms reserve_ceiling [OF assms True] show ?thesis
    by (simp add: host_memory_reserve_mib_def min_host_reserve_mib_def max_host_reserve_mib_def)
next
  case False
  have "fl64 (of_int 163841) \<le> fl64 (of_int t)" using False by (intro fl64_mono) auto
  moreover have "fl64 (of_int 163841) = 163841" by (subst fl64_of_int) auto
  ultimately have "163841 \<le> fl64 (of_int t)" by simp
  then have "fl64 (8192) \<le> fl64 (fl64 (of_int t) * five_percent)"
    by (intro fl64_mono) (auto simp: five_percent_value)
  moreover have "fl64 8192 = 8192" using fl64_of_int [of 8192] by simp
  ultimately have "8192 \<le> \<lceil>fl64 (fl64 (of_int t) * five_percent)\<rceil>" by (metis ceiling_mono ceiling_numeral)
  moreover have "8192 \<le> \<lceil>of_int t / 20 :: rat\<rceil>" using False by (simp add: le_ceiling_iff)
  ultimately show ?thesis using assms
    by (simp add: host_memory_reserve_mib_def min_host_reserve_mib_def max_host_reserve_mib_def)
qed

section \<open>Properties of one scheduling decision\<close>

lemma unique_candidates_ok:
  "unique_candidates seen cs = Inr () \<Longrightarrow>
     distinct_ids cs \<and> set seen \<inter> rt_target_id ` set cs = {} \<and> (\<forall>c \<in> set cs. validate_candidate c = Inr ())"
proof (induction cs arbitrary: seen)
  case (Cons c cs)
  then have "unique_candidates (rt_target_id c # seen) cs = Inr ()" "rt_target_id c \<notin> set seen" "validate_candidate c = Inr ()"
    by (auto simp: bindE_Inr_iff)
  with Cons.IH [OF this(1)] show ?case by (auto simp: distinct_ids_def)
qed (simp add: distinct_ids_def)

lemma validate_candidate_estimate: "validate_candidate c = Inr u \<Longrightarrow> 0 < rt_memory_estimate_mib c"
  unfolding validate_candidate_def by (elim bindE_InrE) simp

lemma unrealized_nonneg: "validate_allocation a = Inr u \<Longrightarrow> 0 \<le> unrealized_memory_mib a"
  unfolding validate_allocation_def unrealized_memory_mib_def
  by (elim bindE_InrE) (auto split: option.splits)

lemma reservation_nonneg:
  "mapE validate_allocation active = Inr us \<Longrightarrow> 0 \<le> sum_list (map unrealized_memory_mib active)"
  by (intro sum_list_nonneg) (auto dest: mapE_InrD unrealized_nonneg)

definition turn_budget :: "schedule_decision \<Rightarrow> int" where
  "turn_budget d = max 0 (max 0 (hm_available_mib (sd_memory d) - sd_reserve_mib d) - sd_active_memory_reservation_mib d)"

definition turn_capacity :: "runnable_target list \<Rightarrow> int option \<Rightarrow> nat" where
  "turn_capacity candidates launch_batch = (case launch_batch of None \<Rightarrow> length candidates | Some b \<Rightarrow> nat b)"

lemma select_targets_run:
  assumes "select_targets fs probe candidates active launch_batch = Inr (d, fs')"
  shows "\<exists>st. let st0 = initial_select_state fs (turn_budget d) candidates active in
    st = select_loop (sd_memory d) (sd_reserve_mib d) (turn_capacity candidates launch_batch) st0 \<and>
    sd_selected d = ss_selected st \<and> sd_rejected d = map snd (sort_key fst (ss_rejected st)) \<and> fs' = ss_fair st \<and>
    probe = Inr (sd_memory d) \<and> host_memory_reserve_mib (hm_total_mib (sd_memory d)) = Inr (sd_reserve_mib d) \<and>
    sd_active_memory_reservation_mib d = sum_list (map unrealized_memory_mib active) \<and>
    0 \<le> sd_active_memory_reservation_mib d \<and> distinct_ids candidates \<and> (\<forall>c \<in> set candidates. validate_candidate c = Inr ()) \<and> turn_inv st0 st0"
  using assms unfolding select_targets_def
  by (elim bindE_InrE) (auto simp: Let_def turn_budget_def turn_capacity_def turn_inv_def initial_select_state_def
    live_keys_def rejected_ids_def dest: unique_candidates_ok reservation_nonneg)

lemma select_targets_inv:
  assumes "select_targets fs probe candidates active launch_batch = Inr (d, fs')"
  shows "\<exists>st. let st0 = initial_select_state fs (turn_budget d) candidates active in
    turn_inv st0 st \<and> fair_inv st0 st \<and> sd_selected d = ss_selected st \<and>
    sd_rejected d = map snd (sort_key fst (ss_rejected st)) \<and> distinct_ids candidates \<and>
    (\<forall>c \<in> set candidates. 0 < rt_memory_estimate_mib c) \<and>
    length (ss_selected st) \<le> turn_capacity candidates launch_batch \<and>
    (length (ss_selected st) < turn_capacity candidates launch_batch \<longrightarrow>
      (\<forall>c \<in> set (ss_pending st). \<not> admissible st c) \<and> rejected_ids st = rt_target_id ` set (ss_pending st))"
proof -
  let ?st0 = "initial_select_state fs (turn_budget d) candidates active"
  obtain st where st: "st = select_loop (sd_memory d) (sd_reserve_mib d) (turn_capacity candidates launch_batch) ?st0"
    and r: "sd_selected d = ss_selected st" "sd_rejected d = map snd (sort_key fst (ss_rejected st))"
      "distinct_ids candidates" "\<forall>c \<in> set candidates. validate_candidate c = Inr ()" "turn_inv ?st0 ?st0"
    using select_targets_run [OF assms] by (auto simp: Let_def)
  have ids: "distinct_ids (ss_pending ?st0)" and none: "ss_selected ?st0 = []"
    using r(3) by (simp_all add: initial_select_state_def)
  have "fair_inv ?st0 st" unfolding st by (rule select_loop_fair [OF ids none r(5)])
  moreover have "length (ss_selected ?st0) \<le> turn_capacity candidates launch_batch" using none by simp
  note select_loop_inv [OF r(5) ids this st [symmetric]]
  ultimately show ?thesis using r none validate_candidate_estimate unfolding Let_def
    by (intro exI [of _ st] conjI) simp_all
qed


text \<open>
  C18. Mutual exclusion: no two launched live targets share a worktree, none takes the worktree of a
  running live target, and the exclusive resources of the launched targets are pairwise disjoint and
  disjoint from those in use.
\<close>
theorem select_exclusion:
  assumes "select_targets fs probe candidates active launch_batch = Inr (d, fs')"
  shows "distinct (live_keys (sd_selected d)) \<and>
    set (live_keys (sd_selected d)) \<inter> aa_worktree_key ` {a \<in> set active. aa_source_mode a = ''live''} = {} \<and>
    exclusive_disjoint (\<Union>a \<in> set active. set (aa_exclusive_resources a)) (sd_selected d)"
proof -
  obtain st where "turn_inv (initial_select_state fs (turn_budget d) candidates active) st" "sd_selected d = ss_selected st"
    using select_targets_inv [OF assms] by (auto simp: Let_def)
  then show ?thesis by (simp add: turn_inv_def initial_select_state_def)
qed

text \<open>
  C30. The decision partitions the candidates: launched targets are candidates, each at most once, never
  more than the batch allows; and unless the batch is exhausted every other candidate is rejected with
  a reason, and could not have been launched any more (work conservation).
\<close>
theorem select_work_conserving:
  assumes "select_targets fs probe candidates active launch_batch = Inr (d, fs')"
  shows "distinct_ids (sd_selected d) \<and> set (sd_selected d) \<subseteq> set candidates \<and>
    length (sd_selected d) \<le> turn_capacity candidates launch_batch \<and>
    (length (sd_selected d) < turn_capacity candidates launch_batch \<longrightarrow>
      (\<forall>c \<in> set candidates - set (sd_selected d).
         \<not> admissible (after_admitting (initial_select_state fs (turn_budget d) candidates active) (sd_selected d)) c) \<and>
      length (sd_rejected d) \<ge> length candidates - length (sd_selected d))"
proof -
  let ?st0 = "initial_select_state fs (turn_budget d) candidates active"
  obtain st where inv: "turn_inv ?st0 st" and fair: "fair_inv ?st0 st" and sel: "sd_selected d = ss_selected st"
    and rej: "sd_rejected d = map snd (sort_key fst (ss_rejected st))" and ids: "distinct_ids candidates"
    and len: "length (ss_selected st) \<le> turn_capacity candidates launch_batch"
    and full: "length (ss_selected st) < turn_capacity candidates launch_batch \<longrightarrow>
      (\<forall>c \<in> set (ss_pending st). \<not> admissible st c) \<and> rejected_ids st = rt_target_id ` set (ss_pending st)"
    using select_targets_inv [OF assms] by (auto simp: Let_def)
  have m: "mset candidates = mset (ss_pending st @ ss_selected st)"
    using inv by (simp add: turn_inv_def initial_select_state_def)
  have sets: "set candidates = set (ss_pending st) \<union> set (ss_selected st)" using m by (metis mset_eq_setD set_append)
  have d: "distinct_ids (ss_pending st @ ss_selected st)" using ids distinct_ids_mset [OF m] by simp
  have adm: "admissible (after_admitting ?st0 (ss_selected st)) = admissible st"
    using fair same_gates_admissible by (auto simp: fair_inv_def)
  have "length (ss_pending st) \<le> length (ss_rejected st)"
    if "rejected_ids st = rt_target_id ` set (ss_pending st)"
  proof -
    have "length (ss_pending st) = card (rt_target_id ` set (ss_pending st))"
      using d by (metis distinct_append distinct_card distinct_ids_def length_map list.set_map map_append)
    also have "\<dots> \<le> length (ss_rejected st)" unfolding that [symmetric] rejected_ids_def
      by (metis card_length length_map list.set_map)
    finally show ?thesis .
  qed
  moreover have "length candidates = length (ss_pending st) + length (ss_selected st)" using m by (metis length_append mset_eq_length)
  ultimately show ?thesis using full len sets d unfolding sel adm rej by (auto simp: distinct_ids_def)
qed

text \<open>
  C31. Fairness: every launched target is the fair-key minimum (priority, then virtual runtime of its
  owner and of its repository, then age) among the candidates that were still waiting and admissible
  when it was chosen, with the runtimes of the earlier choices charged.
\<close>
theorem select_fair:
  assumes "select_targets fs probe candidates active launch_batch = Inr (d, fs')" and "i < length (sd_selected d)"
  shows "fair_choice (initial_select_state fs (turn_budget d) candidates active) (sd_selected d) i"
  using select_targets_inv [OF assms(1)] assms(2) by (auto simp: Let_def fair_inv_def)

text \<open>
  C40. The host reserve, computed by the code in double precision, is exactly five per cent of the total
  memory rounded up, clamped to 1024 .. 8192 MiB.
\<close>
theorem host_memory_reserve_five_percent:
  assumes "0 < total_mib"
  shows "host_memory_reserve_mib total_mib = Inr (max 1024 (min 8192 \<lceil>of_int total_mib / 20 :: rat\<rceil>))"
  by (rule host_memory_reserve_exact [OF assms])

end
