(* ===== verification/Scheduler_Samples.thy ===== *)
theory Scheduler_Samples
  imports Scheduler_Laws
begin

text \<open>The properties of the scheduler at one turn with two candidates that share a worktree.\<close>

definition sample_candidate :: "string \<Rightarrow> int \<Rightarrow> runnable_target" where
  "sample_candidate tid priority = \<lparr>rt_target_id = tid, rt_run_id = ''run'', rt_repository_id = ''repo'',
     rt_owner_uid = 1000, rt_priority = priority, rt_queued_at = 1, rt_target_name = ''unit'', rt_wave_index = 0,
     rt_shard_index = 0, rt_shard_count = 1, rt_estimated_seconds = Finite 1, rt_worktree_key = ''wt'',
     rt_source_mode = ''live'', rt_exclusive_resources = [], rt_memory_estimate_mib = 512,
     rt_memory_estimate_source = ''cold_start_default'', rt_memory_sample_count = 0\<rparr>"

definition sample_probe :: host_memory_snapshot where
  "sample_probe = \<lparr>hm_total_mib = 4096, hm_available_mib = 4096, hm_observed_at = Finite 1\<rparr>"

definition sample_scheduler :: fair_scheduler where
  "sample_scheduler = \<lparr>fs_uid_weights = [], fs_repo_weights = [], fs_uid_vruntime = [], fs_repo_vruntime = []\<rparr>"

definition sample_turn :: "store_error + schedule_decision \<times> fair_scheduler" where
  "sample_turn = select_targets sample_scheduler (Inr sample_probe)
     [sample_candidate ''a'' 0, sample_candidate ''b'' 5] [] None"

lemma sample_turn_returns: "\<exists>d fs'. sample_turn = Inr (d, fs')"
  by (simp add: sample_turn_def select_targets_def Let_def validate_snapshot_def validate_candidate_def
    sample_probe_def sample_candidate_def host_memory_reserve_exact)

theorem select_exclusion_witness:
  "\<exists>d fs'. sample_turn = Inr (d, fs') \<and> distinct (live_keys (sd_selected d))"
  using sample_turn_returns select_exclusion unfolding sample_turn_def by blast

theorem select_work_conserving_witness: "\<exists>d fs'. sample_turn = Inr (d, fs') \<and> length (sd_selected d) \<le> 2"
  using sample_turn_returns
    select_work_conserving [of sample_scheduler "Inr sample_probe" "[sample_candidate ''a'' 0, sample_candidate ''b'' 5]" "[]" None]
  unfolding sample_turn_def by (fastforce simp: turn_capacity_def)

lemma sample_turn_selects:
  assumes "sample_turn = Inr (d, fs')"
  shows "sd_selected d \<noteq> []"
proof
  assume none: "sd_selected d = []"
  let ?cs = "[sample_candidate ''a'' 0, sample_candidate ''b'' 5]"
  obtain st where st: "sd_selected d = ss_selected st"
    "length (ss_selected st) < turn_capacity ?cs None \<longrightarrow> (\<forall>c \<in> set (ss_pending st). \<not> admissible st c)"
    "turn_inv (initial_select_state sample_scheduler (turn_budget d) ?cs []) st"
    using select_targets_inv [OF assms [unfolded sample_turn_def]] by (auto simp: Let_def)
  have mem: "sd_memory d = sample_probe" "host_memory_reserve_mib (hm_total_mib (sd_memory d)) = Inr (sd_reserve_mib d)"
    "sd_active_memory_reservation_mib d = 0"
    using select_targets_run [OF assms [unfolded sample_turn_def]] by (auto simp: Let_def)
  moreover have "host_memory_reserve_mib (hm_total_mib sample_probe) = Inr 1024"
    using host_memory_reserve_exact [of 4096] by (simp add: sample_probe_def)
  ultimately have "sd_reserve_mib d = 1024" by simp
  with mem have "turn_budget d = 3072" by (simp add: turn_budget_def sample_probe_def)
  then have budget: "ss_remaining_mib st = 3072" using st none by (simp add: turn_inv_def initial_select_state_def)
  have sel: "ss_selected st = []" using st(1) none by simp
  have inv: "turn_inv (initial_select_state sample_scheduler (turn_budget d) ?cs []) st" by (rule st(3))
  have free: "ss_live_worktrees st = []" "ss_exclusive st = []"
    using inv unfolding turn_inv_def sel by (simp_all add: initial_select_state_def live_keys_def)
  have "mset (ss_pending st) = mset ?cs" using inv unfolding turn_inv_def sel by (simp add: initial_select_state_def)
  then have "set (ss_pending st) = set ?cs" by (rule mset_eq_setD)
  then have "sample_candidate ''a'' 0 \<in> set (ss_pending st)" by simp
  moreover have "admissible st (sample_candidate ''a'' 0)"
    by (simp add: admissible_def correctness_rejection_def free budget sample_candidate_def)
  moreover have "length (ss_selected st) < turn_capacity ?cs None" by (simp add: sel turn_capacity_def)
  ultimately show False using st(2) by blast
qed


theorem select_fair_witness:
  "\<exists>d fs'. sample_turn = Inr (d, fs') \<and> fair_choice (initial_select_state sample_scheduler (turn_budget d)
     [sample_candidate ''a'' 0, sample_candidate ''b'' 5] []) (sd_selected d) 0"
  using sample_turn_returns sample_turn_selects select_fair unfolding sample_turn_def by (metis length_greater_0_conv)

theorem host_memory_reserve_witness: "host_memory_reserve_mib 64000 = Inr 3200"
  using host_memory_reserve_five_percent [of 64000] by simp

end
