(* ===== verification/Store_Plans.thy ===== *)
theory Store_Plans
  imports Store_Base
begin

text \<open>
  The plan documents that the test store retains (\<open>_stored_plan_parts\<close>,
  \<open>_stored_plan_dependencies\<close>) and the plan it derives for a retry
  (\<open>_retry_plan_projection\<close>). A TEXT column that holds canonical JSON is represented by the
  document itself: \<open>json.loads\<close> reads back what \<open>_canonical_json\<close> wrote.
\<close>

section \<open>Retained plans\<close>

definition stored_plan_resources_field :: string where
  "stored_plan_resources_field = ''_coordinator_target_resources''"

definition stored_plan_parts :: "json \<Rightarrow> store_error + json dict \<times> json dict option" where
  "stored_plan_parts plan_json =
     (case plan_json of
        JObj raw \<Rightarrow>
          (let rest = filter (\<lambda>(k, _). k \<noteq> stored_plan_resources_field) raw in
           case map_of raw stored_plan_resources_field of
             None \<Rightarrow> Inr (rest, None)
           | Some JNull \<Rightarrow> Inr (rest, None)
           | Some (JObj resources) \<Rightarrow> Inr (rest, Some resources)
           | Some _ \<Rightarrow> Inl (StoreContractError ''stored test plan resources are invalid''))
      | _ \<Rightarrow> Inl (StoreContractError ''stored test plan is invalid''))"

fun json_strings :: "json list \<Rightarrow> string list option" where
  "json_strings [] = Some []"
| "json_strings (JStr s # vs) = map_option (Cons s) (json_strings vs)"
| "json_strings (_ # vs) = None"

definition string_array :: "json \<Rightarrow> string list option" where
  "string_array v = (case v of JArr vs \<Rightarrow> json_strings vs | _ \<Rightarrow> None)"

text \<open>A retained plan without dependencies names them in its selection reasons.\<close>

definition legacy_dependencies :: "json dict \<Rightarrow> string \<Rightarrow> store_error + string list" where
  "legacy_dependencies selection target =
     (case map_of selection target of
        Some (JArr reasons) \<Rightarrow>
          Inr (sort (List.map_filter (\<lambda>r. case r of
              JStr s \<Rightarrow> if starts_with ''dependent-of:'' s then Some (drop 13 s) else None
            | _ \<Rightarrow> None) reasons))
      | _ \<Rightarrow> Inl (StoreContractError ''stored legacy test plan selection is invalid''))"

definition listed_dependencies :: "json dict \<Rightarrow> string \<Rightarrow> store_error + string list" where
  "listed_dependencies dependencies target =
     (case Option.bind (map_of dependencies target) string_array of
        Some values \<Rightarrow> Inr values
      | None \<Rightarrow> Inl (StoreContractError ''stored test plan dependency list is invalid''))"

definition stored_plan_dependencies :: "json \<Rightarrow> store_error + string list dict" where
  "stored_plan_dependencies plan_json =
     bindE (stored_plan_parts plan_json) (\<lambda>(raw, _).
     case (Option.bind (map_of raw ''selected_targets'') string_array, map_of raw ''selection'') of
       (Some selected, Some (JObj selection)) \<Rightarrow>
         bindE (case map_of raw ''dependencies'' of
             None \<Rightarrow> mapE (\<lambda>t. bindE (legacy_dependencies selection t) (\<lambda>ds. Inr (t, ds))) selected
           | Some JNull \<Rightarrow> mapE (\<lambda>t. bindE (legacy_dependencies selection t) (\<lambda>ds. Inr (t, ds))) selected
           | Some (JObj listed) \<Rightarrow>
               if set (keys listed) \<noteq> set selected
               then Inl (StoreContractError ''stored test plan dependencies are invalid'')
               else mapE (\<lambda>t. bindE (listed_dependencies listed t) (\<lambda>ds. Inr (t, ds))) selected
           | Some _ \<Rightarrow> Inl (StoreContractError ''stored test plan dependencies are invalid'')) (\<lambda>dependencies.
         bindE (ensure (list_all (\<lambda>(target, values). sorted_set values = values \<and>
             target \<notin> set values \<and> set values \<subseteq> set selected) dependencies)
           (StoreContractError ''stored test plan dependencies are invalid'')) (\<lambda>_.
         Inr dependencies))
     | _ \<Rightarrow> Inl (StoreContractError ''stored test plan selection is invalid''))"

text \<open>\<open>dependencies.get(target, ())\<close>.\<close>

definition deps_of :: "string list dict \<Rightarrow> string \<Rightarrow> string list" where
  "deps_of dependencies target = (case map_of dependencies target of None \<Rightarrow> [] | Some ds \<Rightarrow> ds)"

section \<open>The plan of a retry\<close>

function retry_waves ::
  "string list dict \<Rightarrow> string list \<Rightarrow> string list \<Rightarrow> store_error + string list list" where
  "retry_waves dependencies resolved unresolved =
     (if unresolved = [] then Inr [] else
      let wave = filter (\<lambda>t. set (deps_of dependencies t) \<subseteq> set resolved) unresolved in
      if wave = [] then Inl (StoreContractError ''retry plan dependencies contain a cycle'') else
      bindE (retry_waves dependencies (wave @ resolved) (filter (\<lambda>t. t \<notin> set wave) unresolved)) (\<lambda>waves.
      Inr (sort wave # waves)))"
  by pat_completeness auto
termination
proof (relation "measure (\<lambda>(dependencies, resolved, unresolved). length unresolved)", goal_cases)
  case (2 dependencies resolved unresolved wave)
  then obtain x where "x \<in> set wave" using hd_in_set by blast
  with 2 show ?case by (auto intro!: length_filter_less)
qed simp

declare retry_waves.simps [simp del]

definition plan_field :: "json dict \<Rightarrow> string \<Rightarrow> store_error + json" where
  "plan_field document name =
     (case map_of document name of Some v \<Rightarrow> Inr v
      | None \<Rightarrow> Inl (StoreContractError ''stored retry source plan is invalid''))"

definition plan_fields :: "json dict \<Rightarrow> string list \<Rightarrow> store_error + json dict" where
  "plan_fields document names = mapE (\<lambda>n. bindE (plan_field document n) (\<lambda>v. Inr (n, v))) names"

definition plan_subfield :: "json dict \<Rightarrow> string \<Rightarrow> string \<Rightarrow> store_error + json" where
  "plan_subfield document name sub =
     bindE (plan_field document name) (\<lambda>v. case v of JObj d \<Rightarrow> plan_field d sub
       | _ \<Rightarrow> Inl (StoreContractError ''stored retry source plan is invalid''))"

definition retry_fingerprint_document :: "json dict \<Rightarrow> store_error + json" where
  "retry_fingerprint_document document =
     bindE (plan_fields document [''manifest_fingerprint'', ''repository_id'', ''intent'', ''timeouts'', ''source'',
       ''changes'', ''eligible_targets'', ''selected_targets'', ''dependency_waves'', ''dependencies'', ''selection'',
       ''complete_intent_fallback'', ''reusable'']) (\<lambda>fs.
     Inr (JObj ((''schema_version'', JInt 3) # fs)))"

definition retry_execution_document :: "json dict \<Rightarrow> store_error + json" where
  "retry_execution_document document =
     bindE (plan_fields document [''manifest_fingerprint'', ''repository_id'']) (\<lambda>fs.
     bindE (plan_subfield document ''source'' ''mode'') (\<lambda>mode.
     bindE (plan_subfield document ''source'' ''content_fingerprint'') (\<lambda>content.
     bindE (plan_fields document [''intent'', ''timeouts'', ''eligible_targets'', ''selected_targets'',
       ''dependency_waves'', ''dependencies'']) (\<lambda>gs.
     Inr (JObj ((''schema_version'', JInt 3) # fs @ (''source_mode'', mode) #
       (''content_fingerprint'', content) # gs))))))"

record retry_plan =
  rp_plan_id :: string
  rp_fingerprint :: string
  rp_execution_fingerprint :: string
  rp_document :: json

text \<open>
  The dense dependency graph of a retry: the dependencies of the retried targets on one another,
  and their waves.
\<close>

definition retry_graph ::
  "json \<Rightarrow> string list \<Rightarrow> store_error + string list \<times> string list dict \<times> string list list" where
  "retry_graph plan_json selected_targets =
     (let selected = sorted_set selected_targets in
      bindE (ensure (selected \<noteq> []) (StoreContractError ''retry plan requires selected targets'')) (\<lambda>_.
      bindE (stored_plan_dependencies plan_json) (\<lambda>dependencies.
      bindE (ensure (set selected \<subseteq> set (keys dependencies))
        (StoreContractError ''retry targets exceed the stored plan'')) (\<lambda>_.
      let projected = map (\<lambda>t. (t, filter (\<lambda>d. d \<in> set selected) (deps_of dependencies t))) selected in
      bindE (retry_waves projected [] selected) (\<lambda>waves.
      Inr (selected, projected, waves))))))"

definition retry_plan_projection :: "pylib \<Rightarrow> json \<Rightarrow> string list \<Rightarrow> store_error + retry_plan" where
  "retry_plan_projection L plan_json selected_targets =
     (case stored_plan_parts plan_json of
        Inl _ \<Rightarrow> Inl (StoreContractError ''stored retry source plan is invalid'')
      | Inr (source, resources) \<Rightarrow>
      bindE (retry_graph plan_json selected_targets) (\<lambda>(selected, projected, waves).
      case map_of source ''selection'' of
        Some (JObj selection) \<Rightarrow>
          if \<not> set selected \<subseteq> set (keys selection)
          then Inl (StoreContractError ''stored retry plan selection is invalid'') else
          (let document = dict_put ''selection'' (JObj (map (\<lambda>t. (t, the (map_of selection t))) selected))
                (dict_put ''dependencies'' (jdict jstrs projected)
                (dict_put ''dependency_waves'' (JArr (map jstrs waves))
                (dict_put ''selected_targets'' (jstrs selected) source))) in
          bindE (retry_fingerprint_document document) (\<lambda>fingerprint_document.
          bindE (retry_execution_document document) (\<lambda>execution_document.
          let fingerprint = deterministic_fingerprint L fingerprint_document;
              execution_fingerprint = deterministic_fingerprint L execution_document;
              plan_id = ''plan-'' @ take 32 fingerprint;
              identified = dict_put ''execution_fingerprint'' (JStr execution_fingerprint)
                (dict_put ''fingerprint'' (JStr fingerprint) (dict_put ''plan_id'' (JStr plan_id) document));
              complete = (case resources of
                  None \<Rightarrow> identified
                | Some r \<Rightarrow> dict_put stored_plan_resources_field
                    (JObj (map (\<lambda>t. (t, the (map_of r t))) (filter (\<lambda>t. has_key t r) selected))) identified) in
          Inr \<lparr>rp_plan_id = plan_id, rp_fingerprint = fingerprint,
            rp_execution_fingerprint = execution_fingerprint, rp_document = JObj complete\<rparr>)))
      | _ \<Rightarrow> Inl (StoreContractError ''stored retry plan selection is invalid'')))"

end
