(* ===== verification/Store.thy ===== *)
theory Store
  imports Store_Plans
begin

text \<open>
  The tables of \<open>universal_test_store.py\<close> and its transactional helpers: one record per table row,
  the tables as lists in insertion order, and inserts that raise \<open>sqlite3.IntegrityError\<close> where a
  key, unique or foreign-key constraint of \<open>_SCHEMA\<close> fails. A store operation runs in one
  transaction: it returns its result document with the new store, or an error, in which case the
  transaction is rolled back and the store is the old one. No table ever loses a row.
\<close>

section \<open>States and classifications\<close>

datatype run_state =
    RunQueued | RunRunning | RunCancelling | RunSucceeded | RunFailed | RunTimedOut | RunCancelled | RunIncomplete

definition run_state_value :: "run_state \<Rightarrow> string" where
  "run_state_value s = (case s of RunQueued \<Rightarrow> ''queued'' | RunRunning \<Rightarrow> ''running''
     | RunCancelling \<Rightarrow> ''cancelling'' | RunSucceeded \<Rightarrow> ''succeeded'' | RunFailed \<Rightarrow> ''failed''
     | RunTimedOut \<Rightarrow> ''timed_out'' | RunCancelled \<Rightarrow> ''cancelled'' | RunIncomplete \<Rightarrow> ''incomplete'')"

definition active_run :: "run_state \<Rightarrow> bool" where
  "active_run s \<longleftrightarrow> s = RunQueued \<or> s = RunRunning \<or> s = RunCancelling"

datatype execution_conclusion = SUCCEEDED | TEST_FAILED | INFRASTRUCTURE_FAILED | TIMED_OUT | CANCELLED | INCOMPLETE

text \<open>A target is queued, active in one of three phases, or terminal with a conclusion.\<close>

datatype target_state = Queued | Starting | Running | Stopping | Terminal execution_conclusion

definition conclusion_value :: "execution_conclusion \<Rightarrow> string" where
  "conclusion_value c = (case c of SUCCEEDED \<Rightarrow> ''succeeded'' | TEST_FAILED \<Rightarrow> ''test_failed''
     | INFRASTRUCTURE_FAILED \<Rightarrow> ''infrastructure_failed'' | TIMED_OUT \<Rightarrow> ''timed_out''
     | CANCELLED \<Rightarrow> ''cancelled'' | INCOMPLETE \<Rightarrow> ''incomplete'')"

definition target_state_value :: "target_state \<Rightarrow> string" where
  "target_state_value s = (case s of Queued \<Rightarrow> ''queued'' | Starting \<Rightarrow> ''starting'' | Running \<Rightarrow> ''running''
     | Stopping \<Rightarrow> ''stopping'' | Terminal c \<Rightarrow> conclusion_value c)"

definition active_target :: "target_state \<Rightarrow> bool" where
  "active_target s \<longleftrightarrow> s = Starting \<or> s = Running \<or> s = Stopping"

definition failed_target :: "target_state \<Rightarrow> bool" where
  "failed_target s = (case s of Terminal c \<Rightarrow> c \<noteq> SUCCEEDED | _ \<Rightarrow> False)"

datatype failure_classification =
  TEST_FAILURE | INFRASTRUCTURE_FAILURE | TIMEOUT | CANCELLATION | INCOMPLETE_REPORTING

definition classification_value :: "failure_classification \<Rightarrow> string" where
  "classification_value c = (case c of TEST_FAILURE \<Rightarrow> ''test_failure''
     | INFRASTRUCTURE_FAILURE \<Rightarrow> ''infrastructure_failure'' | TIMEOUT \<Rightarrow> ''timeout''
     | CANCELLATION \<Rightarrow> ''cancellation'' | INCOMPLETE_REPORTING \<Rightarrow> ''incomplete_reporting'')"

definition conclusion_classification :: "execution_conclusion \<Rightarrow> failure_classification option" where
  "conclusion_classification c = (case c of SUCCEEDED \<Rightarrow> None | TEST_FAILED \<Rightarrow> Some TEST_FAILURE
     | INFRASTRUCTURE_FAILED \<Rightarrow> Some INFRASTRUCTURE_FAILURE | TIMED_OUT \<Rightarrow> Some TIMEOUT
     | CANCELLED \<Rightarrow> Some CANCELLATION | INCOMPLETE \<Rightarrow> Some INCOMPLETE_REPORTING)"

section \<open>Rows\<close>

record snapshot_row =
  sn_snapshot_id :: string
  sn_repository_id :: string
  sn_content_fingerprint :: string
  sn_manifest_fingerprint :: string
  sn_original_root :: string
  sn_temporary_root :: "string option"
  sn_provenance :: json
  sn_created_at :: rat

record plan_row =
  pl_plan_id :: string
  pl_fingerprint :: string
  pl_execution_fingerprint :: string
  pl_manifest_fingerprint :: string
  pl_repository_id :: string
  pl_intent :: string
  pl_snapshot_id :: string
  pl_source_fingerprint :: string
  pl_reusable :: bool
  pl_plan_json :: json
  pl_created_at :: rat

record run_row =
  ru_run_id :: string
  ru_plan_id :: string
  ru_repository_id :: string
  ru_owner_uid :: int
  ru_actor :: string
  ru_intent :: string
  ru_source_fingerprint :: string
  ru_execution_fingerprint :: string
  ru_eligible_target_count :: nat
  ru_selected_target_count :: nat
  ru_state :: run_state
  ru_conclusion :: "run_state option"
  ru_failure_classification :: "failure_classification option"
  ru_priority :: int
  ru_queued_at :: rat
  ru_started_at :: "rat option"
  ru_finished_at :: "rat option"
  ru_cancel_reason :: "string option"
  ru_created_at :: rat
  ru_updated_at :: rat

text \<open>
  The columns of a target that the schema or the code only ever sets together are sub-records: the
  wait columns, the execution identity (the table's CHECK), the launch evidence, the output
  progress and the terminal evidence. The generation column of an execution is always 1.
\<close>

record wait_columns =
  wa_code :: string
  wa_since :: rat
  wa_required_mib :: "int option"
  wa_available_mib :: "int option"
  wa_reserve_mib :: "int option"
  wa_observed_at :: "rat option"
  wa_source :: "string option"

record execution_slot =
  ex_execution_id :: string
  ex_store_generation :: string
  ex_repository_generation :: int
  ex_systemd_unit :: string
  ex_launch_operation_id :: string
  ex_descriptor_fingerprint :: string
  ex_launch_deadline_at :: rat
  ex_memory_commitment_mib :: int

record launch_evidence =
  la_launch_ack_id :: string
  la_systemd_invocation_id :: "string option"
  la_started_at :: rat
  la_deadline_at :: rat

record output_progress =
  op_stdout_bytes :: int
  op_stderr_bytes :: int
  op_stdout_retained_bytes :: int
  op_stderr_retained_bytes :: int
  op_stdout_truncated :: bool
  op_stderr_truncated :: bool
  op_current_memory_bytes :: "int option"
  op_last_output_at :: "rat option"
  op_progress_observed_at :: "rat option"

record terminal_evidence =
  te_operation_id :: string
  te_fingerprint :: string
  te_package_fingerprint :: string
  te_duration_seconds :: rat
  te_peak_memory_bytes :: "int option"
  te_cpu_seconds :: "rat option"
  te_passed_count :: nat
  te_failed_count :: nat
  te_skipped_count :: nat
  te_error_count :: nat
  te_reporter_complete :: bool

record target_row =
  ta_target_id :: string
  ta_run_id :: string
  ta_target_name :: string
  ta_wave_index :: nat
  ta_dependencies :: "string list"
  ta_shard_index :: nat
  ta_shard_count :: nat
  ta_state :: target_state
  ta_estimated_seconds :: rat
  ta_worktree_key :: string
  ta_exclusive_resources :: "string list"
  ta_ttl_seconds :: int
  ta_wait :: "wait_columns option"
  ta_execution :: "execution_slot option"
  ta_launch :: "launch_evidence option"
  ta_last_observed_at :: "rat option"
  ta_stop_reason :: "string option"
  ta_progress :: output_progress
  ta_terminal :: "terminal_evidence option"
  ta_conclusion :: "execution_conclusion option"
  ta_failure_classification :: "failure_classification option"
  ta_queued_at :: rat
  ta_finished_at :: "rat option"
  ta_created_at :: rat
  ta_updated_at :: rat

record profile_row =
  pr_repository_id :: string
  pr_target_name :: string
  pr_sample_count :: nat
  pr_recent_peak_memory_bytes :: int
  pr_last_peak_memory_bytes :: int
  pr_last_cpu_seconds :: "rat option"
  pr_updated_at :: rat

record case_row =
  cr_target_id :: string
  cr_execution_id :: string
  cr_ordinal :: nat
  cr_case_id :: string
  cr_display_name :: string
  cr_status :: string
  cr_duration_seconds :: rat
  cr_location :: "string option"

record failure_row =
  fr_failure_id :: string
  fr_target_id :: string
  fr_execution_id :: string
  fr_ordinal :: nat
  fr_classification :: failure_classification
  fr_case_id :: "string option"
  fr_message :: string
  fr_location :: "string option"
  fr_artifact_id :: "string option"
  fr_created_at :: rat

record artifact_row =
  af_artifact_id :: string
  af_target_id :: string
  af_execution_id :: string
  af_ordinal :: nat
  af_kind :: string
  af_storage_handle :: string
  af_sha256 :: string
  af_size_bytes :: int
  af_verified :: bool
  af_created_at :: rat

record attestation_row =
  at_attestation_id :: string
  at_repository_id :: string
  at_policy_name :: string
  at_snapshot_id :: string
  at_run_id :: string
  at_policy_fingerprint :: string
  at_issued_at :: rat
  at_expires_at :: rat

record consumption_row =
  co_consumption_id :: string
  co_attestation_id :: string
  co_operation_id :: string
  co_consumed_at :: rat

record event_row =
  ev_event_type :: string
  ev_repository_id :: string
  ev_run_id :: "string option"
  ev_execution_id :: "string option"
  ev_detail :: json
  ev_created_at :: rat

record journal_row =
  jo_operation_id :: string
  jo_operation_kind :: string
  jo_request_fingerprint :: string
  jo_result :: json
  jo_created_at :: rat

text \<open>The database, with the store generation of its metadata row.\<close>

record test_store =
  ts_generation :: string
  ts_snapshots :: "snapshot_row list"
  ts_plans :: "plan_row list"
  ts_runs :: "run_row list"
  ts_targets :: "target_row list"
  ts_profiles :: "profile_row list"
  ts_cases :: "case_row list"
  ts_failures :: "failure_row list"
  ts_artifacts :: "artifact_row list"
  ts_attestations :: "attestation_row list"
  ts_consumptions :: "consumption_row list"
  ts_events :: "event_row list"
  ts_journal :: "journal_row list"

definition create_store :: "string \<Rightarrow> test_store" where
  "create_store generation = \<lparr>ts_generation = generation, ts_snapshots = [], ts_plans = [], ts_runs = [],
     ts_targets = [], ts_profiles = [], ts_cases = [], ts_failures = [], ts_artifacts = [],
     ts_attestations = [], ts_consumptions = [], ts_events = [], ts_journal = []\<rparr>"

section \<open>Queries and updates\<close>

definition lookup_run :: "test_store \<Rightarrow> string \<Rightarrow> run_row option" where
  "lookup_run st i = find (\<lambda>r. ru_run_id r = i) (ts_runs st)"

definition lookup_plan :: "test_store \<Rightarrow> string \<Rightarrow> plan_row option" where
  "lookup_plan st i = find (\<lambda>p. pl_plan_id p = i) (ts_plans st)"

definition find_target :: "test_store \<Rightarrow> string \<Rightarrow> target_row option" where
  "find_target st i = find (\<lambda>t. ta_target_id t = i) (ts_targets st)"

definition run_targets :: "test_store \<Rightarrow> string \<Rightarrow> target_row list" where
  "run_targets st i = filter (\<lambda>t. ta_run_id t = i) (ts_targets st)"

definition target_order :: "target_row \<Rightarrow> nat \<times> string \<times> nat" where
  "target_order t = (ta_wave_index t, ta_target_name t, ta_shard_index t)"

definition update_targets :: "(target_row \<Rightarrow> bool) \<Rightarrow> (target_row \<Rightarrow> target_row) \<Rightarrow> test_store \<Rightarrow> test_store" where
  "update_targets p f st = st\<lparr>ts_targets := map (\<lambda>t. if p t then f t else t) (ts_targets st)\<rparr>"

definition update_runs :: "(run_row \<Rightarrow> bool) \<Rightarrow> (run_row \<Rightarrow> run_row) \<Rightarrow> test_store \<Rightarrow> test_store" where
  "update_runs p f st = st\<lparr>ts_runs := map (\<lambda>r. if p r then f r else r) (ts_runs st)\<rparr>"

text \<open>\<open>_now\<close>: the clock's reading, validated.\<close>

definition store_now :: "py_number \<Rightarrow> store_error + rat" where
  "store_now clock = finite_nonnegative ''clock'' clock"

section \<open>Inserts\<close>

definition insert_snapshot :: "snapshot_row \<Rightarrow> test_store \<Rightarrow> store_error + test_store" where
  "insert_snapshot r st =
     bindE (ensure (sn_snapshot_id r \<notin> sn_snapshot_id ` set (ts_snapshots st))
       (StoreIntegrityError ''test_snapshots.snapshot_id'')) (\<lambda>_.
     Inr (st\<lparr>ts_snapshots := ts_snapshots st @ [r]\<rparr>))"

definition insert_plan :: "plan_row \<Rightarrow> test_store \<Rightarrow> store_error + test_store" where
  "insert_plan r st =
     bindE (ensure (pl_plan_id r \<notin> pl_plan_id ` set (ts_plans st)) (StoreIntegrityError ''test_plans.plan_id'')) (\<lambda>_.
     bindE (ensure (pl_fingerprint r \<notin> pl_fingerprint ` set (ts_plans st))
       (StoreIntegrityError ''test_plans.fingerprint'')) (\<lambda>_.
     bindE (ensure (pl_snapshot_id r \<in> sn_snapshot_id ` set (ts_snapshots st))
       (StoreIntegrityError ''test_plans.snapshot_id'')) (\<lambda>_.
     Inr (st\<lparr>ts_plans := ts_plans st @ [r]\<rparr>))))"

text \<open>The partial unique index \<open>one_active_immutable_execution\<close> is the second check.\<close>

definition insert_run :: "run_row \<Rightarrow> test_store \<Rightarrow> store_error + test_store" where
  "insert_run r st =
     bindE (ensure (ru_run_id r \<notin> ru_run_id ` set (ts_runs st)) (StoreIntegrityError ''test_runs.run_id'')) (\<lambda>_.
     bindE (ensure (\<not> (active_run (ru_state r) \<and> list_ex (\<lambda>r'. active_run (ru_state r') \<and>
         ru_execution_fingerprint r' = ru_execution_fingerprint r) (ts_runs st)))
       (StoreIntegrityError ''test_runs.execution_fingerprint'')) (\<lambda>_.
     bindE (ensure (ru_plan_id r \<in> pl_plan_id ` set (ts_plans st)) (StoreIntegrityError ''test_runs.plan_id'')) (\<lambda>_.
     bindE (ensure (0 \<le> ru_owner_uid r \<and> ru_selected_target_count r \<le> ru_eligible_target_count r)
       (StoreIntegrityError ''test_runs check'')) (\<lambda>_.
     Inr (st\<lparr>ts_runs := ts_runs st @ [r]\<rparr>)))))"

definition insert_target :: "target_row \<Rightarrow> test_store \<Rightarrow> store_error + test_store" where
  "insert_target t st =
     bindE (ensure (ta_target_id t \<notin> ta_target_id ` set (ts_targets st))
       (StoreIntegrityError ''test_run_targets.target_id'')) (\<lambda>_.
     bindE (ensure (\<not> list_ex (\<lambda>t'. ta_run_id t' = ta_run_id t \<and> ta_target_name t' = ta_target_name t \<and>
         ta_shard_index t' = ta_shard_index t) (ts_targets st))
       (StoreIntegrityError ''test_run_targets.shard_index'')) (\<lambda>_.
     bindE (ensure (ta_run_id t \<in> ru_run_id ` set (ts_runs st)) (StoreIntegrityError ''test_run_targets.run_id'')) (\<lambda>_.
     bindE (ensure (0 < ta_shard_count t \<and> 0 < ta_estimated_seconds t \<and> 0 < ta_ttl_seconds t)
       (StoreIntegrityError ''test_run_targets check'')) (\<lambda>_.
     Inr (st\<lparr>ts_targets := ts_targets st @ [t]\<rparr>)))))"

definition no_progress :: output_progress where
  "no_progress = \<lparr>op_stdout_bytes = 0, op_stderr_bytes = 0, op_stdout_retained_bytes = 0,
     op_stderr_retained_bytes = 0, op_stdout_truncated = False, op_stderr_truncated = False,
     op_current_memory_bytes = None, op_last_output_at = None, op_progress_observed_at = None\<rparr>"

text \<open>A target row as the submissions insert it, with the defaults of the other columns.\<close>

definition queued_target ::
  "string \<Rightarrow> string \<Rightarrow> string \<Rightarrow> nat \<Rightarrow> string list \<Rightarrow> nat \<Rightarrow> nat \<Rightarrow> rat \<Rightarrow> string \<Rightarrow> string list \<Rightarrow> int \<Rightarrow> rat
     \<Rightarrow> target_row" where
  "queued_target target_id run_id name wave dependencies shard_index shard_count estimated worktree exclusive ttl now =
     \<lparr>ta_target_id = target_id, ta_run_id = run_id, ta_target_name = name, ta_wave_index = wave,
      ta_dependencies = dependencies, ta_shard_index = shard_index, ta_shard_count = shard_count,
      ta_state = Queued, ta_estimated_seconds = estimated, ta_worktree_key = worktree,
      ta_exclusive_resources = exclusive, ta_ttl_seconds = ttl, ta_wait = None, ta_execution = None,
      ta_launch = None, ta_last_observed_at = None, ta_stop_reason = None, ta_progress = no_progress,
      ta_terminal = None, ta_conclusion = None, ta_failure_classification = None, ta_queued_at = now,
      ta_finished_at = None, ta_created_at = now, ta_updated_at = now\<rparr>"

section \<open>Journal and events\<close>

definition mutation_replay :: "string \<Rightarrow> string \<Rightarrow> string \<Rightarrow> test_store \<Rightarrow> store_error + json option" where
  "mutation_replay op kind fp st =
     (case find (\<lambda>j. jo_operation_id j = op) (ts_journal st) of
        None \<Rightarrow> Inr None
      | Some j \<Rightarrow> if jo_operation_kind j \<noteq> kind \<or> jo_request_fingerprint j \<noteq> fp
          then Inl (StoreConflict ''operation_id is bound to a different mutation'')
          else Inr (Some (jo_result j)))"

definition record_mutation ::
  "string \<Rightarrow> string \<Rightarrow> string \<Rightarrow> json \<Rightarrow> rat \<Rightarrow> test_store \<Rightarrow> store_error + test_store" where
  "record_mutation op kind fp result now st =
     bindE (ensure (op \<notin> jo_operation_id ` set (ts_journal st))
       (StoreIntegrityError ''test_mutation_journal.operation_id'')) (\<lambda>_.
     Inr (st\<lparr>ts_journal := ts_journal st @ [\<lparr>jo_operation_id = op, jo_operation_kind = kind,
       jo_request_fingerprint = fp, jo_result = result, jo_created_at = now\<rparr>]\<rparr>))"

text \<open>
  The frame of a journaled mutation: a replay returns the recorded result, otherwise the body runs
  and its result is recorded.
\<close>

definition journaled ::
  "string \<Rightarrow> string \<Rightarrow> string \<Rightarrow> (test_store \<Rightarrow> store_error + json \<times> test_store) \<Rightarrow> test_store
     \<Rightarrow> store_error + json \<times> test_store" where
  "journaled op kind fp body st =
     bindE (mutation_replay op kind fp st) (\<lambda>replay.
     case replay of Some result \<Rightarrow> Inr (result, st) | None \<Rightarrow> body st)"

definition store_event ::
  "pylib \<Rightarrow> string \<Rightarrow> string \<Rightarrow> string option \<Rightarrow> string option \<Rightarrow> json \<Rightarrow> rat \<Rightarrow> test_store
     \<Rightarrow> store_error + test_store" where
  "store_event L event_type repository_id run_id execution_id detail now st =
     bindE (ensure (utf8_length (canonical_json L detail) \<le> 16 * 1024)
       (StoreContractError ''event detail exceeds its byte bound'')) (\<lambda>_.
     Inr (st\<lparr>ts_events := ts_events st @ [\<lparr>ev_event_type = event_type, ev_repository_id = repository_id,
       ev_run_id = run_id, ev_execution_id = execution_id, ev_detail = detail, ev_created_at = now\<rparr>]\<rparr>))"

end
