(* ===== verification/Store_Submission.thy ===== *)
theory Store_Submission
  imports Store
begin

text \<open>
  Registration, submission and retry of plans: \<open>_normalize_resources\<close>, \<open>_upsert_snapshot_and_plan\<close>,
  \<open>register_plan\<close>, \<open>submit_plan\<close> and \<open>retry_run\<close> of \<open>universal_test_store.py\<close>. Results are the
  fields of the returned object as a document.
\<close>

section \<open>Target resources\<close>

record normal_resources =
  nr_estimated_seconds :: rat
  nr_shard_count :: int
  nr_worktree_key :: "string option"
  nr_exclusive_resources :: "string list"
  nr_ttl_seconds :: "int option"

definition default_resources :: target_resources where
  "default_resources = \<lparr>tr_estimated_seconds = PyFloat (Finite 1), tr_shard_count = JInt 1,
     tr_worktree_key = None, tr_exclusive_resources = [], tr_ttl_seconds = None\<rparr>"

text \<open>\<open>None if value is None else check(value)\<close>.\<close>

definition optionE :: "('a \<Rightarrow> 'e + 'b) \<Rightarrow> 'a option \<Rightarrow> 'e + 'b option" where
  "optionE f x = (case x of None \<Rightarrow> Inr None | Some v \<Rightarrow> bindE (f v) (\<lambda>w. Inr (Some w)))"

definition normalize_resource :: "target_resources \<Rightarrow> store_error + normal_resources" where
  "normalize_resource r =
     bindE (finite_nonnegative ''estimated_seconds'' (tr_estimated_seconds r)) (\<lambda>estimated.
     bindE (ensure (0 < estimated \<and> estimated \<le> 31536000)
       (StoreContractError ''estimated_seconds is outside its bound'')) (\<lambda>_.
     bindE (positive_int ''shard_count'' 256 (tr_shard_count r)) (\<lambda>shard_count.
     bindE (optionE (single_line ''worktree_key'' 4096) (tr_worktree_key r)) (\<lambda>worktree.
     bindE (mapE (safe_id ''exclusive_resource'') (tr_exclusive_resources r)) (\<lambda>exclusive.
     bindE (optionE (positive_int ''ttl_seconds'' 31536000) (tr_ttl_seconds r)) (\<lambda>ttl.
     Inr \<lparr>nr_estimated_seconds = estimated, nr_shard_count = shard_count, nr_worktree_key = worktree,
       nr_exclusive_resources = sorted_set exclusive, nr_ttl_seconds = ttl\<rparr>))))))"

definition normalize_resources ::
  "test_plan \<Rightarrow> target_resources dict \<Rightarrow> store_error + normal_resources dict" where
  "normalize_resources plan supplied =
     (let unknown = sorted_set (filter (\<lambda>n. n \<notin> set (tp_selected_targets plan)) (keys supplied)) in
      bindE (ensure (unknown = [])
        (StoreContractError (''target_resources names unselected targets: '' @ join '', '' unknown))) (\<lambda>_.
      mapE (\<lambda>name. bindE (normalize_resource (case map_of supplied name of None \<Rightarrow> default_resources | Some r \<Rightarrow> r))
        (\<lambda>r. Inr (name, r))) (tp_selected_targets plan)))"

definition resource_document :: "normal_resources \<Rightarrow> json" where
  "resource_document r = JObj
     [(''estimated_seconds'', JFloat (nr_estimated_seconds r)), (''shard_count'', JInt (nr_shard_count r)),
      (''worktree_key'', jopt JStr (nr_worktree_key r)),
      (''exclusive_resources'', jstrs (nr_exclusive_resources r)), (''ttl_seconds'', jopt JInt (nr_ttl_seconds r))]"

definition resources_document :: "normal_resources dict \<Rightarrow> json" where
  "resources_document rs = jdict resource_document (sort_key fst rs)"

section \<open>Snapshots and plans\<close>

text \<open>Equality of documents does not depend on the order of the keys.\<close>

primrec sort_json :: "json \<Rightarrow> json" where
  "sort_json JNull = JNull"
| "sort_json (JBool b) = JBool b"
| "sort_json (JInt i) = JInt i"
| "sort_json (JFloat x) = JFloat x"
| "sort_json (JStr s) = JStr s"
| "sort_json (JArr vs) = JArr (map sort_json vs)"
| "sort_json (JObj kvs) = JObj (sort_key fst (map (map_prod id sort_json) kvs))"

definition governed_snapshot :: "test_plan \<Rightarrow> store_error + string" where
  "governed_snapshot plan =
     (case si_snapshot_id (tp_source plan) of
        Some s \<Rightarrow> if si_mode (tp_source plan) = IMMUTABLE then Inr s
          else Inl (StoreContractError ''governed test plans must use an immutable snapshot'')
      | None \<Rightarrow> Inl (StoreContractError ''governed test plans must use an immutable snapshot''))"

definition upsert_snapshot :: "test_plan \<Rightarrow> string \<Rightarrow> rat \<Rightarrow> test_store \<Rightarrow> store_error + test_store" where
  "upsert_snapshot plan snapshot_id now st =
     (let source = tp_source plan in
      case find (\<lambda>s. sn_snapshot_id s = snapshot_id) (ts_snapshots st) of
        None \<Rightarrow> insert_snapshot \<lparr>sn_snapshot_id = snapshot_id, sn_repository_id = si_repository_id source,
            sn_content_fingerprint = si_content_fingerprint source,
            sn_manifest_fingerprint = tp_manifest_fingerprint plan, sn_original_root = si_original_root source,
            sn_temporary_root = si_temporary_root source,
            sn_provenance = JObj [(''source'', source_document source),
              (''manifest_fingerprint'', JStr (tp_manifest_fingerprint plan))],
            sn_created_at = now\<rparr> st
      | Some s \<Rightarrow>
          bindE (ensure ((sn_repository_id s, sn_content_fingerprint s, sn_manifest_fingerprint s, sn_original_root s,
              sn_temporary_root s) = (si_repository_id source, si_content_fingerprint source,
              tp_manifest_fingerprint plan, si_original_root source, si_temporary_root source))
            (StoreConflict ''snapshot_id is bound to different provenance'')) (\<lambda>_. Inr st))"

definition stored_document :: "pylib \<Rightarrow> test_plan \<Rightarrow> normal_resources dict option \<Rightarrow> json" where
  "stored_document L plan resources =
     (case plan_to_document L plan of
        JObj d \<Rightarrow> JObj (case resources of None \<Rightarrow> d
          | Some rs \<Rightarrow> dict_put stored_plan_resources_field (resources_document rs) d)
      | v \<Rightarrow> v)"

definition upsert_plan ::
  "pylib \<Rightarrow> test_plan \<Rightarrow> string \<Rightarrow> rat \<Rightarrow> normal_resources dict option \<Rightarrow> test_store
     \<Rightarrow> store_error + test_store" where
  "upsert_plan L plan snapshot_id now resources st =
     (let plan_json = stored_document L plan resources in
      case lookup_plan st (tp_plan_id plan) of
        None \<Rightarrow> insert_plan \<lparr>pl_plan_id = tp_plan_id plan, pl_fingerprint = tp_fingerprint plan,
            pl_execution_fingerprint = tp_execution_fingerprint plan,
            pl_manifest_fingerprint = tp_manifest_fingerprint plan, pl_repository_id = tp_repository_id plan,
            pl_intent = tp_intent plan, pl_snapshot_id = snapshot_id,
            pl_source_fingerprint = si_content_fingerprint (tp_source plan), pl_reusable = tp_reusable plan,
            pl_plan_json = plan_json, pl_created_at = now\<rparr> st
      | Some p \<Rightarrow>
          bindE (stored_plan_parts (pl_plan_json p)) (\<lambda>(existing_document, existing_resources).
          bindE (ensure (pl_fingerprint p = tp_fingerprint plan \<and>
              sort_json (JObj existing_document) = sort_json (plan_to_document L plan))
            (StoreConflict ''plan_id is bound to a different plan'')) (\<lambda>_.
          case (resources, existing_resources) of
            (None, _) \<Rightarrow> Inr st
          | (Some rs, None) \<Rightarrow> Inr (st\<lparr>ts_plans := map (\<lambda>q. if pl_plan_id q = tp_plan_id plan
              then q\<lparr>pl_plan_json := plan_json\<rparr> else q) (ts_plans st)\<rparr>)
          | (Some rs, Some existing) \<Rightarrow>
              bindE (ensure (sort_json (JObj existing) = sort_json (resources_document rs))
                (StoreConflict ''plan_id is bound to different target resources'')) (\<lambda>_. Inr st))))"

definition upsert_snapshot_and_plan ::
  "pylib \<Rightarrow> test_plan \<Rightarrow> rat \<Rightarrow> normal_resources dict option \<Rightarrow> test_store \<Rightarrow> store_error + test_store" where
  "upsert_snapshot_and_plan L plan now resources st =
     bindE (governed_snapshot plan) (\<lambda>snapshot_id.
     bindE (upsert_snapshot plan snapshot_id now st) (\<lambda>st.
     upsert_plan L plan snapshot_id now resources st))"

definition register_plan ::
  "pylib \<Rightarrow> py_number \<Rightarrow> test_plan \<Rightarrow> target_resources dict option \<Rightarrow> test_store
     \<Rightarrow> store_error + json \<times> test_store" where
  "register_plan L clock plan target_resources st =
     bindE (governed_snapshot plan) (\<lambda>_.
     bindE (optionE (normalize_resources plan) target_resources) (\<lambda>resources.
     bindE (store_now clock) (\<lambda>now.
     bindE (upsert_snapshot_and_plan L plan now resources st) (\<lambda>st'.
     Inr (JObj [(''plan_id'', JStr (tp_plan_id plan)), (''fingerprint'', JStr (tp_fingerprint plan)),
       (''repository_id'', JStr (tp_repository_id plan)),
       (''registered'', JBool (lookup_plan st (tp_plan_id plan) = None))], st')))))"

section \<open>Submission\<close>

definition submission_document :: "string \<Rightarrow> string \<Rightarrow> bool \<Rightarrow> json" where
  "submission_document run_id state deduplicated = JObj
     [(''run_id'', JStr run_id), (''state'', JStr state), (''deduplicated'', JBool deduplicated),
      (''deduplicated_run_id'', if deduplicated then JStr run_id else JNull),
      (''console_path'', JStr (''/#/tests/runs/'' @ run_id))]"

definition active_execution :: "test_store \<Rightarrow> string \<Rightarrow> run_row option" where
  "active_execution st fp =
     (case sort_key (\<lambda>r. (ru_created_at r, ru_run_id r))
         (filter (\<lambda>r. ru_execution_fingerprint r = fp \<and> active_run (ru_state r)) (ts_runs st)) of
        [] \<Rightarrow> None | r # _ \<Rightarrow> Some r)"

definition digest_id :: "pylib \<Rightarrow> string \<Rightarrow> string list \<Rightarrow> string" where
  "digest_id L prefix parts = prefix @ take 32 (sha256_hexdigest L (join [CHR 0x00] parts))"

definition wave_index_of :: "string list list \<Rightarrow> string \<Rightarrow> nat option" where
  "wave_index_of waves name =
     map_of (rev (concat (map (\<lambda>(i, wave). map (\<lambda>n. (n, i)) wave) (enumerate 0 waves)))) name"

definition ttl_of :: "test_plan \<Rightarrow> normal_resources \<Rightarrow> int" where
  "ttl_of plan r =
     (case nr_ttl_seconds r of Some t \<Rightarrow> t
      | None \<Rightarrow> (case pt_execution_seconds (tp_timeouts plan) of Some e \<Rightarrow> if e = 0 then 300 else e | None \<Rightarrow> 300))"

definition worktree_of :: "test_plan \<Rightarrow> normal_resources \<Rightarrow> string" where
  "worktree_of plan r =
     (case nr_worktree_key r of Some w \<Rightarrow> w
      | None \<Rightarrow> (case si_temporary_root (tp_source plan) of
                   Some w \<Rightarrow> if w = [] then si_original_root (tp_source plan) else w
                 | None \<Rightarrow> si_original_root (tp_source plan)))"

definition submitted_targets ::
  "pylib \<Rightarrow> test_plan \<Rightarrow> normal_resources dict \<Rightarrow> string \<Rightarrow> rat \<Rightarrow> string \<Rightarrow> store_error + target_row list" where
  "submitted_targets L plan resources run_id now name =
     (case (map_of resources name, wave_index_of (tp_dependency_waves plan) name) of
        (Some r, Some wave) \<Rightarrow> Inr (map (\<lambda>shard. queued_target
            (digest_id L ''target-'' [run_id, name, show_int (int shard)]) run_id name wave
            (sorted_set (deps_of (tp_dependencies plan) name)) shard (nat (nr_shard_count r))
            (nr_estimated_seconds r) (worktree_of plan r) (nr_exclusive_resources r) (ttl_of plan r) now)
          [0..<nat (nr_shard_count r)])
      | _ \<Rightarrow> Inl (StoreInternalError name))"

definition submit_run ::
  "pylib \<Rightarrow> test_plan \<Rightarrow> string \<Rightarrow> string \<Rightarrow> string \<Rightarrow> int \<Rightarrow> int \<Rightarrow> normal_resources dict \<Rightarrow> rat \<Rightarrow> test_store
     \<Rightarrow> store_error + json \<times> test_store" where
  "submit_run L plan op fp actor owner priority resources now st =
     (let run_id = digest_id L ''run-'' [op, fp]; none = (tp_selected_targets plan = []);
          initial = (if none then RunSucceeded else RunQueued);
          result = submission_document run_id (run_state_value initial) False in
      bindE (insert_run \<lparr>ru_run_id = run_id, ru_plan_id = tp_plan_id plan,
          ru_repository_id = tp_repository_id plan, ru_owner_uid = owner, ru_actor = actor,
          ru_intent = tp_intent plan, ru_source_fingerprint = si_content_fingerprint (tp_source plan),
          ru_execution_fingerprint = tp_execution_fingerprint plan,
          ru_eligible_target_count = length (tp_eligible_targets plan),
          ru_selected_target_count = length (tp_selected_targets plan), ru_state = initial,
          ru_conclusion = (if none then Some RunSucceeded else None), ru_failure_classification = None,
          ru_priority = priority, ru_queued_at = now, ru_started_at = None,
          ru_finished_at = (if none then Some now else None), ru_cancel_reason = None,
          ru_created_at = now, ru_updated_at = now\<rparr> st) (\<lambda>st.
      bindE (foldE (\<lambda>name st. bindE (submitted_targets L plan resources run_id now name) (\<lambda>rows.
          foldE insert_target rows st)) (tp_selected_targets plan) st) (\<lambda>st.
      bindE (record_mutation op ''submit'' fp result now st) (\<lambda>st.
      bindE (store_event L ''test.run_submitted'' (tp_repository_id plan) (Some run_id) None
        (JObj [(''intent'', JStr (tp_intent plan)), (''source_mode'', JStr ''immutable''),
          (''target_count'', JInt (int (length (tp_selected_targets plan))))]) now st) (\<lambda>st.
      Inr (result, st))))))"

definition submit_plan ::
  "pylib \<Rightarrow> py_number \<Rightarrow> test_plan \<Rightarrow> string \<Rightarrow> json \<Rightarrow> json \<Rightarrow> json \<Rightarrow> target_resources dict \<Rightarrow> test_store
     \<Rightarrow> store_error + json \<times> test_store" where
  "submit_plan L clock plan op_id actor_value owner_uid priority_value target_resources st =
     bindE (governed_snapshot plan) (\<lambda>_.
     bindE (operation_id op_id) (\<lambda>op.
     bindE (single_line ''actor'' 256 actor_value) (\<lambda>actor.
     bindE (case owner_uid of JInt i \<Rightarrow> if 0 \<le> i then Inr i
         else Inl (StoreContractError ''owner_uid must be a non-negative integer'')
       | _ \<Rightarrow> Inl (StoreContractError ''owner_uid must be a non-negative integer'')) (\<lambda>owner.
     bindE (case priority_value of JInt i \<Rightarrow> if -100 \<le> i \<and> i \<le> 100 then Inr i
         else Inl (StoreContractError ''priority must be between -100 and 100'')
       | _ \<Rightarrow> Inl (StoreContractError ''priority must be between -100 and 100'')) (\<lambda>priority.
     bindE (normalize_resources plan target_resources) (\<lambda>resources.
     let fp = deterministic_fingerprint L (JObj [(''plan_fingerprint'', JStr (tp_fingerprint plan)),
           (''actor'', JStr actor), (''owner_uid'', JInt owner), (''priority'', JInt priority),
           (''resources'', resources_document resources)]) in
     bindE (store_now clock) (\<lambda>now.
     journaled op ''submit'' fp (\<lambda>st.
       bindE (upsert_snapshot_and_plan L plan now (Some resources) st) (\<lambda>st.
       case active_execution st (tp_execution_fingerprint plan) of
         Some r \<Rightarrow>
           (let result = submission_document (ru_run_id r) (run_state_value (ru_state r)) True in
            bindE (record_mutation op ''submit'' fp result now st) (\<lambda>st. Inr (result, st)))
       | None \<Rightarrow> submit_run L plan op fp actor owner priority resources now st)) st)))))))"

section \<open>Retry\<close>

definition retried_target ::
  "pylib \<Rightarrow> string \<Rightarrow> string list list \<Rightarrow> string list dict \<Rightarrow> rat \<Rightarrow> target_row \<Rightarrow> store_error + target_row" where
  "retried_target L retry_id waves dependencies now t =
     (case (wave_index_of waves (ta_target_name t), map_of dependencies (ta_target_name t)) of
        (Some wave, Some ds) \<Rightarrow> Inr (queued_target
          (digest_id L ''target-'' [retry_id, ta_target_name t, show_int (int (ta_shard_index t))]) retry_id
          (ta_target_name t) wave ds (ta_shard_index t) (ta_shard_count t) (ta_estimated_seconds t)
          (ta_worktree_key t) (ta_exclusive_resources t) (ta_ttl_seconds t) now)
      | _ \<Rightarrow> Inl (StoreInternalError (ta_target_name t)))"

text \<open>The wave and dependency columns come from the derived plan document.\<close>

definition document_waves :: "json dict \<Rightarrow> string list list" where
  "document_waves d = (case map_of d ''dependency_waves'' of
     Some (JArr ws) \<Rightarrow> List.map_filter string_array ws | _ \<Rightarrow> [])"

definition document_dependencies :: "json dict \<Rightarrow> string list dict" where
  "document_dependencies d = (case map_of d ''dependencies'' of
     Some (JObj ds) \<Rightarrow> List.map_filter (\<lambda>(k, v). map_option (Pair k) (string_array v)) ds | _ \<Rightarrow> [])"

definition insert_retry_plan ::
  "plan_row \<Rightarrow> retry_plan \<Rightarrow> rat \<Rightarrow> test_store \<Rightarrow> store_error + test_store" where
  "insert_retry_plan source rp now st =
     (if lookup_plan st (rp_plan_id rp) \<noteq> None then Inr st
      else insert_plan \<lparr>pl_plan_id = rp_plan_id rp, pl_fingerprint = rp_fingerprint rp,
        pl_execution_fingerprint = rp_execution_fingerprint rp,
        pl_manifest_fingerprint = pl_manifest_fingerprint source, pl_repository_id = pl_repository_id source,
        pl_intent = pl_intent source, pl_snapshot_id = pl_snapshot_id source,
        pl_source_fingerprint = pl_source_fingerprint source, pl_reusable = pl_reusable source,
        pl_plan_json = rp_document rp, pl_created_at = now\<rparr> st)"

definition insert_retry_run ::
  "run_row \<Rightarrow> retry_plan \<Rightarrow> string \<Rightarrow> string \<Rightarrow> nat \<Rightarrow> rat \<Rightarrow> test_store \<Rightarrow> store_error + test_store" where
  "insert_retry_run source rp retry_id actor selected_count now st =
     insert_run \<lparr>ru_run_id = retry_id, ru_plan_id = rp_plan_id rp, ru_repository_id = ru_repository_id source,
       ru_owner_uid = ru_owner_uid source, ru_actor = actor, ru_intent = ru_intent source,
       ru_source_fingerprint = ru_source_fingerprint source,
       ru_execution_fingerprint = rp_execution_fingerprint rp,
       ru_eligible_target_count = ru_eligible_target_count source,
       ru_selected_target_count = selected_count, ru_state = RunQueued, ru_conclusion = None,
       ru_failure_classification = None, ru_priority = ru_priority source, ru_queued_at = now,
       ru_started_at = None, ru_finished_at = None, ru_cancel_reason = None, ru_created_at = now,
       ru_updated_at = now\<rparr> st"

definition retry_selection :: "test_store \<Rightarrow> string \<Rightarrow> bool \<Rightarrow> target_row list" where
  "retry_selection st run_id failed_only =
     filter (\<lambda>t. \<not> failed_only \<or> ta_state t \<noteq> Terminal SUCCEEDED)
       (sort_key target_order (run_targets st run_id))"

definition retry_body ::
  "pylib \<Rightarrow> string \<Rightarrow> string \<Rightarrow> bool \<Rightarrow> string \<Rightarrow> string \<Rightarrow> rat \<Rightarrow> test_store
     \<Rightarrow> store_error + json \<times> test_store" where
  "retry_body L run_id actor failed_only op fp now st =
     (case lookup_run st run_id of
        None \<Rightarrow> Inl (StoreNotFound ''test run does not exist'')
      | Some source_run \<Rightarrow>
      bindE (ensure (\<not> active_run (ru_state source_run))
        (StoreConflict ''an active run cannot be retried'')) (\<lambda>_.
      case lookup_plan st (ru_plan_id source_run) of
        None \<Rightarrow> Inl (StoreConflict ''retry requires retained immutable provenance'')
      | Some source_plan \<Rightarrow>
      let selected = retry_selection st run_id failed_only in
      bindE (ensure (selected \<noteq> []) (StoreConflict ''the run has no failed targets to retry'')) (\<lambda>_.
      bindE (retry_plan_projection L (pl_plan_json source_plan) (map ta_target_name selected)) (\<lambda>rp.
      bindE (stored_plan_parts (rp_document rp)) (\<lambda>(document, _).
      case active_execution st (rp_execution_fingerprint rp) of
        Some r \<Rightarrow>
          (let result = submission_document (ru_run_id r) (run_state_value (ru_state r)) True in
           bindE (record_mutation op ''retry'' fp result now st) (\<lambda>st. Inr (result, st)))
      | None \<Rightarrow>
      bindE (insert_retry_plan source_plan rp now st) (\<lambda>st.
      let retry_id = digest_id L ''run-'' [''retry'', op, fp];
          result = submission_document retry_id ''queued'' False in
      bindE (insert_retry_run source_run rp retry_id actor
        (length (remdups (map ta_target_name selected))) now st) (\<lambda>st.
      bindE (foldE (\<lambda>t st. bindE (retried_target L retry_id (document_waves document)
          (document_dependencies document) now t) (\<lambda>row. insert_target row st)) selected st) (\<lambda>st.
      bindE (record_mutation op ''retry'' fp result now st) (\<lambda>st.
      bindE (store_event L ''test.run_retried'' (ru_repository_id source_run) (Some retry_id) None
        (JObj [(''source_run_id'', JStr run_id), (''failed_only'', JBool failed_only),
          (''target_count'', JInt (int (length selected)))]) now st) (\<lambda>st.
      Inr (result, st)))))))))))"

definition retry_run ::
  "pylib \<Rightarrow> py_number \<Rightarrow> json \<Rightarrow> json \<Rightarrow> bool \<Rightarrow> string \<Rightarrow> test_store \<Rightarrow> store_error + json \<times> test_store" where
  "retry_run L clock run_value actor_value failed_only op_id st =
     bindE (safe_id ''run_id'' run_value) (\<lambda>run_id.
     bindE (single_line ''actor'' 256 actor_value) (\<lambda>actor.
     bindE (operation_id op_id) (\<lambda>op.
     let fp = deterministic_fingerprint L (JObj [(''run_id'', JStr run_id), (''actor'', JStr actor),
           (''failed_only'', JBool failed_only)]) in
     bindE (store_now clock) (\<lambda>now.
     journaled op ''retry'' fp (retry_body L run_id actor failed_only op fp now) st))))"

end
