(* ===== verification/Store_Evidence.thy ===== *)
theory Store_Evidence
  imports Store_Submission
begin

text \<open>
  Evidence attestations of \<open>universal_test_store.py\<close>: the policies of a retained plan
  (\<open>_plan_evidence_policies\<close>), automatic and explicit issuing, the check of a reusable policy and
  the single consumption of a non-reusable one.
\<close>

section \<open>Policies of a retained plan\<close>

definition retained_policy :: "pylib \<Rightarrow> string \<times> json \<Rightarrow> store_error + string \<times> evidence_policy" where
  "retained_policy L = (\<lambda>(name, value).
     (let invalid = StoreContractError ''retained plan evidence policy is invalid'' in
      case value of
        JObj v \<Rightarrow>
          bindE (ensure (name_re 63 name \<and> set (keys v) =
              {''intent'', ''required_targets'', ''max_age_seconds'', ''allow_reuse'', ''fingerprint''}) invalid) (\<lambda>_.
          case (Option.bind (map_of v ''required_targets'') string_array, map_of v ''intent'',
                map_of v ''max_age_seconds'', map_of v ''allow_reuse'') of
            (Some targets, Some (JStr intent), Some (JInt age), Some (JBool reuse)) \<Rightarrow>
              bindE (ensure (targets \<noteq> [] \<and> sorted_set targets = targets \<and> 1 \<le> age \<and> age \<le> 31536000) invalid) (\<lambda>_.
              let policy = \<lparr>ep_name = name, ep_intent = intent, ep_required_targets = targets,
                    ep_max_age_seconds = age, ep_allow_reuse = reuse\<rparr> in
              bindE (ensure (map_of v ''fingerprint'' = Some (JStr (evidence_policy_fingerprint L policy)))
                (StoreContractError ''retained plan evidence policy fingerprint is invalid'')) (\<lambda>_.
              Inr (name, policy)))
          | _ \<Rightarrow> Inl invalid)
      | _ \<Rightarrow> Inl invalid))"

definition plan_evidence_policies :: "pylib \<Rightarrow> json \<Rightarrow> store_error + evidence_policy dict" where
  "plan_evidence_policies L plan_json =
     (let invalid = Inl (StoreContractError ''retained plan evidence policies are invalid'') in
      case plan_json of
        JObj d \<Rightarrow> (case map_of d ''evidence_policies'' of
            Some (JObj raw) \<Rightarrow> if 64 < length raw then invalid
              else mapE (retained_policy L) (sort_key fst raw)
          | _ \<Rightarrow> invalid)
      | _ \<Rightarrow> invalid)"

definition executed_targets :: "test_store \<Rightarrow> string \<Rightarrow> string list" where
  "executed_targets st run_id =
     map ta_target_name (filter (\<lambda>t. ta_state t = Terminal SUCCEEDED) (run_targets st run_id))"

section \<open>Issuing\<close>

definition attestation_of ::
  "pylib \<Rightarrow> run_row \<Rightarrow> plan_row \<Rightarrow> string \<Rightarrow> string \<Rightarrow> rat \<Rightarrow> rat \<Rightarrow> attestation_row" where
  "attestation_of L run plan policy_name fp issued expires =
     \<lparr>at_attestation_id = digest_id L ''attestation-'' [ru_run_id run, policy_name, fp],
      at_repository_id = ru_repository_id run, at_policy_name = policy_name,
      at_snapshot_id = pl_snapshot_id plan, at_run_id = ru_run_id run, at_policy_fingerprint = fp,
      at_issued_at = issued, at_expires_at = expires\<rparr>"

definition find_attestation :: "test_store \<Rightarrow> string \<Rightarrow> attestation_row option" where
  "find_attestation st i = find (\<lambda>a. at_attestation_id a = i) (ts_attestations st)"

text \<open>The constraint of the table besides its key: \<open>UNIQUE(run_id, policy_name, policy_fingerprint)\<close>.\<close>

definition same_evidence :: "attestation_row \<Rightarrow> attestation_row \<Rightarrow> bool" where
  "same_evidence a b \<longleftrightarrow> at_run_id a = at_run_id b \<and> at_policy_name a = at_policy_name b \<and>
     at_policy_fingerprint a = at_policy_fingerprint b"

definition add_attestation :: "attestation_row \<Rightarrow> test_store \<Rightarrow> test_store" where
  "add_attestation a st = st\<lparr>ts_attestations := ts_attestations st @ [a]\<rparr>"

definition expiry :: "run_row \<Rightarrow> rat \<Rightarrow> int \<Rightarrow> rat" where
  "expiry run now age = (case ru_finished_at run of Some f \<Rightarrow> fl64 (f + of_int age) | None \<Rightarrow> now)"

definition issue_policy ::
  "pylib \<Rightarrow> run_row \<Rightarrow> plan_row \<Rightarrow> rat \<Rightarrow> string \<times> evidence_policy \<Rightarrow> string list \<times> test_store
     \<Rightarrow> store_error + string list \<times> test_store" where
  "issue_policy L run plan now = (\<lambda>(_, policy) (issued, st).
     if \<not> set (ep_required_targets policy) \<subseteq> set (executed_targets st (ru_run_id run)) then Inr (issued, st) else
     let fp = evidence_policy_fingerprint L policy;
         a = attestation_of L run plan (ep_name policy) fp now (expiry run now (ep_max_age_seconds policy)) in
     bindE (case find_attestation st (at_attestation_id a) of
         Some _ \<Rightarrow> Inr st
       | None \<Rightarrow> if list_ex (same_evidence a) (ts_attestations st)
           then Inl (StoreIntegrityError ''test_evidence_attestations.policy_fingerprint'')
           else Inr (add_attestation a st)) (\<lambda>st.
     case find_attestation st (at_attestation_id a) of
       Some retained \<Rightarrow>
         bindE (ensure (at_run_id retained = ru_run_id run)
           (StoreConflict ''automatic evidence attestation identity is contradictory'')) (\<lambda>_.
         Inr (issued @ [at_attestation_id a], st))
     | None \<Rightarrow> Inl (StoreConflict ''automatic evidence attestation identity is contradictory'')))"

definition attestable_run :: "test_store \<Rightarrow> string \<Rightarrow> (run_row \<times> plan_row) option" where
  "attestable_run st run_id =
     Option.bind (lookup_run st run_id) (\<lambda>run.
     Option.bind (lookup_plan st (ru_plan_id run)) (\<lambda>plan. Some (run, plan)))"

definition issue_plan_evidence_attestations ::
  "pylib \<Rightarrow> string \<Rightarrow> rat \<Rightarrow> test_store \<Rightarrow> store_error + string list \<times> test_store" where
  "issue_plan_evidence_attestations L run_id now st =
     (case attestable_run st run_id of
        None \<Rightarrow> Inr ([], st)
      | Some (run, plan) \<Rightarrow>
          if ru_state run \<noteq> RunSucceeded \<or> ru_finished_at run = None then Inr ([], st) else
          bindE (plan_evidence_policies L (pl_plan_json plan)) (\<lambda>policies.
          foldE (issue_policy L run plan now) policies ([], st)))"

definition evidence_document :: "attestation_row \<Rightarrow> rat \<Rightarrow> json" where
  "evidence_document a expires = JObj
     [(''satisfied'', JBool True), (''attestation_id'', JStr (at_attestation_id a)),
      (''repository_id'', JStr (at_repository_id a)), (''snapshot_id'', JStr (at_snapshot_id a)),
      (''run_id'', JStr (at_run_id a)), (''policy_name'', JStr (at_policy_name a)),
      (''expires_at'', JFloat expires)]"

definition issue_body ::
  "pylib \<Rightarrow> string \<Rightarrow> string \<Rightarrow> string \<Rightarrow> string list \<Rightarrow> int \<Rightarrow> string \<Rightarrow> string \<Rightarrow> rat \<Rightarrow> test_store
     \<Rightarrow> store_error + json \<times> test_store" where
  "issue_body L run_id policy_name policy_fp targets age op fp now st =
     (case attestable_run st run_id of
        None \<Rightarrow> Inl (StoreNotFound ''test run does not exist'')
      | Some (run, plan) \<Rightarrow>
      bindE (ensure (ru_state run = RunSucceeded \<and> ru_finished_at run \<noteq> None)
        (StoreConflict ''evidence requires a successful immutable terminal run'')) (\<lambda>_.
      bindE (plan_evidence_policies L (pl_plan_json plan)) (\<lambda>policies.
      bindE (ensure (case map_of policies policy_name of
          Some policy \<Rightarrow> evidence_policy_fingerprint L policy = policy_fp \<and>
            ep_required_targets policy = targets \<and> ep_max_age_seconds policy = age
        | None \<Rightarrow> False) (StoreConflict ''evidence policy does not match the retained exact plan'')) (\<lambda>_.
      let a = attestation_of L run plan policy_name policy_fp now (expiry run now age) in
      bindE (ensure (now \<le> at_expires_at a) (StoreConflict ''test evidence is already stale'')) (\<lambda>_.
      let missing = sorted_set (filter (\<lambda>t. t \<notin> set (executed_targets st run_id)) targets) in
      bindE (ensure (missing = [])
        (StoreConflict (''run does not satisfy required target(s): '' @ join '', '' missing))) (\<lambda>_.
      bindE (if find_attestation st (at_attestation_id a) = None \<and> \<not> list_ex (same_evidence a) (ts_attestations st)
          then Inr (at_expires_at a, add_attestation a st)
          else (case find_attestation st (at_attestation_id a) of
              Some existing \<Rightarrow> bindE (ensure (at_run_id existing = run_id)
                (StoreConflict ''run already has contradictory evidence identity'')) (\<lambda>_.
                Inr (at_expires_at existing, st))
            | None \<Rightarrow> Inl (StoreConflict ''run already has contradictory evidence identity''))) (\<lambda>(expires, st).
      let result = evidence_document a expires in
      bindE (record_mutation op ''evidence_attestation'' fp result now st) (\<lambda>st. Inr (result, st)))))))))"

definition issue_evidence_attestation ::
  "pylib \<Rightarrow> py_number \<Rightarrow> json \<Rightarrow> json \<Rightarrow> json \<Rightarrow> json list \<Rightarrow> json \<Rightarrow> string \<Rightarrow> test_store
     \<Rightarrow> store_error + json \<times> test_store" where
  "issue_evidence_attestation L clock run_value policy_value fp_value required age_value op_id st =
     bindE (safe_id ''run_id'' run_value) (\<lambda>run_id.
     bindE (safe_id ''policy_name'' policy_value) (\<lambda>policy_name.
     bindE (store_sha256 ''policy_fingerprint'' fp_value) (\<lambda>policy_fp.
     bindE (mapE (safe_id ''required_target'') required) (\<lambda>required_ids.
     let targets = sorted_set required_ids in
     bindE (ensure (targets \<noteq> []) (StoreContractError ''required_targets must not be empty'')) (\<lambda>_.
     bindE (positive_int ''max_age_seconds'' 31536000 age_value) (\<lambda>age.
     bindE (operation_id op_id) (\<lambda>op.
     let fp = deterministic_fingerprint L (JObj [(''run_id'', JStr run_id), (''policy_name'', JStr policy_name),
           (''policy_fingerprint'', JStr policy_fp), (''required_targets'', jstrs targets),
           (''max_age_seconds'', JInt age)]) in
     bindE (store_now clock) (\<lambda>now.
     journaled op ''evidence_attestation'' fp (issue_body L run_id policy_name policy_fp targets age op fp now) st))))))))"

section \<open>Checking and consuming\<close>

definition consumed :: "test_store \<Rightarrow> attestation_row \<Rightarrow> bool" where
  "consumed st a \<longleftrightarrow> at_attestation_id a \<in> co_attestation_id ` set (ts_consumptions st)"

definition evidence_for :: "test_store \<Rightarrow> string \<Rightarrow> string \<Rightarrow> string \<Rightarrow> attestation_row list" where
  "evidence_for st repository_id snapshot_id policy_name =
     filter (\<lambda>a. at_repository_id a = repository_id \<and> at_snapshot_id a = snapshot_id \<and>
       at_policy_name a = policy_name) (ts_attestations st)"

definition attestation_plan :: "test_store \<Rightarrow> attestation_row \<Rightarrow> json option" where
  "attestation_plan st a = map_option (pl_plan_json \<circ> snd) (attestable_run st (at_run_id a))"

definition retained_attestation_policy ::
  "pylib \<Rightarrow> attestation_row \<Rightarrow> json \<Rightarrow> store_error + evidence_policy" where
  "retained_attestation_policy L a plan_json =
     bindE (plan_evidence_policies L plan_json) (\<lambda>policies.
     case map_of policies (at_policy_name a) of
       Some policy \<Rightarrow> if evidence_policy_fingerprint L policy = at_policy_fingerprint a then Inr policy
         else Inl (StoreConflict ''retained evidence policy contradicts its exact plan'')
     | None \<Rightarrow> Inl (StoreConflict ''retained evidence policy contradicts its exact plan''))"

text \<open>The joined rows of a query, newest first by the given key.\<close>

definition joined_evidence ::
  "test_store \<Rightarrow> (attestation_row \<Rightarrow> 'k::linorder) \<Rightarrow> attestation_row list \<Rightarrow> (attestation_row \<times> json) option" where
  "joined_evidence st key as =
     (case rev (sort_key (key \<circ> fst) (List.map_filter (\<lambda>a. map_option (Pair a) (attestation_plan st a)) as)) of
        [] \<Rightarrow> None | x # _ \<Rightarrow> Some x)"

definition check_evidence_policy ::
  "pylib \<Rightarrow> py_number \<Rightarrow> py_number option \<Rightarrow> json \<Rightarrow> json \<Rightarrow> json \<Rightarrow> test_store \<Rightarrow> store_error + json" where
  "check_evidence_policy L clock now_value repository_value snapshot_value policy_value st =
     bindE (safe_id ''repository_id'' repository_value) (\<lambda>repository_id.
     bindE (safe_id ''snapshot_id'' snapshot_value) (\<lambda>snapshot_id.
     bindE (safe_id ''policy_name'' policy_value) (\<lambda>policy_name.
     bindE (case now_value of None \<Rightarrow> store_now clock | Some v \<Rightarrow> finite_nonnegative ''now'' v) (\<lambda>now.
     let rows = evidence_for st repository_id snapshot_id policy_name;
         answer = (\<lambda>satisfied reusable requires consumable rest. JObj
           ([(''satisfied'', JBool satisfied), (''reusable'', jopt JBool reusable),
             (''requires_consumption'', JBool requires), (''consumable'', JBool consumable),
             (''repository_id'', JStr repository_id), (''snapshot_id'', JStr snapshot_id),
             (''policy_name'', JStr policy_name)] @ rest)) in
     case joined_evidence st (\<lambda>a. (at_expires_at a \<ge> now, at_issued_at a, at_attestation_id a)) rows of
       None \<Rightarrow> Inr (answer False None False False [])
     | Some (a, plan_json) \<Rightarrow>
         bindE (retained_attestation_policy L a plan_json) (\<lambda>policy.
         let tail = [(''policy_fingerprint'', JStr (at_policy_fingerprint a)), (''expires_at'', JFloat (at_expires_at a))] in
         if \<not> ep_allow_reuse policy then
           Inr (answer False (Some False) True
             (list_ex (\<lambda>b. at_policy_fingerprint b = evidence_policy_fingerprint L policy \<and>
               now \<le> at_expires_at b \<and> \<not> consumed st b) rows) tail)
         else if \<not> now \<le> at_expires_at a then Inr (answer False (Some True) False False tail)
         else Inr (answer True (Some True) False False
           ([(''attestation_id'', JStr (at_attestation_id a)), (''run_id'', JStr (at_run_id a))] @ tail)))))))"

definition consume_body ::
  "pylib \<Rightarrow> string \<Rightarrow> string \<Rightarrow> string \<Rightarrow> string \<Rightarrow> string \<Rightarrow> rat \<Rightarrow> test_store
     \<Rightarrow> store_error + json \<times> test_store" where
  "consume_body L repository_id snapshot_id policy_name op fp now st =
     (case joined_evidence st (\<lambda>a. (at_issued_at a, at_attestation_id a))
         (filter (\<lambda>a. now \<le> at_expires_at a \<and> \<not> consumed st a) (evidence_for st repository_id snapshot_id policy_name)) of
        None \<Rightarrow> Inl (StoreConflict ''no unconsumed exact-snapshot evidence is available'')
      | Some (a, plan_json) \<Rightarrow>
      bindE (retained_attestation_policy L a plan_json) (\<lambda>policy.
      bindE (ensure (\<not> ep_allow_reuse policy)
        (StoreConflict ''reusable evidence must be checked rather than consumed'')) (\<lambda>_.
      let consumption_id = digest_id L ''evidence-use-'' [at_attestation_id a, op] in
      bindE (ensure (\<not> list_ex (\<lambda>c. co_consumption_id c = consumption_id \<or> co_operation_id c = op \<or>
          co_attestation_id c = at_attestation_id a) (ts_consumptions st))
        (StoreConflict ''evidence attestation was consumed concurrently'')) (\<lambda>_.
      let st = st\<lparr>ts_consumptions := ts_consumptions st @ [\<lparr>co_consumption_id = consumption_id,
            co_attestation_id = at_attestation_id a, co_operation_id = op, co_consumed_at = now\<rparr>]\<rparr>;
          result = JObj [(''satisfied'', JBool True), (''consumed'', JBool True), (''reusable'', JBool False),
            (''requires_consumption'', JBool True), (''consumption_id'', JStr consumption_id),
            (''attestation_id'', JStr (at_attestation_id a)), (''repository_id'', JStr repository_id),
            (''snapshot_id'', JStr snapshot_id), (''run_id'', JStr (at_run_id a)),
            (''policy_name'', JStr policy_name), (''policy_fingerprint'', JStr (at_policy_fingerprint a)),
            (''operation_id'', JStr op), (''consumed_at'', JFloat now), (''expires_at'', JFloat (at_expires_at a))] in
      bindE (record_mutation op ''evidence_consume'' fp result now st) (\<lambda>st.
      bindE (store_event L ''test.evidence_consumed'' repository_id (Some (at_run_id a)) None
        (JObj [(''schema_version'', JInt 1), (''consumption_id'', JStr consumption_id),
          (''attestation_id'', JStr (at_attestation_id a)), (''policy_name'', JStr policy_name),
          (''snapshot_id'', JStr snapshot_id)]) now st) (\<lambda>st.
      Inr (result, st)))))))"

definition consume_evidence_policy ::
  "pylib \<Rightarrow> py_number \<Rightarrow> json \<Rightarrow> json \<Rightarrow> json \<Rightarrow> string \<Rightarrow> test_store \<Rightarrow> store_error + json \<times> test_store" where
  "consume_evidence_policy L clock repository_value snapshot_value policy_value op_id st =
     bindE (safe_id ''repository_id'' repository_value) (\<lambda>repository_id.
     bindE (safe_id ''snapshot_id'' snapshot_value) (\<lambda>snapshot_id.
     bindE (safe_id ''policy_name'' policy_value) (\<lambda>policy_name.
     bindE (operation_id op_id) (\<lambda>op.
     let fp = deterministic_fingerprint L (JObj [(''repository_id'', JStr repository_id),
           (''snapshot_id'', JStr snapshot_id), (''policy_name'', JStr policy_name)]) in
     bindE (store_now clock) (\<lambda>now.
     journaled op ''evidence_consume'' fp (consume_body L repository_id snapshot_id policy_name op fp now) st)))))"

end
