(* ===== verification/Store_Reconcile.thy ===== *)
theory Store_Reconcile
  imports Store
begin

text \<open>
  \<open>_reconcile_run\<close>, \<open>_dominant_failure\<close> and \<open>reconcile_nonterminal_runs\<close> of
  \<open>universal_test_store.py\<close>: when a target has failed, the queued targets that depend on it are
  cancelled, and a run whose targets are all terminal gets its own terminal state.
\<close>

section \<open>Cancelling the dependents of a failure\<close>

text \<open>One pass over the dependency map: \<open>for target_name, required in dependencies.items()\<close>.\<close>

fun cancel_pass :: "string list \<Rightarrow> (string \<times> string list) list \<Rightarrow> string list \<Rightarrow> string list" where
  "cancel_pass unavailable [] cancelled = cancelled"
| "cancel_pass unavailable ((name, required) # rest) cancelled =
     (if name \<in> set unavailable \<or> name \<in> set cancelled then cancel_pass unavailable rest cancelled
      else if list_ex (\<lambda>d. d \<in> set unavailable \<or> d \<in> set cancelled) required
        then cancel_pass unavailable rest (name # cancelled)
      else cancel_pass unavailable rest cancelled)"

lemma cancel_pass_extends:
  "\<exists>new. cancel_pass unavailable deps cancelled = new @ cancelled \<and> set new \<subseteq> fst ` set deps - set cancelled"
proof (induction unavailable deps cancelled rule: cancel_pass.induct)
  case (2 unavailable name required rest cancelled)
  let ?stop = "name \<in> set unavailable \<or> name \<in> set cancelled"
  let ?hit = "list_ex (\<lambda>d. d \<in> set unavailable \<or> d \<in> set cancelled) required"
  show ?case
  proof (cases "\<not> ?stop \<and> ?hit")
    case True
    with "2.IH"(2) obtain new where "cancel_pass unavailable rest (name # cancelled) = new @ name # cancelled"
      "set new \<subseteq> fst ` set rest - set (name # cancelled)" by blast
    with True show ?thesis by (intro exI [of _ "new @ [name]"]) auto
  next
    case False
    with "2.IH"(1,3) have "\<exists>new. cancel_pass unavailable rest cancelled = new @ cancelled \<and>
        set new \<subseteq> fst ` set rest - set cancelled" by blast
    with False show ?thesis by auto
  qed
qed simp

text \<open>The \<open>while changed\<close> loop.\<close>

function cancel_loop :: "string list \<Rightarrow> (string \<times> string list) list \<Rightarrow> string list \<Rightarrow> string list" where
  "cancel_loop unavailable deps cancelled =
     (let nxt = cancel_pass unavailable deps cancelled in
      if nxt = cancelled then cancelled else cancel_loop unavailable deps nxt)"
  by pat_completeness auto
termination
proof (relation "measure (\<lambda>(unavailable, deps, cancelled). card (fst ` set deps - set cancelled))", goal_cases)
  case (2 unavailable deps cancelled nxt)
  then obtain new where new: "nxt = new @ cancelled" "set new \<subseteq> fst ` set deps - set cancelled" "new \<noteq> []"
    using cancel_pass_extends [of unavailable deps cancelled] by auto
  have "fst ` set deps - set nxt \<subset> fst ` set deps - set cancelled"
    using new by (cases new) auto
  then show ?case by (simp add: psubset_card_mono)
qed simp

declare cancel_loop.simps [simp del]

definition cancelled_dependents :: "target_row list \<Rightarrow> string list" where
  "cancelled_dependents targets =
     (let unavailable = map ta_target_name (filter (\<lambda>t. failed_target (ta_state t)) targets);
          dependencies = fold (\<lambda>t d. dict_put (ta_target_name t) (ta_dependencies t) d) targets [] in
      cancel_loop unavailable dependencies [])"

section \<open>Reconciliation\<close>

definition dominant_failure :: "target_state list \<Rightarrow> (run_state \<times> failure_classification) option" where
  "dominant_failure states =
     (if Terminal INFRASTRUCTURE_FAILED \<in> set states then Some (RunFailed, INFRASTRUCTURE_FAILURE)
      else if Terminal TIMED_OUT \<in> set states then Some (RunTimedOut, TIMEOUT)
      else if Terminal INCOMPLETE \<in> set states then Some (RunIncomplete, INCOMPLETE_REPORTING)
      else if Terminal TEST_FAILED \<in> set states then Some (RunFailed, TEST_FAILURE)
      else if Terminal CANCELLED \<in> set states then Some (RunCancelled, CANCELLATION)
      else None)"

definition cancel_target :: "rat \<Rightarrow> target_row \<Rightarrow> target_row" where
  "cancel_target now t = t\<lparr>ta_state := Terminal CANCELLED, ta_conclusion := Some CANCELLED,
     ta_failure_classification := Some CANCELLATION, ta_finished_at := Some now, ta_updated_at := now\<rparr>"

definition finish_run ::
  "run_state \<Rightarrow> failure_classification option \<Rightarrow> rat \<Rightarrow> run_row \<Rightarrow> run_row" where
  "finish_run s c now r = r\<lparr>ru_state := s, ru_conclusion := Some s, ru_failure_classification := c,
     ru_finished_at := Some now, ru_updated_at := now\<rparr>"

definition set_run :: "string \<Rightarrow> (run_row \<Rightarrow> run_row) \<Rightarrow> test_store \<Rightarrow> test_store" where
  "set_run run_id f st = update_runs (\<lambda>r. ru_run_id r = run_id) f st"

definition cancel_dependents :: "string \<Rightarrow> rat \<Rightarrow> test_store \<Rightarrow> test_store" where
  "cancel_dependents run_id now st =
     (let names = cancelled_dependents (sort_key target_order (run_targets st run_id)) in
      update_targets (\<lambda>t. ta_run_id t = run_id \<and> ta_state t = Queued \<and> ta_target_name t \<in> set names)
        (cancel_target now) st)"

definition reconcile_failed :: "string \<Rightarrow> rat \<Rightarrow> test_store \<Rightarrow> store_error + test_store" where
  "reconcile_failed run_id now st =
     (let st = cancel_dependents run_id now st;
          states = map ta_state (run_targets st run_id) in
      if list_ex (\<lambda>s. s = Queued \<or> active_target s) states then Inr st
      else (case dominant_failure states of
              None \<Rightarrow> Inl (StoreInternalError ''terminal failure state was not classified'')
            | Some (s, c) \<Rightarrow> Inr (set_run run_id (finish_run s (Some c) now) st)))"

definition reconcile_run :: "string \<Rightarrow> rat \<Rightarrow> test_store \<Rightarrow> store_error + test_store" where
  "reconcile_run run_id now st =
     (case lookup_run st run_id of
        None \<Rightarrow> Inl (StoreNotFound ''test run does not exist'')
      | Some run \<Rightarrow>
          let states = map ta_state (run_targets st run_id) in
          if ru_state run = RunCancelling then
            if list_ex active_target states then Inr st
            else Inr (set_run run_id (finish_run RunCancelled (Some CANCELLATION) now) st)
          else if list_ex failed_target states then reconcile_failed run_id now st
          else if states \<noteq> [] \<and> list_all (\<lambda>s. s = Terminal SUCCEEDED) states
            then Inr (set_run run_id (finish_run RunSucceeded None now) st)
          else Inr st)"

definition max_nonterminal_runs_per_reconcile :: nat where
  "max_nonterminal_runs_per_reconcile = 10000"

definition reconcile_step ::
  "rat \<Rightarrow> run_row \<Rightarrow> (string list \<times> json list) \<times> test_store
     \<Rightarrow> store_error + (string list \<times> json list) \<times> test_store" where
  "reconcile_step now row = (\<lambda>((processed, changed), st).
     bindE (reconcile_run (ru_run_id row) now st) (\<lambda>st.
     case lookup_run st (ru_run_id row) of
       None \<Rightarrow> Inl (StoreNotFound ''test run disappeared during reconciliation'')
     | Some after \<Rightarrow>
         Inr ((processed @ [ru_run_id row],
           if ru_state after \<noteq> ru_state row
           then changed @ [JObj [(''run_id'', JStr (ru_run_id row)),
             (''previous_state'', JStr (run_state_value (ru_state row))),
             (''state'', JStr (run_state_value (ru_state after)))]]
           else changed), st)))"

definition reconcile_nonterminal_runs ::
  "py_number \<Rightarrow> py_number option \<Rightarrow> test_store \<Rightarrow> store_error + json \<times> test_store" where
  "reconcile_nonterminal_runs clock now_value st =
     bindE (case now_value of None \<Rightarrow> store_now clock | Some v \<Rightarrow> finite_nonnegative ''now'' v) (\<lambda>now.
     let rows = take (max_nonterminal_runs_per_reconcile + 1)
           (sort_key (\<lambda>r. (ru_updated_at r, ru_run_id r)) (filter (\<lambda>r. active_run (ru_state r)) (ts_runs st)));
         selected = take max_nonterminal_runs_per_reconcile rows in
     bindE (foldE (reconcile_step now) selected (([], []), st)) (\<lambda>((processed, changed), st).
     Inr (JObj [(''processed_run_ids'', jstrs processed), (''changed_runs'', JArr changed),
       (''more_candidates'', JBool (length rows > length selected))], st)))"

end
