(* ===== verification/Store_Execution.thy ===== *)
theory Store_Execution
  imports Store_Evidence Store_Reconcile
begin

text \<open>
  The execution life cycle of \<open>universal_test_store.py\<close>: \<open>begin_execution\<close>, \<open>execution_identity\<close>,
  \<open>record_started\<close>, \<open>record_progress\<close>, the validation of a result package,
  \<open>complete_from_package\<close> and \<open>request_cancel\<close>.
\<close>

section \<open>Reservation\<close>

definition states_by_name :: "target_row list \<Rightarrow> string \<Rightarrow> target_state list" where
  "states_by_name rows name = map ta_state (filter (\<lambda>t. ta_target_name t = name) rows)"

definition target_dependencies_succeeded :: "target_row list \<Rightarrow> string list \<Rightarrow> bool" where
  "target_dependencies_succeeded rows dependencies \<longleftrightarrow>
     list_all (\<lambda>d. states_by_name rows d \<noteq> [] \<and>
       list_all (\<lambda>s. s = Terminal SUCCEEDED) (states_by_name rows d)) dependencies"

definition execution_id_of :: "pylib \<Rightarrow> test_store \<Rightarrow> string \<Rightarrow> string" where
  "execution_id_of L st target_id = digest_id L ''execution-'' [ts_generation st, target_id]"

text \<open>The unique columns \<open>execution_id\<close>, \<open>systemd_unit\<close> and \<open>launch_operation_id\<close>.\<close>

definition slot_conflict :: "execution_slot \<Rightarrow> target_row \<Rightarrow> bool" where
  "slot_conflict e t =
     (case ta_execution t of None \<Rightarrow> False
      | Some e' \<Rightarrow> ex_execution_id e' = ex_execution_id e \<or> ex_systemd_unit e' = ex_systemd_unit e \<or>
          ex_launch_operation_id e' = ex_launch_operation_id e)"

definition reserve_target :: "execution_slot \<Rightarrow> rat \<Rightarrow> target_row \<Rightarrow> target_row" where
  "reserve_target e now t = t\<lparr>ta_state := Starting, ta_execution := Some e, ta_wait := None, ta_updated_at := now\<rparr>"

definition start_run :: "rat \<Rightarrow> run_row \<Rightarrow> run_row" where
  "start_run now r = r\<lparr>ru_state := RunRunning,
     ru_started_at := (case ru_started_at r of None \<Rightarrow> Some now | Some s \<Rightarrow> Some s), ru_updated_at := now\<rparr>"

definition begin_body ::
  "pylib \<Rightarrow> string \<Rightarrow> int \<Rightarrow> string \<Rightarrow> string \<Rightarrow> string \<Rightarrow> rat \<Rightarrow> int \<Rightarrow> string \<Rightarrow> string \<Rightarrow> rat \<Rightarrow> test_store
     \<Rightarrow> store_error + json \<times> test_store" where
  "begin_body L target_id repository_generation systemd_unit launch_op descriptor deadline commitment op fp now st =
     (case find_target st target_id of
        None \<Rightarrow> Inl (StoreNotFound ''test target does not exist'')
      | Some t \<Rightarrow>
      case lookup_run st (ta_run_id t) of
        None \<Rightarrow> Inl (StoreNotFound ''test target does not exist'')
      | Some run \<Rightarrow>
      bindE (ensure (ta_state t = Queued \<and> (ru_state run = RunQueued \<or> ru_state run = RunRunning))
        (StoreConflict ''test target is not runnable'')) (\<lambda>_.
      bindE (ensure (target_dependencies_succeeded (run_targets st (ta_run_id t)) (ta_dependencies t))
        (StoreConflict ''test target exact dependencies are incomplete'')) (\<lambda>_.
      let execution = \<lparr>ex_execution_id = execution_id_of L st target_id, ex_store_generation = ts_generation st,
            ex_repository_generation = repository_generation, ex_systemd_unit = systemd_unit,
            ex_launch_operation_id = launch_op, ex_descriptor_fingerprint = descriptor,
            ex_launch_deadline_at = deadline, ex_memory_commitment_mib = commitment\<rparr>;
          result = JObj [(''execution_id'', JStr (ex_execution_id execution)), (''target_id'', JStr target_id),
            (''run_id'', JStr (ta_run_id t)), (''target_name'', JStr (ta_target_name t)),
            (''shard_index'', JInt (int (ta_shard_index t))), (''shard_count'', JInt (int (ta_shard_count t))),
            (''generation'', JInt 1), (''systemd_unit'', JStr systemd_unit),
            (''launch_operation_id'', JStr launch_op)] in
      bindE (ensure (\<not> list_ex (slot_conflict execution) (ts_targets st))
        (StoreIntegrityError ''test_run_targets.execution_id'')) (\<lambda>_.
      let st = update_targets (\<lambda>x. ta_target_id x = target_id \<and> ta_state x = Queued) (reserve_target execution now) st;
          st = update_runs (\<lambda>r. ru_run_id r = ta_run_id t \<and> (ru_state r = RunQueued \<or> ru_state r = RunRunning))
            (start_run now) st in
      bindE (record_mutation op ''execution_begin'' fp result now st) (\<lambda>st.
      bindE (store_event L ''test.execution_reserved'' (ru_repository_id run) (Some (ta_run_id t))
        (Some (ex_execution_id execution))
        (JObj [(''target_id'', JStr target_id), (''generation'', JInt 1), (''systemd_unit'', JStr systemd_unit)])
        now st) (\<lambda>st.
      Inr (result, st)))))))"

definition begin_execution ::
  "pylib \<Rightarrow> py_number \<Rightarrow> json \<Rightarrow> json \<Rightarrow> json \<Rightarrow> string \<Rightarrow> json \<Rightarrow> py_number \<Rightarrow> json \<Rightarrow> string \<Rightarrow> test_store
     \<Rightarrow> store_error + json \<times> test_store" where
  "begin_execution L clock target_value generation_value unit_value launch_id descriptor_value deadline_value
       commitment_value op_id st =
     bindE (safe_id ''target_id'' target_value) (\<lambda>target_id.
     bindE (case generation_value of JInt g \<Rightarrow> if 0 \<le> g then Inr g
         else Inl (StoreContractError ''repository_generation is invalid'')
       | _ \<Rightarrow> Inl (StoreContractError ''repository_generation is invalid'')) (\<lambda>repository_generation.
     bindE (single_line ''systemd_unit'' 256 unit_value) (\<lambda>systemd_unit.
     bindE (ensure (systemd_unit_re systemd_unit) (StoreContractError ''systemd_unit is invalid'')) (\<lambda>_.
     bindE (operation_id launch_id) (\<lambda>launch_op.
     bindE (store_sha256 ''descriptor_fingerprint'' descriptor_value) (\<lambda>descriptor.
     bindE (finite_nonnegative ''launch_deadline_at'' deadline_value) (\<lambda>deadline.
     bindE (positive_int ''memory_commitment_mib'' (2 ^ 40) commitment_value) (\<lambda>commitment.
     bindE (operation_id op_id) (\<lambda>op.
     let fp = deterministic_fingerprint L (JObj [(''target_id'', JStr target_id),
           (''repository_generation'', JInt repository_generation), (''systemd_unit'', JStr systemd_unit),
           (''launch_operation_id'', JStr launch_op), (''descriptor_fingerprint'', JStr descriptor),
           (''launch_deadline_at'', JFloat deadline), (''memory_commitment_mib'', JInt commitment)]) in
     bindE (store_now clock) (\<lambda>now.
     journaled op ''execution_begin'' fp (begin_body L target_id repository_generation systemd_unit launch_op
       descriptor deadline commitment op fp now) st))))))))))"

definition execution_identity :: "pylib \<Rightarrow> json \<Rightarrow> test_store \<Rightarrow> store_error + string" where
  "execution_identity L target_value st =
     bindE (safe_id ''target_id'' target_value) (\<lambda>target_id.
     case find_target st target_id of
       None \<Rightarrow> Inl (StoreNotFound ''test target does not exist'')
     | Some t \<Rightarrow> bindE (ensure (ta_state t = Queued) (StoreConflict ''test target is not awaiting execution'')) (\<lambda>_.
         Inr (execution_id_of L st target_id)))"

section \<open>Fencing\<close>

definition find_execution :: "test_store \<Rightarrow> string \<Rightarrow> store_error + target_row" where
  "find_execution st execution_id =
     (case find (\<lambda>t. map_option ex_execution_id (ta_execution t) = Some execution_id) (ts_targets st) of
        None \<Rightarrow> Inl (StoreNotFound ''test execution does not exist'')
      | Some t \<Rightarrow> Inr t)"

definition require_execution ::
  "target_row \<Rightarrow> string \<Rightarrow> json \<Rightarrow> string option \<Rightarrow> store_error + unit" where
  "require_execution t execution_id generation systemd_unit =
     (case generation of
        JInt g \<Rightarrow>
          bindE (ensure (0 < g) (StoreContractError ''execution generation must be positive'')) (\<lambda>_.
          bindE (ensure (map_option ex_execution_id (ta_execution t) = Some execution_id \<and> g = 1)
            (StoreConflict ''execution identity or generation is stale'')) (\<lambda>_.
          bindE (ensure (case systemd_unit of None \<Rightarrow> True
              | Some u \<Rightarrow> map_option ex_systemd_unit (ta_execution t) = Some u)
            (StoreConflict ''execution systemd unit identity changed'')) (\<lambda>_.
          ensure (active_target (ta_state t)) (StoreConflict ''execution is no longer active''))))
      | _ \<Rightarrow> Inl (StoreContractError ''execution generation must be positive''))"

definition update_execution :: "string \<Rightarrow> (target_state \<Rightarrow> bool) \<Rightarrow> (target_row \<Rightarrow> target_row) \<Rightarrow> test_store \<Rightarrow> test_store" where
  "update_execution execution_id p f st =
     update_targets (\<lambda>t. map_option ex_execution_id (ta_execution t) = Some execution_id \<and> p (ta_state t)) f st"

section \<open>Start and progress\<close>

definition acknowledge_start :: "launch_evidence \<Rightarrow> rat \<Rightarrow> target_row \<Rightarrow> target_row" where
  "acknowledge_start e now t = t\<lparr>ta_state := Running, ta_launch := Some e, ta_last_observed_at := Some now,
     ta_updated_at := now\<rparr>"

definition started_body ::
  "string \<Rightarrow> json \<Rightarrow> string \<Rightarrow> string \<Rightarrow> rat \<Rightarrow> string option \<Rightarrow> string \<Rightarrow> string \<Rightarrow> rat \<Rightarrow> test_store
     \<Rightarrow> store_error + json \<times> test_store" where
  "started_body execution_id generation systemd_unit ack started invocation op fp now st =
     bindE (find_execution st execution_id) (\<lambda>t.
     bindE (require_execution t execution_id generation (Some systemd_unit)) (\<lambda>_.
     let deadline = fl64 (started + of_int (ta_ttl_seconds t));
         evidence = \<lparr>la_launch_ack_id = ack, la_systemd_invocation_id = invocation, la_started_at = started,
           la_deadline_at = deadline\<rparr>;
         result = JObj [(''execution_id'', JStr execution_id), (''state'', JStr ''running''),
           (''started_at'', JFloat started), (''execution_deadline_at'', JFloat deadline)] in
     bindE (if ta_state t = Running then
         bindE (ensure (case ta_launch t of
             Some l \<Rightarrow> la_launch_ack_id l = ack \<and> la_systemd_invocation_id l = invocation \<and> la_started_at l = started
           | None \<Rightarrow> False) (StoreConflict ''execution has different launch evidence'')) (\<lambda>_. Inr st)
       else bindE (ensure (ta_state t = Starting)
         (StoreConflict ''execution changed during start acknowledgement'')) (\<lambda>_.
         Inr (update_execution execution_id (\<lambda>s. s = Starting) (acknowledge_start evidence now) st))) (\<lambda>st.
     bindE (record_mutation op ''execution_started'' fp result now st) (\<lambda>st. Inr (result, st)))))"

definition record_started ::
  "pylib \<Rightarrow> py_number \<Rightarrow> json \<Rightarrow> json \<Rightarrow> json \<Rightarrow> json \<Rightarrow> py_number \<Rightarrow> json option \<Rightarrow> string \<Rightarrow> test_store
     \<Rightarrow> store_error + json \<times> test_store" where
  "record_started L clock execution_value generation unit_value ack_value started_value invocation_value op_id st =
     bindE (safe_id ''execution_id'' execution_value) (\<lambda>execution_id.
     bindE (single_line ''systemd_unit'' 256 unit_value) (\<lambda>systemd_unit.
     bindE (safe_id ''launch_ack_id'' ack_value) (\<lambda>ack.
     bindE (finite_nonnegative ''started_at'' started_value) (\<lambda>started.
     bindE (optionE (safe_id ''systemd_invocation_id'') invocation_value) (\<lambda>invocation.
     bindE (operation_id op_id) (\<lambda>op.
     let fp = deterministic_fingerprint L (JObj [(''execution_id'', JStr execution_id), (''generation'', generation),
           (''systemd_unit'', JStr systemd_unit), (''launch_ack_id'', JStr ack), (''started_at'', JFloat started),
           (''systemd_invocation_id'', jopt JStr invocation)]) in
     bindE (store_now clock) (\<lambda>now.
     journaled op ''execution_started'' fp
       (started_body execution_id generation systemd_unit ack started invocation op fp now) st)))))))"

definition valid_progress :: "output_progress \<Rightarrow> bool" where
  "valid_progress p \<longleftrightarrow>
     list_all (\<lambda>v. 0 \<le> v \<and> v \<le> 2 ^ 63 - 1) [op_stdout_bytes p, op_stderr_bytes p,
       op_stdout_retained_bytes p, op_stderr_retained_bytes p] \<and>
     op_stdout_retained_bytes p \<le> 4 * 1024 * 1024 \<and> op_stderr_retained_bytes p \<le> 4 * 1024 * 1024 \<and>
     op_stdout_retained_bytes p \<le> op_stdout_bytes p \<and> op_stderr_retained_bytes p \<le> op_stderr_bytes p \<and>
     op_stdout_truncated p = (op_stdout_retained_bytes p < op_stdout_bytes p) \<and>
     op_stderr_truncated p = (op_stderr_retained_bytes p < op_stderr_bytes p)"

definition progress_regressed :: "output_progress \<Rightarrow> output_progress \<Rightarrow> rat \<Rightarrow> bool" where
  "progress_regressed old new observed \<longleftrightarrow>
     op_stdout_bytes new < op_stdout_bytes old \<or> op_stderr_bytes new < op_stderr_bytes old \<or>
     op_stdout_retained_bytes new < op_stdout_retained_bytes old \<or>
     op_stderr_retained_bytes new < op_stderr_retained_bytes old \<or>
     (case op_progress_observed_at old of None \<Rightarrow> False | Some before \<Rightarrow> observed < before)"

definition progress_document :: "output_progress \<Rightarrow> rat \<Rightarrow> json" where
  "progress_document p observed = JObj
     [(''stdout_bytes'', JInt (op_stdout_bytes p)), (''stderr_bytes'', JInt (op_stderr_bytes p)),
      (''stdout_retained_bytes'', JInt (op_stdout_retained_bytes p)),
      (''stderr_retained_bytes'', JInt (op_stderr_retained_bytes p)),
      (''stdout_truncated'', JBool (op_stdout_truncated p)), (''stderr_truncated'', JBool (op_stderr_truncated p)),
      (''current_memory_bytes'', jopt JInt (op_current_memory_bytes p)),
      (''last_output_at'', jopt JFloat (op_last_output_at p)), (''observed_at'', JFloat observed)]"

definition observe_progress :: "output_progress \<Rightarrow> rat \<Rightarrow> rat \<Rightarrow> target_row \<Rightarrow> target_row" where
  "observe_progress p observed now t = t\<lparr>ta_progress := p, ta_last_observed_at := Some observed, ta_updated_at := now\<rparr>"

text \<open>
  The reported counters arrive as a record; its observation columns are filled here. The clock is
  read once for the row and once more for the event.
\<close>

definition record_progress ::
  "pylib \<Rightarrow> py_number \<Rightarrow> py_number \<Rightarrow> json \<Rightarrow> json \<Rightarrow> output_progress \<Rightarrow> py_number option \<Rightarrow> py_number \<Rightarrow> test_store
     \<Rightarrow> store_error + json \<times> test_store" where
  "record_progress L clock clock' execution_value generation reported last_output_value observed_value st =
     bindE (safe_id ''execution_id'' execution_value) (\<lambda>execution_id.
     bindE (ensure (valid_progress reported) (StoreContractError ''execution output progress is invalid'')) (\<lambda>_.
     bindE (ensure (case op_current_memory_bytes reported of None \<Rightarrow> True | Some m \<Rightarrow> 0 \<le> m \<and> m \<le> 2 ^ 63 - 1)
       (StoreContractError ''execution current memory is invalid'')) (\<lambda>_.
     bindE (finite_nonnegative ''observed_at'' observed_value) (\<lambda>observed.
     bindE (optionE (finite_nonnegative ''last_output_at'') last_output_value) (\<lambda>last_output.
     bindE (find_execution st execution_id) (\<lambda>t.
     bindE (require_execution t execution_id generation None) (\<lambda>_.
     bindE (ensure (\<not> progress_regressed (ta_progress t) reported observed)
       (StoreConflict ''execution output progress regressed'')) (\<lambda>_.
     let p = reported\<lparr>op_last_output_at := last_output, op_progress_observed_at := Some observed\<rparr>;
         detail = progress_document p observed;
         changed = (p\<lparr>op_progress_observed_at := None\<rparr> \<noteq> (ta_progress t)\<lparr>op_progress_observed_at := None\<rparr>) in
     bindE (store_now clock) (\<lambda>now.
     let st = update_execution execution_id active_target (observe_progress p observed now) st in
     if \<not> changed then Inr (detail, st) else
     case lookup_run st (ta_run_id t) of
       None \<Rightarrow> Inl (StoreInternalError ''repository_id'')
     | Some run \<Rightarrow>
         bindE (store_now clock') (\<lambda>now'.
         bindE (store_event L ''test.execution.progress'' (ru_repository_id run) (Some (ta_run_id t))
           (Some execution_id) detail now' st) (\<lambda>st. Inr (detail, st))))))))))))"

end
