(* ===== verification/Store_Completion.thy ===== *)
theory Store_Completion
  imports Store_Execution
begin

text \<open>
  Result packages (\<open>_package_document\<close>), \<open>complete_from_package\<close> and \<open>request_cancel\<close> of
  \<open>universal_test_store.py\<close>.
\<close>

section \<open>Result packages\<close>

record case_result =
  ca_case_id :: json
  ca_display_name :: json
  ca_status :: string
  ca_duration_seconds :: py_number
  ca_location :: "json option"

record failure_record =
  fa_failure_id :: json
  fa_classification :: failure_classification
  fa_message :: json
  fa_case_id :: "json option"
  fa_location :: "json option"
  fa_artifact_id :: "json option"

record artifact_metadata =
  am_artifact_id :: json
  am_kind :: json
  am_storage_handle :: json
  am_sha256 :: json
  am_size_bytes :: int
  am_verified :: bool

record execution_result_package =
  pk_package_id :: json
  pk_cases :: "case_result list"
  pk_failures :: "failure_record list"
  pk_artifacts :: "artifact_metadata list"
  pk_reporter_complete :: bool

definition max_case_results :: nat where "max_case_results = 100000"
definition max_failure_results :: nat where "max_failure_results = max_case_results"
definition max_artifact_results :: nat where "max_artifact_results = 64"
definition max_result_package_bytes :: nat where "max_result_package_bytes = 1024 * 1024 * 1024"

text \<open>The validated records of a package; owner, ordinal and time columns are filled on insertion.\<close>

record checked_package =
  cp_package_id :: string
  cp_cases :: "case_row list"
  cp_failures :: "failure_row list"
  cp_artifacts :: "artifact_row list"
  cp_reporter_complete :: bool

definition failed_status :: "string \<Rightarrow> bool" where
  "failed_status s \<longleftrightarrow> s = ''failed'' \<or> s = ''error''"

definition check_case :: "case_result \<Rightarrow> case_row list \<Rightarrow> store_error + case_row list" where
  "check_case c rows =
     bindE (single_line ''case_id'' 1024 (ca_case_id c)) (\<lambda>case_id.
     bindE (ensure (case_id \<notin> cr_case_id ` set rows) (StoreContractError ''result package case_id is duplicated'')) (\<lambda>_.
     bindE (ensure (ca_status c \<in> set [''passed'', ''failed'', ''skipped'', ''error''])
       (StoreContractError ''result package case status is invalid'')) (\<lambda>_.
     bindE (bounded_text ''display_name'' 4096 False (ca_display_name c)) (\<lambda>display_name.
     bindE (finite_nonnegative ''case duration'' (ca_duration_seconds c)) (\<lambda>duration.
     bindE (optionE (bounded_text ''case location'' 4096 False) (ca_location c)) (\<lambda>location.
     Inr (rows @ [\<lparr>cr_target_id = [], cr_execution_id = [], cr_ordinal = length rows, cr_case_id = case_id,
       cr_display_name = display_name, cr_status = ca_status c, cr_duration_seconds = duration,
       cr_location = location\<rparr>])))))))"

definition failed_case_ids :: "case_row list \<Rightarrow> string list" where
  "failed_case_ids rows = map cr_case_id (filter (\<lambda>c. failed_status (cr_status c)) rows)"

definition check_failure ::
  "string list \<Rightarrow> failure_record \<Rightarrow> failure_row list \<Rightarrow> store_error + failure_row list" where
  "check_failure failed f rows =
     bindE (safe_id ''failure_id'' (fa_failure_id f)) (\<lambda>failure_id.
     bindE (ensure (failure_id \<notin> fr_failure_id ` set rows)
       (StoreContractError ''result package failure_id is duplicated'')) (\<lambda>_.
     bindE (optionE (single_line ''failure case_id'' 1024) (fa_case_id f)) (\<lambda>case_id.
     bindE (ensure (case case_id of None \<Rightarrow> True | Some c \<Rightarrow> c \<in> set failed)
       (StoreContractError ''failure does not bind a failed or errored case'')) (\<lambda>_.
     bindE (bounded_text ''failure message'' 8192 False (fa_message f)) (\<lambda>message.
     bindE (optionE (bounded_text ''failure location'' 4096 False) (fa_location f)) (\<lambda>location.
     bindE (optionE (safe_id ''failure artifact_id'') (fa_artifact_id f)) (\<lambda>artifact_id.
     Inr (rows @ [\<lparr>fr_failure_id = failure_id, fr_target_id = [], fr_execution_id = [], fr_ordinal = length rows,
       fr_classification = fa_classification f, fr_case_id = case_id, fr_message = message,
       fr_location = location, fr_artifact_id = artifact_id, fr_created_at = 0\<rparr>]))))))))"

definition check_artifact :: "artifact_metadata \<Rightarrow> artifact_row list \<Rightarrow> store_error + artifact_row list" where
  "check_artifact a rows =
     bindE (safe_id ''artifact_id'' (am_artifact_id a)) (\<lambda>artifact_id.
     bindE (ensure (artifact_id \<notin> af_artifact_id ` set rows)
       (StoreContractError ''result package artifact_id is duplicated'')) (\<lambda>_.
     bindE (ensure (0 \<le> am_size_bytes a \<and> am_size_bytes a \<le> 2 ^ 63 - 1)
       (StoreContractError ''result package artifact is invalid'')) (\<lambda>_.
     bindE (safe_id ''artifact kind'' (am_kind a)) (\<lambda>kind.
     bindE (single_line ''artifact storage_handle'' 4096 (am_storage_handle a)) (\<lambda>handle.
     bindE (store_sha256 ''artifact sha256'' (am_sha256 a)) (\<lambda>sha.
     Inr (rows @ [\<lparr>af_artifact_id = artifact_id, af_target_id = [], af_execution_id = [], af_ordinal = length rows,
       af_kind = kind, af_storage_handle = handle, af_sha256 = sha, af_size_bytes = am_size_bytes a,
       af_verified = am_verified a, af_created_at = 0\<rparr>])))))))"

definition covered_case_ids :: "failure_row list \<Rightarrow> string list" where
  "covered_case_ids rows = List.map_filter fr_case_id rows"

definition check_package :: "execution_result_package \<Rightarrow> store_error + checked_package" where
  "check_package pk =
     bindE (safe_id ''package_id'' (pk_package_id pk)) (\<lambda>package_id.
     bindE (ensure (length (pk_cases pk) \<le> max_case_results \<and> length (pk_failures pk) \<le> max_failure_results \<and>
         length (pk_artifacts pk) \<le> max_artifact_results)
       (StoreContractError ''result package exceeds its record bounds'')) (\<lambda>_.
     bindE (foldE check_case (pk_cases pk) []) (\<lambda>cases.
     let failed = failed_case_ids cases in
     bindE (foldE (check_failure failed) (pk_failures pk) []) (\<lambda>failures.
     let covered = covered_case_ids failures in
     bindE (ensure (set covered = set failed \<and> length covered = length failed)
       (StoreContractError ''every failed or errored case requires one exact failure record'')) (\<lambda>_.
     bindE (foldE check_artifact (pk_artifacts pk) []) (\<lambda>artifacts.
     Inr \<lparr>cp_package_id = package_id, cp_cases = cases, cp_failures = failures, cp_artifacts = artifacts,
       cp_reporter_complete = pk_reporter_complete pk\<rparr>))))))"

definition package_document :: "checked_package \<Rightarrow> json" where
  "package_document cp = JObj
     [(''package_id'', JStr (cp_package_id cp)),
      (''cases'', JArr (map (\<lambda>c. JObj [(''case_id'', JStr (cr_case_id c)),
         (''display_name'', JStr (cr_display_name c)), (''status'', JStr (cr_status c)),
         (''duration_seconds'', JFloat (cr_duration_seconds c)), (''location'', jopt JStr (cr_location c))])
         (cp_cases cp))),
      (''failures'', JArr (map (\<lambda>f. JObj [(''failure_id'', JStr (fr_failure_id f)),
         (''classification'', JStr (classification_value (fr_classification f))), (''message'', JStr (fr_message f)),
         (''case_id'', jopt JStr (fr_case_id f)), (''location'', jopt JStr (fr_location f)),
         (''artifact_id'', jopt JStr (fr_artifact_id f))]) (cp_failures cp))),
      (''artifacts'', JArr (map (\<lambda>a. JObj [(''artifact_id'', JStr (af_artifact_id a)), (''kind'', JStr (af_kind a)),
         (''storage_handle'', JStr (af_storage_handle a)), (''sha256'', JStr (af_sha256 a)),
         (''size_bytes'', JInt (af_size_bytes a)), (''verified'', JBool (af_verified a))]) (cp_artifacts cp))),
      (''reporter_complete'', JBool (cp_reporter_complete cp))]"

section \<open>Conclusions\<close>

definition conclusion_of :: "string \<Rightarrow> execution_conclusion option" where
  "conclusion_of s = find (\<lambda>c. conclusion_value c = s)
     [SUCCEEDED, TEST_FAILED, INFRASTRUCTURE_FAILED, TIMED_OUT, CANCELLED, INCOMPLETE]"

definition status_count :: "string \<Rightarrow> checked_package \<Rightarrow> nat" where
  "status_count s cp = length (filter (\<lambda>c. cr_status c = s) (cp_cases cp))"

definition measured_failure :: "checked_package \<Rightarrow> bool" where
  "measured_failure cp \<longleftrightarrow> status_count ''failed'' cp \<noteq> 0 \<or> status_count ''error'' cp \<noteq> 0 \<or>
     list_ex (\<lambda>f. fr_classification f = TEST_FAILURE) (cp_failures cp)"

definition settle_conclusion ::
  "checked_package \<Rightarrow> execution_conclusion \<Rightarrow> store_error + execution_conclusion" where
  "settle_conclusion cp requested =
     bindE (ensure (\<not> (cp_reporter_complete cp \<and> measured_failure cp \<and> requested \<noteq> TEST_FAILED))
       (StoreConflict ''a complete measured test failure must win a competing conclusion'')) (\<lambda>_.
     let c = (if requested = SUCCEEDED \<and> (\<not> cp_reporter_complete cp \<or> status_count ''failed'' cp \<noteq> 0 \<or>
           status_count ''error'' cp \<noteq> 0) then INCOMPLETE else requested) in
     bindE (ensure (\<not> (c = TEST_FAILED \<and> \<not> measured_failure cp))
       (StoreContractError ''test-failed conclusion has no test-failure evidence'')) (\<lambda>_.
     Inr c))"

section \<open>Publication of a package\<close>

definition insert_package ::
  "string \<Rightarrow> string \<Rightarrow> checked_package \<Rightarrow> rat \<Rightarrow> test_store \<Rightarrow> store_error + test_store" where
  "insert_package target_id execution_id cp now st =
     bindE (ensure (\<not> list_ex (\<lambda>c. cr_target_id c = target_id \<and> (cr_ordinal c < length (cp_cases cp) \<or>
         cr_case_id c \<in> cr_case_id ` set (cp_cases cp))) (ts_cases st))
       (StoreIntegrityError ''test_case_results.ordinal'')) (\<lambda>_.
     bindE (ensure (\<not> list_ex (\<lambda>f. fr_failure_id f \<in> fr_failure_id ` set (cp_failures cp) \<or>
         fr_target_id f = target_id \<and> fr_ordinal f < length (cp_failures cp)) (ts_failures st))
       (StoreIntegrityError ''test_failures.failure_id'')) (\<lambda>_.
     bindE (ensure (\<not> list_ex (\<lambda>a. af_artifact_id a \<in> af_artifact_id ` set (cp_artifacts cp) \<or>
         af_target_id a = target_id \<and> af_ordinal a < length (cp_artifacts cp)) (ts_artifacts st))
       (StoreIntegrityError ''test_artifacts.artifact_id'')) (\<lambda>_.
     Inr (st\<lparr>
       ts_cases := ts_cases st @ map (\<lambda>c. c\<lparr>cr_target_id := target_id, cr_execution_id := execution_id\<rparr>) (cp_cases cp),
       ts_failures := ts_failures st @ map (\<lambda>f. f\<lparr>fr_target_id := target_id, fr_execution_id := execution_id,
         fr_created_at := now\<rparr>) (cp_failures cp),
       ts_artifacts := ts_artifacts st @ map (\<lambda>a. a\<lparr>af_target_id := target_id, af_execution_id := execution_id,
         af_created_at := now\<rparr>) (cp_artifacts cp)\<rparr>))))"

definition terminalize :: "execution_conclusion \<Rightarrow> terminal_evidence \<Rightarrow> rat \<Rightarrow> target_row \<Rightarrow> target_row" where
  "terminalize c e now t = t\<lparr>ta_state := Terminal c, ta_terminal := Some e, ta_conclusion := Some c,
     ta_failure_classification := conclusion_classification c, ta_finished_at := Some now, ta_updated_at := now\<rparr>"

text \<open>The last twenty measured peaks of the same target name in the same repository.\<close>

definition peak_of :: "target_row \<Rightarrow> int option" where
  "peak_of t = Option.bind (ta_terminal t) te_peak_memory_bytes"

definition recent_peaks :: "test_store \<Rightarrow> string \<Rightarrow> string \<Rightarrow> int list" where
  "recent_peaks st repository_id target_name =
     List.map_filter peak_of (take 20 (rev (sort_key (\<lambda>t. (case ta_finished_at t of None \<Rightarrow> - 1 | Some f \<Rightarrow> f, ta_target_id t))
       (filter (\<lambda>t. ta_target_name t = target_name \<and> peak_of t \<noteq> None \<and>
         (case lookup_run st (ta_run_id t) of Some r \<Rightarrow> ru_repository_id r = repository_id | None \<Rightarrow> False))
         (ts_targets st)))))"

definition update_profile ::
  "string \<Rightarrow> string \<Rightarrow> int option \<Rightarrow> rat option \<Rightarrow> rat \<Rightarrow> test_store \<Rightarrow> test_store" where
  "update_profile repository_id target_name peak cpu now st =
     (case peak of None \<Rightarrow> st
      | Some bytes \<Rightarrow>
          let recent = recent_peaks st repository_id target_name;
              row = \<lparr>pr_repository_id = repository_id, pr_target_name = target_name,
                pr_sample_count = length recent, pr_recent_peak_memory_bytes = Max (set recent),
                pr_last_peak_memory_bytes = bytes, pr_last_cpu_seconds = cpu, pr_updated_at = now\<rparr>;
              same = (\<lambda>p. pr_repository_id p = repository_id \<and> pr_target_name p = target_name) in
          st\<lparr>ts_profiles := (if list_ex same (ts_profiles st)
            then map (\<lambda>p. if same p then row else p) (ts_profiles st) else ts_profiles st @ [row])\<rparr>)"

definition completion_document ::
  "string \<Rightarrow> string \<Rightarrow> execution_conclusion \<Rightarrow> string list \<Rightarrow> int option \<Rightarrow> rat option \<Rightarrow> json" where
  "completion_document execution_id run_id c issued peak cpu = JObj
     [(''execution_id'', JStr execution_id), (''run_id'', JStr run_id), (''state'', JStr (conclusion_value c)),
      (''classification'', jopt (JStr \<circ> classification_value) (conclusion_classification c)),
      (''evidence_attestation_ids'', jstrs issued),
      (''usage'', JObj [(''available'', JBool (peak \<noteq> None \<or> cpu \<noteq> None)),
         (''peak_memory_bytes'', jopt JInt peak), (''cpu_seconds'', jopt JFloat cpu)])]"

definition complete_body ::
  "pylib \<Rightarrow> string \<Rightarrow> json \<Rightarrow> string \<Rightarrow> checked_package \<Rightarrow> string \<Rightarrow> execution_conclusion \<Rightarrow> rat \<Rightarrow> int option \<Rightarrow> rat option
     \<Rightarrow> string \<Rightarrow> string \<Rightarrow> rat \<Rightarrow> test_store \<Rightarrow> store_error + json \<times> test_store" where
  "complete_body L execution_id generation systemd_unit cp package_fp c duration peak cpu op fp now st =
     bindE (find_execution st execution_id) (\<lambda>t.
     bindE (require_execution t execution_id generation (Some systemd_unit)) (\<lambda>_.
     bindE (insert_package (ta_target_id t) execution_id cp now st) (\<lambda>st.
     bindE (ensure (\<not> list_ex (\<lambda>x. map_option te_operation_id (ta_terminal x) = Some op) (ts_targets st))
       (StoreIntegrityError ''test_run_targets.terminal_operation_id'')) (\<lambda>_.
     let evidence = \<lparr>te_operation_id = op, te_fingerprint = fp, te_package_fingerprint = package_fp,
           te_duration_seconds = duration, te_peak_memory_bytes = peak, te_cpu_seconds = cpu,
           te_passed_count = status_count ''passed'' cp, te_failed_count = status_count ''failed'' cp,
           te_skipped_count = status_count ''skipped'' cp, te_error_count = status_count ''error'' cp,
           te_reporter_complete = cp_reporter_complete cp\<rparr>;
         st = update_execution execution_id active_target (terminalize c evidence now) st in
     case lookup_run st (ta_run_id t) of
       None \<Rightarrow> Inl (StoreInternalError ''repository_id'')
     | Some run \<Rightarrow>
     let st = update_profile (ru_repository_id run) (ta_target_name t) peak cpu now st in
     bindE (reconcile_run (ta_run_id t) now st) (\<lambda>st.
     bindE (issue_plan_evidence_attestations L (ta_run_id t) now st) (\<lambda>(issued, st).
     let result = completion_document execution_id (ta_run_id t) c issued peak cpu in
     bindE (record_mutation op ''execution_complete'' fp result now st) (\<lambda>st.
     bindE (store_event L ''test.execution_terminal'' (ru_repository_id run) (Some (ta_run_id t)) (Some execution_id)
       (JObj [(''conclusion'', JStr (conclusion_value c)),
         (''classification'', jopt (JStr \<circ> classification_value) (conclusion_classification c)),
         (''package_fingerprint'', JStr package_fp)]) now st) (\<lambda>st.
     Inr (result, st)))))))))"

definition complete_from_package ::
  "pylib \<Rightarrow> py_number \<Rightarrow> json \<Rightarrow> json \<Rightarrow> json \<Rightarrow> execution_result_package \<Rightarrow> string \<Rightarrow> py_number \<Rightarrow> string \<Rightarrow> bool \<Rightarrow> bool
     \<Rightarrow> int option \<Rightarrow> py_number option \<Rightarrow> test_store \<Rightarrow> store_error + json \<times> test_store" where
  "complete_from_package L clock execution_value generation unit_value package conclusion_text duration_value op_id
       unit_inactive cgroup_empty peak cpu_value st =
     bindE (safe_id ''execution_id'' execution_value) (\<lambda>execution_id.
     bindE (single_line ''systemd_unit'' 256 unit_value) (\<lambda>systemd_unit.
     bindE (check_package package) (\<lambda>cp.
     let encoded = canonical_json L (package_document cp) in
     bindE (ensure (utf8_length encoded \<le> max_result_package_bytes)
       (StoreContractError ''result package exceeds its byte bound'')) (\<lambda>_.
     bindE (ensure (unit_inactive \<and> cgroup_empty)
       (StoreConflict ''execution cannot terminalize before its exact cgroup is empty'')) (\<lambda>_.
     bindE (case conclusion_of conclusion_text of
         None \<Rightarrow> Inl (StoreContractError ''unsupported execution conclusion'') | Some c \<Rightarrow> Inr c) (\<lambda>requested.
     bindE (finite_nonnegative ''duration_seconds'' duration_value) (\<lambda>duration.
     bindE (ensure (duration \<le> 31536000) (StoreContractError ''duration_seconds is outside its bound'')) (\<lambda>_.
     bindE (ensure (case peak of None \<Rightarrow> True | Some m \<Rightarrow> 0 \<le> m \<and> m \<le> 2 ^ 63 - 1)
       (StoreContractError ''peak_memory_bytes is outside its bound'')) (\<lambda>_.
     bindE (optionE (finite_nonnegative ''cpu_seconds'') cpu_value) (\<lambda>cpu.
     bindE (settle_conclusion cp requested) (\<lambda>c.
     bindE (operation_id op_id) (\<lambda>op.
     let package_fp = sha256_hexdigest L encoded;
         fp = deterministic_fingerprint L (JObj [(''execution_id'', JStr execution_id), (''generation'', generation),
           (''systemd_unit'', JStr systemd_unit), (''package_fingerprint'', JStr package_fp),
           (''conclusion'', JStr (conclusion_value c)), (''duration_seconds'', JFloat duration),
           (''peak_memory_bytes'', jopt JInt peak), (''cpu_seconds'', jopt JFloat cpu)]) in
     bindE (store_now clock) (\<lambda>now.
     journaled op ''execution_complete'' fp
       (complete_body L execution_id generation systemd_unit cp package_fp c duration peak cpu op fp now) st)))))))))))))"

section \<open>Cancellation\<close>

definition stop_target :: "string \<Rightarrow> rat \<Rightarrow> target_row \<Rightarrow> target_row" where
  "stop_target reason now t = t\<lparr>ta_state := Stopping, ta_stop_reason := Some reason, ta_updated_at := now\<rparr>"

definition cancelling_run :: "string \<Rightarrow> rat \<Rightarrow> run_row \<Rightarrow> run_row" where
  "cancelling_run reason now r = r\<lparr>ru_state := RunCancelling, ru_cancel_reason := Some reason, ru_updated_at := now\<rparr>"

definition cancel_document :: "string \<Rightarrow> run_state \<Rightarrow> string list \<Rightarrow> bool \<Rightarrow> json" where
  "cancel_document run_id s active already = JObj
     [(''run_id'', JStr run_id), (''state'', JStr (run_state_value s)), (''active_execution_ids'', jstrs active),
      (''already_terminal'', JBool already)]"

definition cancel_marks :: "string \<Rightarrow> string \<Rightarrow> rat \<Rightarrow> test_store \<Rightarrow> test_store" where
  "cancel_marks run_id reason now st =
     update_targets (\<lambda>t. ta_run_id t = run_id \<and> (ta_state t = Starting \<or> ta_state t = Running)) (stop_target reason now)
       (update_targets (\<lambda>t. ta_run_id t = run_id \<and> ta_state t = Queued) (cancel_target now) st)"

definition stopping_executions :: "test_store \<Rightarrow> string \<Rightarrow> string list" where
  "stopping_executions st run_id =
     List.map_filter (\<lambda>t. map_option ex_execution_id (ta_execution t))
       (sort_key ta_target_id (filter (\<lambda>t. ta_state t = Stopping) (run_targets st run_id)))"

definition cancel_body ::
  "string \<Rightarrow> string \<Rightarrow> string \<Rightarrow> string \<Rightarrow> rat \<Rightarrow> test_store \<Rightarrow> store_error + json \<times> test_store" where
  "cancel_body run_id reason op fp now st =
     (case lookup_run st run_id of
        None \<Rightarrow> Inl (StoreNotFound ''test run does not exist'')
      | Some run \<Rightarrow>
      bindE (if \<not> active_run (ru_state run) then Inr (cancel_document run_id (ru_state run) [] True, st) else
          let st = cancel_marks run_id reason now st;
              active = stopping_executions st run_id;
              st = set_run run_id (cancelling_run reason now) st in
          bindE (reconcile_run run_id now st) (\<lambda>st.
          case lookup_run st run_id of
            None \<Rightarrow> Inl (StoreInternalError ''state'')
          | Some current \<Rightarrow> Inr (cancel_document run_id (ru_state current) active False, st))) (\<lambda>(result, st).
      bindE (record_mutation op ''cancel'' fp result now st) (\<lambda>st. Inr (result, st))))"

definition request_cancel ::
  "pylib \<Rightarrow> py_number \<Rightarrow> json \<Rightarrow> json \<Rightarrow> json \<Rightarrow> string \<Rightarrow> test_store \<Rightarrow> store_error + json \<times> test_store" where
  "request_cancel L clock run_value actor_value reason_value op_id st =
     bindE (safe_id ''run_id'' run_value) (\<lambda>run_id.
     bindE (single_line ''actor'' 256 actor_value) (\<lambda>actor.
     bindE (single_line ''reason'' 1024 reason_value) (\<lambda>reason.
     bindE (operation_id op_id) (\<lambda>op.
     let fp = deterministic_fingerprint L (JObj [(''run_id'', JStr run_id), (''actor'', JStr actor),
           (''reason'', JStr reason)]) in
     bindE (store_now clock) (\<lambda>now.
     journaled op ''cancel'' fp (cancel_body run_id reason op fp now) st)))))"

end
