(* ===== verification/Store_Queue.thy ===== *)
theory Store_Queue
  imports Store_Completion Scheduler
begin

text \<open>
  What the store hands to the scheduler and takes back: \<open>runnable_targets\<close>, \<open>active_allocations\<close>
  with \<open>allocations_from_store\<close>, \<open>record_schedule_decision\<close>, \<open>restart_cleanup\<close> and \<open>queue_status\<close>.
\<close>

section \<open>Candidates and allocations\<close>

definition find_profile :: "test_store \<Rightarrow> string \<Rightarrow> string \<Rightarrow> profile_row option" where
  "find_profile st repository_id target_name =
     find (\<lambda>p. pr_repository_id p = repository_id \<and> pr_target_name p = target_name) (ts_profiles st)"

definition default_memory_bootstrap_mib :: int where "default_memory_bootstrap_mib = 512"

definition runnable_of :: "test_store \<Rightarrow> target_row \<times> run_row \<Rightarrow> runnable_target" where
  "runnable_of st = (\<lambda>(t, run).
     let profile = find_profile st (ru_repository_id run) (ta_target_name t) in
     \<lparr>rt_target_id = ta_target_id t, rt_run_id = ta_run_id t, rt_repository_id = ru_repository_id run,
      rt_owner_uid = ru_owner_uid run, rt_priority = ru_priority run, rt_queued_at = ta_queued_at t,
      rt_target_name = ta_target_name t, rt_wave_index = int (ta_wave_index t),
      rt_shard_index = int (ta_shard_index t), rt_shard_count = int (ta_shard_count t),
      rt_estimated_seconds = Finite (ta_estimated_seconds t), rt_worktree_key = ta_worktree_key t,
      rt_source_mode = ''immutable'', rt_exclusive_resources = ta_exclusive_resources t,
      rt_memory_estimate_mib = (case profile of None \<Rightarrow> default_memory_bootstrap_mib
        | Some p \<Rightarrow> max 1 ((pr_recent_peak_memory_bytes p + 1024 * 1024 - 1) div (1024 * 1024))),
      rt_memory_estimate_source = (case profile of None \<Rightarrow> ''cold_start_default'' | Some _ \<Rightarrow> ''learned_peak''),
      rt_memory_sample_count = (case profile of None \<Rightarrow> 0 | Some p \<Rightarrow> int (pr_sample_count p))\<rparr>)"

text \<open>The join of targets with their runs.\<close>

definition with_run :: "test_store \<Rightarrow> target_row list \<Rightarrow> (target_row \<times> run_row) list" where
  "with_run st ts = List.map_filter (\<lambda>t. map_option (Pair t) (lookup_run st (ta_run_id t))) ts"

definition queued_rows :: "test_store \<Rightarrow> (target_row \<times> run_row) list" where
  "queued_rows st = take 10000 (sort_key (\<lambda>(t, r). (- ru_priority r, ta_queued_at t, ta_target_id t))
     (filter (\<lambda>(t, r). ta_state t = Queued \<and> (ru_state r = RunQueued \<or> ru_state r = RunRunning))
       (with_run st (ts_targets st))))"

definition runnable_targets :: "json \<Rightarrow> test_store \<Rightarrow> store_error + runnable_target list" where
  "runnable_targets limit_value st =
     bindE (positive_int ''limit'' 10000 limit_value) (\<lambda>limit.
     Inr (take (nat limit) (map (runnable_of st) (filter (\<lambda>(t, r).
       target_dependencies_succeeded (run_targets st (ta_run_id t)) (ta_dependencies t)) (queued_rows st)))))"

definition active_rows :: "test_store \<Rightarrow> (target_row \<times> run_row) list" where
  "active_rows st = sort_key (\<lambda>(t, r). (ta_created_at t, ta_target_id t))
     (filter (\<lambda>(t, r). active_target (ta_state t)) (with_run st (ts_targets st)))"

text \<open>\<open>active_allocations\<close> followed by \<open>allocations_from_store\<close>.\<close>

definition allocation_of :: "target_row \<times> run_row \<Rightarrow> active_allocation option" where
  "allocation_of = (\<lambda>(t, run). map_option (\<lambda>e.
     \<lparr>aa_execution_id = ex_execution_id e, aa_target_id = ta_target_id t,
      aa_repository_id = ru_repository_id run, aa_owner_uid = ru_owner_uid run,
      aa_worktree_key = ta_worktree_key t, aa_source_mode = ''immutable'',
      aa_exclusive_resources = ta_exclusive_resources t, aa_memory_commitment_mib = ex_memory_commitment_mib e,
      aa_current_memory_bytes = op_current_memory_bytes (ta_progress t),
      aa_runtime_active = active_target (ta_state t)\<rparr>) (ta_execution t))"

definition active_allocations :: "test_store \<Rightarrow> active_allocation list" where
  "active_allocations st = List.map_filter allocation_of (active_rows st)"

section \<open>Decisions\<close>

record wait_reason =
  wr_target_id :: json
  wr_reason :: json
  wr_required_mib :: "json option"
  wr_available_mib :: "json option"
  wr_reserve_mib :: "json option"
  wr_observed_at :: "py_number option"
  wr_source :: "json option"

definition wait_mib :: "string \<Rightarrow> json option \<Rightarrow> store_error + int option" where
  "wait_mib field v =
     (case v of None \<Rightarrow> Inr None
      | Some (JInt i) \<Rightarrow> if i < 0 then Inl (StoreContractError (''scheduler '' @ field @ '' is invalid'')) else Inr (Some i)
      | Some _ \<Rightarrow> Inl (StoreContractError (''scheduler '' @ field @ '' is invalid'')))"

definition check_wait ::
  "string list \<Rightarrow> nat \<times> wait_reason \<Rightarrow> wait_columns dict \<Rightarrow> store_error + wait_columns dict" where
  "check_wait selected = (\<lambda>(ix, raw) waits.
     bindE (safe_id (index_path ''rejected'' ix @ ''.target_id'') (wr_target_id raw)) (\<lambda>target_id.
     bindE (ensure (\<not> has_key target_id waits \<and> target_id \<notin> set selected)
       (StoreContractError ''scheduler target decision is duplicated'')) (\<lambda>_.
     bindE (safe_id (index_path ''rejected'' ix @ ''.reason'') (wr_reason raw)) (\<lambda>reason.
     bindE (wait_mib ''required_mib'' (wr_required_mib raw)) (\<lambda>required.
     bindE (wait_mib ''available_mib'' (wr_available_mib raw)) (\<lambda>available.
     bindE (wait_mib ''reserve_mib'' (wr_reserve_mib raw)) (\<lambda>reserve.
     bindE (optionE (finite_nonnegative ''scheduler observed_at'') (wr_observed_at raw)) (\<lambda>observed.
     bindE (optionE (safe_id ''scheduler memory source'') (wr_source raw)) (\<lambda>source.
     Inr (waits @ [(target_id, \<lparr>wa_code = reason, wa_since = 0, wa_required_mib = required,
       wa_available_mib = available, wa_reserve_mib = reserve, wa_observed_at = observed,
       wa_source = source\<rparr>)]))))))))))"

definition apply_wait :: "rat \<Rightarrow> wait_columns \<Rightarrow> target_row \<Rightarrow> target_row" where
  "apply_wait now w t = t\<lparr>ta_wait := Some (w\<lparr>wa_since :=
     (case ta_wait t of Some old \<Rightarrow> if wa_code old = wa_code w then wa_since old else now | None \<Rightarrow> now)\<rparr>)\<rparr>"

definition record_schedule_decision ::
  "py_number \<Rightarrow> json list \<Rightarrow> wait_reason list \<Rightarrow> test_store \<Rightarrow> store_error + test_store" where
  "record_schedule_decision clock selected_values rejected st =
     bindE (mapE (safe_id ''selected target_id'') selected_values) (\<lambda>selected.
     bindE (ensure (distinct selected) (StoreContractError ''selected target IDs are duplicated'')) (\<lambda>_.
     bindE (foldE (check_wait selected) (enumerate 0 rejected) []) (\<lambda>waits.
     bindE (store_now clock) (\<lambda>now.
     let st = fold (\<lambda>i. update_targets (\<lambda>t. ta_target_id t = i \<and> ta_state t = Queued) (\<lambda>t. t\<lparr>ta_wait := None\<rparr>))
           selected st in
     Inr (fold (\<lambda>(i, w). update_targets (\<lambda>t. ta_target_id t = i \<and> ta_state t = Queued) (apply_wait now w))
       waits st)))))"

section \<open>Restart\<close>

definition cleanup_document :: "execution_slot \<Rightarrow> target_row \<Rightarrow> run_row \<Rightarrow> json" where
  "cleanup_document e t run = JObj
     [(''execution_id'', JStr (ex_execution_id e)), (''generation'', JInt 1), (''target_id'', JStr (ta_target_id t)),
      (''run_id'', JStr (ta_run_id t)), (''repository_id'', JStr (ru_repository_id run)),
      (''repository_generation'', JInt (ex_repository_generation e)), (''owner_uid'', JInt (ru_owner_uid run)),
      (''systemd_unit'', JStr (ex_systemd_unit e)),
      (''systemd_invocation_id'', jopt JStr (Option.bind (ta_launch t) la_systemd_invocation_id)),
      (''launch_operation_id'', JStr (ex_launch_operation_id e)),
      (''descriptor_fingerprint'', JStr (ex_descriptor_fingerprint e)),
      (''launch_deadline_at'', JFloat (ex_launch_deadline_at e)),
      (''started_at'', jopt JFloat (map_option la_started_at (ta_launch t))),
      (''execution_deadline_at'', jopt JFloat (map_option la_deadline_at (ta_launch t))),
      (''state'', JStr (target_state_value (ta_state t)))]"

definition restart_cleanup :: "json \<Rightarrow> test_store \<Rightarrow> store_error + json list" where
  "restart_cleanup limit_value st =
     bindE (positive_int ''limit'' 10000 limit_value) (\<lambda>limit.
     let rows = take (nat limit + 1) (active_rows st) in
     bindE (ensure (length rows \<le> nat limit)
       (StoreConflict ''restart cleanup inventory exceeds its bounded page'')) (\<lambda>_.
     mapE (\<lambda>(t, run). case ta_execution t of
         Some e \<Rightarrow> if ex_store_generation e = ts_generation st then Inr (cleanup_document e t run)
           else Inl (StoreConflict ''active execution belongs to another Test Store generation'')
       | None \<Rightarrow> Inl (StoreConflict ''active execution belongs to another Test Store generation'')) rows))"

section \<open>Queue status\<close>

definition count_state :: "(target_row \<times> run_row) list \<Rightarrow> target_state \<Rightarrow> int" where
  "count_state rows s = int (length (filter (\<lambda>(t, r). ta_state t = s) rows))"

definition counts_document :: "(target_row \<times> run_row) list \<Rightarrow> json" where
  "counts_document rows = JObj (map (\<lambda>s. (target_state_value s, JInt (count_state rows s)))
     [Queued, Starting, Running, Stopping])"

text \<open>Rows of the two counting queries: unfinished targets of active runs.\<close>

definition unfinished_rows :: "test_store \<Rightarrow> (target_row \<times> run_row) list" where
  "unfinished_rows st = filter (\<lambda>(t, r). (ta_state t = Queued \<or> active_target (ta_state t)) \<and> active_run (ru_state r))
     (with_run st (ts_targets st))"

definition wait_blockers :: "test_store \<Rightarrow> string \<Rightarrow> json list" where
  "wait_blockers st repository_id =
     (let codes = List.map_filter (\<lambda>(t, r). if ru_repository_id r = repository_id \<and> ta_state t = Queued
            then map_option wa_code (ta_wait t) else None) (with_run st (ts_targets st)) in
      map (\<lambda>c. JObj [(''code'', JStr c), (''target_count'', JInt (int (length (filter (\<lambda>d. d = c) codes))))])
        (take 16 (sorted_set codes)))"

definition representative_document :: "target_row \<times> run_row \<Rightarrow> json" where
  "representative_document = (\<lambda>(t, _). JObj
     [(''run_id'', JStr (ta_run_id t)), (''target_name'', JStr (ta_target_name t)),
      (''state'', JStr (target_state_value (ta_state t))),
      (''execution_id'', jopt JStr (map_option ex_execution_id (ta_execution t))),
      (''wait_code'', jopt JStr (map_option wa_code (ta_wait t)))])"

definition queue_phase :: "(target_row \<times> run_row) list \<Rightarrow> string" where
  "queue_phase rows =
     (if count_state rows Running \<noteq> 0 \<or> count_state rows Stopping \<noteq> 0 then ''execution''
      else if count_state rows Starting \<noteq> 0 then ''launch''
      else if count_state rows Queued \<noteq> 0 then ''scheduler'' else ''idle'')"

definition queue_status :: "py_number \<Rightarrow> json \<Rightarrow> test_store \<Rightarrow> store_error + json" where
  "queue_status clock repository_value st =
     bindE (safe_id ''repository_id'' repository_value) (\<lambda>repository_id.
     bindE (runnable_targets (JInt 10000) st) (\<lambda>runnable.
     let all = unfinished_rows st;
         own = filter (\<lambda>(t, r). ru_repository_id r = repository_id) all;
         positions = map fst (filter (\<lambda>(_, c). rt_repository_id c = repository_id) (enumerate 1 runnable));
         blocked = max 0 (count_state own Queued - int (length positions));
         blockers = wait_blockers st repository_id @ (if blocked = 0 then [] else
           [JObj [(''code'', JStr ''dependency_wave''), (''target_count'', JInt blocked)]]) in
     bindE (store_now clock) (\<lambda>now.
     Inr (JObj [(''repository_id'', JStr repository_id), (''sampled_at'', JFloat now),
       (''phase'', JStr (queue_phase own)), (''global_targets'', counts_document all),
       (''repository_targets'', counts_document own),
       (''repository_runnable_targets'', JInt (int (length positions))),
       (''approximate_first_position'', jopt (JInt \<circ> int) (case positions of [] \<Rightarrow> None | _ \<Rightarrow> Some (Min (set positions)))),
       (''position_population_truncated'', JBool (length runnable = 10000)),
       (''blockers'', JArr (take 16 blockers)),
       (''representative_targets'', JArr (map representative_document
         (take 16 (sort_key (\<lambda>(t, r). (ta_queued_at t, ta_target_id t)) own)))),
       (''worker_capacity'', JObj [(''model'', JStr ''dynamic_memory_admission''), (''limit'', JNull),
         (''available'', JNull)])]))))"

end
