(* ===== verification/Store_Run_Laws.thy ===== *)
theory Store_Run_Laws
  imports Store_Queue
begin

text \<open>
  The laws of one run: the cancelled dependents of a failure are exactly its transitive dependents,
  and the invariant that ties the state of a run to the states of its targets is re-established by
  \<open>_reconcile_run\<close> after any change of a target.
\<close>

lemma find_SomeD: "find P xs = Some x \<Longrightarrow> x \<in> set xs \<and> P x"
  by (induction xs) (auto split: if_splits)

lemma find_key: "distinct (map k xs) \<Longrightarrow> find (\<lambda>x. k x = i) xs = Some x \<longleftrightarrow> x \<in> set xs \<and> k x = i"
  by (induction xs) force+

section \<open>The cancellation loop\<close>

text \<open>The edges of a dependency map, from a target to what it requires.\<close>

definition requires :: "(string \<times> string list) list \<Rightarrow> (string \<times> string) set" where
  "requires deps = {(n, d). \<exists>ds. (n, ds) \<in> set deps \<and> d \<in> set ds}"

lemma cancel_pass_sound:
  assumes "set cancelled \<subseteq> ((requires all)\<inverse>)\<^sup>+ `` set unavailable - set unavailable" and "set deps \<subseteq> set all"
  shows "set (cancel_pass unavailable deps cancelled) \<subseteq> ((requires all)\<inverse>)\<^sup>+ `` set unavailable - set unavailable"
  using assms
proof (induction unavailable deps cancelled rule: cancel_pass.induct)
  case (2 unavailable name required rest cancelled)
  show ?case
  proof (cases "name \<notin> set unavailable \<and> name \<notin> set cancelled \<and>
      list_ex (\<lambda>d. d \<in> set unavailable \<or> d \<in> set cancelled) required")
    case True
    then obtain d where d: "d \<in> set required" "d \<in> set unavailable \<or> d \<in> set cancelled"
      by (auto simp: list_ex_iff)
    then have edge: "(d, name) \<in> (requires all)\<inverse>" using "2.prems"(2) by (auto simp: requires_def)
    have "name \<in> ((requires all)\<inverse>)\<^sup>+ `` set unavailable"
      using d(2)
    proof
      assume "d \<in> set cancelled"
      then obtain u where "u \<in> set unavailable" "(u, d) \<in> ((requires all)\<inverse>)\<^sup>+" using "2.prems"(1) by auto
      then show ?thesis using edge by (blast intro: trancl_into_trancl)
    qed (use edge in blast)
    with True "2.IH"(2) "2.prems" show ?thesis by simp
  next
    case False
    with "2.IH"(1,3) "2.prems" show ?thesis by (auto split: if_splits)
  qed
qed simp

lemma cancel_pass_fixpoint:
  assumes "cancel_pass unavailable deps cancelled = cancelled" and "(n, ds) \<in> set deps"
    and "d \<in> set ds" "d \<in> set unavailable \<or> d \<in> set cancelled"
  shows "n \<in> set unavailable \<or> n \<in> set cancelled"
  using assms
proof (induction unavailable deps cancelled rule: cancel_pass.induct)
  case (2 unavailable name required rest cancelled)
  have grow: "cancel_pass unavailable rest (name # cancelled) \<noteq> cancelled"
    using cancel_pass_extends [of unavailable rest "name # cancelled"] by auto
  show ?case
  proof (cases "(n, ds) = (name, required)")
    case True
    with "2.prems" grow show ?thesis by (auto simp: list_ex_iff split: if_splits)
  next
    case False
    with "2.prems" grow "2.IH"(1,3) show ?thesis by (auto split: if_splits)
  qed
qed simp

lemma cancel_loop_fixpoint:
  "cancel_pass unavailable deps (cancel_loop unavailable deps cancelled) = cancel_loop unavailable deps cancelled"
proof (induction unavailable deps cancelled rule: cancel_loop.induct)
  case (1 unavailable deps cancelled)
  show ?case by (subst (1 2) cancel_loop.simps) (simp add: Let_def 1)
qed

lemma cancel_loop_sound:
  assumes "set cancelled \<subseteq> ((requires deps)\<inverse>)\<^sup>+ `` set unavailable - set unavailable"
  shows "set (cancel_loop unavailable deps cancelled) \<subseteq> ((requires deps)\<inverse>)\<^sup>+ `` set unavailable - set unavailable"
  using assms
proof (induction unavailable deps cancelled rule: cancel_loop.induct)
  case (1 unavailable deps cancelled)
  show ?case
    using 1 cancel_pass_sound [OF "1.prems" order_refl] by (subst cancel_loop.simps) (simp add: Let_def)
qed

lemma cancel_loop_closed:
  assumes "(n, d) \<in> requires deps" and "d \<in> set unavailable \<or> d \<in> set (cancel_loop unavailable deps cancelled)"
  shows "n \<in> set unavailable \<or> n \<in> set (cancel_loop unavailable deps cancelled)"
  using assms cancel_pass_fixpoint [OF cancel_loop_fixpoint, of n _ deps d unavailable cancelled]
  unfolding requires_def by blast

lemma cancel_loop_exact:
  "set (cancel_loop unavailable deps []) = ((requires deps)\<inverse>)\<^sup>+ `` set unavailable - set unavailable"
proof
  show "set (cancel_loop unavailable deps []) \<subseteq> ((requires deps)\<inverse>)\<^sup>+ `` set unavailable - set unavailable"
    by (rule cancel_loop_sound) simp
  show "((requires deps)\<inverse>)\<^sup>+ `` set unavailable - set unavailable \<subseteq> set (cancel_loop unavailable deps [])"
  proof
    fix n assume n: "n \<in> ((requires deps)\<inverse>)\<^sup>+ `` set unavailable - set unavailable"
    then obtain u where u: "u \<in> set unavailable" "(u, n) \<in> ((requires deps)\<inverse>)\<^sup>+" by auto
    from u(2) have "n \<in> set unavailable \<or> n \<in> set (cancel_loop unavailable deps [])"
    proof induction
      case (base y)
      then show ?case using u(1) cancel_loop_closed [of y u deps unavailable "[]"] by auto
    next
      case (step y z)
      then show ?case using cancel_loop_closed [of z y deps unavailable "[]"] by auto
    qed
    with n show "n \<in> set (cancel_loop unavailable deps [])" by simp
  qed
qed

section \<open>One run\<close>

definition deps_done :: "target_row set \<Rightarrow> target_row \<Rightarrow> bool" where
  "deps_done S t \<longleftrightarrow> (\<forall>d \<in> set (ta_dependencies t). (\<exists>u \<in> S. ta_target_name u = d) \<and>
     (\<forall>u \<in> S. ta_target_name u = d \<longrightarrow> ta_state u = Terminal SUCCEEDED))"

lemma target_dependencies_succeeded_iff:
  "target_dependencies_succeeded rows (ta_dependencies t) \<longleftrightarrow> deps_done (set rows) t"
  by (auto simp: target_dependencies_succeeded_def deps_done_def states_by_name_def list_all_iff filter_empty_conv)

text \<open>
  The dependency graph of a run: shards of one target agree on wave and dependencies, every
  dependency is a target of the run, and it lies in an earlier wave.
\<close>

definition graph_ok :: "target_row set \<Rightarrow> bool" where
  "graph_ok S \<longleftrightarrow>
     (\<forall>t \<in> S. \<forall>u \<in> S. ta_target_name t = ta_target_name u \<longrightarrow>
        ta_wave_index t = ta_wave_index u \<and> ta_dependencies t = ta_dependencies u) \<and>
     (\<forall>t \<in> S. \<forall>d \<in> set (ta_dependencies t). \<exists>u \<in> S. ta_target_name u = d) \<and>
     (\<forall>t \<in> S. \<forall>u \<in> S. ta_target_name u \<in> set (ta_dependencies t) \<longrightarrow> ta_wave_index u < ta_wave_index t)"

lemma graph_ok_dep: "graph_ok S \<Longrightarrow> t \<in> S \<Longrightarrow> d \<in> set (ta_dependencies t) \<Longrightarrow> \<exists>u \<in> S. ta_target_name u = d"
  unfolding graph_ok_def by blast

lemma graph_ok_wave:
  "graph_ok S \<Longrightarrow> t \<in> S \<Longrightarrow> u \<in> S \<Longrightarrow> ta_target_name u \<in> set (ta_dependencies t) \<Longrightarrow> ta_wave_index u < ta_wave_index t"
  unfolding graph_ok_def by blast

lemma graph_ok_sibling:
  "graph_ok S \<Longrightarrow> t \<in> S \<Longrightarrow> u \<in> S \<Longrightarrow> ta_target_name t = ta_target_name u \<Longrightarrow> ta_dependencies t = ta_dependencies u"
  unfolding graph_ok_def by blast

text \<open>What the columns of a target say in each state.\<close>

definition slot_ok :: "target_row \<Rightarrow> bool" where
  "slot_ok t = (case ta_state t of
       Queued \<Rightarrow> ta_execution t = None \<and> ta_terminal t = None
     | Starting \<Rightarrow> ta_execution t \<noteq> None \<and> ta_terminal t = None
     | Running \<Rightarrow> ta_execution t \<noteq> None \<and> ta_launch t \<noteq> None \<and> ta_terminal t = None
     | Stopping \<Rightarrow> ta_execution t \<noteq> None \<and> ta_terminal t = None
     | Terminal c \<Rightarrow> ta_conclusion t = Some c \<and> (case ta_terminal t of
         None \<Rightarrow> c = CANCELLED \<and> ta_execution t = None
       | Some e \<Rightarrow> ta_execution t \<noteq> None \<and>
           (c = SUCCEEDED \<longrightarrow> te_reporter_complete e \<and> te_failed_count e = 0 \<and> te_error_count e = 0)))"

text \<open>
  An execution only ever starts when all shards of all dependencies have succeeded; and a queued
  target has no shard that was cancelled without running.
\<close>

definition targets_ok :: "target_row set \<Rightarrow> bool" where
  "targets_ok S \<longleftrightarrow> graph_ok S \<and> (\<forall>t \<in> S. slot_ok t \<and> (ta_execution t \<noteq> None \<longrightarrow> deps_done S t)) \<and>
     (\<forall>t \<in> S. \<forall>u \<in> S. ta_target_name t = ta_target_name u \<and> ta_state t = Queued \<and> failed_target (ta_state u) \<longrightarrow>
        ta_execution u \<noteq> None)"

definition pending :: "target_row \<Rightarrow> bool" where
  "pending t \<longleftrightarrow> ta_state t = Queued \<or> active_target (ta_state t)"

definition state_ok :: "run_state \<Rightarrow> target_row set \<Rightarrow> bool" where
  "state_ok s S = (case s of
       RunQueued \<Rightarrow> (\<exists>t \<in> S. pending t) \<and> (\<forall>t \<in> S. ta_state t = Queued \<longrightarrow>
         (\<forall>u \<in> S. ta_target_name u \<in> set (ta_dependencies t) \<longrightarrow> \<not> failed_target (ta_state u)))
     | RunRunning \<Rightarrow> (\<exists>t \<in> S. pending t) \<and> (\<forall>t \<in> S. ta_state t = Queued \<longrightarrow>
         (\<forall>u \<in> S. ta_target_name u \<in> set (ta_dependencies t) \<longrightarrow> \<not> failed_target (ta_state u)))
     | RunCancelling \<Rightarrow> (\<exists>t \<in> S. active_target (ta_state t)) \<and> (\<forall>t \<in> S. ta_state t \<noteq> Queued)
     | RunSucceeded \<Rightarrow> (\<forall>t \<in> S. ta_state t = Terminal SUCCEEDED)
     | RunCancelled \<Rightarrow> (\<forall>t \<in> S. \<not> pending t)
     | _ \<Rightarrow> (\<forall>t \<in> S. \<not> pending t) \<and> (\<exists>t \<in> S. failed_target (ta_state t)))"

definition run_inv :: "run_row \<Rightarrow> target_row set \<Rightarrow> bool" where
  "run_inv r S \<longleftrightarrow> targets_ok S \<and> state_ok (ru_state r) S \<and>
     (\<not> active_run (ru_state r) \<longrightarrow> ru_finished_at r \<noteq> None \<and> ru_conclusion r = Some (ru_state r))"

text \<open>What holds of a run just before it is reconciled.\<close>

definition run_pre :: "run_row \<Rightarrow> target_row set \<Rightarrow> bool" where
  "run_pre r S \<longleftrightarrow> targets_ok S \<and> S \<noteq> {} \<and> active_run (ru_state r) \<and>
     (ru_state r = RunCancelling \<longrightarrow> (\<forall>t \<in> S. ta_state t \<noteq> Queued))"

lemma run_inv_pre: "run_inv r S \<Longrightarrow> active_run (ru_state r) \<Longrightarrow> run_pre r S"
  by (auto simp: run_inv_def run_pre_def active_run_def state_ok_def)

lemma not_pending_iff: "\<not> pending t \<longleftrightarrow> (\<exists>c. ta_state t = Terminal c)"
  by (cases "ta_state t") (auto simp: pending_def active_target_def)

lemma failed_not_pending: "failed_target (ta_state t) \<Longrightarrow> \<not> pending t"
  by (cases "ta_state t") (auto simp: pending_def active_target_def failed_target_def)

text \<open>
  A run that is not finished and has no failure pending can make progress: one of its targets is
  being executed, or one is queued with all its dependencies succeeded.
\<close>

lemma run_not_stuck:
  assumes "run_inv r S" and "ru_state r = RunQueued \<or> ru_state r = RunRunning"
  shows "(\<exists>t \<in> S. active_target (ta_state t)) \<or> (\<exists>t \<in> S. ta_state t = Queued \<and> deps_done S t)"
proof (rule ccontr)
  assume stuck: "\<not> ?thesis"
  have pend: "\<exists>t \<in> S. pending t" and clean: "\<forall>t \<in> S. ta_state t = Queued \<longrightarrow>
      (\<forall>u \<in> S. ta_target_name u \<in> set (ta_dependencies t) \<longrightarrow> \<not> failed_target (ta_state u))"
    using assms(1,2) by (auto simp: run_inv_def state_ok_def)
  have graph: "graph_ok S" using assms(1) by (simp add: run_inv_def targets_ok_def)
  let ?Q = "{t \<in> S. ta_state t = Queued}"
  obtain q where "q \<in> ?Q" using pend stuck by (auto simp: pending_def)
  then obtain t where t: "t \<in> ?Q" and least: "\<And>u. u \<in> ?Q \<Longrightarrow> ta_wave_index t \<le> ta_wave_index u"
    using ex_has_least_nat [of "\<lambda>t. t \<in> ?Q" q ta_wave_index] by blast
  have "deps_done S t"
    unfolding deps_done_def
  proof (intro ballI conjI impI)
    fix d assume d: "d \<in> set (ta_dependencies t)"
    then show "\<exists>u \<in> S. ta_target_name u = d" using graph t by (blast dest: graph_ok_dep)
    fix u assume u: "u \<in> S" "ta_target_name u = d"
    then have "ta_wave_index u < ta_wave_index t" using graph t d graph_ok_wave by blast
    then have "ta_state u \<noteq> Queued" using least u(1) by (force simp: not_le)
    moreover have "\<not> active_target (ta_state u)" "\<not> failed_target (ta_state u)"
      using stuck clean t u d by auto
    ultimately show "ta_state u = Terminal SUCCEEDED"
      by (cases "ta_state u") (auto simp: active_target_def failed_target_def)
  qed
  with t stuck show False by auto
qed

section \<open>Updates of a run's targets\<close>

text \<open>
  The updates of the store never touch the identity of a target, never change a terminal row, and
  never replace an execution.
\<close>

definition keeps :: "target_row \<Rightarrow> target_row \<Rightarrow> bool" where
  "keeps t u \<longleftrightarrow> ta_target_id u = ta_target_id t \<and> ta_run_id u = ta_run_id t \<and>
     ta_target_name u = ta_target_name t \<and> ta_wave_index u = ta_wave_index t \<and>
     ta_dependencies u = ta_dependencies t \<and> ta_shard_index u = ta_shard_index t \<and>
     ta_shard_count u = ta_shard_count t \<and> (\<not> pending t \<longrightarrow> u = t) \<and>
     (ta_execution t \<noteq> None \<longrightarrow> ta_execution u = ta_execution t)"

lemma keeps_refl [simp]: "keeps t t"
  by (simp add: keeps_def)

lemma keeps_trans: "keeps t u \<Longrightarrow> keeps u v \<Longrightarrow> keeps t v"
  unfolding keeps_def by metis

lemma keeps_columns:
  assumes "keeps t u"
  shows "ta_target_id u = ta_target_id t" "ta_run_id u = ta_run_id t" "ta_target_name u = ta_target_name t"
    "ta_wave_index u = ta_wave_index t" "ta_dependencies u = ta_dependencies t"
  using assms by (simp_all add: keeps_def)

lemma keeps_terminal: "keeps t u \<Longrightarrow> ta_state t = Terminal c \<Longrightarrow> u = t"
  by (auto simp: keeps_def pending_def active_target_def)

lemma deps_done_image:
  assumes "\<forall>t \<in> S. keeps t (f t)" and "deps_done S t" and "ta_dependencies u = ta_dependencies t"
  shows "deps_done (f ` S) u"
  unfolding deps_done_def
proof (intro ballI conjI impI)
  fix d assume "d \<in> set (ta_dependencies u)"
  then have d: "d \<in> set (ta_dependencies t)" using assms(3) by simp
  then show "\<exists>u \<in> f ` S. ta_target_name u = d"
    using assms(1,2) unfolding deps_done_def by (metis imageI keeps_columns(3))
  fix v assume "v \<in> f ` S" "ta_target_name v = d"
  then obtain w where w: "w \<in> S" "v = f w" "ta_target_name w = d" using assms(1) by (auto simp: keeps_columns)
  then have "ta_state w = Terminal SUCCEEDED" using assms(2) d unfolding deps_done_def by blast
  then show "ta_state v = Terminal SUCCEEDED" using keeps_terminal [of w v] w assms(1) by auto
qed

lemma graph_ok_image:
  assumes "graph_ok S" and "\<forall>t \<in> S. keeps t (f t)"
  shows "graph_ok (f ` S)"
  unfolding graph_ok_def
proof (intro conjI ballI impI)
  fix t u assume tu: "t \<in> f ` S" "u \<in> f ` S"
  then obtain t' u' where o: "t' \<in> S" "t = f t'" "u' \<in> S" "u = f u'" by auto
  have k: "keeps t' t" "keeps u' u" using o assms(2) by auto
  { assume "ta_target_name t = ta_target_name u"
    then show "ta_wave_index t = ta_wave_index u" "ta_dependencies t = ta_dependencies u"
      using assms(1) o k unfolding graph_ok_def by (metis keeps_columns(3,4), metis keeps_columns(3,5)) }
  assume "ta_target_name u \<in> set (ta_dependencies t)"
  then show "ta_wave_index u < ta_wave_index t"
    using graph_ok_wave [OF assms(1) o(1,3)] k by (simp add: keeps_columns)
next
  fix t d assume "t \<in> f ` S" "d \<in> set (ta_dependencies t)"
  then obtain t' where "t' \<in> S" "d \<in> set (ta_dependencies t')" using assms(2) by (auto simp: keeps_columns)
  then obtain u where "u \<in> S" "ta_target_name u = d" using graph_ok_dep [OF assms(1)] by blast
  then show "\<exists>u \<in> f ` S. ta_target_name u = d" using assms(2) by (force simp: keeps_columns)
qed

lemma targets_ok_image:
  assumes ok: "targets_ok S" and keep: "\<forall>t \<in> S. keeps t (f t)" and slots: "\<forall>t \<in> S. slot_ok (f t)"
    and new: "\<forall>t \<in> S. ta_execution t = None \<and> ta_execution (f t) \<noteq> None \<longrightarrow> deps_done S t"
    and siblings: "\<forall>t \<in> S. \<forall>u \<in> S. ta_target_name t = ta_target_name u \<and> ta_state (f t) = Queued \<and>
      failed_target (ta_state (f u)) \<longrightarrow> ta_execution (f u) \<noteq> None"
  shows "targets_ok (f ` S)"
  unfolding targets_ok_def
proof (intro conjI ballI impI)
  show "graph_ok (f ` S)" using graph_ok_image ok keep by (simp add: targets_ok_def)
  fix t assume "t \<in> f ` S"
  then obtain t' where t': "t' \<in> S" "t = f t'" by auto
  show "slot_ok t" using slots t' by simp
  have "keeps t' t" using keep t' by simp
  { assume "ta_execution t \<noteq> None"
    then have "deps_done S t'"
      using new ok t' unfolding targets_ok_def by (cases "ta_execution t' = None") auto
    then show "deps_done (f ` S) t"
      using deps_done_image [OF keep, of t' t] keeps_columns(5) [OF \<open>keeps t' t\<close>] by simp }
  fix u assume "u \<in> f ` S"
  then obtain u' where u': "u' \<in> S" "u = f u'" by auto
  assume "ta_target_name t = ta_target_name u \<and> ta_state t = Queued \<and> failed_target (ta_state u)"
  then show "ta_execution u \<noteq> None"
    using siblings t' u' keep keeps_columns(3) by metis
qed

lemma targets_okD:
  assumes "targets_ok S" "t \<in> S"
  shows "slot_ok t" "ta_execution t \<noteq> None \<Longrightarrow> deps_done S t"
  using assms by (auto simp: targets_ok_def)

lemma targets_ok_sibling:
  "targets_ok S \<Longrightarrow> t \<in> S \<Longrightarrow> u \<in> S \<Longrightarrow> ta_target_name t = ta_target_name u \<Longrightarrow> ta_state t = Queued \<Longrightarrow>
     failed_target (ta_state u) \<Longrightarrow> ta_execution u \<noteq> None"
  unfolding targets_ok_def by blast

section \<open>Reconciling a run\<close>

text \<open>The names that reconciliation cancels, as a set.\<close>

lemma fold_dict_put_map_of:
  "map_of (fold (\<lambda>t d. dict_put (key t) (val t) d) ts d0) k =
     (case find (\<lambda>t. key t = k) (rev ts) of Some t \<Rightarrow> Some (val t) | None \<Rightarrow> map_of d0 k)"
proof (induction ts rule: rev_induct)
  case (snoc t ts)
  then show ?case by (auto simp: map_of_dict_put)
qed simp

lemma dict_ok_fold_put: "dict_ok d0 \<Longrightarrow> dict_ok (fold (\<lambda>t d. dict_put (key t) (val t) d) ts d0)"
  by (induction ts arbitrary: d0) (auto simp: dict_ok_dict_put)

definition row_requires :: "target_row set \<Rightarrow> (string \<times> string) set" where
  "row_requires S = {(ta_target_name t, d) | t d. t \<in> S \<and> d \<in> set (ta_dependencies t)}"

definition failed_names :: "target_row set \<Rightarrow> string set" where
  "failed_names S = ta_target_name ` {t \<in> S. failed_target (ta_state t)}"

lemma requires_rows:
  assumes "graph_ok (set ts)"
  shows "requires (fold (\<lambda>t d. dict_put (ta_target_name t) (ta_dependencies t) d) ts []) = row_requires (set ts)"
    (is "requires ?d = _")
proof -
  have "dict_ok ?d" by (rule dict_ok_fold_put) (simp add: dict_ok_def)
  then have entry: "(n, ds) \<in> set ?d \<longleftrightarrow> (\<exists>t. find (\<lambda>t. ta_target_name t = n) (rev ts) = Some t \<and> ta_dependencies t = ds)"
    for n ds by (auto simp flip: map_of_Some_iff simp: fold_dict_put_map_of split: option.splits)
  show ?thesis
  proof (intro set_eqI iffI)
    fix x assume "x \<in> requires ?d"
    then obtain n d ds t where "x = (n, d)" "d \<in> set ds" "find (\<lambda>t. ta_target_name t = n) (rev ts) = Some t"
      "ta_dependencies t = ds" by (auto simp: requires_def entry)
    then show "x \<in> row_requires (set ts)" by (auto simp: row_requires_def dest!: find_SomeD)
  next
    fix x assume "x \<in> row_requires (set ts)"
    then obtain t d where x: "x = (ta_target_name t, d)" "t \<in> set ts" "d \<in> set (ta_dependencies t)"
      by (auto simp: row_requires_def)
    then obtain u where u: "find (\<lambda>u. ta_target_name u = ta_target_name t) (rev ts) = Some u"
      by (cases "find (\<lambda>u. ta_target_name u = ta_target_name t) (rev ts)") (auto simp: find_None_iff)
    then have "u \<in> set ts" "ta_target_name u = ta_target_name t" by (auto dest!: find_SomeD)
    then have "ta_dependencies u = ta_dependencies t" using graph_ok_sibling [OF assms] x(2) by metis
    then show "x \<in> requires ?d" using x u by (auto simp: requires_def entry)
  qed
qed

lemma cancelled_dependents_rows:
  assumes "graph_ok (set ts)"
  shows "set (cancelled_dependents ts) = ((row_requires (set ts))\<inverse>)\<^sup>+ `` failed_names (set ts) - failed_names (set ts)"
proof -
  have "set (map ta_target_name (filter (\<lambda>t. failed_target (ta_state t)) ts)) = failed_names (set ts)"
    by (auto simp: failed_names_def)
  then show ?thesis
    unfolding cancelled_dependents_def Let_def cancel_loop_exact requires_rows [OF assms] by simp
qed

text \<open>Cancelling the queued dependents of the failures of a run.\<close>

definition cancels :: "string set \<Rightarrow> rat \<Rightarrow> target_row \<Rightarrow> target_row" where
  "cancels names now t = (if ta_state t = Queued \<and> ta_target_name t \<in> names then cancel_target now t else t)"

lemma cancel_target_simps [simp]:
  "ta_target_id (cancel_target now t) = ta_target_id t" "ta_run_id (cancel_target now t) = ta_run_id t"
  "ta_target_name (cancel_target now t) = ta_target_name t" "ta_dependencies (cancel_target now t) = ta_dependencies t"
  "ta_state (cancel_target now t) = Terminal CANCELLED" "ta_execution (cancel_target now t) = ta_execution t"
  "ta_terminal (cancel_target now t) = ta_terminal t"
  by (simp_all add: cancel_target_def)

lemma keeps_cancel_target: "ta_state t = Queued \<Longrightarrow> keeps t (cancel_target now t)"
  by (simp add: keeps_def cancel_target_def pending_def)

lemma slot_ok_cancel_target: "slot_ok t \<Longrightarrow> ta_state t = Queued \<Longrightarrow> slot_ok (cancel_target now t)"
  by (simp add: slot_ok_def cancel_target_def)

lemma keeps_cancels: "keeps t (cancels names now t)"
  by (simp add: cancels_def keeps_cancel_target)

lemma cancels_execution [simp]: "ta_execution (cancels names now t) = ta_execution t"
  by (simp add: cancels_def)

lemma cancels_state:
  "ta_state (cancels names now t) = (if ta_state t = Queued \<and> ta_target_name t \<in> names then Terminal CANCELLED else ta_state t)"
  by (simp add: cancels_def)

lemma targets_ok_cancels:
  assumes "targets_ok S"
  shows "targets_ok (cancels names now ` S)"
proof (rule targets_ok_image [OF assms])
  show "\<forall>t \<in> S. slot_ok (cancels names now t)"
    using targets_okD(1) [OF assms] by (simp add: cancels_def slot_ok_cancel_target)
  show "\<forall>t \<in> S. \<forall>u \<in> S. ta_target_name t = ta_target_name u \<and> ta_state (cancels names now t) = Queued \<and>
      failed_target (ta_state (cancels names now u)) \<longrightarrow> ta_execution (cancels names now u) \<noteq> None"
    using targets_ok_sibling [OF assms] by (auto simp: cancels_state split: if_splits)
qed (auto simp: keeps_cancels)

lemma cancels_clean:
  assumes ok: "targets_ok S" and names: "names = ((row_requires S)\<inverse>)\<^sup>+ `` failed_names S - failed_names S"
    and t: "t \<in> S" "ta_state (cancels names now t) = Queued"
    and u: "u \<in> S" "ta_target_name u \<in> set (ta_dependencies t)"
  shows "\<not> failed_target (ta_state (cancels names now u))"
proof
  assume fail: "failed_target (ta_state (cancels names now u))"
  then have "ta_target_name u \<in> failed_names S \<union> names"
    using u(1) by (auto simp: cancels_state failed_names_def split: if_splits)
  moreover have "(ta_target_name u, ta_target_name t) \<in> (row_requires S)\<inverse>" using t(1) u(2) by (auto simp: row_requires_def)
  ultimately have "ta_target_name t \<in> ((row_requires S)\<inverse>)\<^sup>+ `` failed_names S"
    unfolding names by (blast intro: trancl_into_trancl)
  moreover have queued: "ta_state t = Queued" "ta_target_name t \<notin> names" using t(2) by (auto simp: cancels_state split: if_splits)
  ultimately have "ta_target_name t \<in> failed_names S" unfolding names by blast
  then obtain v where v: "v \<in> S" "ta_target_name t = ta_target_name v" "failed_target (ta_state v)"
    by (auto simp: failed_names_def)
  then have "ta_execution v \<noteq> None" using targets_ok_sibling [OF ok t(1) v(1)] queued by blast
  then have "deps_done S v" using targets_okD(2) [OF ok v(1)] by blast
  moreover have "ta_dependencies v = ta_dependencies t"
    using graph_ok_sibling [of S t v] ok t(1) v by (simp add: targets_ok_def)
  ultimately have "ta_state u = Terminal SUCCEEDED" using u unfolding deps_done_def by metis
  then show False using fail by (auto simp: cancels_state failed_target_def)
qed

lemma dominant_failure_ex:
  assumes "\<exists>s \<in> set states. failed_target s"
  obtains s c where "dominant_failure states = Some (s, c)" "s \<in> {RunFailed, RunTimedOut, RunIncomplete, RunCancelled}"
proof -
  obtain c where "c \<noteq> SUCCEEDED" "Terminal c \<in> set states"
    using assms by (auto simp: failed_target_def split: target_state.splits) (metis target_state.exhaust)
  then have "dominant_failure states \<noteq> None"
    by (cases c) (auto simp: dominant_failure_def)
  then show thesis using that by (auto simp: dominant_failure_def split: if_splits)
qed

end
