(* ===== verification/Store_Laws.thy ===== *)
theory Store_Laws
  imports Store_Run_Laws
begin

text \<open>
  The invariant of the whole store and how the store evolves: identities are unique, every target
  belongs to a run and every run to a plan, at most one active run has a given execution fingerprint,
  executions never share an identity, and every run satisfies its invariant. Every operation keeps
  the invariant and only extends history.
\<close>

section \<open>The invariant\<close>

definition rows_of :: "test_store \<Rightarrow> string \<Rightarrow> target_row set" where
  "rows_of st i = {t \<in> set (ts_targets st). ta_run_id t = i}"

lemma set_run_targets [simp]: "set (run_targets st i) = rows_of st i"
  by (auto simp: run_targets_def rows_of_def)

definition slots_ok :: "target_row set \<Rightarrow> bool" where
  "slots_ok T \<longleftrightarrow> (\<forall>t \<in> T. \<forall>u \<in> T. \<forall>e. ta_execution t = Some e \<and> slot_conflict e u \<longrightarrow> ta_target_id u = ta_target_id t)"

definition runs_ok :: "run_row list \<Rightarrow> bool" where
  "runs_ok rs \<longleftrightarrow> distinct (map ru_run_id rs) \<and>
     (\<forall>r \<in> set rs. \<forall>s \<in> set rs. active_run (ru_state r) \<and> active_run (ru_state s) \<and>
        ru_execution_fingerprint r = ru_execution_fingerprint s \<longrightarrow> ru_run_id r = ru_run_id s)"

definition tables_ok :: "test_store \<Rightarrow> bool" where
  "tables_ok st \<longleftrightarrow> runs_ok (ts_runs st) \<and> distinct (map ta_target_id (ts_targets st)) \<and>
     (\<forall>t \<in> set (ts_targets st). ta_run_id t \<in> ru_run_id ` set (ts_runs st)) \<and>
     (\<forall>r \<in> set (ts_runs st). ru_plan_id r \<in> pl_plan_id ` set (ts_plans st)) \<and>
     slots_ok (set (ts_targets st))"

definition core :: "(run_row \<Rightarrow> target_row set \<Rightarrow> bool) \<Rightarrow> test_store \<Rightarrow> bool" where
  "core Q st \<longleftrightarrow> tables_ok st \<and> (\<forall>r \<in> set (ts_runs st). Q r (rows_of st (ru_run_id r)))"

text \<open>The run invariant everywhere, except that run \<open>i\<close> satisfies \<open>P\<close>.\<close>

definition except :: "string \<Rightarrow> (run_row \<Rightarrow> target_row set \<Rightarrow> bool) \<Rightarrow> run_row \<Rightarrow> target_row set \<Rightarrow> bool" where
  "except i P r S = (if ru_run_id r = i then P r S else run_inv r S)"

lemma core_except: "core (except i run_inv) st \<longleftrightarrow> core run_inv st"
  by (simp add: core_def except_def)

lemma lookup_run_Some: "tables_ok st \<Longrightarrow> lookup_run st i = Some r \<longleftrightarrow> r \<in> set (ts_runs st) \<and> ru_run_id r = i"
  by (simp add: tables_ok_def runs_ok_def lookup_run_def find_key)

lemma find_target_Some:
  "tables_ok st \<Longrightarrow> find_target st i = Some t \<longleftrightarrow> t \<in> set (ts_targets st) \<and> ta_target_id t = i"
  by (simp add: tables_ok_def find_target_def find_key)

lemma core_runD: "core Q st \<Longrightarrow> r \<in> set (ts_runs st) \<Longrightarrow> Q r (rows_of st (ru_run_id r))"
  by (simp add: core_def)

lemma core_run_of:
  assumes "core Q st" "t \<in> set (ts_targets st)"
  obtains r where "r \<in> set (ts_runs st)" "ru_run_id r = ta_run_id t" "lookup_run st (ta_run_id t) = Some r"
proof -
  have "ta_run_id t \<in> ru_run_id ` set (ts_runs st)" using assms by (simp add: core_def tables_ok_def)
  then obtain r where "r \<in> set (ts_runs st)" "ru_run_id r = ta_run_id t" by auto
  then show thesis using that assms(1) by (simp add: core_def lookup_run_Some)
qed

section \<open>Evolution\<close>

definition run_keeps :: "run_row \<Rightarrow> run_row \<Rightarrow> bool" where
  "run_keeps r s \<longleftrightarrow> ru_run_id s = ru_run_id r \<and> ru_plan_id s = ru_plan_id r \<and>
     ru_repository_id s = ru_repository_id r \<and> ru_owner_uid s = ru_owner_uid r \<and>
     ru_intent s = ru_intent r \<and> ru_execution_fingerprint s = ru_execution_fingerprint r \<and>
     (\<not> active_run (ru_state r) \<longrightarrow> s = r)"

lemma run_keeps_refl [simp]: "run_keeps r r"
  by (simp add: run_keeps_def)

lemma run_keeps_trans: "run_keeps r s \<Longrightarrow> run_keeps s t \<Longrightarrow> run_keeps r t"
  unfolding run_keeps_def by metis

definition plan_keeps :: "plan_row \<Rightarrow> plan_row \<Rightarrow> bool" where
  "plan_keeps p q \<longleftrightarrow> q\<lparr>pl_plan_json := pl_plan_json p\<rparr> = p"

lemma plan_keeps_refl [simp]: "plan_keeps p p"
  by (simp add: plan_keeps_def)

lemma plan_keeps_trans: "plan_keeps p q \<Longrightarrow> plan_keeps q r \<Longrightarrow> plan_keeps p r"
  unfolding plan_keeps_def by (cases p, cases q, cases r) simp

text \<open>A table is extended when its old rows are kept in place and new rows are appended.\<close>

definition extends :: "('a \<Rightarrow> 'a \<Rightarrow> bool) \<Rightarrow> 'a list \<Rightarrow> 'a list \<Rightarrow> bool" where
  "extends R xs ys \<longleftrightarrow> (\<exists>us zs. ys = us @ zs \<and> list_all2 R xs us)"

lemma extends_refl: "(\<And>x. R x x) \<Longrightarrow> extends R xs xs"
  unfolding extends_def by (rule exI [of _ xs], rule exI [of _ "[]"]) (simp add: list.rel_refl)

lemma extends_append: "(\<And>x. R x x) \<Longrightarrow> extends R xs (xs @ zs)"
  unfolding extends_def by (rule exI [of _ xs]) (simp add: list.rel_refl)

lemma extends_map: "(\<And>x. x \<in> set xs \<Longrightarrow> R x (f x)) \<Longrightarrow> extends R xs (map f xs)"
  unfolding extends_def by (rule exI [of _ "map f xs"], rule exI [of _ "[]"]) (simp add: list.rel_map list.rel_refl_strong)

lemma extends_trans:
  assumes "extends R xs ys" "extends R ys zs" and R: "\<And>x y z. R x y \<Longrightarrow> R y z \<Longrightarrow> R x z"
  shows "extends R xs zs"
proof -
  obtain us vs where us: "ys = us @ vs" "list_all2 R xs us" using assms(1) by (auto simp: extends_def)
  obtain us' vs' where us': "zs = us' @ vs'" "list_all2 R ys us'" using assms(2) by (auto simp: extends_def)
  obtain p q where pq: "us' = p @ q" "list_all2 R us p"
    using us'(2) unfolding us(1) by (auto simp: list_all2_append1)
  have "list_all2 R xs p" using us(2) pq(2) R by (rule list_all2_trans [rotated -2]) auto
  then show ?thesis unfolding extends_def us'(1) pq(1) by (metis append.assoc)
qed

lemma extends_mem: "extends R xs ys \<Longrightarrow> x \<in> set xs \<Longrightarrow> \<exists>y \<in> set ys. R x y"
  unfolding extends_def by (metis list_all2_conv_all_nth in_set_conv_nth nth_mem UnI1 set_append)

definition evolves :: "test_store \<Rightarrow> test_store \<Rightarrow> bool" where
  "evolves st st' \<longleftrightarrow> ts_generation st' = ts_generation st \<and>
     extends keeps (ts_targets st) (ts_targets st') \<and> extends run_keeps (ts_runs st) (ts_runs st') \<and>
     extends plan_keeps (ts_plans st) (ts_plans st') \<and> extends (=) (ts_snapshots st) (ts_snapshots st') \<and>
     extends (=) (ts_cases st) (ts_cases st') \<and> extends (=) (ts_failures st) (ts_failures st') \<and>
     extends (=) (ts_artifacts st) (ts_artifacts st') \<and> extends (=) (ts_attestations st) (ts_attestations st') \<and>
     extends (=) (ts_consumptions st) (ts_consumptions st') \<and> extends (=) (ts_events st) (ts_events st') \<and>
     extends (=) (ts_journal st) (ts_journal st')"

lemma evolves_refl [simp]: "evolves st st"
  by (simp add: evolves_def extends_refl)

lemma extends_eq_trans: "extends (=) xs ys \<Longrightarrow> extends (=) ys zs \<Longrightarrow> extends (=) xs zs"
  by (erule (1) extends_trans) simp

lemma evolves_trans [trans]: "evolves a b \<Longrightarrow> evolves b c \<Longrightarrow> evolves a c"
  unfolding evolves_def
  by (auto intro: extends_eq_trans extends_trans [OF _ _ keeps_trans] extends_trans [OF _ _ run_keeps_trans]
    extends_trans [OF _ _ plan_keeps_trans])

section \<open>Changing one run\<close>

lemma rows_of_map:
  assumes "ts_targets st' = map f (ts_targets st)" and "\<forall>t \<in> set (ts_targets st). ta_run_id (f t) = ta_run_id t"
  shows "rows_of st' i = f ` rows_of st i"
  using assms by (auto simp: rows_of_def)

text \<open>
  A change that maps the targets and the row of run \<open>i\<close> only, keeping identities, carries the
  invariant over to the new store when it does so for run \<open>i\<close>.
\<close>

lemma core_step:
  assumes core: "core (except i P) st"
    and targets: "ts_targets st' = map f (ts_targets st)" "\<forall>t \<in> set (ts_targets st). keeps t (f t)"
      "\<forall>t \<in> set (ts_targets st). ta_run_id t \<noteq> i \<longrightarrow> f t = t"
    and runs: "ts_runs st' = map g (ts_runs st)" "\<forall>r \<in> set (ts_runs st). ru_run_id (g r) = ru_run_id r \<and>
        ru_plan_id (g r) = ru_plan_id r \<and> ru_execution_fingerprint (g r) = ru_execution_fingerprint r"
      "\<forall>r \<in> set (ts_runs st). ru_run_id r \<noteq> i \<longrightarrow> g r = r"
      "\<forall>r \<in> set (ts_runs st). active_run (ru_state (g r)) \<longrightarrow> active_run (ru_state r)"
    and plans: "pl_plan_id ` set (ts_plans st) \<subseteq> pl_plan_id ` set (ts_plans st')"
    and slots: "slots_ok (f ` set (ts_targets st))"
    and run: "\<And>r. r \<in> set (ts_runs st) \<Longrightarrow> ru_run_id r = i \<Longrightarrow> P r (rows_of st i) \<Longrightarrow> P' (g r) (f ` rows_of st i)"
  shows "core (except i P') st'"
proof -
  have tab: "tables_ok st" using core by (simp add: core_def)
  have ids: "map ru_run_id (ts_runs st') = map ru_run_id (ts_runs st)"
    "map ta_target_id (ts_targets st') = map ta_target_id (ts_targets st)"
    using runs(1,2) targets(1,2) by (simp_all add: keeps_columns)
  have ids': "ru_run_id ` set (ts_runs st') = ru_run_id ` set (ts_runs st)" using ids(1) by (metis set_map)
  have "runs_ok (ts_runs st')"
    unfolding runs_ok_def
  proof (intro conjI ballI impI)
    show "distinct (map ru_run_id (ts_runs st'))" using tab ids(1) by (simp add: tables_ok_def runs_ok_def)
    fix r s assume "r \<in> set (ts_runs st')" "s \<in> set (ts_runs st')"
    then obtain r0 s0 where o: "r0 \<in> set (ts_runs st)" "r = g r0" "s0 \<in> set (ts_runs st)" "s = g s0"
      using runs(1) by auto
    assume "active_run (ru_state r) \<and> active_run (ru_state s) \<and> ru_execution_fingerprint r = ru_execution_fingerprint s"
    then have "active_run (ru_state r0)" "active_run (ru_state s0)"
      "ru_execution_fingerprint r0 = ru_execution_fingerprint s0"
      using o runs(2,4) by auto
    then have "ru_run_id r0 = ru_run_id s0" using tab o unfolding tables_ok_def runs_ok_def by blast
    then show "ru_run_id r = ru_run_id s" using o runs(2) by simp
  qed
  moreover have "ta_run_id t' \<in> ru_run_id ` set (ts_runs st')" if "t' \<in> set (ts_targets st')" for t'
    using that tab ids' targets(1,2) keeps_columns(2) unfolding tables_ok_def by (metis (no_types, lifting) imageE image_set)
  moreover have "ru_plan_id r' \<in> pl_plan_id ` set (ts_plans st')" if mem: "r' \<in> set (ts_runs st')" for r'
  proof -
    obtain r where "r \<in> set (ts_runs st)" "r' = g r" using mem runs(1) by auto
    then show ?thesis using tab runs(2) plans unfolding tables_ok_def by auto
  qed
  moreover have "distinct (map ta_target_id (ts_targets st'))" using tab ids(2) by (simp add: tables_ok_def)
  moreover have "slots_ok (set (ts_targets st'))" using slots targets(1) by simp
  ultimately have "tables_ok st'" unfolding tables_ok_def by blast
  moreover have "except i P' r' (rows_of st' (ru_run_id r'))" if mem: "r' \<in> set (ts_runs st')" for r'
  proof -
    obtain r where r: "r \<in> set (ts_runs st)" "r' = g r" using mem runs(1) by auto
    have rows: "rows_of st' j = f ` rows_of st j" for j
      using rows_of_map [OF targets(1)] targets(2) by (simp add: keeps_columns)
    have Q: "except i P r (rows_of st (ru_run_id r))" using core r(1) by (simp add: core_def)
    show ?thesis
    proof (cases "ru_run_id r = i")
      case True
      then show ?thesis using run [OF r(1) True] Q r runs(2) by (simp add: except_def rows)
    next
      case False
      have "f ` rows_of st (ru_run_id r) = rows_of st (ru_run_id r)"
        using targets(3) False by (auto simp: rows_of_def image_def)
      then show ?thesis using False Q r runs(2,3) by (simp add: except_def rows)
    qed
  qed
  ultimately show ?thesis by (simp add: core_def)
qed

lemma slots_ok_same:
  assumes "slots_ok T" and "\<forall>t \<in> T. ta_execution (f t) = ta_execution t \<and> ta_target_id (f t) = ta_target_id t"
  shows "slots_ok (f ` T)"
  using assms unfolding slots_ok_def slot_conflict_def by auto

definition run_change :: "string \<Rightarrow> (target_row \<Rightarrow> target_row) \<Rightarrow> (run_row \<Rightarrow> run_row) \<Rightarrow> test_store \<Rightarrow> test_store \<Rightarrow> bool" where
  "run_change i f g st st' \<longleftrightarrow>
     st' = st\<lparr>ts_targets := map f (ts_targets st), ts_runs := map g (ts_runs st)\<rparr> \<and>
     (\<forall>t \<in> set (ts_targets st). keeps t (f t) \<and> (ta_run_id t \<noteq> i \<longrightarrow> f t = t)) \<and>
     (\<forall>r \<in> set (ts_runs st). run_keeps r (g r) \<and> (ru_run_id r \<noteq> i \<longrightarrow> g r = r))"

lemma run_change_core:
  assumes "core (except i P) st" "run_change i f g st st'" "slots_ok (f ` set (ts_targets st))"
    and "\<And>r. r \<in> set (ts_runs st) \<Longrightarrow> ru_run_id r = i \<Longrightarrow> P r (rows_of st i) \<Longrightarrow> P' (g r) (f ` rows_of st i)"
  shows "core (except i P') st'"
proof (rule core_step [OF assms(1), of st' f g])
  have ch: "\<forall>t \<in> set (ts_targets st). keeps t (f t) \<and> (ta_run_id t \<noteq> i \<longrightarrow> f t = t)"
    "\<forall>r \<in> set (ts_runs st). run_keeps r (g r) \<and> (ru_run_id r \<noteq> i \<longrightarrow> g r = r)"
    using assms(2) unfolding run_change_def by blast+
  show "\<forall>t \<in> set (ts_targets st). keeps t (f t)" "\<forall>t \<in> set (ts_targets st). ta_run_id t \<noteq> i \<longrightarrow> f t = t"
    "\<forall>r \<in> set (ts_runs st). ru_run_id r \<noteq> i \<longrightarrow> g r = r" using ch by blast+
  show "\<forall>r \<in> set (ts_runs st). ru_run_id (g r) = ru_run_id r \<and> ru_plan_id (g r) = ru_plan_id r \<and>
      ru_execution_fingerprint (g r) = ru_execution_fingerprint r"
    "\<forall>r \<in> set (ts_runs st). active_run (ru_state (g r)) \<longrightarrow> active_run (ru_state r)"
    using ch(2) unfolding run_keeps_def by metis+
qed (use assms in \<open>simp_all add: run_change_def\<close>)

lemma run_change_evolves: "run_change i f g st st' \<Longrightarrow> evolves st st'"
  unfolding run_change_def evolves_def by (auto intro: extends_map extends_refl)

lemma run_change_same_slots:
  assumes "tables_ok st" and "\<forall>t \<in> set (ts_targets st). ta_execution (f t) = ta_execution t"
    and "run_change i f g st st'"
  shows "slots_ok (f ` set (ts_targets st))"
  using assms by (intro slots_ok_same) (auto simp: tables_ok_def run_change_def keeps_columns)

section \<open>Reconciliation keeps the invariant\<close>

definition finish_at :: "string \<Rightarrow> run_state \<Rightarrow> failure_classification option \<Rightarrow> rat \<Rightarrow> run_row \<Rightarrow> run_row" where
  "finish_at i s c now r = (if ru_run_id r = i then finish_run s c now r else r)"

lemma set_run_finish:
  "set_run i (finish_run s c now) st = st\<lparr>ts_runs := map (finish_at i s c now) (ts_runs st)\<rparr>"
  by (simp add: set_run_def update_runs_def finish_at_def)

lemma finish_at_keeps: "active_run (ru_state r) \<or> ru_run_id r \<noteq> i \<Longrightarrow> run_keeps r (finish_at i s c now r)"
  by (auto simp: run_keeps_def finish_at_def finish_run_def)

lemma run_inv_finish:
  assumes "targets_ok S" "state_ok s S"
  shows "run_inv (finish_run s c now r) S"
  using assms by (simp add: run_inv_def finish_run_def)

definition cancels_at :: "string \<Rightarrow> string set \<Rightarrow> rat \<Rightarrow> target_row \<Rightarrow> target_row" where
  "cancels_at i names now t = (if ta_run_id t = i then cancels names now t else t)"

lemma cancel_dependents_map:
  assumes "graph_ok (rows_of st i)"
  shows "cancel_dependents i now st = st\<lparr>ts_targets := map (cancels_at i
    (((row_requires (rows_of st i))\<inverse>)\<^sup>+ `` failed_names (rows_of st i) - failed_names (rows_of st i)) now) (ts_targets st)\<rparr>"
proof -
  have "set (cancelled_dependents (sort_key target_order (run_targets st i))) =
    ((row_requires (rows_of st i))\<inverse>)\<^sup>+ `` failed_names (rows_of st i) - failed_names (rows_of st i)"
    using cancelled_dependents_rows [of "sort_key target_order (run_targets st i)"] assms by simp
  then show ?thesis
    by (simp add: cancel_dependents_def update_targets_def cancels_at_def cancels_def Let_def cong: if_cong)
qed

lemma list_ex_states: "list_ex p (map ta_state (run_targets st i)) \<longleftrightarrow> (\<exists>t \<in> rows_of st i. p (ta_state t))"
  by (simp add: list_ex_iff image_iff)

text \<open>What a reconciliation of run \<open>i\<close> does to the store.\<close>

definition reconciles :: "string \<Rightarrow> test_store \<Rightarrow> test_store \<Rightarrow> bool" where
  "reconciles i st st' \<longleftrightarrow> core run_inv st' \<and> (\<exists>f g. run_change i f g st st')"

lemma run_change_id: "run_change i id id st st"
  by (simp add: run_change_def)

lemma reconciles_same:
  assumes "core (except i run_pre) st"
    and "\<And>r. r \<in> set (ts_runs st) \<Longrightarrow> ru_run_id r = i \<Longrightarrow> run_pre r (rows_of st i) \<Longrightarrow> run_inv r (rows_of st i)"
  shows "reconciles i st st"
proof -
  have "tables_ok st" using assms(1) by (simp add: core_def)
  then have "core (except i run_inv) st"
    by (intro run_change_core [OF assms(1) run_change_id]) (use assms(2) in \<open>auto simp: tables_ok_def\<close>)
  then show ?thesis using run_change_id by (auto simp: reconciles_def core_except)
qed

lemma reconciles_finish:
  assumes core: "core (except i run_pre) st" and f: "\<forall>t. keeps t (f t) \<and> ta_execution (f t) = ta_execution t"
    "\<forall>t. ta_run_id t \<noteq> i \<longrightarrow> f t = t"
    and ok: "targets_ok (f ` rows_of st i)" "state_ok s (f ` rows_of st i)"
  shows "reconciles i st (set_run i (finish_run s c now) (st\<lparr>ts_targets := map f (ts_targets st)\<rparr>))"
proof -
  let ?g = "finish_at i s c now"
  have act: "\<forall>r \<in> set (ts_runs st). ru_run_id r = i \<longrightarrow> active_run (ru_state r)"
    using core by (auto simp: core_def except_def run_pre_def)
  have ch: "run_change i f ?g st (set_run i (finish_run s c now) (st\<lparr>ts_targets := map f (ts_targets st)\<rparr>))"
    using f act finish_at_keeps [of _ i s c now] by (fastforce simp: run_change_def set_run_finish finish_at_def)
  have "tables_ok st" using core by (simp add: core_def)
  then have "slots_ok (f ` set (ts_targets st))" using run_change_same_slots [OF _ _ ch] f by blast
  then have "core (except i run_inv) (set_run i (finish_run s c now) (st\<lparr>ts_targets := map f (ts_targets st)\<rparr>))"
    by (intro run_change_core [OF core ch]) (use run_inv_finish [OF ok] in \<open>auto simp: finish_at_def\<close>)
  then show ?thesis using ch by (auto simp: reconciles_def core_except)
qed

lemma finish_state_ok:
  assumes "s \<in> {RunFailed, RunTimedOut, RunIncomplete, RunCancelled}" "\<forall>t \<in> S. \<not> pending t" "\<exists>t \<in> S. failed_target (ta_state t)"
  shows "state_ok s S"
  using assms by (auto simp: state_ok_def)

lemma reconcile_failed_ok:
  assumes core: "core (except i run_pre) st" and r: "r \<in> set (ts_runs st)" "ru_run_id r = i" "ru_state r \<noteq> RunCancelling"
    and failed: "\<exists>t \<in> rows_of st i. failed_target (ta_state t)"
  shows "\<exists>st'. reconcile_failed i now st = Inr st' \<and> reconciles i st st'"
proof -
  let ?S = "rows_of st i"
  define names where "names = ((row_requires ?S)\<inverse>)\<^sup>+ `` failed_names ?S - failed_names ?S"
  let ?f = "cancels_at i names now"
  let ?st = "st\<lparr>ts_targets := map ?f (ts_targets st)\<rparr>"
  have pre: "run_pre r ?S" using core r by (auto simp: core_def except_def)
  have ok: "targets_ok ?S" using pre by (simp add: run_pre_def)
  have st: "cancel_dependents i now st = ?st"
    using cancel_dependents_map [of st i now] ok by (simp add: targets_ok_def names_def)
  have f: "\<forall>t. keeps t (?f t) \<and> ta_execution (?f t) = ta_execution t" "\<forall>t. ta_run_id t \<noteq> i \<longrightarrow> ?f t = t"
    by (simp_all add: cancels_at_def keeps_cancels)
  have img: "?f ` ?S = cancels names now ` ?S" by (auto simp: cancels_at_def rows_of_def image_def)
  have rows: "rows_of ?st i = cancels names now ` ?S"
    using rows_of_map [of ?st ?f st i] f(1) img by (simp add: keeps_columns)
  have ok': "targets_ok (cancels names now ` ?S)" by (rule targets_ok_cancels [OF ok])
  have failed': "\<exists>t \<in> cancels names now ` ?S. failed_target (ta_state t)"
    using failed by (auto simp: cancels_state failed_target_def)
  have tab: "tables_ok st" using core by (simp add: core_def)
  show ?thesis
  proof (cases "\<exists>t \<in> cancels names now ` ?S. pending t")
    case True
    then have run: "reconcile_failed i now st = Inr ?st"
      unfolding reconcile_failed_def st Let_def list_ex_states rows pending_def by simp
    have ch: "run_change i ?f id st ?st" using f by (auto simp: run_change_def)
    have inv: "run_inv r (cancels names now ` ?S)"
      using pre r(3) ok' True cancels_clean [OF ok names_def, of _ now]
      by (auto simp: run_inv_def run_pre_def active_run_def state_ok_def keeps_columns(3) [OF keeps_cancels]
        keeps_columns(5) [OF keeps_cancels])
    have "core (except i run_inv) ?st"
    proof (rule run_change_core [OF core ch run_change_same_slots [OF tab _ ch]])
      fix r' assume "r' \<in> set (ts_runs st)" "ru_run_id r' = i"
      then have "r' = r" using tab r lookup_run_Some [of st i] by (metis option.inject)
      then show "run_inv (id r') (?f ` ?S)" using inv img by simp
    qed (use f in blast)
    then show ?thesis using run ch by (auto simp: reconciles_def core_except)
  next
    case False
    obtain s c where dom: "dominant_failure (map ta_state (run_targets ?st i)) = Some (s, c)"
      "s \<in> {RunFailed, RunTimedOut, RunIncomplete, RunCancelled}"
      using dominant_failure_ex [of "map ta_state (run_targets ?st i)"] failed' rows by (metis image_eqI list.set_map set_run_targets)
    have "reconcile_failed i now st = Inr (set_run i (finish_run s (Some c) now) ?st)"
      using False unfolding reconcile_failed_def st Let_def list_ex_states rows dom(1) pending_def by simp
    moreover have "state_ok s (?f ` ?S)" using finish_state_ok [OF dom(2)] False failed' img by simp
    ultimately show ?thesis using reconciles_finish [OF core f, of s] ok' img by auto
  qed
qed

lemma reconcile_run_ok:
  assumes core: "core (except i run_pre) st" and mem: "i \<in> ru_run_id ` set (ts_runs st)"
  shows "\<exists>st'. reconcile_run i now st = Inr st' \<and> reconciles i st st'"
proof -
  let ?S = "rows_of st i"
  have tab: "tables_ok st" using core by (simp add: core_def)
  obtain r where r: "r \<in> set (ts_runs st)" "ru_run_id r = i" using mem by auto
  then have look: "lookup_run st i = Some r" using lookup_run_Some [OF tab] by simp
  have only: "r' = r" if "r' \<in> set (ts_runs st)" "ru_run_id r' = i" for r'
    using that look lookup_run_Some [OF tab, of i r'] by simp
  have pre: "run_pre r ?S" using core r by (auto simp: core_def except_def)
  then have ok: "targets_ok ?S" "?S \<noteq> {}" by (simp_all add: run_pre_def)
  have finish: "reconciles i st (set_run i (finish_run s c now) st)" if "state_ok s ?S" for s c
    using reconciles_finish [OF core, of id s c now] that ok by simp
  show ?thesis
  proof (cases "ru_state r = RunCancelling")
    case cancelling: True
    show ?thesis
    proof (cases "\<exists>t \<in> ?S. active_target (ta_state t)")
      case True
      then have "run_inv r ?S" using pre cancelling by (auto simp: run_inv_def run_pre_def state_ok_def)
      then have "reconciles i st st" using reconciles_same [OF core] only by metis
      then show ?thesis using look cancelling True by (simp add: reconcile_run_def list_ex_states)
    next
      case False
      then have "state_ok RunCancelled ?S" using pre cancelling by (auto simp: run_pre_def state_ok_def pending_def)
      then show ?thesis using finish look cancelling False by (simp add: reconcile_run_def list_ex_states)
    qed
  next
    case open_run: False
    show ?thesis
    proof (cases "\<exists>t \<in> ?S. failed_target (ta_state t)")
      case True
      then show ?thesis
        using reconcile_failed_ok [OF core r open_run True] look open_run by (simp add: reconcile_run_def list_ex_states)
    next
      case unfailed: False
      show ?thesis
      proof (cases "\<forall>t \<in> ?S. ta_state t = Terminal SUCCEEDED")
        case True
        then have "state_ok RunSucceeded ?S" by (simp add: state_ok_def)
        moreover have "map ta_state (run_targets st i) \<noteq> []" using ok(2) by (metis list.map_disc_iff set_empty set_run_targets)
        ultimately show ?thesis using finish look open_run True
          by (simp add: reconcile_run_def list_ex_states list_all_iff Let_def failed_target_def)
      next
        case False
        then obtain t where t: "t \<in> ?S" "ta_state t \<noteq> Terminal SUCCEEDED" by blast
        then have "pending t" using unfailed not_pending_iff [of t] by (auto simp: failed_target_def)
        then have "run_inv r ?S" using pre open_run unfailed t(1)
          by (auto simp: run_inv_def run_pre_def state_ok_def active_run_def)
        then have "reconciles i st st" using reconciles_same [OF core] only by metis
        moreover have "\<not> (\<forall>s \<in> ta_state ` ?S. s = Terminal SUCCEEDED)" using False by auto
        ultimately show ?thesis using look open_run unfailed
          by (auto simp: reconcile_run_def list_ex_states list_all_iff Let_def)
      qed
    qed
  qed
qed

end
