(* ===== verification/Store_Steps.thy ===== *)
theory Store_Steps
  imports Store_Laws
begin

text \<open>
  Each operation of the store, one at a time: what it changes, that it keeps the invariant, and that
  it only extends history.
\<close>

section \<open>Journal and events\<close>

definition logs :: "test_store \<Rightarrow> test_store \<Rightarrow> bool" where
  "logs st st' \<longleftrightarrow> (\<exists>js es. st' = st\<lparr>ts_journal := ts_journal st @ js, ts_events := ts_events st @ es\<rparr>)"

lemma logs_refl [simp]: "logs st st"
  unfolding logs_def by (rule exI [of _ "[]"], rule exI [of _ "[]"]) simp

lemma logs_trans:
  assumes "logs a b" "logs b c"
  shows "logs a c"
proof -
  obtain js es where b: "b = a\<lparr>ts_journal := ts_journal a @ js, ts_events := ts_events a @ es\<rparr>"
    using assms(1) by (auto simp: logs_def)
  obtain js' es' where "c = b\<lparr>ts_journal := ts_journal b @ js', ts_events := ts_events b @ es'\<rparr>"
    using assms(2) by (auto simp: logs_def)
  then have "c = a\<lparr>ts_journal := ts_journal a @ (js @ js'), ts_events := ts_events a @ (es @ es')\<rparr>"
    using b by simp
  then show ?thesis unfolding logs_def by blast
qed

lemma record_mutation_Inr:
  "record_mutation op kind fp result now st = Inr st' \<longleftrightarrow> op \<notin> jo_operation_id ` set (ts_journal st) \<and>
     st' = st\<lparr>ts_journal := ts_journal st @ [\<lparr>jo_operation_id = op, jo_operation_kind = kind,
       jo_request_fingerprint = fp, jo_result = result, jo_created_at = now\<rparr>]\<rparr>"
  by (auto simp: record_mutation_def)

lemma record_mutation_logs: "record_mutation op kind fp result now st = Inr st' \<Longrightarrow> logs st st'"
  unfolding record_mutation_Inr logs_def by (rule exI, rule exI [of _ "[]"]) auto

lemma store_event_logs: "store_event L ty repository run execution detail now st = Inr st' \<Longrightarrow> logs st st'"
  unfolding store_event_def logs_def by (rule exI [of _ "[]"], rule exI) auto

lemma logs_core: "logs st st' \<Longrightarrow> core Q st' \<longleftrightarrow> core Q st"
  by (auto simp: logs_def core_def tables_ok_def rows_of_def)

lemma logs_evolves: "logs st st' \<Longrightarrow> evolves st st'"
  by (auto simp: logs_def evolves_def extends_refl extends_append)

section \<open>Evidence\<close>

text \<open>
  An attestation names a run that succeeded and a policy whose required targets are all targets of
  that run, and it expires the policy's age after the run finished.
\<close>

definition attested :: "pylib \<Rightarrow> test_store \<Rightarrow> attestation_row \<Rightarrow> bool" where
  "attested L st a \<longleftrightarrow> (\<exists>r \<in> set (ts_runs st). \<exists>policy finished. ru_run_id r = at_run_id a \<and>
     ru_state r = RunSucceeded \<and> ru_repository_id r = at_repository_id a \<and> ru_finished_at r = Some finished \<and>
     ep_name policy = at_policy_name a \<and> evidence_policy_fingerprint L policy = at_policy_fingerprint a \<and>
     at_expires_at a = fl64 (finished + of_int (ep_max_age_seconds policy)) \<and>
     set (ep_required_targets policy) \<subseteq> ta_target_name ` rows_of st (at_run_id a))"

definition evidence_ok :: "pylib \<Rightarrow> test_store \<Rightarrow> bool" where
  "evidence_ok L st \<longleftrightarrow> (\<forall>a \<in> set (ts_attestations st). attested L st a) \<and>
     distinct (map at_attestation_id (ts_attestations st)) \<and>
     distinct (map co_attestation_id (ts_consumptions st)) \<and>
     set (map co_attestation_id (ts_consumptions st)) \<subseteq> set (map at_attestation_id (ts_attestations st))"

definition store_inv :: "pylib \<Rightarrow> test_store \<Rightarrow> bool" where
  "store_inv L st \<longleftrightarrow> core run_inv st \<and> evidence_ok L st"

lemma evolves_target: "evolves st st' \<Longrightarrow> t \<in> set (ts_targets st) \<Longrightarrow> \<exists>u \<in> set (ts_targets st'). keeps t u"
  unfolding evolves_def by (blast dest: extends_mem)

lemma evolves_run: "evolves st st' \<Longrightarrow> r \<in> set (ts_runs st) \<Longrightarrow> \<exists>s \<in> set (ts_runs st'). run_keeps r s"
  unfolding evolves_def by (blast dest: extends_mem)

lemma evolves_names:
  assumes "evolves st st'"
  shows "ta_target_name ` rows_of st i \<subseteq> ta_target_name ` rows_of st' i"
proof
  fix n assume "n \<in> ta_target_name ` rows_of st i"
  then obtain t where t: "t \<in> set (ts_targets st)" "ta_run_id t = i" "n = ta_target_name t" by (auto simp: rows_of_def)
  then obtain u where "u \<in> set (ts_targets st')" "keeps t u" using assms evolves_target by blast
  then have "u \<in> rows_of st' i" "n = ta_target_name u" using t by (simp_all add: rows_of_def keeps_columns)
  then show "n \<in> ta_target_name ` rows_of st' i" by blast
qed

lemma evolves_finished_run:
  assumes "evolves st st'" "r \<in> set (ts_runs st)" "\<not> active_run (ru_state r)"
  shows "r \<in> set (ts_runs st')"
  using evolves_run [OF assms(1,2)] assms(3) by (auto simp: run_keeps_def)

lemma attested_mono:
  assumes "evolves st st'" "attested L st a"
  shows "attested L st' a"
proof -
  obtain r policy finished where r: "r \<in> set (ts_runs st)" "ru_run_id r = at_run_id a" "ru_state r = RunSucceeded"
    "ru_repository_id r = at_repository_id a" "ru_finished_at r = Some finished" "ep_name policy = at_policy_name a"
    "evidence_policy_fingerprint L policy = at_policy_fingerprint a"
    "at_expires_at a = fl64 (finished + of_int (ep_max_age_seconds policy))"
    "set (ep_required_targets policy) \<subseteq> ta_target_name ` rows_of st (at_run_id a)"
    using assms(2) unfolding attested_def by blast
  have "r \<in> set (ts_runs st')" using evolves_finished_run [OF assms(1) r(1)] r(3) by (simp add: active_run_def)
  then show ?thesis using r evolves_names [OF assms(1), of "at_run_id a"] unfolding attested_def by blast
qed

lemma evidence_frame:
  assumes "evidence_ok L st" "evolves st st'" "ts_attestations st' = ts_attestations st" "ts_consumptions st' = ts_consumptions st"
  shows "evidence_ok L st'"
  using assms attested_mono by (auto simp: evidence_ok_def)

text \<open>Keeping the invariant and extending history, with the evidence tables untouched.\<close>

definition safe_step :: "test_store \<Rightarrow> test_store \<Rightarrow> bool" where
  "safe_step st st' \<longleftrightarrow> core run_inv st' \<and> evolves st st' \<and> ts_attestations st' = ts_attestations st \<and>
     ts_consumptions st' = ts_consumptions st"

lemma safe_step_refl: "core run_inv st \<Longrightarrow> safe_step st st"
  by (simp add: safe_step_def)

lemma safe_step_logs: "safe_step a b \<Longrightarrow> logs b c \<Longrightarrow> safe_step a c"
  using logs_core [of b c run_inv] logs_evolves [of b c] evolves_trans
  by (auto simp: safe_step_def logs_def)

lemma safe_step_trans: "safe_step a b \<Longrightarrow> safe_step b c \<Longrightarrow> safe_step a c"
  by (auto simp: safe_step_def intro: evolves_trans)

lemma safe_step_inv: "store_inv L st \<Longrightarrow> safe_step st st' \<Longrightarrow> store_inv L st'"
  using evidence_frame by (auto simp: store_inv_def safe_step_def)

lemma run_change_tables:
  "run_change i f g st st' \<Longrightarrow> ts_attestations st' = ts_attestations st \<and> ts_consumptions st' = ts_consumptions st \<and>
     ts_plans st' = ts_plans st \<and> ts_generation st' = ts_generation st \<and> ts_journal st' = ts_journal st"
  by (simp add: run_change_def)

lemma reconciles_safe: "reconciles i st st' \<Longrightarrow> safe_step st st'"
  using run_change_evolves run_change_tables by (auto simp: reconciles_def safe_step_def)

section \<open>Changing one target\<close>

definition upd :: "target_row \<Rightarrow> target_row \<Rightarrow> target_row \<Rightarrow> target_row" where
  "upd t u x = (if x = t then u else x)"

lemma upd_image: "t \<in> S \<Longrightarrow> upd t u ` S = insert u (S - {t})"
  by (auto simp: upd_def image_def)

lemma targets_ok_upd:
  assumes ok: "targets_ok S" "t \<in> S" and u: "keeps t u" "slot_ok u"
    and new: "ta_execution t = None \<Longrightarrow> ta_execution u \<noteq> None \<Longrightarrow> deps_done S t"
    and queued: "ta_state u = Queued \<Longrightarrow> ta_state t = Queued"
    and failed: "failed_target (ta_state u) \<Longrightarrow> ta_execution u \<noteq> None"
  shows "targets_ok (upd t u ` S)"
proof (rule targets_ok_image [OF ok(1)])
  show "\<forall>x \<in> S. \<forall>y \<in> S. ta_target_name x = ta_target_name y \<and> ta_state (upd t u x) = Queued \<and>
      failed_target (ta_state (upd t u y)) \<longrightarrow> ta_execution (upd t u y) \<noteq> None"
  proof (intro ballI impI)
    fix x y assume xy: "x \<in> S" "y \<in> S" and h: "ta_target_name x = ta_target_name y \<and>
      ta_state (upd t u x) = Queued \<and> failed_target (ta_state (upd t u y))"
    have "ta_state x = Queued" using h queued by (auto simp: upd_def split: if_splits)
    then show "ta_execution (upd t u y) \<noteq> None"
      using h failed targets_ok_sibling [OF ok(1) xy] by (auto simp: upd_def split: if_splits)
  qed
qed (use u new targets_okD(1) [OF ok(1)] in \<open>auto simp: upd_def\<close>)

lemma slots_ok_upd:
  assumes "slots_ok T" "t \<in> T" "keeps t u"
    and "\<And>e x. ta_execution t = None \<Longrightarrow> ta_execution u = Some e \<Longrightarrow> x \<in> T \<Longrightarrow> \<not> slot_conflict e x"
  shows "slots_ok (upd t u ` T)"
proof (cases "ta_execution t = None")
  case True
  have id: "ta_target_id u = ta_target_id t" using assms(3) by (simp add: keeps_columns)
  have sym: "slot_conflict e x \<longleftrightarrow> slot_conflict e' y" if "ta_execution x = Some e'" "ta_execution y = Some e" for e e' x y
    using that by (auto simp: slot_conflict_def)
  show ?thesis
    unfolding slots_ok_def
  proof (intro ballI allI impI)
    fix x y e assume "x \<in> upd t u ` T" "y \<in> upd t u ` T" and e: "ta_execution x = Some e \<and> slot_conflict e y"
    then obtain x' y' where xy: "x' \<in> T" "x = upd t u x'" "y' \<in> T" "y = upd t u y'" by auto
    obtain e' where e': "ta_execution y = Some e'" using e by (auto simp: slot_conflict_def split: option.splits)
    have conv: "slot_conflict e' x" using e e' sym [of y e' x e] by simp
    consider "x' = t" "y' = t" | "x' = t" "y' \<noteq> t" | "x' \<noteq> t" "y' = t" | "x' \<noteq> t" "y' \<noteq> t" by blast
    then show "ta_target_id y = ta_target_id x"
    proof cases
      case 2
      then show ?thesis using xy e assms(4) [OF True, of e y'] by (simp add: upd_def)
    next
      case 3
      then show ?thesis using xy e' conv assms(4) [OF True, of e' x'] by (simp add: upd_def)
    next
      case 4
      then have "x \<in> T" "y \<in> T" using xy by (simp_all add: upd_def)
      then show ?thesis using assms(1) e unfolding slots_ok_def by blast
    qed (simp add: xy)
  qed
next
  case False
  then show ?thesis using assms(1,3) by (intro slots_ok_same) (auto simp: upd_def keeps_def)
qed

lemma upd_change:
  assumes "tables_ok st" "t \<in> set (ts_targets st)" "keeps t u"
    and "\<forall>r \<in> set (ts_runs st). run_keeps r (g r) \<and> (ru_run_id r \<noteq> ta_run_id t \<longrightarrow> g r = r)"
  shows "run_change (ta_run_id t) (upd t u) g st
    (st\<lparr>ts_targets := map (upd t u) (ts_targets st), ts_runs := map g (ts_runs st)\<rparr>)"
  using assms by (auto simp: run_change_def upd_def)

lemma upd_rows: "t \<in> set (ts_targets st) \<Longrightarrow> t \<in> rows_of st (ta_run_id t)"
  by (simp add: rows_of_def)

text \<open>The same row is found by its identifier and by its execution.\<close>

lemma same_target:
  assumes "tables_ok st" "t \<in> set (ts_targets st)" "u \<in> set (ts_targets st)" "ta_target_id t = ta_target_id u"
  shows "t = u"
  using assms by (auto simp: tables_ok_def distinct_map inj_on_def)

lemma same_execution:
  assumes "tables_ok st" "t \<in> set (ts_targets st)" "u \<in> set (ts_targets st)"
    and "map_option ex_execution_id (ta_execution t) = Some i" "map_option ex_execution_id (ta_execution u) = Some i"
  shows "t = u"
proof (rule same_target [OF assms(1-3)])
  obtain e e' where "ta_execution t = Some e" "ta_execution u = Some e'" "ex_execution_id e = ex_execution_id e'"
    using assms(4,5) by auto
  then have "slot_conflict e' t" by (simp add: slot_conflict_def)
  then show "ta_target_id t = ta_target_id u"
    using assms(1-3) \<open>ta_execution u = Some e'\<close> by (auto simp: tables_ok_def slots_ok_def)
qed

lemma find_execution_Inr:
  assumes "find_execution st i = Inr t"
  shows "t \<in> set (ts_targets st)" "map_option ex_execution_id (ta_execution t) = Some i"
  using assms by (auto simp: find_execution_def dest: find_SomeD split: option.splits)

lemma update_execution_upd:
  assumes "tables_ok st" "t \<in> set (ts_targets st)" "map_option ex_execution_id (ta_execution t) = Some i" "p (ta_state t)"
  shows "update_execution i p h st = st\<lparr>ts_targets := map (upd t (h t)) (ts_targets st)\<rparr>"
proof -
  have "(map_option ex_execution_id (ta_execution x) = Some i \<and> p (ta_state x)) \<longleftrightarrow> x = t" if "x \<in> set (ts_targets st)" for x
    using same_execution [OF assms(1) that assms(2)] assms(3,4) by blast
  then have "map (\<lambda>x. if map_option ex_execution_id (ta_execution x) = Some i \<and> p (ta_state x) then h x else x) (ts_targets st)
    = map (upd t (h t)) (ts_targets st)" by (intro map_cong refl) (simp add: upd_def)
  then show ?thesis by (simp add: update_execution_def update_targets_def)
qed

lemma update_target_upd:
  assumes "tables_ok st" "t \<in> set (ts_targets st)" "ta_target_id t = i" "p t"
  shows "update_targets (\<lambda>x. ta_target_id x = i \<and> p x) h st = st\<lparr>ts_targets := map (upd t (h t)) (ts_targets st)\<rparr>"
proof -
  have "(ta_target_id x = i \<and> p x) \<longleftrightarrow> x = t" if "x \<in> set (ts_targets st)" for x
    using same_target [OF assms(1) that assms(2)] assms(3,4) by metis
  then have "map (\<lambda>x. if ta_target_id x = i \<and> p x then h x else x) (ts_targets st) = map (upd t (h t)) (ts_targets st)"
    by (intro map_cong refl) (simp add: upd_def)
  then show ?thesis by (simp add: update_targets_def)
qed

lemma core_tables: "core Q st \<Longrightarrow> tables_ok st"
  by (simp add: core_def)

lemma pending_active:
  assumes "state_ok s S" "t \<in> S" "pending t"
  shows "active_run s"
  using assms by (cases s) (auto simp: state_ok_def active_run_def pending_def active_target_def)

lemma active_pending: "active_target (ta_state t) \<Longrightarrow> pending t"
  by (simp add: pending_def)

lemma active_not_queued: "active_target (ta_state t) \<Longrightarrow> ta_state t \<noteq> Queued"
  by (auto simp: active_target_def)

definition calm :: "target_row set \<Rightarrow> bool" where
  "calm S \<longleftrightarrow> (\<forall>t \<in> S. \<forall>u \<in> S. ta_state t = Queued \<and> ta_target_name u \<in> set (ta_dependencies t) \<longrightarrow>
     \<not> failed_target (ta_state u))"

lemma state_ok_calm:
  "state_ok RunQueued S \<longleftrightarrow> (\<exists>t \<in> S. pending t) \<and> calm S"
  "state_ok RunRunning S \<longleftrightarrow> (\<exists>t \<in> S. pending t) \<and> calm S"
  "state_ok RunCancelling S \<longleftrightarrow> (\<exists>t \<in> S. active_target (ta_state t)) \<and> (\<forall>t \<in> S. ta_state t \<noteq> Queued)"
  unfolding state_ok_def calm_def by (simp; blast)+

text \<open>A pending target that becomes active keeps the state of its run right.\<close>

lemma state_ok_upd:
  assumes ok: "state_ok s S" "t \<in> S" "pending t" and u: "keeps t u" "active_target (ta_state u)"
  shows "state_ok s (upd t u ` S)"
proof -
  have mem: "u \<in> upd t u ` S" using ok(2) by (simp add: upd_image)
  have sub: "upd t u ` S \<subseteq> insert u S" using ok(2) by (auto simp: upd_image)
  have pend: "\<exists>x \<in> upd t u ` S. pending x" using mem active_pending [OF u(2)] by blast
  have act: "\<exists>x \<in> upd t u ` S. active_target (ta_state x)" using mem u(2) by blast
  have nq: "ta_state u \<noteq> Queued" "\<not> failed_target (ta_state u)"
    using u(2) by (auto simp: active_target_def failed_target_def)
  have quiet: "calm (upd t u ` S)" if "calm S" unfolding calm_def
  proof (intro ballI impI)
    fix x y assume xy: "x \<in> upd t u ` S" "y \<in> upd t u ` S" and h: "ta_state x = Queued \<and> ta_target_name y \<in> set (ta_dependencies x)"
    have "x \<in> S" using xy(1) sub nq(1) h by auto
    then show "\<not> failed_target (ta_state y)"
      using xy(2) sub nq(2) h \<open>calm S\<close> unfolding calm_def by (cases "y = u") auto
  qed
  have busy: "\<forall>x \<in> upd t u ` S. ta_state x \<noteq> Queued" if "\<forall>x \<in> S. ta_state x \<noteq> Queued"
  proof
    fix x assume "x \<in> upd t u ` S"
    then show "ta_state x \<noteq> Queued" using that sub nq(1) by (cases "x = u") auto
  qed
  consider "s = RunQueued" | "s = RunRunning" | "s = RunCancelling"
    using pending_active [OF ok] by (auto simp: active_run_def)
  then show ?thesis
  proof cases
    case 3
    then show ?thesis using ok(1) act busy unfolding 3 state_ok_calm by blast
  qed (use ok(1) pend quiet in \<open>(simp only: state_ok_calm; blast)+\<close>)
qed

definition steps_run :: "target_row \<Rightarrow> run_row \<Rightarrow> run_row \<Rightarrow> bool" where
  "steps_run t r s \<longleftrightarrow> run_keeps r s \<and> (ru_run_id r \<noteq> ta_run_id t \<longrightarrow> s = r) \<and> (ru_state s = ru_state r \<or>
     (ru_state r = RunQueued \<or> ru_state r = RunRunning) \<and> ru_state s = RunRunning)"

lemma steps_run_refl [simp]: "steps_run t r r"
  by (simp add: steps_run_def)

lemma live_step:
  assumes core: "core run_inv st" and t: "t \<in> set (ts_targets st)" "pending t"
    and u: "keeps t u" "slot_ok u" "active_target (ta_state u)"
    and new: "ta_execution t = None \<Longrightarrow> deps_done (rows_of st (ta_run_id t)) t"
      "\<And>e x. ta_execution t = None \<Longrightarrow> ta_execution u = Some e \<Longrightarrow> x \<in> set (ts_targets st) \<Longrightarrow> \<not> slot_conflict e x"
    and g: "\<forall>r \<in> set (ts_runs st). steps_run t r (g r)"
  shows "safe_step st (st\<lparr>ts_targets := map (upd t u) (ts_targets st), ts_runs := map g (ts_runs st)\<rparr>)"
proof -
  let ?i = "ta_run_id t"
  let ?st = "st\<lparr>ts_targets := map (upd t u) (ts_targets st), ts_runs := map g (ts_runs st)\<rparr>"
  have tab: "tables_ok st" using core by (rule core_tables)
  have ch: "run_change ?i (upd t u) g st ?st"
    using upd_change [OF tab t(1) u(1)] g by (simp add: steps_run_def)
  have slots: "slots_ok (upd t u ` set (ts_targets st))"
    using slots_ok_upd [OF _ t(1) u(1) new(2)] tab by (simp add: tables_ok_def)
  have "core (except ?i run_inv) ?st"
  proof (rule run_change_core [OF _ ch slots])
    show "core (except ?i run_inv) st" using core by (simp add: core_except)
    fix r assume r: "r \<in> set (ts_runs st)" "ru_run_id r = ?i" and inv: "run_inv r (rows_of st ?i)"
    have ok: "targets_ok (rows_of st ?i)" "state_ok (ru_state r) (rows_of st ?i)" using inv by (simp_all add: run_inv_def)
    have "targets_ok (upd t u ` rows_of st ?i)"
      by (rule targets_ok_upd [OF ok(1) upd_rows [OF t(1)] u(1,2)])
        (use new(1) active_not_queued [OF u(3)] failed_not_pending [of u] active_pending [OF u(3)] in auto)
    moreover have s: "state_ok (ru_state r) (upd t u ` rows_of st ?i)"
      by (rule state_ok_upd [OF ok(2) upd_rows [OF t(1)] t(2) u(1,3)])
    moreover have "active_run (ru_state r)" using pending_active [OF ok(2) upd_rows [OF t(1)] t(2)] .
    ultimately show "run_inv (g r) (upd t u ` rows_of st ?i)"
      using g r(1) by (auto simp: run_inv_def steps_run_def active_run_def state_ok_def)
  qed
  then show ?thesis using run_change_evolves [OF ch] by (simp add: safe_step_def core_except)
qed

lemma core_slot:
  assumes "core run_inv st" "t \<in> set (ts_targets st)"
  shows "slot_ok t"
proof -
  obtain r where "r \<in> set (ts_runs st)" "ru_run_id r = ta_run_id t" using core_run_of [OF assms] by blast
  then have "targets_ok (rows_of st (ta_run_id t))" using core_runD [OF assms(1), of r] by (simp add: run_inv_def)
  then show ?thesis using targets_okD(1) upd_rows [OF assms(2)] by blast
qed

end
