(* ===== verification/Store_Operations.thy ===== *)
theory Store_Operations
  imports Store_Steps
begin

text \<open>
  The operations that change the targets of an existing run, each shown to keep the invariant and to
  extend history: reservation, start, progress, completion, cancellation, reconciliation and the
  recording of scheduler decisions.
\<close>

section \<open>Reservation, start and progress\<close>

lemma reserve_target_keeps: "ta_state t = Queued \<Longrightarrow> ta_execution t = None \<Longrightarrow> keeps t (reserve_target e now t)"
  by (simp add: keeps_def reserve_target_def pending_def)

lemma slot_ok_reserve: "slot_ok t \<Longrightarrow> ta_state t = Queued \<Longrightarrow> slot_ok (reserve_target e now t)"
  by (simp add: slot_ok_def reserve_target_def)

lemma start_run_steps:
  "ru_state r = RunQueued \<or> ru_state r = RunRunning \<Longrightarrow> ru_run_id r = ta_run_id t \<Longrightarrow> steps_run t r (start_run now r)"
  by (auto simp: steps_run_def run_keeps_def start_run_def active_run_def)

text \<open>
  A reservation takes a queued target of an open run whose dependencies have all succeeded, under an
  execution identity that no other target has.
\<close>

definition reserves :: "string \<Rightarrow> test_store \<Rightarrow> test_store \<Rightarrow> bool" where
  "reserves target_id st st' \<longleftrightarrow> (\<exists>t run e now. t \<in> set (ts_targets st) \<and> ta_target_id t = target_id \<and>
     ta_state t = Queued \<and> lookup_run st (ta_run_id t) = Some run \<and> (ru_state run = RunQueued \<or> ru_state run = RunRunning) \<and>
     deps_done (rows_of st (ta_run_id t)) t \<and> (\<forall>x \<in> set (ts_targets st). \<not> slot_conflict e x) \<and>
     logs (st\<lparr>ts_targets := map (upd t (reserve_target e now t)) (ts_targets st),
       ts_runs := map (\<lambda>r. if ru_run_id r = ta_run_id t \<and> (ru_state r = RunQueued \<or> ru_state r = RunRunning)
         then start_run now r else r) (ts_runs st)\<rparr>) st')"

lemma begin_body_reserves:
  assumes tab: "tables_ok st"
    and run: "begin_body L target_id generation systemd_unit launch_op descriptor deadline commitment op fp now st = Inr (x, st')"
  shows "reserves target_id st st'"
proof -
  obtain t where t: "find_target st target_id = Some t" using run by (auto simp: begin_body_def split: option.splits)
  then have mem: "t \<in> set (ts_targets st)" "ta_target_id t = target_id" using find_target_Some [OF tab] by blast+
  obtain r where r: "lookup_run st (ta_run_id t) = Some r" using run t by (auto simp: begin_body_def split: option.splits)
  define e where "e = \<lparr>ex_execution_id = execution_id_of L st target_id, ex_store_generation = ts_generation st,
    ex_repository_generation = generation, ex_systemd_unit = systemd_unit, ex_launch_operation_id = launch_op,
    ex_descriptor_fingerprint = descriptor, ex_launch_deadline_at = deadline, ex_memory_commitment_mib = commitment\<rparr>"
  let ?g = "\<lambda>r. if ru_run_id r = ta_run_id t \<and> (ru_state r = RunQueued \<or> ru_state r = RunRunning) then start_run now r else r"
  have guards: "ta_state t = Queued" "ru_state r = RunQueued \<or> ru_state r = RunRunning"
    "target_dependencies_succeeded (run_targets st (ta_run_id t)) (ta_dependencies t)"
    "\<not> list_ex (slot_conflict e) (ts_targets st)"
    using run by (simp_all add: begin_body_def t r e_def Let_def)
  have upd: "update_targets (\<lambda>x. ta_target_id x = target_id \<and> ta_state x = Queued) (reserve_target e now) st =
      st\<lparr>ts_targets := map (upd t (reserve_target e now t)) (ts_targets st)\<rparr>"
    using update_target_upd [OF tab mem, of "\<lambda>x. ta_state x = Queued"] guards(1) by simp
  have "logs (st\<lparr>ts_targets := map (upd t (reserve_target e now t)) (ts_targets st), ts_runs := map ?g (ts_runs st)\<rparr>) st'"
    using run by (auto simp: begin_body_def t r e_def [symmetric] Let_def bindE_Inr_iff upd update_runs_def
      dest!: record_mutation_logs store_event_logs intro: logs_trans)
  moreover have "deps_done (rows_of st (ta_run_id t)) t"
    using guards(3) by (simp add: target_dependencies_succeeded_iff)
  ultimately show ?thesis
    using mem guards(1,2,4) r unfolding reserves_def list_ex_iff by blast
qed

lemma reserves_safe:
  assumes core: "core run_inv st" and res: "reserves target_id st st'"
  shows "safe_step st st'"
proof -
  obtain t run e now where t: "t \<in> set (ts_targets st)" "ta_state t = Queued" and deps: "deps_done (rows_of st (ta_run_id t)) t"
    and free: "\<forall>x \<in> set (ts_targets st). \<not> slot_conflict e x"
    and logs: "logs (st\<lparr>ts_targets := map (upd t (reserve_target e now t)) (ts_targets st),
       ts_runs := map (\<lambda>r. if ru_run_id r = ta_run_id t \<and> (ru_state r = RunQueued \<or> ru_state r = RunRunning)
         then start_run now r else r) (ts_runs st)\<rparr>) st'"
    using res unfolding reserves_def by blast
  have slot: "slot_ok t" by (rule core_slot [OF core t(1)])
  then have none: "ta_execution t = None" using t(2) by (simp add: slot_ok_def)
  show ?thesis
  proof (rule safe_step_logs [OF live_step logs])
    show "keeps t (reserve_target e now t)" by (rule reserve_target_keeps [OF t(2) none])
    show "slot_ok (reserve_target e now t)" by (rule slot_ok_reserve [OF slot t(2)])
  qed (use core t deps free in \<open>auto simp: pending_def reserve_target_def active_target_def intro!: start_run_steps\<close>)
qed

text \<open>What the fence lets through.\<close>

lemma require_execution_Inr:
  assumes "require_execution t i generation systemd_unit = Inr x"
  shows "generation = JInt 1" "map_option ex_execution_id (ta_execution t) = Some i" "active_target (ta_state t)"
    "systemd_unit = Some v \<Longrightarrow> map_option ex_systemd_unit (ta_execution t) = Some v"
  using assms by (auto simp: require_execution_def split: json.splits)

lemma update_execution_step:
  assumes core: "core run_inv st" and t: "t \<in> set (ts_targets st)" "map_option ex_execution_id (ta_execution t) = Some i"
    and p: "p (ta_state t)" and act: "active_target (ta_state t)"
    and u: "keeps t (h t)" "slot_ok (h t)" "active_target (ta_state (h t))"
  shows "safe_step st (update_execution i p h st)"
proof -
  have "safe_step st (st\<lparr>ts_targets := map (upd t (h t)) (ts_targets st), ts_runs := map id (ts_runs st)\<rparr>)"
    by (rule live_step [OF core t(1) active_pending [OF act] u]) (use t(2) in auto)
  then show ?thesis using update_execution_upd [OF core_tables [OF core] t, of p h] p by simp
qed

lemma started_body_safe:
  assumes core: "core run_inv st"
    and run: "started_body i generation systemd_unit ack started invocation op fp now st = Inr (x, st')"
  shows "safe_step st st'"
proof -
  obtain t where t: "find_execution st i = Inr t" using run by (auto simp: started_body_def bindE_Inr_iff)
  obtain u where req: "require_execution t i generation (Some systemd_unit) = Inr u"
    using run by (auto simp: started_body_def bindE_Inr_iff t)
  note mem = find_execution_Inr [OF t] and act = require_execution_Inr(3) [OF req]
  let ?e = "\<lparr>la_launch_ack_id = ack, la_systemd_invocation_id = invocation, la_started_at = started,
    la_deadline_at = fl64 (started + of_int (ta_ttl_seconds t))\<rparr>"
  have slot: "slot_ok t" by (rule core_slot [OF core mem(1)])
  show ?thesis
  proof (cases "ta_state t = Running")
    case True
    then have "logs st st'" using run by (auto simp: started_body_def t req Let_def bindE_Inr_iff dest: record_mutation_logs)
    then show ?thesis by (rule safe_step_logs [OF safe_step_refl [OF core]])
  next
    case False
    then have starting: "ta_state t = Starting"
      and "logs (update_execution i (\<lambda>s. s = Starting) (acknowledge_start ?e now) st) st'"
      using run by (auto simp: started_body_def t req Let_def bindE_Inr_iff dest: record_mutation_logs)
    moreover have "safe_step st (update_execution i (\<lambda>s. s = Starting) (acknowledge_start ?e now) st)"
      by (rule update_execution_step [OF core mem])
        (use starting slot in \<open>simp_all add: active_target_def keeps_def pending_def slot_ok_def acknowledge_start_def\<close>)
    ultimately show ?thesis using safe_step_logs by blast
  qed
qed

lemma observe_progress_ok:
  assumes "active_target (ta_state t)" "slot_ok t"
  shows "keeps t (observe_progress p observed now t)" "slot_ok (observe_progress p observed now t)"
    "active_target (ta_state (observe_progress p observed now t))"
  using assms by (auto simp: keeps_def pending_def observe_progress_def slot_ok_def split: target_state.splits option.splits)

lemma record_progress_safe:
  assumes core: "core run_inv st"
    and run: "record_progress L clock clock' v generation reported last_value observed_value st = Inr (x, st')"
  shows "safe_step st st'"
proof -
  obtain i t u observed p now where t: "find_execution st i = Inr t" and req: "require_execution t i generation None = Inr u"
    and logs: "logs (update_execution i active_target (observe_progress p observed now) st) st'"
    using run unfolding record_progress_def Let_def
    by (elim bindE_InrE) (auto simp: bindE_Inr_iff split: if_splits option.splits dest!: store_event_logs, (metis logs_refl)+)
  note mem = find_execution_Inr [OF t] and act = require_execution_Inr(3) [OF req]
  note ok = observe_progress_ok [OF act core_slot [OF core mem(1)], of p observed now]
  show ?thesis by (rule safe_step_logs [OF _ logs], rule update_execution_step [OF core mem]) (use act ok in auto)
qed

section \<open>Completion\<close>

text \<open>Changes outside the tables of plans, runs, targets and evidence.\<close>

definition side :: "test_store \<Rightarrow> test_store \<Rightarrow> bool" where
  "side st st' \<longleftrightarrow> ts_targets st' = ts_targets st \<and> ts_runs st' = ts_runs st \<and> ts_plans st' = ts_plans st \<and>
     ts_attestations st' = ts_attestations st \<and> ts_consumptions st' = ts_consumptions st \<and> evolves st st'"

lemma side_refl [simp]: "side st st"
  by (simp add: side_def)

lemma side_trans: "side a b \<Longrightarrow> side b c \<Longrightarrow> side a c"
  by (auto simp: side_def intro: evolves_trans)

lemma logs_side: "logs st st' \<Longrightarrow> side st st'"
  using logs_evolves [of st st'] by (auto simp: side_def logs_def)

lemma side_core: "side st st' \<Longrightarrow> core Q st' \<longleftrightarrow> core Q st"
  by (simp add: side_def core_def tables_ok_def rows_of_def)

lemma safe_step_side: "safe_step a b \<Longrightarrow> side b c \<Longrightarrow> safe_step a c"
  using side_core [of b c run_inv] evolves_trans [of a b c] by (auto simp: safe_step_def side_def)

lemma insert_package_side: "insert_package i j cp now st = Inr st' \<Longrightarrow> side st st'"
  by (auto simp: insert_package_def side_def evolves_def extends_refl extends_append)

lemma update_profile_side: "side st (update_profile i n peak cpu now st)"
  by (auto simp: update_profile_def Let_def side_def evolves_def extends_refl split: option.splits)

lemma settle_conclusion_succeeded:
  "settle_conclusion cp requested = Inr SUCCEEDED \<Longrightarrow>
     cp_reporter_complete cp \<and> status_count ''failed'' cp = 0 \<and> status_count ''error'' cp = 0"
  by (auto simp: settle_conclusion_def Let_def split: if_splits)

text \<open>What the terminal evidence of a conclusion must say.\<close>

definition justifies :: "execution_conclusion \<Rightarrow> terminal_evidence \<Rightarrow> bool" where
  "justifies c e \<longleftrightarrow> (c = SUCCEEDED \<longrightarrow> te_reporter_complete e \<and> te_failed_count e = 0 \<and> te_error_count e = 0)"

lemma terminalize_ok:
  assumes "active_target (ta_state t)" "slot_ok t" "justifies c e"
  shows "keeps t (terminalize c e now t)" "slot_ok (terminalize c e now t)" "ta_execution (terminalize c e now t) \<noteq> None"
    "ta_execution (terminalize c e now t) = ta_execution t" "ta_state (terminalize c e now t) = Terminal c"
  using assms by (auto simp: keeps_def pending_def slot_ok_def terminalize_def justifies_def active_target_def)

text \<open>Ending an active target leaves its run ready for reconciliation.\<close>

lemma terminal_step:
  fixes now :: rat
  assumes core: "core run_inv st" and t: "t \<in> set (ts_targets st)" "active_target (ta_state t)"
    and e: "justifies c e"
  defines "st' \<equiv> st\<lparr>ts_targets := map (upd t (terminalize c e now t)) (ts_targets st)\<rparr>"
  shows "core (except (ta_run_id t) run_pre) st'" "evolves st st'"
proof -
  let ?i = "ta_run_id t" and ?u = "terminalize c e now t"
  note slot = core_slot [OF core t(1)]
  note u = terminalize_ok [OF t(2) slot e, of now]
  have tab: "tables_ok st" using core by (rule core_tables)
  have ch: "run_change ?i (upd t ?u) id st st'"
    using upd_change [OF tab t(1) u(1), of id] by (simp add: st'_def)
  show "evolves st st'" by (rule run_change_evolves [OF ch])
  show "core (except ?i run_pre) st'"
  proof (rule run_change_core [OF _ ch])
    show "core (except ?i run_inv) st" using core by (simp add: core_except)
    show "slots_ok (upd t ?u ` set (ts_targets st))"
      by (rule run_change_same_slots [OF tab _ ch]) (simp add: upd_def u(4))
    fix r assume r: "r \<in> set (ts_runs st)" "ru_run_id r = ?i" and inv: "run_inv r (rows_of st ?i)"
    have ok: "targets_ok (rows_of st ?i)" "state_ok (ru_state r) (rows_of st ?i)" using inv by (simp_all add: run_inv_def)
    have mem: "t \<in> rows_of st ?i" by (rule upd_rows [OF t(1)])
    have act: "active_run (ru_state r)" by (rule pending_active [OF ok(2) mem active_pending [OF t(2)]])
    have "targets_ok (upd t ?u ` rows_of st ?i)"
      by (rule targets_ok_upd [OF ok(1) mem u(1,2)]) (use u in auto)
    moreover have "\<forall>x \<in> rows_of st ?i. ta_state x \<noteq> Queued \<Longrightarrow> \<forall>x \<in> upd t ?u ` rows_of st ?i. ta_state x \<noteq> Queued"
      using u(5) by (auto simp: upd_def)
    ultimately show "run_pre (id r) (upd t ?u ` rows_of st ?i)"
      using run_inv_pre [OF inv act] by (auto simp: run_pre_def)
  qed
qed

end
