(* ===== verification/Store_Outcomes.thy ===== *)
theory Store_Outcomes
  imports Store_Operations
begin

text \<open>
  The operations that end targets and runs, and the evidence they leave: automatic and explicit
  attestations, completion from a result package, cancellation and reconciliation.
\<close>

definition step_ok :: "pylib \<Rightarrow> test_store \<Rightarrow> test_store \<Rightarrow> bool" where
  "step_ok L st st' \<longleftrightarrow> store_inv L st' \<and> evolves st st'"

lemma step_ok_refl: "store_inv L st \<Longrightarrow> step_ok L st st"
  by (simp add: step_ok_def)

lemma step_ok_trans: "step_ok L a b \<Longrightarrow> step_ok L b c \<Longrightarrow> step_ok L a c"
  by (auto simp: step_ok_def intro: evolves_trans)

lemma step_ok_safe: "store_inv L st \<Longrightarrow> safe_step st st' \<Longrightarrow> step_ok L st st'"
  using safe_step_inv by (auto simp: step_ok_def safe_step_def)

lemma step_ok_side: "store_inv L st \<Longrightarrow> side st st' \<Longrightarrow> step_ok L st st'"
  by (rule step_ok_safe) (auto simp: store_inv_def intro: safe_step_side safe_step_refl)

lemma step_ok_logs: "step_ok L a b \<Longrightarrow> logs b c \<Longrightarrow> step_ok L a c"
  by (rule step_ok_trans) (auto simp: step_ok_def [of L a b] intro: step_ok_side logs_side)

section \<open>Attestations\<close>

lemma add_attestation_core: "core Q (add_attestation a st) \<longleftrightarrow> core Q st"
  by (simp add: core_def tables_ok_def rows_of_def add_attestation_def)

lemma add_attestation_evolves: "evolves st (add_attestation a st)"
  by (simp add: add_attestation_def evolves_def extends_refl extends_append)

lemma find_attestation_None: "find_attestation st i = None \<longleftrightarrow> i \<notin> at_attestation_id ` set (ts_attestations st)"
  by (auto simp: find_attestation_def find_None_iff)

lemma add_attestation_ok:
  assumes inv: "store_inv L st" and a: "attested L st a" "find_attestation st (at_attestation_id a) = None"
  shows "step_ok L st (add_attestation a st)"
proof -
  have "attested L (add_attestation a st) b" if "b \<in> insert a (set (ts_attestations st))" for b
    using that a(1) inv attested_mono [OF add_attestation_evolves, of L st b a] by (auto simp: store_inv_def evidence_ok_def)
  then have "evidence_ok L (add_attestation a st)"
    using inv a(2) by (auto simp: store_inv_def evidence_ok_def add_attestation_def find_attestation_None)
  then show ?thesis
    using inv by (simp add: step_ok_def store_inv_def add_attestation_core add_attestation_evolves)
qed

lemma executed_targets_names: "set (executed_targets st i) \<subseteq> ta_target_name ` rows_of st i"
  by (auto simp: executed_targets_def simp flip: set_run_targets)

lemma attestation_of_attested:
  assumes "run \<in> set (ts_runs st)" "ru_state run = RunSucceeded" "ru_finished_at run = Some f"
    and "set (ep_required_targets policy) \<subseteq> set (executed_targets st (ru_run_id run))"
  shows "attested L st (attestation_of L run plan (ep_name policy) (evidence_policy_fingerprint L policy) now
    (expiry run now (ep_max_age_seconds policy)))"
  using assms executed_targets_names [of st "ru_run_id run"]
  unfolding attested_def attestation_of_def by (intro bexI [of _ run] exI [of _ policy] exI [of _ f]) (auto simp: expiry_def)

lemma issue_policy_ok:
  assumes inv: "store_inv L st" and run: "run \<in> set (ts_runs st)" "ru_state run = RunSucceeded" "ru_finished_at run \<noteq> None"
    and res: "issue_policy L run plan now np (issued, st) = Inr (issued', st')"
  shows "step_ok L st st' \<and> ts_runs st' = ts_runs st"
proof -
  obtain n policy where np: "np = (n, policy)" by (cases np)
  obtain f where f: "ru_finished_at run = Some f" using run(3) by blast
  let ?a = "attestation_of L run plan (ep_name policy) (evidence_policy_fingerprint L policy) now
    (expiry run now (ep_max_age_seconds policy))"
  show ?thesis
  proof (cases "set (ep_required_targets policy) \<subseteq> set (executed_targets st (ru_run_id run)) \<and> find_attestation st (at_attestation_id ?a) = None")
    case True
    then have "st' = add_attestation ?a st"
      using res by (auto simp: issue_policy_def np Let_def split: if_splits option.splits)
    then show ?thesis
      using add_attestation_ok [OF inv attestation_of_attested [OF run(1,2) f]] True by (simp add: add_attestation_def)
  next
    case False
    then have "st' = st" using res by (auto simp: issue_policy_def np Let_def split: if_splits option.splits)
    then show ?thesis using inv by (simp add: step_ok_refl)
  qed
qed

lemma attestable_run_Some:
  "attestable_run st i = Some (run, plan) \<Longrightarrow> run \<in> set (ts_runs st) \<and> ru_run_id run = i"
  by (auto simp: attestable_run_def lookup_run_def Option.bind_eq_Some_conv dest: find_SomeD)

lemma issue_plan_evidence_attestations_ok:
  assumes inv: "store_inv L st" and res: "issue_plan_evidence_attestations L i now st = Inr (issued, st')"
  shows "step_ok L st st' \<and> ts_runs st' = ts_runs st"
proof (cases "attestable_run st i")
  case None
  then show ?thesis using res inv by (auto simp: issue_plan_evidence_attestations_def step_ok_refl)
next
  case (Some rp)
  obtain run plan where rp: "rp = (run, plan)" by (cases rp)
  show ?thesis
  proof (cases "ru_state run = RunSucceeded \<and> ru_finished_at run \<noteq> None")
    case True
    have mem: "run \<in> set (ts_runs st)" using attestable_run_Some Some rp by blast
    obtain policies where "foldE (issue_policy L run plan now) policies ([], st) = Inr (issued, st')"
      using res True by (auto simp: issue_plan_evidence_attestations_def Some rp bindE_Inr_iff)
    then have "(\<lambda>(_, s). step_ok L st s \<and> ts_runs s = ts_runs st) (issued, st')"
    proof (rule foldE_invariant)
      fix np :: "string \<times> evidence_policy" and s s' :: "string list \<times> test_store"
      assume "case s of (_, s) \<Rightarrow> step_ok L st s \<and> ts_runs s = ts_runs st" "issue_policy L run plan now np s = Inr s'"
      then show "case s' of (_, s) \<Rightarrow> step_ok L st s \<and> ts_runs s = ts_runs st"
        using issue_policy_ok [of L "snd s" run plan now np "fst s" "fst s'" "snd s'"] mem True
        by (auto simp: step_ok_def intro: evolves_trans)
    qed (simp add: step_ok_refl inv)
    then show ?thesis by simp
  qed (use res inv Some rp in \<open>auto simp: issue_plan_evidence_attestations_def step_ok_refl\<close>)
qed

lemma policy_case:
  assumes "(case (a, b, c, d) of (Some ts, Some (JStr i), Some (JInt n), Some (JBool r)) \<Rightarrow> F ts i n r | _ \<Rightarrow> Inl e) = Inr y"
  shows "\<exists>ts i n r. F ts i n r = Inr y"
  using assms by (simp split: option.split_asm json.split_asm) blast

lemma retained_policy_name:
  assumes "retained_policy L (n, v) = Inr (m, policy)"
  shows "m = n \<and> ep_name policy = n"
proof (cases v)
  case (JObj d)
  note body = assms [unfolded retained_policy_def JObj Let_def prod.case json.case bindE_ensure_Inr_iff, THEN conjunct2]
  show ?thesis using policy_case [unfolded prod.case, OF body] by clarsimp
qed (use assms in \<open>simp_all add: retained_policy_def\<close>)

lemma plan_evidence_policies_name:
  assumes "plan_evidence_policies L plan = Inr policies" "map_of policies n = Some policy"
  shows "ep_name policy = n"
proof -
  obtain raw where "mapE (retained_policy L) (sort_key fst raw) = Inr policies"
    using assms(1) by (auto simp: plan_evidence_policies_def Let_def split: json.splits option.splits if_splits)
  then have "list_all2 (\<lambda>x y. retained_policy L x = Inr y) (sort_key fst raw) policies" by (simp add: mapE_Inr_iff)
  moreover have "(n, policy) \<in> set policies" using assms(2) by (rule map_of_SomeD)
  ultimately obtain x where "retained_policy L x = Inr (n, policy)" unfolding list_all2_conv_all_nth in_set_conv_nth by metis
  then show ?thesis using retained_policy_name by (cases x) blast
qed

lemma issue_body_ok:
  assumes inv: "store_inv L st" and res: "issue_body L i policy_name policy_fp targets age op fp now st = Inr (x, st')"
  shows "step_ok L st st'"
proof -
  obtain run plan where rp: "attestable_run st i = Some (run, plan)"
    using res by (auto simp: issue_body_def split: option.splits)
  then have mem: "run \<in> set (ts_runs st)" "ru_run_id run = i" using attestable_run_Some by blast+
  obtain policies where pol: "plan_evidence_policies L (pl_plan_json plan) = Inr policies"
    using res by (auto simp: issue_body_def rp bindE_Inr_iff)
  let ?a = "attestation_of L run plan policy_name policy_fp now (expiry run now age)"
  obtain policy f where policy: "map_of policies policy_name = Some policy" "evidence_policy_fingerprint L policy = policy_fp"
      "ep_required_targets policy = targets" "ep_max_age_seconds policy = age"
    and f: "ru_state run = RunSucceeded" "ru_finished_at run = Some f"
    and missing: "filter (\<lambda>t. t \<notin> set (executed_targets st i)) targets = []"
    using res by (auto simp: issue_body_def rp pol bindE_Inr_iff Let_def split: option.splits)
  have "ep_name policy = policy_name" using plan_evidence_policies_name [OF pol policy(1)] .
  then have att: "attested L st ?a"
    using attestation_of_attested [OF mem(1) f, of policy L plan now] policy missing mem(2) by (auto simp: filter_empty_conv)
  show ?thesis
  proof (cases "find_attestation st (at_attestation_id ?a) = None")
    case True
    then have "logs (add_attestation ?a st) st'"
      using res by (auto simp: issue_body_def rp pol bindE_Inr_iff Let_def split: if_splits dest: record_mutation_logs)
    then show ?thesis using step_ok_logs [OF add_attestation_ok [OF inv att True]] by blast
  next
    case False
    then have "logs st st'"
      using res by (auto simp: issue_body_def rp pol bindE_Inr_iff Let_def split: if_splits option.splits dest: record_mutation_logs)
    then show ?thesis using step_ok_logs [OF step_ok_refl [OF inv]] by blast
  qed
qed

section \<open>Consumption\<close>

lemma joined_evidence_Some: "joined_evidence st k as = Some (a, p) \<Longrightarrow> a \<in> set as"
proof -
  let ?xs = "List.map_filter (\<lambda>a. map_option (Pair a) (attestation_plan st a)) as"
  assume "joined_evidence st k as = Some (a, p)"
  then have "(a, p) \<in> set (rev (sort_key (k \<circ> fst) ?xs))"
    unfolding joined_evidence_def by (cases "rev (sort_key (k \<circ> fst) ?xs)" rule: list.exhaust) (simp_all only: list.case option.simps list.set_intros)
  then have "(a, p) \<in> set ?xs" by simp
  then show "a \<in> set as" by (auto simp: map_filter_def)
qed

lemma consume_body_ok:
  assumes inv: "store_inv L st" and res: "consume_body L repository_id snapshot_id policy_name op fp now st = Inr (x, st')"
  shows "step_ok L st st'"
proof -
  obtain a p where ap: "joined_evidence st (\<lambda>a. (at_issued_at a, at_attestation_id a))
      (filter (\<lambda>a. now \<le> at_expires_at a \<and> \<not> consumed st a) (evidence_for st repository_id snapshot_id policy_name)) = Some (a, p)"
    using res by (auto simp: consume_body_def split: option.splits)
  then have a: "a \<in> set (ts_attestations st)" by (auto simp: evidence_for_def dest: joined_evidence_Some)
  define row where "row = \<lparr>co_consumption_id = digest_id L ''evidence-use-'' [at_attestation_id a, op],
    co_attestation_id = at_attestation_id a, co_operation_id = op, co_consumed_at = now\<rparr>"
  let ?st = "st\<lparr>ts_consumptions := ts_consumptions st @ [row]\<rparr>"
  have fresh: "at_attestation_id a \<notin> co_attestation_id ` set (ts_consumptions st)"
    and logs: "logs ?st st'"
    using res by (auto simp: consume_body_def ap bindE_Inr_iff Let_def list_ex_iff row_def [symmetric]
      dest!: record_mutation_logs store_event_logs intro: logs_trans)
  have core: "core run_inv ?st" using inv by (simp add: store_inv_def core_def tables_ok_def rows_of_def)
  have ev: "evolves st ?st" by (simp add: evolves_def extends_refl extends_append)
  have "evidence_ok L ?st"
    using inv fresh a attested_mono [OF ev] by (auto simp: store_inv_def evidence_ok_def row_def)
  then have "step_ok L st ?st" using core ev by (simp add: step_ok_def store_inv_def)
  then show ?thesis using logs by (rule step_ok_logs)
qed

section \<open>Completion\<close>

lemma reconcile_after:
  assumes inv: "store_inv L st" and core: "core (except i run_pre) st1" and ev: "evolves st st1"
    and tables: "ts_attestations st1 = ts_attestations st" "ts_consumptions st1 = ts_consumptions st"
    and mem: "i \<in> ru_run_id ` set (ts_runs st1)"
  shows "\<exists>st2. reconcile_run i now st1 = Inr st2 \<and> step_ok L st st2"
proof -
  obtain st2 where st2: "reconcile_run i now st1 = Inr st2" "reconciles i st1 st2"
    using reconcile_run_ok [OF core mem] by blast
  have "safe_step st1 st2" by (rule reconciles_safe [OF st2(2)])
  then have "safe_step st st2" using ev tables by (auto simp: safe_step_def intro: evolves_trans)
  then show ?thesis using st2(1) step_ok_safe [OF inv] by blast
qed

lemma complete_body_ok:
  assumes inv: "store_inv L st" and settle: "settle_conclusion cp requested = Inr c"
    and res: "complete_body L i generation systemd_unit cp package_fp c duration peak cpu op fp now st = Inr (x, st')"
  shows "step_ok L st st'"
proof -
  obtain t where t: "find_execution st i = Inr t" using res by (auto simp: complete_body_def bindE_Inr_iff)
  obtain u where req: "require_execution t i generation (Some systemd_unit) = Inr u"
    using res by (auto simp: complete_body_def bindE_Inr_iff t)
  obtain st1 where st1: "insert_package (ta_target_id t) i cp now st = Inr st1"
    using res by (auto simp: complete_body_def bindE_Inr_iff t)
  define e where "e = \<lparr>te_operation_id = op, te_fingerprint = fp, te_package_fingerprint = package_fp,
    te_duration_seconds = duration, te_peak_memory_bytes = peak, te_cpu_seconds = cpu,
    te_passed_count = status_count ''passed'' cp, te_failed_count = status_count ''failed'' cp,
    te_skipped_count = status_count ''skipped'' cp, te_error_count = status_count ''error'' cp,
    te_reporter_complete = cp_reporter_complete cp\<rparr>"
  have just: "justifies c e" using settle_conclusion_succeeded [of cp requested] settle by (simp add: justifies_def e_def)
  note mem = find_execution_Inr [OF t] and act = require_execution_Inr(3) [OF req]
  have side: "side st st1" by (rule insert_package_side [OF st1])
  then have mem1: "t \<in> set (ts_targets st1)" using mem(1) by (simp add: side_def)
  have core1: "core run_inv st1" using side inv side_core by (simp add: store_inv_def)
  have upd: "update_execution i active_target (terminalize c e now) st1 =
      st1\<lparr>ts_targets := map (upd t (terminalize c e now t)) (ts_targets st1)\<rparr>" (is "_ = ?st2")
    using update_execution_upd [OF core_tables [OF core1] mem1 mem(2), of active_target] act by simp
  note ended = terminal_step [OF core1 mem1 act just, of now]
  obtain run where run: "lookup_run ?st2 (ta_run_id t) = Some run"
    using core_run_of [OF core1 mem1] by (auto simp: lookup_run_def)
  define st3 where "st3 = update_profile (ru_repository_id run) (ta_target_name t) peak cpu now ?st2"
  have side3: "side ?st2 st3" by (simp add: st3_def update_profile_side)
  have "ta_run_id t \<in> ru_run_id ` set (ts_runs st3)"
    using core1 mem1 side3 by (auto simp: side_def core_def tables_ok_def)
  moreover have "core (except (ta_run_id t) run_pre) st3" using ended(1) side_core [OF side3] by simp
  moreover have "evolves st st3" using ended(2) side side3 evolves_trans unfolding side_def by blast
  ultimately obtain st4 where st4: "reconcile_run (ta_run_id t) now st3 = Inr st4" "step_ok L st st4"
    using reconcile_after [OF inv, of "ta_run_id t" st3 now] side side3 by (auto simp: side_def)
  obtain issued st5 where st5: "issue_plan_evidence_attestations L (ta_run_id t) now st4 = Inr (issued, st5)"
    and logs: "logs st5 st'"
    using res by (auto simp: complete_body_def t req st1 e_def [symmetric] upd run st3_def [symmetric] st4(1) Let_def bindE_Inr_iff
      dest!: record_mutation_logs store_event_logs intro: logs_trans)
  have "step_ok L st4 st5" using issue_plan_evidence_attestations_ok [OF _ st5] st4(2) by (simp add: step_ok_def)
  then show ?thesis using step_ok_logs [OF step_ok_trans [OF st4(2)] logs] by blast
qed

section \<open>Cancellation\<close>

definition stops :: "string \<Rightarrow> string \<Rightarrow> rat \<Rightarrow> target_row \<Rightarrow> target_row" where
  "stops i reason now t = (if ta_run_id t \<noteq> i then t
     else if ta_state t = Queued then cancel_target now t
     else if ta_state t = Starting \<or> ta_state t = Running then stop_target reason now t else t)"

lemma cancel_marks_map: "cancel_marks i reason now st = st\<lparr>ts_targets := map (stops i reason now) (ts_targets st)\<rparr>"
  by (auto simp: cancel_marks_def update_targets_def stops_def o_def cancel_target_def intro!: map_cong)

lemma stops_execution [simp]: "ta_execution (stops i reason now t) = ta_execution t"
  by (simp add: stops_def stop_target_def)

lemma keeps_stops: "keeps t (stops i reason now t)"
proof (cases "ta_state t = Queued")
  case False
  then show ?thesis by (auto simp: stops_def keeps_def stop_target_def pending_def active_target_def)
qed (simp add: stops_def keeps_cancel_target)

lemma slot_ok_stops: "slot_ok t \<Longrightarrow> slot_ok (stops i reason now t)"
  by (auto simp: stops_def slot_ok_cancel_target) (auto simp: slot_ok_def stop_target_def)

lemma stops_not_queued: "ta_run_id t = i \<Longrightarrow> ta_state (stops i reason now t) \<noteq> Queued"
  by (auto simp: stops_def stop_target_def)

lemma targets_ok_stops:
  assumes "targets_ok (rows_of st i)"
  shows "targets_ok (stops i reason now ` rows_of st i)"
proof (rule targets_ok_image [OF assms])
  show "\<forall>t \<in> rows_of st i. slot_ok (stops i reason now t)" using targets_okD(1) [OF assms] slot_ok_stops by blast
qed (use keeps_stops stops_not_queued in \<open>auto simp: rows_of_def\<close>)

definition cancelling_at :: "string \<Rightarrow> string \<Rightarrow> rat \<Rightarrow> run_row \<Rightarrow> run_row" where
  "cancelling_at i reason now r = (if ru_run_id r = i then cancelling_run reason now r else r)"

lemma cancel_step:
  fixes now :: rat and reason :: string
  assumes core: "core run_inv st" and run: "lookup_run st i = Some r" "active_run (ru_state r)"
  defines "st' \<equiv> st\<lparr>ts_targets := map (stops i reason now) (ts_targets st), ts_runs := map (cancelling_at i reason now) (ts_runs st)\<rparr>"
  shows "core (except i run_pre) st'" "evolves st st'"
proof -
  have tab: "tables_ok st" using core by (rule core_tables)
  have only: "r' = r" if "r' \<in> set (ts_runs st)" "ru_run_id r' = i" for r'
    using that lookup_run_Some [OF tab, of i] run(1) by (metis option.inject)
  have ch: "run_change i (stops i reason now) (cancelling_at i reason now) st st'"
    unfolding run_change_def st'_def
  proof (intro conjI ballI impI refl)
    fix r' assume "r' \<in> set (ts_runs st)"
    then show "run_keeps r' (cancelling_at i reason now r')"
      using only run(2) by (cases "ru_run_id r' = i") (auto simp: run_keeps_def cancelling_at_def cancelling_run_def)
  qed (simp_all add: keeps_stops, simp_all add: stops_def cancelling_at_def)
  show "evolves st st'" by (rule run_change_evolves [OF ch])
  show "core (except i run_pre) st'"
  proof (rule run_change_core [OF _ ch])
    show "core (except i run_inv) st" using core by (simp add: core_except)
    show "slots_ok (stops i reason now ` set (ts_targets st))" by (rule run_change_same_slots [OF tab _ ch]) simp
    fix r' assume r': "r' \<in> set (ts_runs st)" "ru_run_id r' = i" and inv: "run_inv r' (rows_of st i)"
    have pre: "run_pre r' (rows_of st i)" using run_inv_pre [OF inv] only [OF r'] run(2) by simp
    then show "run_pre (cancelling_at i reason now r') (stops i reason now ` rows_of st i)"
      using targets_ok_stops [of st i reason now] stops_not_queued [of _ i reason now] r'
      by (auto simp: run_pre_def cancelling_at_def cancelling_run_def active_run_def rows_of_def)
  qed
qed

lemma cancel_body_ok:
  assumes inv: "store_inv L st" and res: "cancel_body i reason op fp now st = Inr (x, st')"
  shows "step_ok L st st'"
proof -
  have core: "core run_inv st" using inv by (simp add: store_inv_def)
  obtain r where r: "lookup_run st i = Some r" using res by (auto simp: cancel_body_def split: option.splits)
  show ?thesis
  proof (cases "active_run (ru_state r)")
    case False
    then have "logs st st'" using res by (auto simp: cancel_body_def r bindE_Inr_iff dest: record_mutation_logs)
    then show ?thesis by (rule step_ok_logs [OF step_ok_refl [OF inv]])
  next
    case True
    let ?st = "st\<lparr>ts_targets := map (stops i reason now) (ts_targets st), ts_runs := map (cancelling_at i reason now) (ts_runs st)\<rparr>"
    have marked: "set_run i (cancelling_run reason now) (cancel_marks i reason now st) = ?st"
      by (simp add: cancel_marks_map set_run_def update_runs_def cancelling_at_def)
    note pre = cancel_step [OF core r True, of reason now]
    have "map ru_run_id (ts_runs ?st) = map ru_run_id (ts_runs st)" by (simp add: cancelling_at_def cancelling_run_def)
    then have "ru_run_id ` set (ts_runs ?st) = ru_run_id ` set (ts_runs st)" by (metis set_map)
    then have "i \<in> ru_run_id ` set (ts_runs ?st)"
      using find_SomeD [OF r [unfolded lookup_run_def]] by auto
    then obtain st2 where st2: "reconcile_run i now ?st = Inr st2" "step_ok L st st2"
      using reconcile_after [OF inv pre, of now] by auto
    have "logs st2 st'"
      using res True by (auto simp: cancel_body_def r marked st2(1) Let_def bindE_Inr_iff split: option.splits dest: record_mutation_logs)
    then show ?thesis by (rule step_ok_logs [OF st2(2)])
  qed
qed

section \<open>Reconciliation of all runs\<close>

text \<open>
  Where the invariant holds there is nothing left to reconcile: whoever depends on a failure is
  already cancelled.
\<close>

lemma nothing_to_cancel:
  assumes "targets_ok S" "calm S"
  shows "((row_requires S)\<inverse>)\<^sup>+ `` failed_names S \<subseteq> failed_names S"
proof -
  have step: "n \<in> failed_names S" if f: "f \<in> failed_names S" "(n, f) \<in> row_requires S" for n f
  proof -
    obtain u where u: "u \<in> S" "f = ta_target_name u" "failed_target (ta_state u)" using f(1) by (auto simp: failed_names_def)
    obtain t where t: "t \<in> S" "n = ta_target_name t" "f \<in> set (ta_dependencies t)" using f(2) by (auto simp: row_requires_def)
    have "ta_state t \<noteq> Queued" using assms(2) t u unfolding calm_def by blast
    moreover have "ta_execution t = None"
    proof (rule ccontr)
      assume "ta_execution t \<noteq> None"
      then have "ta_state u = Terminal SUCCEEDED" using targets_okD(2) [OF assms(1) t(1)] t(3) u unfolding deps_done_def by blast
      then show False using u(3) by (simp add: failed_target_def)
    qed
    ultimately have "failed_target (ta_state t)"
      using targets_okD(1) [OF assms(1) t(1)] by (auto simp: slot_ok_def failed_target_def split: target_state.splits option.splits)
    then show ?thesis using t(1,2) by (auto simp: failed_names_def)
  qed
  have "n \<in> failed_names S" if "(f, n) \<in> ((row_requires S)\<inverse>)\<^sup>+" "f \<in> failed_names S" for f n
    using that by induction (auto intro: step)
  then show ?thesis by blast
qed

lemma cancel_dependents_id:
  assumes "targets_ok (rows_of st i)" "calm (rows_of st i)"
  shows "cancel_dependents i now st = st"
proof -
  have none: "((row_requires (rows_of st i))\<inverse>)\<^sup>+ `` failed_names (rows_of st i) - failed_names (rows_of st i) = {}"
    using nothing_to_cancel [OF assms] by blast
  have "graph_ok (rows_of st i)" using assms(1) by (simp add: targets_ok_def)
  moreover have "cancels_at i {} now = id" by (rule ext) (simp add: cancels_at_def cancels_def)
  ultimately show ?thesis using cancel_dependents_map [of st i now] unfolding none by simp
qed

lemma reconcile_run_fixpoint:
  assumes core: "core run_inv st" and r: "r \<in> set (ts_runs st)" "active_run (ru_state r)"
  shows "reconcile_run (ru_run_id r) now st = Inr st"
proof -
  let ?i = "ru_run_id r" and ?S = "rows_of st (ru_run_id r)"
  have look: "lookup_run st ?i = Some r" using lookup_run_Some [OF core_tables [OF core]] r(1) by simp
  have ok: "targets_ok ?S" "state_ok (ru_state r) ?S" using core_runD [OF core r(1)] by (simp_all add: run_inv_def)
  show ?thesis
  proof (cases "ru_state r = RunCancelling")
    case True
    then show ?thesis using ok(2) look by (simp add: reconcile_run_def list_ex_states state_ok_calm)
  next
    case False
    then have open_run: "\<exists>t \<in> ?S. pending t" "calm ?S" using ok(2) r(2) by (auto simp: active_run_def state_ok_calm)
    then have "reconcile_failed ?i now st = Inr st"
      using cancel_dependents_id [OF ok(1)] by (simp add: reconcile_failed_def list_ex_states pending_def)
    moreover obtain t where "t \<in> ?S" "ta_state t \<noteq> Terminal SUCCEEDED" using open_run(1) by (auto simp: pending_def active_target_def)
    ultimately show ?thesis using look False
      by (auto simp: reconcile_run_def list_ex_states list_all_iff Let_def)
  qed
qed

lemma reconcile_steps_fixpoint:
  assumes core: "core run_inv st" and "\<forall>r \<in> set rows. r \<in> set (ts_runs st) \<and> active_run (ru_state r)"
  shows "foldE (reconcile_step now) rows ((processed, changed), st) = Inr ((processed @ map ru_run_id rows, changed), st)"
  using assms(2)
proof (induction rows arbitrary: processed)
  case (Cons r rows)
  then have "lookup_run st (ru_run_id r) = Some r" using lookup_run_Some [OF core_tables [OF core]] by simp
  then have "reconcile_step now r ((processed, changed), st) = Inr ((processed @ [ru_run_id r], changed), st)"
    using reconcile_run_fixpoint [OF core, of r now] Cons.prems by (simp add: reconcile_step_def)
  with Cons show ?case by simp
qed simp

text \<open>The runs that one reconciliation visits.\<close>

definition reconcile_rows :: "test_store \<Rightarrow> run_row list" where
  "reconcile_rows st = take max_nonterminal_runs_per_reconcile
     (sort_key (\<lambda>r. (ru_updated_at r, ru_run_id r)) (filter (\<lambda>r. active_run (ru_state r)) (ts_runs st)))"

lemma reconcile_nonterminal_runs_fixpoint:
  assumes core: "core run_inv st"
    and now: "(case now_value of None \<Rightarrow> store_now clock | Some v \<Rightarrow> finite_nonnegative ''now'' v) = Inr now"
  shows "reconcile_nonterminal_runs clock now_value st = Inr (JObj
    [(''processed_run_ids'', jstrs (map ru_run_id (reconcile_rows st))), (''changed_runs'', JArr []),
     (''more_candidates'', JBool (max_nonterminal_runs_per_reconcile < length (filter (\<lambda>r. active_run (ru_state r)) (ts_runs st))))], st)"
proof -
  let ?all = "sort_key (\<lambda>r. (ru_updated_at r, ru_run_id r)) (filter (\<lambda>r. active_run (ru_state r)) (ts_runs st))"
  have rows: "take max_nonterminal_runs_per_reconcile (take (max_nonterminal_runs_per_reconcile + 1) ?all) = reconcile_rows st"
    by (simp add: reconcile_rows_def)
  have "\<forall>r \<in> set (reconcile_rows st). r \<in> set (ts_runs st) \<and> active_run (ru_state r)"
    by (auto simp: reconcile_rows_def dest!: in_set_takeD)
  note fold = reconcile_steps_fixpoint [OF core this, of now "[]" "[]"]
  show ?thesis
    unfolding reconcile_nonterminal_runs_def now bindE.simps Let_def rows fold prod.case
    by (auto simp: reconcile_rows_def min_def)
qed

section \<open>Scheduler decisions\<close>

text \<open>A decision only touches the wait columns of queued targets.\<close>

definition waits_only :: "target_row \<Rightarrow> target_row \<Rightarrow> bool" where
  "waits_only t u \<longleftrightarrow> u\<lparr>ta_wait := ta_wait t\<rparr> = t \<and> (ta_state t \<noteq> Queued \<longrightarrow> u = t)"

lemma waits_only_trans: "waits_only a b \<Longrightarrow> waits_only b c \<Longrightarrow> waits_only a c"
  unfolding waits_only_def by (cases a, cases b, cases c) auto

lemma waits_only_refl [simp]: "waits_only t t"
  by (simp add: waits_only_def)

definition decides :: "test_store \<Rightarrow> test_store \<Rightarrow> bool" where
  "decides st st' \<longleftrightarrow> (\<exists>f. st' = st\<lparr>ts_targets := map f (ts_targets st)\<rparr> \<and> (\<forall>t. waits_only t (f t)))"

lemma decides_trans:
  assumes "decides a b" "decides b c"
  shows "decides a c"
proof -
  obtain f g where "b = a\<lparr>ts_targets := map f (ts_targets a)\<rparr>" "c = b\<lparr>ts_targets := map g (ts_targets b)\<rparr>"
    "\<forall>t. waits_only t (f t)" "\<forall>t. waits_only t (g t)" using assms unfolding decides_def by blast
  then have "c = a\<lparr>ts_targets := map (g \<circ> f) (ts_targets a)\<rparr> \<and> (\<forall>t. waits_only t ((g \<circ> f) t))"
    using waits_only_trans by (auto simp: o_def) blast
  then show ?thesis unfolding decides_def by blast
qed

lemma decides_refl [simp]: "decides st st"
  unfolding decides_def by (rule exI [of _ id]) simp

lemma decides_update:
  assumes "\<And>t. waits_only t (h t) \<or> ta_state t \<noteq> Queued"
  shows "decides st (update_targets (\<lambda>t. ta_target_id t = i \<and> ta_state t = Queued) h st)"
  unfolding decides_def update_targets_def
  by (rule exI [of _ "\<lambda>t. if ta_target_id t = i \<and> ta_state t = Queued then h t else t"]) (use assms in auto)

lemma decides_fold:
  assumes "\<And>x st. x \<in> set xs \<Longrightarrow> decides st (f x st)"
  shows "decides st (fold f xs st)"
  using assms
proof (induction xs arbitrary: st)
  case (Cons x xs)
  have "decides st (f x st)" using Cons.prems by simp
  moreover have "decides (f x st) (fold f xs (f x st))" using Cons by simp
  ultimately show ?case using decides_trans by simp
qed simp

lemma record_schedule_decision_decides:
  assumes "record_schedule_decision clock selected rejected st = Inr st'"
  shows "decides st st'"
proof -
  have clear: "decides s (update_targets (\<lambda>t. ta_target_id t = i \<and> ta_state t = Queued) (\<lambda>t. t\<lparr>ta_wait := None\<rparr>) s)" for i s
    by (rule decides_update) (auto simp: waits_only_def)
  have set: "decides s (update_targets (\<lambda>t. ta_target_id t = i \<and> ta_state t = Queued) (apply_wait now w) s)" for i s now w
    by (rule decides_update) (auto simp: waits_only_def apply_wait_def)
  show ?thesis
    using assms unfolding record_schedule_decision_def Let_def
    by (elim bindE_InrE) (auto intro!: decides_trans [OF decides_fold decides_fold] clear set)
qed

lemma waits_only_columns:
  assumes "waits_only t u"
  shows "keeps t u" "ta_state u = ta_state t" "ta_execution u = ta_execution t" "slot_ok u = slot_ok t" "pending u = pending t"
  using assms unfolding waits_only_def by (cases t; cases u; auto simp: keeps_def pending_def active_target_def slot_ok_def)+

lemma decides_run_inv:
  assumes f: "\<forall>t. waits_only t (f t)" and inv: "run_inv r S"
  shows "run_inv r (f ` S)"
proof -
  have col: "keeps t (f t)" "ta_state (f t) = ta_state t" "ta_execution (f t) = ta_execution t"
    "slot_ok (f t) = slot_ok t" "pending (f t) = pending t" for t
    using waits_only_columns f by blast+
  have ok: "targets_ok S" "state_ok (ru_state r) S" using inv by (simp_all add: run_inv_def)
  have "targets_ok (f ` S)"
    by (rule targets_ok_image [OF ok(1)]) (use col targets_okD(1) [OF ok(1)] targets_ok_sibling [OF ok(1)] in auto)
  moreover have "state_ok (ru_state r) (f ` S)"
    using ok(2) col(2,5) keeps_columns(3,5) [OF col(1)] by (cases "ru_state r") (auto simp: state_ok_def)
  ultimately show ?thesis using inv by (simp add: run_inv_def)
qed

lemma decides_ok:
  assumes inv: "store_inv L st" and dec: "decides st st'"
  shows "step_ok L st st'"
proof -
  obtain f where st': "st' = st\<lparr>ts_targets := map f (ts_targets st)\<rparr>" and f: "\<forall>t. waits_only t (f t)"
    using dec by (auto simp: decides_def)
  have col: "keeps t (f t)" "ta_execution (f t) = ta_execution t" for t using waits_only_columns f by blast+
  have core: "core run_inv st" using inv by (simp add: store_inv_def)
  have rows: "rows_of st' i = f ` rows_of st i" for i using rows_of_map [of st' f st i] st' col(1) by (simp add: keeps_columns)
  have "slots_ok (f ` set (ts_targets st))"
    using core by (intro slots_ok_same) (auto simp: core_def tables_ok_def col keeps_columns [OF col(1)])
  then have "tables_ok st'"
    using core keeps_columns(1,2) [OF col(1)] by (simp add: st' core_def tables_ok_def o_def)
  moreover have "run_inv r (rows_of st' (ru_run_id r))" if "r \<in> set (ts_runs st')" for r
    unfolding rows using that decides_run_inv [OF f core_runD [OF core]] by (simp add: st')
  ultimately have "core run_inv st'" by (simp add: core_def)
  moreover have "evolves st st'" using col by (auto simp: st' evolves_def extends_refl intro!: extends_map)
  ultimately show ?thesis using step_ok_safe [OF inv] by (simp add: safe_step_def st')
qed

end
