(* ===== verification/Store_Inserts.thy ===== *)
theory Store_Inserts
  imports Store_Outcomes Planner_Laws
begin

text \<open>
  The operations that add runs: registration, submission and retry. A submitted plan must be well
  layered; plans of \<open>create_test_plan\<close> are, and so are the plans that a retry derives.
\<close>

section \<open>Adding rows\<close>

lemma list_all2_left: "list_all2 P xs ys \<Longrightarrow> x \<in> set xs \<Longrightarrow> \<exists>y \<in> set ys. P x y"
  by (induction rule: list_all2_induct) auto

lemma list_all2_right: "list_all2 P xs ys \<Longrightarrow> y \<in> set ys \<Longrightarrow> \<exists>x \<in> set xs. P x y"
  by (induction rule: list_all2_induct) auto

lemma insert_run_Inr:
  "insert_run r st = Inr st' \<Longrightarrow> st' = st\<lparr>ts_runs := ts_runs st @ [r]\<rparr> \<and> ru_run_id r \<notin> ru_run_id ` set (ts_runs st) \<and>
     ru_plan_id r \<in> pl_plan_id ` set (ts_plans st) \<and> (active_run (ru_state r) \<longrightarrow>
       (\<forall>s \<in> set (ts_runs st). active_run (ru_state s) \<longrightarrow> ru_execution_fingerprint s \<noteq> ru_execution_fingerprint r))"
  by (auto simp: insert_run_def list_ex_iff)

lemma insert_targets_Inr:
  assumes "foldE insert_target rows st = Inr st'"
  shows "st' = st\<lparr>ts_targets := ts_targets st @ rows\<rparr> \<and> distinct (map ta_target_id rows) \<and>
    ta_target_id ` set rows \<inter> ta_target_id ` set (ts_targets st) = {}"
  using assms
proof (induction rows arbitrary: st)
  case (Cons t rows)
  then obtain st1 where "insert_target t st = Inr st1" "foldE insert_target rows st1 = Inr st'"
    by (auto simp: bindE_Inr_iff)
  then have st1: "st1 = st\<lparr>ts_targets := ts_targets st @ [t]\<rparr>" "ta_target_id t \<notin> ta_target_id ` set (ts_targets st)"
    by (auto simp: insert_target_def)
  have "foldE insert_target rows st1 = Inr st'" by fact
  from Cons.IH [OF this] show ?case using st1 by auto
qed simp

lemma foldE_rows:
  "foldE (\<lambda>x st. bindE (F x) (\<lambda>rows. foldE g rows st)) xs st = Inr st' \<Longrightarrow>
     \<exists>rss. mapE F xs = Inr rss \<and> foldE g (concat rss) st = Inr st'"
proof (induction xs arbitrary: st)
  case (Cons x xs)
  then obtain rows st1 where "F x = Inr rows" "foldE g rows st = Inr st1"
    "foldE (\<lambda>x st. bindE (F x) (\<lambda>rows. foldE g rows st)) xs st1 = Inr st'"
    by (auto simp: bindE_Inr_iff)
  with Cons.IH [of st1] show ?case by (auto simp: foldE_append)
qed simp

text \<open>A fresh target row of a run.\<close>

definition fresh_row :: "string \<Rightarrow> target_row \<Rightarrow> bool" where
  "fresh_row i t \<longleftrightarrow> ta_run_id t = i \<and> ta_state t = Queued \<and> ta_execution t = None \<and> ta_terminal t = None"

lemma fresh_targets_ok:
  assumes "\<forall>t \<in> S. fresh_row i t" "graph_ok S"
  shows "targets_ok S" "calm S"
  using assms by (auto simp: targets_ok_def calm_def fresh_row_def slot_ok_def failed_target_def)

definition fresh_run :: "run_row \<Rightarrow> target_row list \<Rightarrow> bool" where
  "fresh_run r rows \<longleftrightarrow> (if rows = [] then ru_state r = RunSucceeded \<and> ru_conclusion r = Some RunSucceeded \<and> ru_finished_at r \<noteq> None
     else ru_state r = RunQueued)"

lemma fresh_run_inv:
  assumes "fresh_run r rows" "\<forall>t \<in> set rows. fresh_row i t" "graph_ok (set rows)"
  shows "run_inv r (set rows)"
proof (cases "rows = []")
  case True
  then show ?thesis using assms by (simp add: run_inv_def fresh_run_def state_ok_def targets_ok_def)
next
  case False
  then obtain t where "t \<in> set rows" "pending t" using assms(2) by (cases rows) (auto simp: fresh_row_def pending_def)
  then show ?thesis using False assms fresh_targets_ok [OF assms(2,3)]
    by (auto simp: run_inv_def fresh_run_def state_ok_calm active_run_def)
qed

lemma slots_ok_fresh:
  assumes "slots_ok T" "\<forall>t \<in> N. ta_execution t = None"
  shows "slots_ok (T \<union> N)"
  unfolding slots_ok_def
proof (intro ballI allI impI)
  fix t u e assume tu: "t \<in> T \<union> N" "u \<in> T \<union> N" and e: "ta_execution t = Some e \<and> slot_conflict e u"
  then have "t \<in> T" "u \<in> T" using assms(2) by (auto simp: slot_conflict_def split: option.splits)
  then show "ta_target_id u = ta_target_id t" using assms(1) e unfolding slots_ok_def by blast
qed

lemma runs_ok_snoc:
  assumes "runs_ok rs" "ru_run_id r \<notin> ru_run_id ` set rs"
    and "active_run (ru_state r) \<longrightarrow> (\<forall>s \<in> set rs. active_run (ru_state s) \<longrightarrow> ru_execution_fingerprint s \<noteq> ru_execution_fingerprint r)"
  shows "runs_ok (rs @ [r])"
  unfolding runs_ok_def
proof (intro conjI ballI impI)
  show "distinct (map ru_run_id (rs @ [r]))" using assms(1,2) by (simp add: runs_ok_def)
  fix a b assume ab: "a \<in> set (rs @ [r])" "b \<in> set (rs @ [r])"
    and h: "active_run (ru_state a) \<and> active_run (ru_state b) \<and> ru_execution_fingerprint a = ru_execution_fingerprint b"
  have "a = r \<and> b = r \<or> a \<in> set rs \<and> b \<in> set rs" using ab h assms(3) by auto
  then show "ru_run_id a = ru_run_id b" using assms(1) h unfolding runs_ok_def by blast
qed

lemma add_run_ok:
  assumes inv: "store_inv L st" and run: "insert_run r st = Inr st1" and rows: "foldE insert_target rows st1 = Inr st2"
    and fresh: "\<forall>t \<in> set rows. fresh_row (ru_run_id r) t" "graph_ok (set rows)" "fresh_run r rows"
  shows "step_ok L st st2"
proof -
  note r = insert_run_Inr [OF run]
  note t = insert_targets_Inr [OF rows]
  have st2: "st2 = st\<lparr>ts_runs := ts_runs st @ [r], ts_targets := ts_targets st @ rows\<rparr>" using r t by simp
  have core: "core run_inv st" using inv by (simp add: store_inv_def)
  have tab: "tables_ok st" by (rule core_tables [OF core])
  have other: "ta_run_id x \<noteq> ru_run_id r" if "x \<in> set (ts_targets st)" for x
    using that tab r unfolding tables_ok_def by metis
  have new: "rows_of st2 (ru_run_id r) = set rows"
    using fresh(1) other by (auto simp: st2 rows_of_def fresh_row_def)
  have old: "rows_of st2 (ru_run_id s) = rows_of st (ru_run_id s)" if "s \<in> set (ts_runs st)" for s
  proof -
    have "ru_run_id s \<noteq> ru_run_id r" using imageI [OF that, of ru_run_id] r by metis
    then show ?thesis using fresh(1) by (auto simp: st2 rows_of_def fresh_row_def)
  qed
  have "slots_ok (set (ts_targets st) \<union> set rows)"
    by (rule slots_ok_fresh) (use tab fresh(1) in \<open>auto simp: tables_ok_def fresh_row_def\<close>)
  then have "tables_ok st2"
    using tab r t fresh(1) runs_ok_snoc [of "ts_runs st" r] unfolding tables_ok_def st2 fresh_row_def by (auto simp: image_Un)
  moreover have "run_inv s (rows_of st2 (ru_run_id s))" if "s \<in> set (ts_runs st2)" for s
    using that core_runD [OF core, of s] old new fresh_run_inv [OF fresh(3,1,2)] by (auto simp: st2)
  ultimately have "core run_inv st2" by (simp add: core_def)
  moreover have "evolves st st2" by (simp add: st2 evolves_def extends_refl extends_append)
  ultimately show ?thesis using step_ok_safe [OF inv] by (simp add: safe_step_def st2)
qed

section \<open>Snapshots and plans\<close>

definition plans_grow :: "test_store \<Rightarrow> test_store \<Rightarrow> bool" where
  "plans_grow st st' \<longleftrightarrow> (\<exists>sns pls. st' = st\<lparr>ts_snapshots := ts_snapshots st @ sns, ts_plans := pls\<rparr> \<and>
     extends plan_keeps (ts_plans st) pls)"

lemma plans_grow_ids:
  assumes "extends plan_keeps ps qs"
  shows "pl_plan_id ` set ps \<subseteq> pl_plan_id ` set qs"
proof
  fix i assume "i \<in> pl_plan_id ` set ps"
  then obtain p where "p \<in> set ps" "i = pl_plan_id p" by auto
  then obtain q where q: "q \<in> set qs" "plan_keeps p q" using extends_mem [OF assms] by blast
  then have "pl_plan_id q = i" using \<open>i = pl_plan_id p\<close> unfolding plan_keeps_def by (metis plan_row.select_convs(1) plan_row.surjective plan_row.update_convs(10))
  then show "i \<in> pl_plan_id ` set qs" using q(1) by blast
qed

lemma plans_grow_ok:
  assumes inv: "store_inv L st" and grow: "plans_grow st st'"
  shows "step_ok L st st'"
proof -
  obtain sns pls where st': "st' = st\<lparr>ts_snapshots := ts_snapshots st @ sns, ts_plans := pls\<rparr>"
    and ext: "extends plan_keeps (ts_plans st) pls" using grow by (auto simp: plans_grow_def)
  have "core run_inv st" using inv by (simp add: store_inv_def)
  then have "core run_inv st'" using plans_grow_ids [OF ext] by (auto simp: st' core_def tables_ok_def rows_of_def)
  moreover have "evolves st st'" using ext by (simp add: st' evolves_def extends_refl extends_append)
  ultimately show ?thesis using step_ok_safe [OF inv] by (simp add: safe_step_def st')
qed

lemma insert_plan_extends: "insert_plan p st = Inr st' \<Longrightarrow> st' = st\<lparr>ts_plans := ts_plans st @ [p]\<rparr>"
  by (auto simp: insert_plan_def)

lemma upsert_plan_grow: "upsert_plan L plan s now resources st = Inr st' \<Longrightarrow> plans_grow st st'"
proof -
  assume res: "upsert_plan L plan s now resources st = Inr st'"
  have same: "plans_grow st st" unfolding plans_grow_def
    by (rule exI [of _ "[]"], rule exI [of _ "ts_plans st"]) (simp add: extends_refl)
  show ?thesis
  proof (cases "lookup_plan st (tp_plan_id plan)")
    case None
    then obtain p where "st' = st\<lparr>ts_plans := ts_plans st @ [p]\<rparr>"
      using res by (auto simp: upsert_plan_def Let_def dest: insert_plan_extends)
    then show ?thesis unfolding plans_grow_def
      by (intro exI [of _ "[]"] exI [of _ "ts_plans st @ [p]"]) (simp add: extends_append)
  next
    case (Some p)
    define f where "f = (\<lambda>q :: plan_row. if pl_plan_id q = tp_plan_id plan then q\<lparr>pl_plan_json := stored_document L plan resources\<rparr> else q)"
    have "st' = st \<or> st' = st\<lparr>ts_plans := map f (ts_plans st)\<rparr>"
      using res by (auto simp: upsert_plan_def Let_def Some bindE_Inr_iff f_def split: option.splits)
    moreover have "extends plan_keeps (ts_plans st) (map f (ts_plans st))"
      by (rule extends_map) (auto simp: f_def plan_keeps_def)
    then have "plans_grow st (st\<lparr>ts_plans := map f (ts_plans st)\<rparr>)" unfolding plans_grow_def
      by (intro exI [of _ "[]"] exI [of _ "map f (ts_plans st)"]) simp
    ultimately show ?thesis using same by auto
  qed
qed

lemma upsert_snapshot_grow: "upsert_snapshot plan s now st = Inr st' \<Longrightarrow> \<exists>sns. st' = st\<lparr>ts_snapshots := ts_snapshots st @ sns\<rparr>"
  by (auto simp: upsert_snapshot_def insert_snapshot_def Let_def split: option.splits intro: exI [of _ "[]"])

lemma upsert_snapshot_and_plan_grow:
  assumes "upsert_snapshot_and_plan L plan now resources st = Inr st'"
  shows "plans_grow st st'"
proof -
  obtain s st1 where "upsert_snapshot plan s now st = Inr st1" and up: "upsert_plan L plan s now resources st1 = Inr st'"
    using assms by (auto simp: upsert_snapshot_and_plan_def bindE_Inr_iff)
  then obtain sns where st1: "st1 = st\<lparr>ts_snapshots := ts_snapshots st @ sns\<rparr>" using upsert_snapshot_grow by blast
  obtain sns' pls where "st' = st1\<lparr>ts_snapshots := ts_snapshots st1 @ sns', ts_plans := pls\<rparr>"
    "extends plan_keeps (ts_plans st1) pls" using upsert_plan_grow [OF up] by (auto simp: plans_grow_def)
  then show ?thesis unfolding plans_grow_def st1
    by (intro exI [of _ "sns @ sns'"] exI [of _ pls]) simp
qed

section \<open>Waves\<close>

lemma wave_pairs_mem:
  "(n, i) \<in> set (concat (map (\<lambda>(i, wave). map (\<lambda>n. (n, i)) wave) (enumerate k ws))) \<longleftrightarrow>
     k \<le> i \<and> i < k + length ws \<and> n \<in> set (ws ! (i - k))"
  by (auto simp: in_set_enumerate_eq intro!: bexI [of _ "(i, ws ! (i - k))"])

lemma wave_pairs_names: "map fst (concat (map (\<lambda>(i, wave). map (\<lambda>n. (n, i)) wave) (enumerate k ws))) = concat ws"
  by (induction ws arbitrary: k) (simp_all add: o_def)

lemma wave_index_of_distinct:
  assumes "distinct (concat ws)"
  shows "wave_index_of ws n = Some i \<longleftrightarrow> i < length ws \<and> n \<in> set (ws ! i)"
proof -
  let ?ps = "concat (map (\<lambda>(i, wave). map (\<lambda>n. (n, i)) wave) (enumerate 0 ws))"
  have "distinct (map fst (rev ?ps))" using assms by (simp only: rev_map [symmetric] wave_pairs_names distinct_rev)
  then have "map_of (rev ?ps) n = Some i \<longleftrightarrow> (n, i) \<in> set (rev ?ps)" by simp
  then show ?thesis using wave_pairs_mem [of n i 0 ws] by (simp add: wave_index_of_def)
qed

text \<open>In the waves of a graph the prerequisites of a target have a smaller index.\<close>

lemma waves_from_index:
  assumes ws: "waves_from R selected {} S ws" and n: "n \<in> S" "(n, d) \<in> R" "d \<in> selected"
  shows "\<exists>i j. wave_index_of ws d = Some i \<and> wave_index_of ws n = Some j \<and> i < j"
proof -
  have dist: "distinct (concat ws)" and names: "set (concat ws) = S" using ws by (simp_all add: waves_from_def)
  obtain w where w: "w \<in> set ws" "n \<in> set w" using n(1) names by (metis set_concat UN_E)
  then obtain j where j: "j < length ws" "n \<in> set (ws ! j)" by (metis in_set_conv_nth)
  then have "R `` {n} \<inter> selected \<subseteq> set (concat (take j ws))" using ws by (simp add: waves_from_def)
  then have "d \<in> set (concat (take j ws))" using n by blast
  then obtain i where i: "i < length (take j ws)" "d \<in> set (take j ws ! i)" by (metis set_concat UN_E in_set_conv_nth)
  then have "i < j" "d \<in> set (ws ! i)" "i < length ws" by simp_all
  then show ?thesis using j dist wave_index_of_distinct by metis
qed

section \<open>Submission\<close>

definition plan_ok :: "test_plan \<Rightarrow> bool" where
  "plan_ok plan \<longleftrightarrow> (\<forall>n \<in> set (tp_selected_targets plan). \<forall>d \<in> set (deps_of (tp_dependencies plan) n).
     d \<in> set (tp_selected_targets plan) \<and> (\<exists>i j. wave_index_of (tp_dependency_waves plan) d = Some i \<and>
       wave_index_of (tp_dependency_waves plan) n = Some j \<and> i < j))"

definition row_of_graph :: "string list list \<Rightarrow> (string \<Rightarrow> string list) \<Rightarrow> target_row \<Rightarrow> bool" where
  "row_of_graph ws deps t \<longleftrightarrow> wave_index_of ws (ta_target_name t) = Some (ta_wave_index t) \<and>
     set (ta_dependencies t) = set (deps (ta_target_name t)) \<and> ta_dependencies t = sorted_set (ta_dependencies t)"

lemma graph_ok_rows:
  assumes rows: "\<forall>t \<in> S. row_of_graph ws deps t"
    and deps: "\<forall>t \<in> S. \<forall>d \<in> set (deps (ta_target_name t)). (\<exists>u \<in> S. ta_target_name u = d) \<and>
      (\<exists>i j. wave_index_of ws d = Some i \<and> wave_index_of ws (ta_target_name t) = Some j \<and> i < j)"
  shows "graph_ok S"
  unfolding graph_ok_def
proof (intro conjI ballI impI)
  fix t u assume tu: "t \<in> S" "u \<in> S"
  have r: "row_of_graph ws deps t" "row_of_graph ws deps u" using rows tu by blast+
  { assume "ta_target_name t = ta_target_name u"
    then show "ta_wave_index t = ta_wave_index u" "ta_dependencies t = ta_dependencies u"
      using r unfolding row_of_graph_def by (simp, metis sorted_set_eq_iff) }
  assume "ta_target_name u \<in> set (ta_dependencies t)"
  then obtain i j where "wave_index_of ws (ta_target_name u) = Some i" "wave_index_of ws (ta_target_name t) = Some j" "i < j"
    using deps tu(1) r(1) unfolding row_of_graph_def by blast
  then show "ta_wave_index u < ta_wave_index t" using r by (simp add: row_of_graph_def)
next
  fix t d assume "t \<in> S" "d \<in> set (ta_dependencies t)"
  then show "\<exists>u \<in> S. ta_target_name u = d" using deps rows unfolding row_of_graph_def by blast
qed

lemma sorted_set_idem [simp]: "sorted_set (sorted_set xs) = sorted_set xs"
  by (simp add: sorted_set_eq_iff)

lemma submitted_targets_Inr:
  assumes "submitted_targets L plan resources i now n = Inr rows"
  shows "\<forall>t \<in> set rows. fresh_row i t \<and> ta_target_name t = n \<and> row_of_graph (tp_dependency_waves plan) (deps_of (tp_dependencies plan)) t"
    "\<exists>r. map_of resources n = Some r \<and> length rows = nat (nr_shard_count r)"
  using assms unfolding submitted_targets_def
  by (auto simp: fresh_row_def queued_target_def row_of_graph_def split: option.splits)

lemma normalize_resources_shards:
  assumes "normalize_resources plan supplied = Inr resources" "map_of resources n = Some r"
  shows "1 \<le> nr_shard_count r"
proof -
  have "list_all2 (\<lambda>name y. bindE (normalize_resource (case map_of supplied name of None \<Rightarrow> default_resources | Some r \<Rightarrow> r))
        (\<lambda>r. Inr (name, r)) = Inr y) (tp_selected_targets plan) resources"
    using assms(1) by (auto simp: normalize_resources_def Let_def mapE_Inr_iff)
  then obtain name x where "bindE (normalize_resource x) (\<lambda>r. Inr (name, r)) = Inr (n, r)"
    using map_of_SomeD [OF assms(2)] unfolding list_all2_conv_all_nth in_set_conv_nth by metis
  then have "normalize_resource x = Inr r" by (auto simp: bindE_Inr_iff)
  then show ?thesis by (auto simp: normalize_resource_def bindE_Inr_iff positive_int_def split: json.splits if_splits)
qed

lemma submitted_rows_ok:
  assumes plan: "plan_ok plan" and norm: "normalize_resources plan supplied = Inr resources"
    and rss: "mapE (submitted_targets L plan resources i now) (tp_selected_targets plan) = Inr rss"
  shows "\<forall>t \<in> set (concat rss). fresh_row i t" "graph_ok (set (concat rss))" "concat rss = [] \<longleftrightarrow> tp_selected_targets plan = []"
proof -
  let ?sel = "tp_selected_targets plan" and ?G = "row_of_graph (tp_dependency_waves plan) (deps_of (tp_dependencies plan))"
  have all2: "list_all2 (\<lambda>n rows. submitted_targets L plan resources i now n = Inr rows) ?sel rss" using rss by (simp add: mapE_Inr_iff)
  have row: "fresh_row i t \<and> ta_target_name t \<in> set ?sel \<and> ?G t" if t: "t \<in> set (concat rss)" for t
  proof -
    obtain rows where rows: "rows \<in> set rss" "t \<in> set rows" using t by auto
    obtain n where "n \<in> set ?sel" "submitted_targets L plan resources i now n = Inr rows" using list_all2_right [OF all2 rows(1)] by blast
    then show ?thesis using submitted_targets_Inr(1) [of L plan resources i now n rows] rows(2) by auto
  qed
  have named: "\<exists>t \<in> set (concat rss). ta_target_name t = n" if n: "n \<in> set ?sel" for n
  proof -
    obtain rows where sub: "rows \<in> set rss" "submitted_targets L plan resources i now n = Inr rows"
      using list_all2_left [OF all2 n] by blast
    obtain q where "map_of resources n = Some q" "length rows = nat (nr_shard_count q)" using submitted_targets_Inr(2) [OF sub(2)] by blast
    then have "rows \<noteq> []" using normalize_resources_shards [OF norm] by fastforce
    then obtain t where "t \<in> set rows" by (cases rows) auto
    then show ?thesis using sub submitted_targets_Inr(1) [OF sub(2)] by auto
  qed
  show "\<forall>t \<in> set (concat rss). fresh_row i t" using row by blast
  show "concat rss = [] \<longleftrightarrow> ?sel = []" 
  proof
    assume "concat rss = []"
    then show "?sel = []" using named [of "hd ?sel"] by (cases "?sel = []") auto
  qed (use all2 in simp)
  show "graph_ok (set (concat rss))"
  proof (rule graph_ok_rows)
    show "\<forall>t \<in> set (concat rss). ?G t" using row by blast
    show "\<forall>t \<in> set (concat rss). \<forall>d \<in> set (deps_of (tp_dependencies plan) (ta_target_name t)).
        (\<exists>u \<in> set (concat rss). ta_target_name u = d) \<and> (\<exists>i j. wave_index_of (tp_dependency_waves plan) d = Some i \<and>
          wave_index_of (tp_dependency_waves plan) (ta_target_name t) = Some j \<and> i < j)"
      using plan row named unfolding plan_ok_def by (intro ballI) blast
  qed
qed

lemma submit_run_ok:
  assumes inv: "store_inv L st" and plan: "plan_ok plan" and norm: "normalize_resources plan supplied = Inr resources"
    and res: "submit_run L plan op fp actor owner priority resources now st = Inr (x, st')"
  shows "step_ok L st st'"
proof -
  let ?i = "digest_id L ''run-'' [op, fp]" and ?sel = "tp_selected_targets plan"
  define r where "r = \<lparr>ru_run_id = ?i, ru_plan_id = tp_plan_id plan, ru_repository_id = tp_repository_id plan,
    ru_owner_uid = owner, ru_actor = actor, ru_intent = tp_intent plan,
    ru_source_fingerprint = si_content_fingerprint (tp_source plan),
    ru_execution_fingerprint = tp_execution_fingerprint plan, ru_eligible_target_count = length (tp_eligible_targets plan),
    ru_selected_target_count = length ?sel, ru_state = (if ?sel = [] then RunSucceeded else RunQueued),
    ru_conclusion = (if ?sel = [] then Some RunSucceeded else None), ru_failure_classification = None,
    ru_priority = priority, ru_queued_at = now, ru_started_at = None,
    ru_finished_at = (if ?sel = [] then Some now else None), ru_cancel_reason = None, ru_created_at = now, ru_updated_at = now\<rparr>"
  have r: "ru_run_id r = ?i" "ru_state r = (if ?sel = [] then RunSucceeded else RunQueued)"
    "ru_conclusion r = (if ?sel = [] then Some RunSucceeded else None)" "ru_finished_at r = (if ?sel = [] then Some now else None)"
    by (simp_all add: r_def)
  obtain st1 st2 where run: "insert_run r st = Inr st1"
    and rows: "foldE (\<lambda>name st. bindE (submitted_targets L plan resources ?i now name) (\<lambda>rows. foldE insert_target rows st)) ?sel st1 = Inr st2"
    and logs: "logs st2 st'"
    using res unfolding submit_run_def Let_def r_def [symmetric]
    by (elim bindE_InrE) (auto dest!: record_mutation_logs store_event_logs intro: logs_trans)
  obtain rss where rss: "mapE (submitted_targets L plan resources ?i now) ?sel = Inr rss" "foldE insert_target (concat rss) st1 = Inr st2"
    using foldE_rows [OF rows] by blast
  note ok = submitted_rows_ok [OF plan norm rss(1)]
  have "fresh_run r (concat rss)" using ok(3) r by (simp add: fresh_run_def)
  then have "step_ok L st st2" using add_run_ok [OF inv run rss(2)] ok(1,2) r(1) by simp
  then show ?thesis using logs by (rule step_ok_logs)
qed

lemma register_plan_ok:
  assumes "store_inv L st" "register_plan L clock plan target_resources st = Inr (x, st')"
  shows "step_ok L st st'"
  using assms plans_grow_ok upsert_snapshot_and_plan_grow by (auto simp: register_plan_def bindE_Inr_iff)

text \<open>A plan that \<open>create_test_plan\<close> returns is well layered.\<close>

lemma create_test_plan_ok:
  assumes parsed: "parse_test_manifest L' rr doc = Inr m" and ch: "\<forall>c \<in> set changes. change_ok c"
    and plan: "create_test_plan L m intent source changes requested execution launch = Inr p"
  shows "plan_ok p"
proof -
  let ?T = "tm_targets m" and ?S = "set (tp_selected_targets p)"
  obtain ic where ref: "plan_refines m intent ic source changes (sorted_set requested) p"
    and guards: "plan_request_guards m intent ic source (normalized_changes changes) (sorted_set requested) = Inr ()"
    using create_test_plan_cases [OF parsed ch, of L intent source requested execution launch] plan by auto
  define B where "B = requested_base m intent ic source (tp_eligible_targets p) (normalized_changes changes) (sorted_set requested)"
  have B: "B \<subseteq> fst ` set ?T"
    unfolding B_def by (rule requested_base_keys [OF parse_test_manifest_ok [OF parsed, THEN conjunct1] guards_requested [OF guards]])
  have waves: "waves_from (dep_rel ?T) ?S {} ?S (tp_dependency_waves p)"
    and deps: "tp_dependencies p = map (\<lambda>n. (n, sort (tc_depends_on (the (map_of ?T n))))) (tp_selected_targets p)"
    and sel: "?S = (dep_neighbours ?T)\<^sup>* `` B"
    using ref unfolding plan_refines_def Let_def B_def by - (elim conjE, assumption)+
  have P: "parsed_targets ?T" by (rule parsed_targetsI [OF parsed])
  have keys: "?S \<subseteq> fst ` set ?T"
  proof
    fix n assume "n \<in> ?S"
    then obtain b where "b \<in> B" "(b, n) \<in> (dep_neighbours ?T)\<^sup>*" using sel by auto
    then show "n \<in> fst ` set ?T" using B parsed.neighbours_keys [OF P] by (metis rtranclE subsetD)
  qed
  show ?thesis
    unfolding plan_ok_def
  proof (intro ballI conjI)
    fix n d assume n: "n \<in> ?S" and d: "d \<in> set (deps_of (tp_dependencies p) n)"
    obtain t where t: "map_of ?T n = Some t" using n keys by (metis in_keys_map_of subsetD)
    have "map_of (tp_dependencies p) n = Some (sort (tc_depends_on (the (map_of ?T n))))"
      using n unfolding deps by (simp add: map_of_map_restrict)
    then have edge: "(n, d) \<in> dep_rel ?T" using d t by (simp add: deps_of_def dep_rel_iff)
    then have "(n, d) \<in> dep_neighbours ?T" by (simp add: dep_neighbours_def)
    then show mem: "d \<in> ?S" using n unfolding sel by (meson Image_iff rtrancl.rtrancl_into_rtrancl)
    show "\<exists>i j. wave_index_of (tp_dependency_waves p) d = Some i \<and> wave_index_of (tp_dependency_waves p) n = Some j \<and> i < j"
      by (rule waves_from_index [OF waves n edge mem])
  qed
qed

end
