(* ===== verification/Store_Retry.thy ===== *)
theory Store_Retry
  imports Store_Inserts
begin

text \<open>
  Retries: the plan that \<open>retry_run\<close> derives is layered again, and the new run keeps the invariant.
\<close>

section \<open>The graph of a retry\<close>

definition deps_rel :: "string list dict \<Rightarrow> (string \<times> string) set" where
  "deps_rel deps = {(n, d). d \<in> set (deps_of deps n)}"

lemma retry_waves_from:
  assumes "retry_waves deps resolved unresolved = Inr ws" "distinct unresolved"
  shows "waves_from (deps_rel deps) UNIV (set resolved) (set unresolved) ws"
  using assms
proof (induction deps resolved unresolved arbitrary: ws rule: retry_waves.induct)
  case (1 deps resolved unresolved)
  show ?case
  proof (cases "unresolved = []")
    case True
    then show ?thesis using "1.prems" by (simp add: retry_waves.simps waves_from_Nil)
  next
    case False
    define wave where "wave = filter (\<lambda>t. set (deps_of deps t) \<subseteq> set resolved) unresolved"
    obtain ws' where ne: "wave \<noteq> []" and ws': "retry_waves deps (wave @ resolved) (filter (\<lambda>t. t \<notin> set wave) unresolved) = Inr ws'"
      "ws = sort wave # ws'"
      using "1.prems"(1) False by (subst (asm) retry_waves.simps) (auto simp: Let_def wave_def bindE_Inr_iff split: if_splits)
    have "waves_from (deps_rel deps) UNIV (set (wave @ resolved)) (set (filter (\<lambda>t. t \<notin> set wave) unresolved)) ws'"
      by (rule "1.IH" [OF False wave_def ne ws'(1)]) (use "1.prems"(2) in simp)
    moreover have "set (filter (\<lambda>t. t \<notin> set wave) unresolved) = set unresolved - set (sort wave)" by auto
    ultimately show ?thesis unfolding ws'(2)
      using ne "1.prems"(2) by (intro waves_from_Cons) (auto simp: wave_def deps_rel_def)
  qed
qed

text \<open>Without a cycle among the retried targets the loop never reports one.\<close>

lemma retry_waves_total:
  assumes "acyclic (deps_rel deps \<inter> set unresolved \<times> set unresolved)"
    and "\<forall>n \<in> set unresolved. set (deps_of deps n) \<subseteq> set resolved \<union> set unresolved"
  shows "\<exists>ws. retry_waves deps resolved unresolved = Inr ws"
  using assms
proof (induction deps resolved unresolved rule: retry_waves.induct)
  case (1 deps resolved unresolved)
  let ?R = "deps_rel deps \<inter> set unresolved \<times> set unresolved"
  show ?case
  proof (cases "unresolved = []")
    case True
    then show ?thesis by (simp add: retry_waves.simps)
  next
    case False
    define wave where "wave = filter (\<lambda>t. set (deps_of deps t) \<subseteq> set resolved) unresolved"
    have "finite ?R" by (rule finite_subset [of _ "set unresolved \<times> set unresolved"]) auto
    then have "wf (?R\<inverse>)" using "1.prems"(1) by (rule finite_acyclic_wf_converse)
    moreover have "hd unresolved \<in> set unresolved" using False by simp
    ultimately obtain n where n: "n \<in> set unresolved" "\<And>d. (d, n) \<in> ?R\<inverse> \<Longrightarrow> d \<notin> set unresolved"
      by (rule wfE_min) blast
    have "set (deps_of deps n) \<subseteq> set resolved"
    proof
      fix d assume d: "d \<in> set (deps_of deps n)"
      then have "d \<in> set resolved \<or> d \<in> set unresolved" using "1.prems"(2) n(1) by blast
      then show "d \<in> set resolved" using n(2) [of d] n(1) d by (auto simp: deps_rel_def)
    qed
    then have ne: "wave \<noteq> []" using n(1) by (auto simp: wave_def filter_empty_conv)
    have "acyclic (deps_rel deps \<inter> set (filter (\<lambda>t. t \<notin> set wave) unresolved) \<times> set (filter (\<lambda>t. t \<notin> set wave) unresolved))"
      by (rule acyclic_subset [OF "1.prems"(1)]) auto
    then obtain ws where "retry_waves deps (wave @ resolved) (filter (\<lambda>t. t \<notin> set wave) unresolved) = Inr ws"
      using "1.IH" [OF False wave_def ne] "1.prems"(2) by (auto simp: wave_def)
    then show ?thesis using False ne by (subst retry_waves.simps) (simp add: Let_def wave_def)
  qed
qed

lemma stored_plan_dependencies_sorted:
  assumes "stored_plan_dependencies plan_json = Inr deps"
  shows "sorted_set (deps_of deps n) = deps_of deps n"
proof (cases "map_of deps n")
  case (Some ds)
  have "list_all (\<lambda>(target, values). sorted_set values = values) deps"
    using assms unfolding stored_plan_dependencies_def
    by (elim bindE_InrE) (auto simp: bindE_Inr_iff list_all_iff split: option.splits json.splits prod.splits)
  then show ?thesis using map_of_SomeD [OF Some] Some by (auto simp: deps_of_def list_all_iff)
qed (simp add: deps_of_def)

lemma retry_graph_Inr:
  assumes "retry_graph plan_json names = Inr (selected, projected, waves)"
  obtains deps where "selected = sorted_set names" "selected \<noteq> []"
    "projected = map (\<lambda>t. (t, filter (\<lambda>d. d \<in> set selected) (deps_of deps t))) selected"
    "waves_from (deps_rel projected) UNIV {} (set selected) waves"
    "\<And>n. sorted_set (deps_of deps n) = deps_of deps n"
proof -
  obtain deps where "stored_plan_dependencies plan_json = Inr deps" "selected = sorted_set names" "selected \<noteq> []"
    "projected = map (\<lambda>t. (t, filter (\<lambda>d. d \<in> set selected) (deps_of deps t))) selected"
    "retry_waves projected [] selected = Inr waves"
    using assms unfolding retry_graph_def Let_def by (elim bindE_InrE) (auto simp: bindE_Inr_iff)
  moreover from this have "waves_from (deps_rel projected) UNIV {} (set selected) waves"
    using retry_waves_from [of projected "[]" selected waves] by (simp add: sorted_set_def)
  ultimately show thesis using that stored_plan_dependencies_sorted by blast
qed

section \<open>The rows of a retry\<close>

lemma sorted_set_filter: "sorted_set xs = xs \<Longrightarrow> sorted_set (filter p xs) = filter p xs"
proof -
  assume "sorted_set xs = xs"
  then have "sorted xs" "distinct xs" by (metis sorted_set_def sorted_sort distinct_sort distinct_remdups)+
  then show ?thesis by (intro sorted_set_id) (auto intro: sorted_filter [of id, simplified])
qed

lemma retried_rows_ok:
  assumes graph: "retry_graph plan_json names = Inr (selected, projected, waves)"
    and names: "set names = ta_target_name ` set rows"
    and rows: "mapE (retried_target L i waves projected now) rows = Inr rows'"
  shows "\<forall>t \<in> set rows'. fresh_row i t" "graph_ok (set rows')" "rows' \<noteq> []"
proof -
  obtain deps where g: "selected = sorted_set names" "selected \<noteq> []"
    "projected = map (\<lambda>t. (t, filter (\<lambda>d. d \<in> set selected) (deps_of deps t))) selected"
    "waves_from (deps_rel projected) UNIV {} (set selected) waves"
    "\<And>n. sorted_set (deps_of deps n) = deps_of deps n"
    using retry_graph_Inr [OF graph] by blast
  have all2: "list_all2 (\<lambda>t t'. retried_target L i waves projected now t = Inr t') rows rows'" using rows by (simp add: mapE_Inr_iff)
  have sel: "set selected = ta_target_name ` set rows" using g(1) names by simp
  have proj: "map_of projected n = Some (filter (\<lambda>d. d \<in> set selected) (deps_of deps n))" if "n \<in> set selected" for n
    using that unfolding g(3) by (simp add: map_of_map_restrict)
  have row: "fresh_row i t' \<and> ta_target_name t' \<in> set selected \<and> row_of_graph waves (deps_of projected) t'" if t': "t' \<in> set rows'" for t'
  proof -
    obtain t where t: "t \<in> set rows" "retried_target L i waves projected now t = Inr t'" using list_all2_right [OF all2 t'] by blast
    have n: "ta_target_name t \<in> set selected" using t(1) sel by blast
    define ds where "ds = filter (\<lambda>d. d \<in> set selected) (deps_of deps (ta_target_name t))"
    have ds: "map_of projected (ta_target_name t) = Some ds" "deps_of projected (ta_target_name t) = ds" "sorted_set ds = ds"
      using proj [OF n] sorted_set_filter [OF g(5)] by (simp_all add: ds_def deps_of_def)
    show ?thesis using t(2) n ds
      by (auto simp: retried_target_def fresh_row_def queued_target_def row_of_graph_def split: option.splits)
  qed
  have named: "\<exists>t' \<in> set rows'. ta_target_name t' = n" if n: "n \<in> set selected" for n
  proof -
    obtain t where t: "t \<in> set rows" "n = ta_target_name t" using n sel by blast
    then obtain t' where "t' \<in> set rows'" "retried_target L i waves projected now t = Inr t'" using list_all2_left [OF all2] by blast
    then show ?thesis using t(2) by (auto simp: retried_target_def queued_target_def split: option.splits intro!: bexI [of _ t'])
  qed
  show "\<forall>t \<in> set rows'. fresh_row i t" using row by blast
  show "rows' \<noteq> []" using named [of "hd selected"] g(2) by auto
  show "graph_ok (set rows')"
  proof (rule graph_ok_rows)
    show "\<forall>t \<in> set rows'. row_of_graph waves (deps_of projected) t" using row by blast
    show "\<forall>t \<in> set rows'. \<forall>d \<in> set (deps_of projected (ta_target_name t)). (\<exists>u \<in> set rows'. ta_target_name u = d) \<and>
        (\<exists>i j. wave_index_of waves d = Some i \<and> wave_index_of waves (ta_target_name t) = Some j \<and> i < j)"
    proof (intro ballI)
      fix t d assume t: "t \<in> set rows'" and d: "d \<in> set (deps_of projected (ta_target_name t))"
      have n: "ta_target_name t \<in> set selected" using row [OF t] by blast
      then have "d \<in> set selected" using d proj by (simp add: deps_of_def)
      moreover have "(ta_target_name t, d) \<in> deps_rel projected" using d by (simp add: deps_rel_def)
      ultimately show "(\<exists>u \<in> set rows'. ta_target_name u = d) \<and>
          (\<exists>i j. wave_index_of waves d = Some i \<and> wave_index_of waves (ta_target_name t) = Some j \<and> i < j)"
        using named waves_from_index [OF g(4) n] by blast
    qed
  qed
qed

section \<open>The derived plan document\<close>

lemma json_strings_map [simp]: "json_strings (map JStr xs) = Some xs"
  by (induction xs) auto

lemma string_array_jstrs [simp]: "string_array (jstrs xs) = Some xs"
  by (simp add: string_array_def jstrs_def)

lemma document_waves_jstrs: "map_of d ''dependency_waves'' = Some (JArr (map jstrs ws)) \<Longrightarrow> document_waves d = ws"
  by (simp add: document_waves_def map_filter_def o_def)

lemma document_dependencies_jdict: "map_of d ''dependencies'' = Some (jdict jstrs deps) \<Longrightarrow> document_dependencies d = deps"
  by (simp add: document_dependencies_def jdict_def map_filter_def o_def split_beta)

lemma map_of_other_keys: "k \<noteq> f \<Longrightarrow> map_of (filter (\<lambda>(k, _). k \<noteq> f) d) k = map_of d k"
  by (induction d) auto

lemma stored_plan_parts_map_of:
  "stored_plan_parts (JObj raw) = Inr (document, resources) \<Longrightarrow> k \<noteq> stored_plan_resources_field \<Longrightarrow>
     map_of document k = map_of raw k"
proof -
  assume "stored_plan_parts (JObj raw) = Inr (document, resources)" and k: "k \<noteq> stored_plan_resources_field"
  then have "document = filter (\<lambda>(k, _). k \<noteq> stored_plan_resources_field) raw"
    by (auto simp: stored_plan_parts_def Let_def split: option.splits json.splits)
  then show ?thesis using map_of_other_keys [OF k] by simp
qed

text \<open>The document of the derived plan holds the projected graph and its waves.\<close>

lemma retry_plan_projection_graph:
  assumes "retry_plan_projection L plan_json names = Inr rp" "stored_plan_parts (rp_document rp) = Inr (document, resources)"
  obtains selected where "retry_graph plan_json names = Inr (selected, document_dependencies document, document_waves document)"
proof -
  obtain source res where parts: "stored_plan_parts plan_json = Inr (source, res)"
    using assms(1) by (auto simp: retry_plan_projection_def split: sum.splits)
  obtain selected projected waves where g: "retry_graph plan_json names = Inr (selected, projected, waves)"
    using assms(1) by (auto simp: retry_plan_projection_def parts bindE_Inr_iff)
  obtain raw where raw: "rp_document rp = JObj raw" "map_of raw ''dependency_waves'' = Some (JArr (map jstrs waves))"
    "map_of raw ''dependencies'' = Some (jdict jstrs projected)"
    using assms(1) unfolding retry_plan_projection_def parts sum.case g bindE.simps prod.case Let_def
    by (auto simp: bindE_Inr_iff stored_plan_resources_field_def split: option.splits json.splits if_splits)
  have "map_of document ''dependency_waves'' = Some (JArr (map jstrs waves))" "map_of document ''dependencies'' = Some (jdict jstrs projected)"
    using raw stored_plan_parts_map_of [OF assms(2) [unfolded raw(1)]] by (simp_all add: stored_plan_resources_field_def)
  then show thesis using that g document_waves_jstrs document_dependencies_jdict by simp
qed

section \<open>The new run\<close>

lemma foldE_row:
  "foldE (\<lambda>x st. bindE (F x) (\<lambda>row. g row st)) xs st = Inr st' \<Longrightarrow> \<exists>rows. mapE F xs = Inr rows \<and> foldE g rows st = Inr st'"
proof (induction xs arbitrary: st)
  case (Cons x xs)
  then obtain row st1 where "F x = Inr row" "g row st = Inr st1"
    "foldE (\<lambda>x st. bindE (F x) (\<lambda>row. g row st)) xs st1 = Inr st'"
    by (auto simp: bindE_Inr_iff)
  with Cons.IH [of st1] show ?case by auto
qed simp

lemma insert_retry_plan_ok:
  assumes "store_inv L st" "insert_retry_plan source rp now st = Inr st'"
  shows "step_ok L st st'"
proof (cases "lookup_plan st (rp_plan_id rp) = None")
  case True
  then obtain p where "st' = st\<lparr>ts_plans := ts_plans st @ [p]\<rparr>"
    using assms(2) by (auto simp: insert_retry_plan_def dest: insert_plan_extends)
  then have "plans_grow st st'" unfolding plans_grow_def
    by (intro exI [of _ "[]"] exI [of _ "ts_plans st @ [p]"]) (simp add: extends_append)
  then show ?thesis by (rule plans_grow_ok [OF assms(1)])
qed (use assms in \<open>auto simp: insert_retry_plan_def step_ok_refl\<close>)

lemma retry_body_ok:
  assumes inv: "store_inv L st" and res: "retry_body L i actor failed_only op fp now st = Inr (x, st')"
  shows "step_ok L st st'"
proof -
  obtain source_run source_plan where s: "lookup_run st i = Some source_run" "lookup_plan st (ru_plan_id source_run) = Some source_plan"
    using res by (auto simp: retry_body_def split: option.splits)
  let ?sel = "retry_selection st i failed_only"
  obtain rp where rp: "retry_plan_projection L (pl_plan_json source_plan) (map ta_target_name ?sel) = Inr rp"
    using res by (auto simp: retry_body_def s bindE_Inr_iff Let_def)
  obtain document resources where doc: "stored_plan_parts (rp_document rp) = Inr (document, resources)"
    using res by (auto simp: retry_body_def s rp bindE_Inr_iff Let_def)
  show ?thesis
  proof (cases "active_execution st (rp_execution_fingerprint rp)")
    case (Some r)
    then have "logs st st'" using res by (auto simp: retry_body_def s rp doc bindE_Inr_iff Let_def dest: record_mutation_logs)
    then show ?thesis by (rule step_ok_logs [OF step_ok_refl [OF inv]])
  next
    case None
    let ?i = "digest_id L ''run-'' [''retry'', op, fp]"
    obtain st1 st2 st3 where st1: "insert_retry_plan source_plan rp now st = Inr st1"
      and st2: "insert_retry_run source_run rp ?i actor (length (remdups (map ta_target_name ?sel))) now st1 = Inr st2"
      and st3: "foldE (\<lambda>t st. bindE (retried_target L ?i (document_waves document) (document_dependencies document) now t)
        (\<lambda>row. insert_target row st)) ?sel st2 = Inr st3"
      and logs: "logs st3 st'"
      using res by (auto simp: retry_body_def s rp doc None bindE_Inr_iff Let_def
        dest!: record_mutation_logs store_event_logs intro: logs_trans)
    obtain selected where g: "retry_graph (pl_plan_json source_plan) (map ta_target_name ?sel) =
        Inr (selected, document_dependencies document, document_waves document)"
      using retry_plan_projection_graph [OF rp doc] .
    obtain rows where rows: "mapE (retried_target L ?i (document_waves document) (document_dependencies document) now) ?sel = Inr rows"
      "foldE insert_target rows st2 = Inr st3" using foldE_row [OF st3] by blast
    note ok = retried_rows_ok [OF g _ rows(1)]
    have ok1: "step_ok L st st1" by (rule insert_retry_plan_ok [OF inv st1])
    obtain r where r: "insert_run r st1 = Inr st2" "ru_run_id r = ?i" "ru_state r = RunQueued"
      using st2 by (simp add: insert_retry_run_def)
    have "step_ok L st1 st3"
      by (rule add_run_ok [OF _ r(1) rows(2)]) (use ok1 ok r in \<open>simp_all add: step_ok_def fresh_run_def\<close>)
    then show ?thesis using step_ok_logs [OF step_ok_trans [OF ok1] logs] by blast
  qed
qed

end
