(* ===== verification/Store_Machine.thy ===== *)
theory Store_Machine
  imports Store_Retry
begin

text \<open>
  The interface of the store's operations and the store as a state machine. An operation takes its
  arguments, the clock and the store; it keeps the invariant and extends history. A journaled
  operation can be repeated at any later time and answers as it did the first time.
\<close>

section \<open>The journal\<close>

lemma find_snoc: "\<forall>x \<in> set xs. \<not> p x \<Longrightarrow> p y \<Longrightarrow> find p (xs @ [y]) = Some y"
  by (induction xs) auto

lemma record_mutation_replay:
  assumes "record_mutation op kind fp x now s = Inr s'"
  shows "mutation_replay op kind fp s' = Inr (Some x)"
proof -
  let ?j = "\<lparr>jo_operation_id = op, jo_operation_kind = kind, jo_request_fingerprint = fp, jo_result = x, jo_created_at = now\<rparr>"
  have "op \<notin> jo_operation_id ` set (ts_journal s)" "ts_journal s' = ts_journal s @ [?j]"
    using assms by (simp_all add: record_mutation_Inr)
  then have "find (\<lambda>j. jo_operation_id j = op) (ts_journal s') = Some ?j" by (simp, intro find_snoc) auto
  then show ?thesis by (simp add: mutation_replay_def)
qed

lemma store_event_replay:
  "store_event L ty repository run ex detail now s = Inr s' \<Longrightarrow> mutation_replay op kind fp s = Inr (Some x) \<Longrightarrow>
     mutation_replay op kind fp s' = Inr (Some x)"
  by (auto simp: store_event_def mutation_replay_def)

lemma find_extends:
  assumes "extends (=) xs ys" "find p xs = Some x"
  shows "find p ys = Some x"
proof -
  obtain zs where "ys = xs @ zs" using assms(1) by (auto simp: extends_def list.rel_eq)
  moreover have "find p (xs @ zs) = Some x" using assms(2) by (induction xs) (auto split: if_splits)
  ultimately show ?thesis by simp
qed

lemma mutation_replay_evolves:
  assumes "evolves st st'" "mutation_replay op kind fp st = Inr (Some x)"
  shows "mutation_replay op kind fp st' = Inr (Some x)"
proof -
  obtain j where "find (\<lambda>j. jo_operation_id j = op) (ts_journal st) = Some j" using assms(2) by (auto simp: mutation_replay_def split: option.splits)
  moreover from this have "find (\<lambda>j. jo_operation_id j = op) (ts_journal st') = Some j"
    using assms(1) by (auto simp: evolves_def intro: find_extends)
  ultimately show ?thesis using assms(2) by (simp add: mutation_replay_def)
qed

section \<open>Interfaces\<close>

text \<open>The body of a journaled operation records its own result.\<close>

definition recording :: "string \<Rightarrow> string \<Rightarrow> string \<Rightarrow> (rat \<Rightarrow> test_store \<Rightarrow> store_error + json \<times> test_store) \<Rightarrow> bool" where
  "recording op kind fp body \<longleftrightarrow> (\<forall>now st x st'. body now st = Inr (x, st') \<longrightarrow> mutation_replay op kind fp st' = Inr (Some x))"

text \<open>
  An operation is framed when, for given arguments, it either rejects them whatever the store and
  the clock are, or reads the clock and runs as one journaled mutation.
\<close>

definition framed :: "(py_number \<Rightarrow> test_store \<Rightarrow> store_error + json \<times> test_store) \<Rightarrow> bool" where
  "framed operation \<longleftrightarrow> (\<exists>e. \<forall>clock st. operation clock st = Inl e) \<or>
     (\<exists>op kind fp body. recording op kind fp body \<and>
        (\<forall>clock st. operation clock st = bindE (store_now clock) (\<lambda>now. journaled op kind fp (body now) st)))"

lemma framed_bind: "(\<And>y. m = Inr y \<Longrightarrow> framed (F y)) \<Longrightarrow> framed (\<lambda>clock st. bindE m (\<lambda>y. F y clock st))"
  by (cases m) (auto simp: framed_def)

lemma framed_journaled:
  "recording op kind fp body \<Longrightarrow> framed (\<lambda>clock st. bindE (store_now clock) (\<lambda>now. journaled op kind fp (body now) st))"
  unfolding framed_def by blast

locale store_operation =
  fixes L :: pylib and valid :: "'a \<Rightarrow> bool"
    and operation :: "'a \<Rightarrow> py_number \<Rightarrow> test_store \<Rightarrow> store_error + json \<times> test_store"
  assumes keeps_inv: "valid a \<Longrightarrow> store_inv L st \<Longrightarrow> operation a clock st = Inr (x, st') \<Longrightarrow> step_ok L st st'"
begin

lemma preserves: "valid a \<Longrightarrow> store_inv L st \<Longrightarrow> operation a clock st = Inr (x, st') \<Longrightarrow> store_inv L st'"
  using keeps_inv by (simp add: step_ok_def)

lemma history: "valid a \<Longrightarrow> store_inv L st \<Longrightarrow> operation a clock st = Inr (x, st') \<Longrightarrow> evolves st st'"
  using keeps_inv by (simp add: step_ok_def)

end

locale journaled_operation = store_operation +
  assumes framed_op: "framed (operation a)"
begin

lemma replays:
  assumes "operation a clock st = Inr (x, st')" "evolves st' later" "store_now clock' = Inr now'"
  shows "operation a clock' later = Inr (x, later)"
proof -
  obtain op kind fp body where rec: "recording op kind fp body"
    and run: "\<And>clock st. operation a clock st = bindE (store_now clock) (\<lambda>now. journaled op kind fp (body now) st)"
    using framed_op [of a] assms(1) unfolding framed_def by auto
  have "mutation_replay op kind fp st' = Inr (Some x)"
    using assms(1) rec unfolding run recording_def journaled_def
    by (auto simp: bindE_Inr_iff split: option.splits)
  then have "mutation_replay op kind fp later = Inr (Some x)" by (rule mutation_replay_evolves [OF assms(2)])
  then show ?thesis by (simp add: run assms(3) journaled_def)
qed

lemma replay_unchanged:
  assumes "operation a clock st = Inr (x, st')"
  shows "operation a clock st' = Inr (x, st')"
proof -
  have "\<exists>now. store_now clock = Inr now"
    using assms framed_op [of a] unfolding framed_def by (auto simp: bindE_Inr_iff)
  then show ?thesis using replays [OF assms evolves_refl] by blast
qed

end

lemma journaled_keeps:
  "journaled op kind fp body st = Inr (x, st') \<Longrightarrow> store_inv L st \<Longrightarrow>
     (\<And>x st'. body st = Inr (x, st') \<Longrightarrow> step_ok L st st') \<Longrightarrow> step_ok L st st'"
  using step_ok_refl by (auto simp: journaled_def bindE_Inr_iff split: option.splits)

lemma begin_body_ok:
  assumes "store_inv L st" "begin_body L i g u l d dl c op fp now st = Inr (x, st')"
  shows "step_ok L st st'"
proof -
  have core: "core run_inv st" using assms(1) by (simp add: store_inv_def)
  show ?thesis using step_ok_safe [OF assms(1) reserves_safe [OF core begin_body_reserves [OF core_tables [OF core] assms(2)]]] .
qed

lemma started_body_ok:
  "store_inv L st \<Longrightarrow> started_body i g u ack s invocation op fp now st = Inr (x, st') \<Longrightarrow> step_ok L st st'"
  by (rule step_ok_safe, assumption, rule started_body_safe) (simp_all add: store_inv_def)

lemma record_progress_ok:
  "store_inv L st \<Longrightarrow> record_progress M clock clock' v g p l ob st = Inr (x, st') \<Longrightarrow> step_ok L st st'"
  by (rule step_ok_safe, assumption, rule record_progress_safe) (simp_all add: store_inv_def)

section \<open>The operations\<close>

definition begin_op where
  "begin_op L = (\<lambda>(target, generation, systemd_unit, launch_id, descriptor, deadline, commitment, op_id) clock.
     begin_execution L clock target generation systemd_unit launch_id descriptor deadline commitment op_id)"

definition started_op where
  "started_op L = (\<lambda>(execution, generation, systemd_unit, ack, started, invocation, op_id) clock.
     record_started L clock execution generation systemd_unit ack started invocation op_id)"

definition complete_op where
  "complete_op L = (\<lambda>(execution, generation, systemd_unit, package, conclusion, duration, op_id, unit_inactive, cgroup_empty, peak, cpu) clock.
     complete_from_package L clock execution generation systemd_unit package conclusion duration op_id unit_inactive cgroup_empty peak cpu)"

definition cancel_op where
  "cancel_op L = (\<lambda>(run, actor, reason, op_id) clock. request_cancel L clock run actor reason op_id)"

definition submit_op where
  "submit_op L = (\<lambda>(plan, op_id, actor, owner, priority, resources) clock.
     submit_plan L clock plan op_id actor owner priority resources)"

definition retry_op where
  "retry_op L = (\<lambda>(run, actor, failed_only, op_id) clock. retry_run L clock run actor failed_only op_id)"

definition issue_op where
  "issue_op L = (\<lambda>(run, policy, fp, required, age, op_id) clock. issue_evidence_attestation L clock run policy fp required age op_id)"

definition consume_op where
  "consume_op L = (\<lambda>(repository, snapshot, policy, op_id) clock. consume_evidence_policy L clock repository snapshot policy op_id)"

lemma recording_begin: "recording op ''execution_begin'' fp (begin_body L i g u l d dl c op fp)"
  unfolding recording_def begin_body_def Let_def
  by (auto simp: bindE_Inr_iff split: option.splits intro: store_event_replay record_mutation_replay)

interpretation reservation: journaled_operation L "\<lambda>_. True" "begin_op L" for L
proof unfold_locales
  show "framed (begin_op L a)" for a
    unfolding begin_op_def begin_execution_def Let_def split_beta
    by (intro framed_bind framed_journaled recording_begin)
  show "step_ok L st st'" if "store_inv L st" "begin_op L a clock st = Inr (x, st')" for a st clock x st'
    using that(2,1) unfolding begin_op_def begin_execution_def Let_def split_beta
    by (elim bindE_InrE) (erule (1) journaled_keeps, erule (1) begin_body_ok)
qed

lemma recording_start: "recording op ''execution_started'' fp (started_body i g u ack s invocation op fp)"
  unfolding recording_def started_body_def Let_def
  by (auto simp: bindE_Inr_iff split: option.splits if_splits intro: store_event_replay record_mutation_replay)

interpretation start: journaled_operation L "\<lambda>_. True" "started_op L" for L
proof unfold_locales
  show "framed (started_op L a)" for a
    unfolding started_op_def record_started_def Let_def split_beta
    by (intro framed_bind framed_journaled recording_start)
  show "step_ok L st st'" if "store_inv L st" "started_op L a clock st = Inr (x, st')" for a st clock x st'
    using that(2,1) unfolding started_op_def record_started_def Let_def split_beta
    by (elim bindE_InrE) (erule (1) journaled_keeps, erule (1) started_body_ok)
qed

lemma recording_cancellation: "recording op ''cancel'' fp (cancel_body i reason op fp)"
  unfolding recording_def cancel_body_def Let_def
  by (auto simp: bindE_Inr_iff split: option.splits if_splits intro: store_event_replay record_mutation_replay)

interpretation cancellation: journaled_operation L "\<lambda>_. True" "cancel_op L" for L
proof unfold_locales
  show "framed (cancel_op L a)" for a
    unfolding cancel_op_def request_cancel_def Let_def split_beta
    by (intro framed_bind framed_journaled recording_cancellation)
  show "step_ok L st st'" if "store_inv L st" "cancel_op L a clock st = Inr (x, st')" for a st clock x st'
    using that(2,1) unfolding cancel_op_def request_cancel_def Let_def split_beta
    by (elim bindE_InrE) (erule (1) journaled_keeps, erule (1) cancel_body_ok)
qed

lemma recording_retrying: "recording op ''retry'' fp (retry_body L i actor failed_only op fp)"
  unfolding recording_def retry_body_def Let_def
  by (auto simp: bindE_Inr_iff split: option.splits if_splits intro: store_event_replay record_mutation_replay)

interpretation retrying: journaled_operation L "\<lambda>_. True" "retry_op L" for L
proof unfold_locales
  show "framed (retry_op L a)" for a
    unfolding retry_op_def retry_run_def Let_def split_beta
    by (intro framed_bind framed_journaled recording_retrying)
  show "step_ok L st st'" if "store_inv L st" "retry_op L a clock st = Inr (x, st')" for a st clock x st'
    using that(2,1) unfolding retry_op_def retry_run_def Let_def split_beta
    by (elim bindE_InrE) (erule (1) journaled_keeps, erule (1) retry_body_ok)
qed

lemma recording_attestation: "recording op ''evidence_attestation'' fp (issue_body L i n f ts age op fp)"
  unfolding recording_def issue_body_def Let_def
  by (auto simp: bindE_Inr_iff split: option.splits if_splits intro: store_event_replay record_mutation_replay)

interpretation attestation: journaled_operation L "\<lambda>_. True" "issue_op L" for L
proof unfold_locales
  show "framed (issue_op L a)" for a
    unfolding issue_op_def issue_evidence_attestation_def Let_def split_beta
    by (intro framed_bind framed_journaled recording_attestation)
  show "step_ok L st st'" if "store_inv L st" "issue_op L a clock st = Inr (x, st')" for a st clock x st'
    using that(2,1) unfolding issue_op_def issue_evidence_attestation_def Let_def split_beta
    by (elim bindE_InrE) (erule (1) journaled_keeps, erule (1) issue_body_ok)
qed

lemma recording_consumption: "recording op ''evidence_consume'' fp (consume_body L r sn n op fp)"
  unfolding recording_def consume_body_def Let_def
  by (auto simp: bindE_Inr_iff split: option.splits if_splits intro: store_event_replay record_mutation_replay)

interpretation consumption: journaled_operation L "\<lambda>_. True" "consume_op L" for L
proof unfold_locales
  show "framed (consume_op L a)" for a
    unfolding consume_op_def consume_evidence_policy_def Let_def split_beta
    by (intro framed_bind framed_journaled recording_consumption)
  show "step_ok L st st'" if "store_inv L st" "consume_op L a clock st = Inr (x, st')" for a st clock x st'
    using that(2,1) unfolding consume_op_def consume_evidence_policy_def Let_def split_beta
    by (elim bindE_InrE) (erule (1) journaled_keeps, erule (1) consume_body_ok)
qed

lemma recording_completion: "recording op ''execution_complete'' fp (complete_body L i g u cp pf c d peak cpu op fp)"
  unfolding recording_def complete_body_def Let_def
  by (auto simp: bindE_Inr_iff split: option.splits) (erule store_event_replay, erule record_mutation_replay)

interpretation completion: journaled_operation L "\<lambda>_. True" "complete_op L" for L
proof unfold_locales
  show "framed (complete_op L a)" for a
    unfolding complete_op_def complete_from_package_def Let_def split_beta
    by (intro framed_bind framed_journaled recording_completion)
  show "step_ok L st st'" if "store_inv L st" "complete_op L a clock st = Inr (x, st')" for a st clock x st'
    using that(2,1) unfolding complete_op_def complete_from_package_def Let_def split_beta
    by (elim bindE_InrE) (erule (1) journaled_keeps, erule (2) complete_body_ok)
qed

definition submit_body ::
  "pylib \<Rightarrow> test_plan \<Rightarrow> string \<Rightarrow> string \<Rightarrow> string \<Rightarrow> int \<Rightarrow> int \<Rightarrow> normal_resources dict \<Rightarrow> rat \<Rightarrow> test_store
     \<Rightarrow> store_error + json \<times> test_store" where
  "submit_body L plan op fp actor owner priority resources now st =
     bindE (upsert_snapshot_and_plan L plan now (Some resources) st) (\<lambda>st.
     case active_execution st (tp_execution_fingerprint plan) of
       Some r \<Rightarrow>
         (let result = submission_document (ru_run_id r) (run_state_value (ru_state r)) True in
          bindE (record_mutation op ''submit'' fp result now st) (\<lambda>st. Inr (result, st)))
     | None \<Rightarrow> submit_run L plan op fp actor owner priority resources now st)"

lemma submit_body_eta: "(\<lambda>st. bindE (upsert_snapshot_and_plan L plan now (Some resources) st) (\<lambda>st.
     case active_execution st (tp_execution_fingerprint plan) of
       Some r \<Rightarrow> bindE (record_mutation op ''submit'' fp (submission_document (ru_run_id r) (run_state_value (ru_state r)) True) now st)
         (\<lambda>st. Inr (submission_document (ru_run_id r) (run_state_value (ru_state r)) True, st))
     | None \<Rightarrow> submit_run L plan op fp actor owner priority resources now st)) =
   submit_body L plan op fp actor owner priority resources now"
  by (rule ext) (simp add: submit_body_def Let_def cong: option.case_cong)

lemma recording_submission: "recording op ''submit'' fp (submit_body L plan op fp actor owner priority resources)"
  unfolding recording_def submit_body_def submit_run_def Let_def
  by (auto simp: bindE_Inr_iff split: option.splits intro: store_event_replay record_mutation_replay)

lemma submit_body_ok:
  assumes inv: "store_inv L st" and plan: "plan_ok plan" and norm: "normalize_resources plan supplied = Inr resources"
    and res: "submit_body L plan op fp actor owner priority resources now st = Inr (x, st')"
  shows "step_ok L st st'"
proof -
  obtain st1 where st1: "upsert_snapshot_and_plan L plan now (Some resources) st = Inr st1"
    using res by (auto simp: submit_body_def bindE_Inr_iff)
  have ok1: "step_ok L st st1" by (rule plans_grow_ok [OF inv upsert_snapshot_and_plan_grow [OF st1]])
  then have inv1: "store_inv L st1" by (simp add: step_ok_def)
  show ?thesis
  proof (cases "active_execution st1 (tp_execution_fingerprint plan)")
    case None
    then have "submit_run L plan op fp actor owner priority resources now st1 = Inr (x, st')" using res st1 by (simp add: submit_body_def)
    then show ?thesis using step_ok_trans [OF ok1] submit_run_ok [OF inv1 plan norm] by blast
  next
    case (Some r)
    then have "logs st1 st'" using res st1 by (auto simp: submit_body_def Let_def bindE_Inr_iff dest: record_mutation_logs)
    then show ?thesis by (rule step_ok_logs [OF ok1])
  qed
qed

interpretation submission: journaled_operation L "\<lambda>a. plan_ok (fst a)" "submit_op L" for L
proof unfold_locales
  show "framed (submit_op L a)" for a
    unfolding submit_op_def submit_plan_def Let_def split_beta submit_body_eta
    by (intro framed_bind framed_journaled recording_submission)
  show "step_ok L st st'" if "plan_ok (fst a)" "store_inv L st" "submit_op L a clock st = Inr (x, st')" for a st clock x st'
    using that(3,1,2) unfolding submit_op_def submit_plan_def Let_def split_beta submit_body_eta
    by (elim bindE_InrE) (erule (1) journaled_keeps, erule (3) submit_body_ok)
qed

section \<open>The state machine\<close>

text \<open>
  One request to the store: every operation that writes, with its arguments. \<open>Progress\<close> carries the
  reading of the clock for its event.
\<close>

datatype store_request =
    Register test_plan "target_resources dict option"
  | Submit "test_plan \<times> string \<times> json \<times> json \<times> json \<times> target_resources dict"
  | Retry "json \<times> json \<times> bool \<times> string"
  | Begin "json \<times> json \<times> json \<times> string \<times> json \<times> py_number \<times> json \<times> string"
  | Start "json \<times> json \<times> json \<times> json \<times> py_number \<times> json option \<times> string"
  | Progress py_number json json output_progress "py_number option" py_number
  | Complete "json \<times> json \<times> json \<times> execution_result_package \<times> string \<times> py_number \<times> string \<times> bool \<times> bool \<times> int option \<times> py_number option"
  | Cancel "json \<times> json \<times> json \<times> string"
  | Issue "json \<times> json \<times> json \<times> json list \<times> json \<times> string"
  | Consume "json \<times> json \<times> json \<times> string"
  | Decide "json list" "wait_reason list"
  | Reconcile "py_number option"

primrec perform :: "pylib \<Rightarrow> store_request \<Rightarrow> py_number \<Rightarrow> test_store \<Rightarrow> store_error + json \<times> test_store" where
  "perform L (Register plan resources) clock st = register_plan L clock plan resources st"
| "perform L (Submit a) clock st = submit_op L a clock st"
| "perform L (Retry a) clock st = retry_op L a clock st"
| "perform L (Begin a) clock st = begin_op L a clock st"
| "perform L (Start a) clock st = started_op L a clock st"
| "perform L (Progress clock' execution generation reported last_value observed) clock st =
     record_progress L clock clock' execution generation reported last_value observed st"
| "perform L (Complete a) clock st = complete_op L a clock st"
| "perform L (Cancel a) clock st = cancel_op L a clock st"
| "perform L (Issue a) clock st = issue_op L a clock st"
| "perform L (Consume a) clock st = consume_op L a clock st"
| "perform L (Decide selected rejected) clock st =
     bindE (record_schedule_decision clock selected rejected st) (\<lambda>st. Inr (JNull, st))"
| "perform L (Reconcile now) clock st = reconcile_nonterminal_runs clock now st"

text \<open>Only plans that are well layered are submitted.\<close>

primrec valid_request :: "store_request \<Rightarrow> bool" where
  "valid_request (Register plan resources) = True"
| "valid_request (Submit a) = plan_ok (fst a)"
| "valid_request (Retry a) = True"
| "valid_request (Begin a) = True"
| "valid_request (Start a) = True"
| "valid_request (Progress clock' execution generation reported last_value observed) = True"
| "valid_request (Complete a) = True"
| "valid_request (Cancel a) = True"
| "valid_request (Issue a) = True"
| "valid_request (Consume a) = True"
| "valid_request (Decide selected rejected) = True"
| "valid_request (Reconcile now) = True"

text \<open>The requests that carry an operation identifier.\<close>

definition journaled_request :: "store_request \<Rightarrow> bool" where
  "journaled_request r = (case r of Register _ _ \<Rightarrow> False | Progress _ _ _ _ _ _ \<Rightarrow> False | Decide _ _ \<Rightarrow> False
     | Reconcile _ \<Rightarrow> False | _ \<Rightarrow> True)"

lemma reconcile_ok:
  assumes inv: "store_inv L st" and res: "reconcile_nonterminal_runs clock now st = Inr (x, st')"
  shows "step_ok L st st'"
proof -
  have core: "core run_inv st" using inv by (simp add: store_inv_def)
  obtain t where "(case now of None \<Rightarrow> store_now clock | Some v \<Rightarrow> finite_nonnegative ''now'' v) = Inr t"
    using res by (auto simp: reconcile_nonterminal_runs_def bindE_Inr_iff)
  then have "st' = st" using reconcile_nonterminal_runs_fixpoint [OF core] res by simp
  then show ?thesis using inv by (simp add: step_ok_refl)
qed

interpretation machine: store_operation L valid_request "perform L" for L
proof unfold_locales
  show "step_ok L st st'" if "valid_request a" "store_inv L st" "perform L a clock st = Inr (x, st')" for a st clock x st'
    using that
    by (cases a) (auto simp: bindE_Inr_iff elim: register_plan_ok record_progress_ok reconcile_ok
      submission.keeps_inv [rotated 2] retrying.keeps_inv [rotated 2] reservation.keeps_inv [rotated 2]
      start.keeps_inv [rotated 2] completion.keeps_inv [rotated 2] cancellation.keeps_inv [rotated 2]
      attestation.keeps_inv [rotated 2] consumption.keeps_inv [rotated 2]
      dest: record_schedule_decision_decides intro: decides_ok)
qed

text \<open>A step of the machine is a request that succeeds; a request that fails is rolled back.\<close>

inductive store_step :: "pylib \<Rightarrow> test_store \<Rightarrow> test_store \<Rightarrow> bool" for L where
  request: "valid_request r \<Longrightarrow> perform L r clock st = Inr (x, st') \<Longrightarrow> store_step L st st'"

inductive reachable :: "pylib \<Rightarrow> test_store \<Rightarrow> bool" for L where
  initial: "reachable L (create_store generation)"
| step: "reachable L st \<Longrightarrow> store_step L st st' \<Longrightarrow> reachable L st'"

inductive_cases store_stepE: "store_step L st st'"

lemma create_store_inv: "store_inv L (create_store generation)"
  by (simp add: store_inv_def core_def tables_ok_def runs_ok_def slots_ok_def evidence_ok_def create_store_def)

lemma store_step_ok: "store_step L st st' \<Longrightarrow> store_inv L st \<Longrightarrow> step_ok L st st'"
  by (erule store_stepE) (rule machine.keeps_inv)

lemma reachable_inv: "reachable L st \<Longrightarrow> store_inv L st"
proof (induction rule: reachable.induct)
  case (step st st')
  then show ?case using store_step_ok by (simp add: step_ok_def)
qed (rule create_store_inv)

lemma steps_evolve:
  assumes "(store_step L)\<^sup>*\<^sup>* st st'" "reachable L st"
  shows "evolves st st' \<and> reachable L st'"
  using assms
proof induction
  case (step st' st'')
  then have "step_ok L st' st''" using store_step_ok reachable_inv by blast
  then show ?case using step reachable.step evolves_trans by (blast intro: evolves_trans dest: step_ok_def [THEN iffD1])
qed simp

end
