(* ===== verification/Store_Properties.thy ===== *)
theory Store_Properties
  imports Store_Machine
begin

text \<open>
  What the test store guarantees in every state that requests can reach: the properties of
  \<open>universal_test_store.py\<close> as a whole.
\<close>

lemma reachable_core: "reachable L st \<Longrightarrow> core run_inv st"
  using reachable_inv by (auto simp: store_inv_def)

lemma reachable_run:
  assumes "reachable L st" "r \<in> set (ts_runs st)"
  shows "run_inv r (rows_of st (ru_run_id r))"
  using core_runD [OF reachable_core [OF assms(1)] assms(2)] .

lemma reachable_targets:
  assumes "reachable L st" "t \<in> set (ts_targets st)"
  shows "targets_ok (rows_of st (ta_run_id t))" "t \<in> rows_of st (ta_run_id t)"
proof -
  obtain r where "r \<in> set (ts_runs st)" "ru_run_id r = ta_run_id t" using core_run_of [OF reachable_core [OF assms(1)] assms(2)] by blast
  then show "targets_ok (rows_of st (ta_run_id t))" using reachable_run [OF assms(1), of r] by (simp add: run_inv_def)
  show "t \<in> rows_of st (ta_run_id t)" by (rule upd_rows [OF assms(2)])
qed

lemma failed_target_iff: "failed_target s \<longleftrightarrow> (\<exists>c. s = Terminal c \<and> c \<noteq> SUCCEEDED)"
  by (cases s) (auto simp: failed_target_def)

section \<open>Executions\<close>

text \<open>
  C1. Dependency order: in every reachable store, a target that was ever handed to an execution has
  all its dependencies present in the same run, and every shard of every dependency has succeeded.
\<close>
theorem execution_after_dependencies:
  assumes "reachable L st" and "t \<in> set (ts_targets st)" "ta_execution t \<noteq> None" and "d \<in> set (ta_dependencies t)"
  shows "(\<exists>u \<in> set (ts_targets st). ta_run_id u = ta_run_id t \<and> ta_target_name u = d) \<and>
    (\<forall>u \<in> set (ts_targets st). ta_run_id u = ta_run_id t \<and> ta_target_name u = d \<longrightarrow> ta_state u = Terminal SUCCEEDED)"
proof -
  have "deps_done (rows_of st (ta_run_id t)) t" using targets_okD(2) [OF reachable_targets [OF assms(1,2)] assms(3)] .
  then show ?thesis using assms(4) unfolding deps_done_def rows_of_def by blast
qed

text \<open>
  C19. A success is proved: in every reachable store a target that concluded as succeeded was
  executed, its reporter was complete, and not one of its cases failed or had an error.
\<close>
theorem success_has_evidence:
  assumes "reachable L st" and "t \<in> set (ts_targets st)" "ta_state t = Terminal SUCCEEDED"
  shows "\<exists>e. ta_terminal t = Some e \<and> ta_execution t \<noteq> None \<and> te_reporter_complete e \<and> te_failed_count e = 0 \<and> te_error_count e = 0"
  using core_slot [OF reachable_core [OF assms(1)] assms(2)] assms(3) by (auto simp: slot_ok_def split: option.splits)

text \<open>
  C20. Identity of executions: in every reachable store no two targets share an execution, a systemd
  unit or a launch operation, and no two active runs have the same execution fingerprint.
\<close>
theorem execution_identity_unique:
  assumes "reachable L st"
  shows "(\<forall>t \<in> set (ts_targets st). \<forall>u \<in> set (ts_targets st). \<forall>e f. ta_execution t = Some e \<and> ta_execution u = Some f \<and>
      (ex_execution_id e = ex_execution_id f \<or> ex_systemd_unit e = ex_systemd_unit f \<or>
       ex_launch_operation_id e = ex_launch_operation_id f) \<longrightarrow> t = u) \<and>
    (\<forall>r \<in> set (ts_runs st). \<forall>s \<in> set (ts_runs st). active_run (ru_state r) \<and> active_run (ru_state s) \<and>
      ru_execution_fingerprint r = ru_execution_fingerprint s \<longrightarrow> r = s)"
proof (intro conjI ballI allI impI)
  have tab: "tables_ok st" by (rule core_tables [OF reachable_core [OF assms]])
  fix t u e f assume tu: "t \<in> set (ts_targets st)" "u \<in> set (ts_targets st)" and h: "ta_execution t = Some e \<and> ta_execution u = Some f \<and>
      (ex_execution_id e = ex_execution_id f \<or> ex_systemd_unit e = ex_systemd_unit f \<or>
       ex_launch_operation_id e = ex_launch_operation_id f)"
  then have "slot_conflict e u" by (auto simp: slot_conflict_def)
  then have "ta_target_id t = ta_target_id u" using tab tu h unfolding tables_ok_def slots_ok_def by metis
  then show "t = u" using same_target [OF tab tu] by simp
next
  have tab: "tables_ok st" by (rule core_tables [OF reachable_core [OF assms]])
  fix r s assume rs: "r \<in> set (ts_runs st)" "s \<in> set (ts_runs st)" and "active_run (ru_state r) \<and> active_run (ru_state s) \<and>
      ru_execution_fingerprint r = ru_execution_fingerprint s"
  then have "ru_run_id r = ru_run_id s" using tab unfolding tables_ok_def runs_ok_def by blast
  then show "r = s" using lookup_run_Some [OF tab] rs by (metis option.inject)
qed

section \<open>Runs\<close>

text \<open>
  C7. The state of a run agrees with its targets: a run is active exactly while one of its targets
  is queued or being executed; it is recorded as succeeded only when every target succeeded, and as
  failed, timed out or incomplete only when a target did not; a finished run has its end time and its
  conclusion.
\<close>
theorem run_state_agrees:
  assumes "reachable L st" and "r \<in> set (ts_runs st)"
  shows "(active_run (ru_state r) \<longleftrightarrow> (\<exists>t \<in> set (run_targets st (ru_run_id r)). ta_state t = Queued \<or> active_target (ta_state t))) \<and>
    (ru_state r = RunSucceeded \<longrightarrow> (\<forall>t \<in> set (run_targets st (ru_run_id r)). ta_state t = Terminal SUCCEEDED)) \<and>
    (ru_state r \<in> {RunFailed, RunTimedOut, RunIncomplete} \<longrightarrow>
      (\<exists>t \<in> set (run_targets st (ru_run_id r)). \<exists>c. ta_state t = Terminal c \<and> c \<noteq> SUCCEEDED)) \<and>
    (\<not> active_run (ru_state r) \<longrightarrow> ru_finished_at r \<noteq> None \<and> ru_conclusion r = Some (ru_state r))"
proof -
  let ?S = "rows_of st (ru_run_id r)"
  have inv: "run_inv r ?S" by (rule reachable_run [OF assms])
  then have ok: "state_ok (ru_state r) ?S" by (simp add: run_inv_def)
  have "active_run (ru_state r) \<longleftrightarrow> (\<exists>t \<in> ?S. pending t)"
  proof
    assume "active_run (ru_state r)"
    then show "\<exists>t \<in> ?S. pending t" using ok active_pending by (auto simp: active_run_def state_ok_calm) blast
  next
    assume "\<exists>t \<in> ?S. pending t"
    then show "active_run (ru_state r)" using pending_active [OF ok] by blast
  qed
  moreover have "ru_state r \<in> {RunFailed, RunTimedOut, RunIncomplete} \<longrightarrow> (\<exists>t \<in> ?S. failed_target (ta_state t))"
    using ok by (auto simp: state_ok_def)
  then have "ru_state r \<in> {RunFailed, RunTimedOut, RunIncomplete} \<longrightarrow> (\<exists>t \<in> ?S. \<exists>c. ta_state t = Terminal c \<and> c \<noteq> SUCCEEDED)"
    unfolding failed_target_iff by blast
  moreover have "ru_state r = RunSucceeded \<longrightarrow> (\<forall>t \<in> ?S. ta_state t = Terminal SUCCEEDED)" using ok by (auto simp: state_ok_def)
  ultimately show ?thesis using inv by (simp add: pending_def run_inv_def)
qed

text \<open>
  C14. No run gets stuck: in every reachable store an open run has a target that is being executed,
  or a queued target that \<open>begin_execution\<close> would find runnable, with all its dependencies
  succeeded; a run that is being cancelled has a target whose execution is still being stopped.
\<close>
theorem run_progress:
  assumes "reachable L st" and "r \<in> set (ts_runs st)" and "active_run (ru_state r)"
  shows "(\<exists>t \<in> set (run_targets st (ru_run_id r)). active_target (ta_state t)) \<or>
    ru_state r \<noteq> RunCancelling \<and> (\<exists>t \<in> set (run_targets st (ru_run_id r)). ta_state t = Queued \<and>
      target_dependencies_succeeded (run_targets st (ru_run_id r)) (ta_dependencies t))"
proof (cases "ru_state r = RunCancelling")
  case True
  then show ?thesis using reachable_run [OF assms(1,2)] by (simp add: run_inv_def state_ok_calm)
next
  case False
  then show ?thesis
    using run_not_stuck [OF reachable_run [OF assms(1,2)]] assms(3)
    by (simp add: active_run_def target_dependencies_succeeded_iff)
qed


text \<open>
  Every reachable store is reconciled: \<open>reconcile_nonterminal_runs\<close> succeeds at any valid time,
  visits up to its bound of active runs, reports no changed run and leaves the store as it is.
\<close>
lemma reconcile_quiescent:
  assumes "reachable L st" and "store_now clock = Inr now"
  shows "reconcile_nonterminal_runs clock None st = Inr (JObj
    [(''processed_run_ids'', jstrs (map ru_run_id (reconcile_rows st))), (''changed_runs'', JArr []),
     (''more_candidates'', JBool (max_nonterminal_runs_per_reconcile < length (filter (\<lambda>r. active_run (ru_state r)) (ts_runs st))))], st)"
  by (rule reconcile_nonterminal_runs_fixpoint [OF reachable_core [OF assms(1)]]) (simp add: assms(2))

section \<open>History\<close>

lemma extends_eq_set: "extends (=) xs ys \<Longrightarrow> set xs \<subseteq> set ys"
  by (auto dest: extends_mem)

text \<open>
  C6. History is immutable: whatever requests follow, a target with a conclusion and a finished run
  stay exactly as they are, and no journal entry, event, case result, failure, artifact, attestation
  or consumption is changed or lost.
\<close>
theorem history_immutable:
  assumes "reachable L st" and "(store_step L)\<^sup>*\<^sup>* st later"
  shows "{t \<in> set (ts_targets st). \<exists>c. ta_state t = Terminal c} \<subseteq> set (ts_targets later) \<and>
    {r \<in> set (ts_runs st). \<not> active_run (ru_state r)} \<subseteq> set (ts_runs later) \<and>
    set (ts_journal st) \<subseteq> set (ts_journal later) \<and> set (ts_events st) \<subseteq> set (ts_events later) \<and>
    set (ts_cases st) \<subseteq> set (ts_cases later) \<and> set (ts_failures st) \<subseteq> set (ts_failures later) \<and>
    set (ts_artifacts st) \<subseteq> set (ts_artifacts later) \<and> set (ts_attestations st) \<subseteq> set (ts_attestations later) \<and>
    set (ts_consumptions st) \<subseteq> set (ts_consumptions later)"
proof -
  have ev: "evolves st later" using steps_evolve [OF assms(2,1)] by blast
  have "t \<in> set (ts_targets later)" if "t \<in> set (ts_targets st)" "ta_state t = Terminal c" for t c
    using evolves_target [OF ev that(1)] keeps_terminal [OF _ that(2)] by blast
  moreover have "r \<in> set (ts_runs later)" if "r \<in> set (ts_runs st)" "\<not> active_run (ru_state r)" for r
    using evolves_finished_run [OF ev that] .
  ultimately show ?thesis using ev by (auto simp: evolves_def dest!: extends_eq_set)
qed

text \<open>
  C5. Repeating a request is safe: once a request that carries an operation identifier has
  succeeded, the same request at any later time, however the store has changed since, returns the same
  result and changes nothing.
\<close>
theorem request_idempotent:
  assumes "reachable L st" and "valid_request r" "journaled_request r" "perform L r clock st = Inr (x, st')"
    and "(store_step L)\<^sup>*\<^sup>* st' later" and "store_now clock' = Inr now'"
  shows "perform L r clock' later = Inr (x, later)"
proof -
  have "reachable L st'" using reachable.step [OF assms(1) store_step.request [OF assms(2,4)]] .
  then have ev: "evolves st' later" using steps_evolve [OF assms(5)] by blast
  show ?thesis
    using assms(3,4) by (cases r) (auto simp: journaled_request_def intro: submission.replays [OF _ ev assms(6)]
      retrying.replays [OF _ ev assms(6)] reservation.replays [OF _ ev assms(6)] start.replays [OF _ ev assms(6)]
      completion.replays [OF _ ev assms(6)] cancellation.replays [OF _ ev assms(6)]
      attestation.replays [OF _ ev assms(6)] consumption.replays [OF _ ev assms(6)])
qed

section \<open>Evidence\<close>

text \<open>
  C4. Evidence is earned: in every reachable store an attestation names a run of its repository that
  finished as succeeded and a policy with the recorded fingerprint, every target the policy requires
  belongs to that run and succeeded, and the attestation expires the policy's age after the run's end.
\<close>
theorem attestation_sound:
  assumes "reachable L st" and "a \<in> set (ts_attestations st)"
  shows "\<exists>r \<in> set (ts_runs st). \<exists>policy finished. ru_run_id r = at_run_id a \<and> ru_state r = RunSucceeded \<and>
    ru_repository_id r = at_repository_id a \<and> ru_finished_at r = Some finished \<and> ep_name policy = at_policy_name a \<and>
    evidence_policy_fingerprint L policy = at_policy_fingerprint a \<and>
    at_expires_at a = fl64 (finished + of_int (ep_max_age_seconds policy)) \<and>
    (\<forall>n \<in> set (ep_required_targets policy). \<exists>t \<in> set (run_targets st (at_run_id a)).
       ta_target_name t = n \<and> ta_state t = Terminal SUCCEEDED)"
proof -
  have "attested L st a" using reachable_inv [OF assms(1)] assms(2) by (auto simp: store_inv_def evidence_ok_def)
  then obtain r policy finished where r: "r \<in> set (ts_runs st)" "ru_run_id r = at_run_id a" "ru_state r = RunSucceeded"
    "ru_repository_id r = at_repository_id a" "ru_finished_at r = Some finished" "ep_name policy = at_policy_name a"
    "evidence_policy_fingerprint L policy = at_policy_fingerprint a"
    "at_expires_at a = fl64 (finished + of_int (ep_max_age_seconds policy))"
    and req: "set (ep_required_targets policy) \<subseteq> ta_target_name ` rows_of st (at_run_id a)"
    unfolding attested_def by blast
  have "\<forall>t \<in> rows_of st (at_run_id a). ta_state t = Terminal SUCCEEDED"
    using reachable_run [OF assms(1) r(1)] r(2,3) by (simp add: run_inv_def state_ok_def)
  then have "\<forall>n \<in> set (ep_required_targets policy). \<exists>t \<in> rows_of st (at_run_id a). ta_target_name t = n \<and> ta_state t = Terminal SUCCEEDED"
    using req by blast
  then show ?thesis using r by (intro bexI [of _ r] exI [of _ policy] exI [of _ finished]) simp_all
qed

text \<open>
  C21. Evidence that may not be reused is used once: in every reachable store attestations have
  distinct identifiers, and each is consumed by at most one recorded consumption, which names an
  existing attestation.
\<close>
theorem consumption_single_use:
  assumes "reachable L st"
  shows "distinct (map at_attestation_id (ts_attestations st)) \<and> distinct (map co_attestation_id (ts_consumptions st)) \<and>
    co_attestation_id ` set (ts_consumptions st) \<subseteq> at_attestation_id ` set (ts_attestations st)"
  using reachable_inv [OF assms] by (simp add: store_inv_def evidence_ok_def)

section \<open>Results\<close>

text \<open>
  Verdicts: the conclusion that is stored is the requested one, except that a success without
  a complete report becomes incomplete; success is stored exactly when it was requested with a
  complete report without measured failure, a measured failure in a complete report is always stored
  as a test failure, and a test failure is never stored without one.
\<close>
lemma settle_conclusion_verdict:
  assumes "settle_conclusion cp requested = Inr c"
  shows "(c = SUCCEEDED \<longleftrightarrow> requested = SUCCEEDED \<and> cp_reporter_complete cp \<and> \<not> measured_failure cp) \<and>
    (cp_reporter_complete cp \<and> measured_failure cp \<longrightarrow> c = TEST_FAILED) \<and> (c = TEST_FAILED \<longrightarrow> measured_failure cp) \<and>
    (c = requested \<or> requested = SUCCEEDED \<and> c = INCOMPLETE)"
  using assms by (auto simp: settle_conclusion_def Let_def measured_failure_def split: if_splits)

lemma check_cases_distinct:
  assumes "foldE check_case cs rows = Inr rows'" "distinct (map cr_case_id rows)"
  shows "distinct (map cr_case_id rows') \<and> length rows' = length rows + length cs"
  using assms
proof (induction cs arbitrary: rows)
  case (Cons c cs)
  obtain mid where mid: "check_case c rows = Inr mid" "foldE check_case cs mid = Inr rows'" using Cons.prems(1) by (auto simp: bindE_Inr_iff)
  then obtain row where "mid = rows @ [row]" "cr_case_id row \<notin> cr_case_id ` set rows"
    by (auto simp: check_case_def bindE_Inr_iff)
  then show ?case using Cons.IH [OF mid(2)] Cons.prems(2) by simp
qed simp

lemma check_failures_bound:
  assumes "foldE (check_failure failed) fs rows = Inr rows'" "distinct (map fr_failure_id rows)"
    and "\<forall>f \<in> set rows. \<forall>c. fr_case_id f = Some c \<longrightarrow> c \<in> set failed"
  shows "distinct (map fr_failure_id rows') \<and> length rows' = length rows + length fs \<and>
    (\<forall>f \<in> set rows'. \<forall>c. fr_case_id f = Some c \<longrightarrow> c \<in> set failed)"
  using assms
proof (induction fs arbitrary: rows)
  case (Cons f fs)
  obtain mid where mid: "check_failure failed f rows = Inr mid" "foldE (check_failure failed) fs mid = Inr rows'"
    using Cons.prems(1) by (auto simp: bindE_Inr_iff)
  obtain row where row: "mid = rows @ [row]" "fr_failure_id row \<notin> fr_failure_id ` set rows"
    "\<forall>c. fr_case_id row = Some c \<longrightarrow> c \<in> set failed"
    using mid(1) unfolding check_failure_def by (elim bindE_InrE) (auto split: option.splits)
  have "distinct (map fr_failure_id mid)" "\<forall>f \<in> set mid. \<forall>c. fr_case_id f = Some c \<longrightarrow> c \<in> set failed" "length mid = Suc (length rows)"
    using row Cons.prems(2,3) by auto
  then show ?case using Cons.IH [OF mid(2)] by simp
qed simp

lemma map_filter_inj:
  assumes "distinct (List.map_filter f xs)" "distinct xs" "x \<in> set xs" "y \<in> set xs" "f x = Some v" "f y = Some v"
  shows "x = y"
  using assms
proof (induction xs)
  case (Cons z xs)
  have hit: "v \<in> set (List.map_filter f xs)" if "w \<in> set xs" "f w = Some v" for w
    using that by (force simp: map_filter_def)
  have dist: "distinct (List.map_filter f xs)" "distinct xs" and fresh: "f z = Some v \<Longrightarrow> v \<notin> set (List.map_filter f xs)"
    using Cons.prems(1,2) by (auto simp: map_filter_simps split: option.splits)
  show ?case
  proof (cases "x = z \<or> y = z")
    case True
    then show ?thesis using Cons.prems(3-6) hit fresh by auto
  next
    case False
    then show ?thesis using Cons.IH [OF dist] Cons.prems(3-6) by simp
  qed
qed simp

text \<open>
  Result packages: an accepted package keeps every reported case and failure, with distinct
  identifiers; every failed or errored case has exactly one failure record, and a failure record is
  bound to such a case or to none.
\<close>
lemma check_package_exact:
  assumes "check_package pk = Inr cp"
  shows "length (cp_cases cp) = length (pk_cases pk) \<and> distinct (map cr_case_id (cp_cases cp)) \<and>
    length (cp_failures cp) = length (pk_failures pk) \<and> distinct (map fr_failure_id (cp_failures cp)) \<and>
    (\<forall>c \<in> set (cp_cases cp). failed_status (cr_status c) \<longrightarrow> (\<exists>!f. f \<in> set (cp_failures cp) \<and> fr_case_id f = Some (cr_case_id c))) \<and>
    (\<forall>f \<in> set (cp_failures cp). \<forall>i. fr_case_id f = Some i \<longrightarrow>
      (\<exists>c \<in> set (cp_cases cp). cr_case_id c = i \<and> failed_status (cr_status c)))"
proof -
  let ?failed = "failed_case_ids (cp_cases cp)" and ?covered = "covered_case_ids (cp_failures cp)"
  have cases: "foldE check_case (pk_cases pk) [] = Inr (cp_cases cp)"
    and failures: "foldE (check_failure ?failed) (pk_failures pk) [] = Inr (cp_failures cp)"
    and cover: "set ?covered = set ?failed" "length ?covered = length ?failed"
    using assms by (auto simp: check_package_def Let_def bindE_Inr_iff)
  have c: "distinct (map cr_case_id (cp_cases cp))" "length (cp_cases cp) = length (pk_cases pk)"
    using check_cases_distinct [OF cases] by simp_all
  have f: "distinct (map fr_failure_id (cp_failures cp))" "length (cp_failures cp) = length (pk_failures pk)"
    "\<forall>f \<in> set (cp_failures cp). \<forall>i. fr_case_id f = Some i \<longrightarrow> i \<in> set ?failed"
    using check_failures_bound [OF failures] by simp_all
  have "distinct ?failed" using c(1) by (simp add: failed_case_ids_def distinct_map_filter)
  then have "distinct ?covered" using cover by (metis card_distinct distinct_card)
  then have unique: "x = y" if "x \<in> set (cp_failures cp)" "y \<in> set (cp_failures cp)" "fr_case_id x = Some i" "fr_case_id y = Some i" for x y i
    using map_filter_inj [OF _ _ that] f(1) by (simp add: covered_case_ids_def distinct_map)
  have "\<exists>!f. f \<in> set (cp_failures cp) \<and> fr_case_id f = Some (cr_case_id c)" if "c \<in> set (cp_cases cp)" "failed_status (cr_status c)" for c
  proof -
    have "cr_case_id c \<in> set ?covered" unfolding cover(1) using that by (simp add: failed_case_ids_def)
    then obtain f where "f \<in> set (cp_failures cp)" "fr_case_id f = Some (cr_case_id c)" by (auto simp: covered_case_ids_def map_filter_def)
    then show ?thesis using unique by blast
  qed
  moreover have "\<exists>c \<in> set (cp_cases cp). cr_case_id c = i \<and> failed_status (cr_status c)" if "f \<in> set (cp_failures cp)" "fr_case_id f = Some i" for f i
    using f(3) that by (auto simp: failed_case_ids_def)
  ultimately show ?thesis using c f(1,2) by blast
qed


end
