(* ===== verification/Store_Composition.thy ===== *)
theory Store_Composition
  imports Store_Properties
begin

text \<open>
  How the components fit: plans of the planner can be submitted, the queue that the scheduler sees
  is exactly what the store can start, and its allocations are exactly what is running; and the
  behaviour of progress reports, cancellation and retries on a reachable store.
\<close>

section \<open>Planner and store\<close>

text \<open>
  C33. A plan that \<open>create_test_plan\<close> returns for a parsed manifest is a valid submission: every
  dependency of a selected target is selected too and its wave is earlier, so that each target gets a
  wave index larger than those of its dependencies.
\<close>
theorem create_test_plan_submittable:
  assumes "parse_test_manifest L' rr doc = Inr m" and "\<forall>c \<in> set changes. change_ok c"
    and "create_test_plan L m intent source changes requested execution launch = Inr p"
  shows "valid_request (Submit (p, op_id, actor, owner, priority, resources)) \<and>
    (\<forall>n \<in> set (tp_selected_targets p). \<forall>d \<in> set (deps_of (tp_dependencies p) n). d \<in> set (tp_selected_targets p) \<and>
      (\<exists>i j. wave_index_of (tp_dependency_waves p) d = Some i \<and> wave_index_of (tp_dependency_waves p) n = Some j \<and> i < j))"
  using create_test_plan_ok [OF assms] by (simp add: plan_ok_def)

section \<open>Store and scheduler\<close>

lemma with_run_reachable:
  assumes "reachable L st"
  shows "with_run st (ts_targets st) = map (\<lambda>t. (t, the (lookup_run st (ta_run_id t)))) (ts_targets st)"
proof -
  have "List.map_filter (\<lambda>t. map_option (Pair t) (lookup_run st (ta_run_id t))) ts = map (\<lambda>t. (t, the (lookup_run st (ta_run_id t)))) ts"
    if "set ts \<subseteq> set (ts_targets st)" for ts
    using that
  proof (induction ts)
    case (Cons t ts)
    then obtain r where "lookup_run st (ta_run_id t) = Some r" using core_run_of [OF reachable_core [OF assms], of t] by auto
    then show ?case using Cons by (simp add: map_filter_simps)
  qed (simp add: map_filter_simps)
  then show ?thesis by (simp add: with_run_def)
qed

text \<open>The targets that a reservation would accept.\<close>

definition ready_target :: "test_store \<Rightarrow> target_row \<Rightarrow> bool" where
  "ready_target st t \<longleftrightarrow> t \<in> set (ts_targets st) \<and> ta_state t = Queued \<and>
     (\<exists>r. lookup_run st (ta_run_id t) = Some r \<and> (ru_state r = RunQueued \<or> ru_state r = RunRunning)) \<and>
     target_dependencies_succeeded (run_targets st (ta_run_id t)) (ta_dependencies t)"

definition open_rows :: "test_store \<Rightarrow> (target_row \<times> run_row) list" where
  "open_rows st = filter (\<lambda>(t, r). ta_state t = Queued \<and> (ru_state r = RunQueued \<or> ru_state r = RunRunning)) (with_run st (ts_targets st))"

lemma open_rows_ready:
  assumes "reachable L st"
  shows "{ta_target_id t | t r. (t, r) \<in> set (open_rows st) \<and>
      target_dependencies_succeeded (run_targets st (ta_run_id t)) (ta_dependencies t)} = ta_target_id ` {t. ready_target st t}"
proof -
  have "(t, r) \<in> set (open_rows st) \<longleftrightarrow> t \<in> set (ts_targets st) \<and> ta_state t = Queued \<and> lookup_run st (ta_run_id t) = Some r \<and>
      (ru_state r = RunQueued \<or> ru_state r = RunRunning)" for t r
  proof (cases "t \<in> set (ts_targets st)")
    case True
    then obtain s where "lookup_run st (ta_run_id t) = Some s" using core_run_of [OF reachable_core [OF assms]] by blast
    then show ?thesis using True by (auto simp: open_rows_def with_run_reachable [OF assms])
  qed (auto simp: open_rows_def with_run_reachable [OF assms])
  then show ?thesis unfolding ready_target_def by blast
qed

lemma open_rows_length: "reachable L st \<Longrightarrow> length (open_rows st) \<le> length (filter (\<lambda>t. ta_state t = Queued) (ts_targets st))"
proof -
  assume "reachable L st"
  then have "open_rows st = filter (\<lambda>(t, r). ta_state t = Queued \<and> (ru_state r = RunQueued \<or> ru_state r = RunRunning))
      (map (\<lambda>t. (t, the (lookup_run st (ta_run_id t)))) (ts_targets st))"
    by (simp add: open_rows_def with_run_reachable)
  then have "length (open_rows st) = length (filter (\<lambda>t. ru_state (the (lookup_run st (ta_run_id t))) = RunQueued \<or>
      ru_state (the (lookup_run st (ta_run_id t))) = RunRunning) (filter (\<lambda>t. ta_state t = Queued) (ts_targets st)))"
    by (simp add: filter_map o_def split_beta conj_commute)
  then show ?thesis by (simp only: length_filter_le)
qed


text \<open>
  C29. Running work is accounted for: in every reachable store \<open>active_allocations\<close> lists every
  starting, running or stopping target exactly once, with the execution and the memory commitment of
  its reservation.
\<close>
theorem active_allocations_exact:
  assumes "reachable L st"
  shows "distinct (map aa_target_id (active_allocations st)) \<and>
    (aa_target_id ` set (active_allocations st) = ta_target_id ` {t \<in> set (ts_targets st). active_target (ta_state t)}) \<and>
    (\<forall>a \<in> set (active_allocations st). \<exists>t \<in> set (ts_targets st). \<exists>e. active_target (ta_state t) \<and> ta_execution t = Some e \<and>
      aa_target_id a = ta_target_id t \<and> aa_execution_id a = ex_execution_id e \<and> aa_memory_commitment_mib a = ex_memory_commitment_mib e)"
proof -
  let ?act = "filter (\<lambda>(t, r). active_target (ta_state t)) (map (\<lambda>t. (t, the (lookup_run st (ta_run_id t)))) (ts_targets st))"
  have rows: "active_rows st = sort_key (\<lambda>(t, r). (ta_created_at t, ta_target_id t)) ?act"
    by (simp add: active_rows_def with_run_reachable [OF assms])
  have slot: "\<exists>e. ta_execution t = Some e" if "t \<in> set (ts_targets st)" "active_target (ta_state t)" for t
    using core_slot [OF reachable_core [OF assms] that(1)] that(2) by (auto simp: slot_ok_def active_target_def)
  have some: "allocation_of p = Some (the (allocation_of p))" "aa_target_id (the (allocation_of p)) = ta_target_id (fst p)"
    if p: "p \<in> set (active_rows st)" for p
  proof -
    obtain t r where tr: "p = (t, r)" by (rule prod.exhaust)
    then have "t \<in> set (ts_targets st)" "active_target (ta_state t)" using p by (auto simp: rows)
    then obtain e where "ta_execution t = Some e" using slot by blast
    with tr show "allocation_of p = Some (the (allocation_of p))" "aa_target_id (the (allocation_of p)) = ta_target_id (fst p)"
      by (simp_all add: allocation_of_def)
  qed
  have mf: "List.map_filter allocation_of ps = map (\<lambda>p. the (allocation_of p)) ps" if "set ps \<subseteq> set (active_rows st)" for ps
    using that some(1) by (induction ps) (auto simp: map_filter_simps split: option.splits)
  have all: "active_allocations st = map (\<lambda>p. the (allocation_of p)) (active_rows st)"
    using mf by (simp add: active_allocations_def)
  have ids: "map aa_target_id (active_allocations st) = map (ta_target_id \<circ> fst) (active_rows st)"
    unfolding all using some(2) by simp
  have "distinct (map ta_target_id (ts_targets st))" using core_tables [OF reachable_core [OF assms]] by (simp add: tables_ok_def)
  then have "distinct (map (ta_target_id \<circ> fst) ?act)" by (simp add: filter_map o_def split_beta distinct_map_filter)
  then have "distinct (map (ta_target_id \<circ> fst) (active_rows st))"
    unfolding rows by (simp add: distinct_map)
  moreover have "aa_target_id ` set (active_allocations st) = (ta_target_id \<circ> fst) ` set ?act"
    using arg_cong [OF ids, of set] by (simp add: rows)
  then have "aa_target_id ` set (active_allocations st) = ta_target_id ` {t \<in> set (ts_targets st). active_target (ta_state t)}"
    by (simp add: filter_map o_def split_beta image_image)
  moreover have "\<exists>t \<in> set (ts_targets st). \<exists>e. active_target (ta_state t) \<and> ta_execution t = Some e \<and>
      aa_target_id a = ta_target_id t \<and> aa_execution_id a = ex_execution_id e \<and> aa_memory_commitment_mib a = ex_memory_commitment_mib e"
    if a: "a \<in> set (active_allocations st)" for a
  proof -
    obtain t r where p: "(t, r) \<in> set (active_rows st)" "a = the (allocation_of (t, r))" using a all by auto
    then have "t \<in> set (ts_targets st)" "active_target (ta_state t)" by (auto simp: rows)
    moreover from this obtain e where "ta_execution t = Some e" using slot by blast
    ultimately show ?thesis using p(2) by (intro bexI [of _ t] exI [of _ e]) (simp_all add: allocation_of_def)
  qed
  ultimately show ?thesis using ids by simp
qed

section \<open>Progress, cancellation and retries\<close>

text \<open>
  Progress only moves forward: an accepted report belongs to an active execution of generation
  one, replaces the progress of exactly that target, keeps its identity and state, and none of its byte
  counters is smaller than before; what is retained never exceeds what was written.
\<close>
lemma record_progress_monotone:
  assumes "reachable L st" and "record_progress M clock clock' v generation reported last_value observed_value st = Inr (x, st')"
  shows "\<exists>t \<in> set (ts_targets st). \<exists>u. ts_targets st' = map (upd t u) (ts_targets st) \<and> generation = JInt 1 \<and>
    active_target (ta_state t) \<and> ta_state u = ta_state t \<and> ta_execution u = ta_execution t \<and>
    op_stdout_bytes (ta_progress t) \<le> op_stdout_bytes (ta_progress u) \<and>
    op_stderr_bytes (ta_progress t) \<le> op_stderr_bytes (ta_progress u) \<and>
    op_stdout_retained_bytes (ta_progress t) \<le> op_stdout_retained_bytes (ta_progress u) \<and>
    op_stderr_retained_bytes (ta_progress t) \<le> op_stderr_retained_bytes (ta_progress u) \<and>
    op_stdout_retained_bytes (ta_progress u) \<le> op_stdout_bytes (ta_progress u) \<and>
    op_stderr_retained_bytes (ta_progress u) \<le> op_stderr_bytes (ta_progress u)"
proof -
  have tab: "tables_ok st" by (rule core_tables [OF reachable_core [OF assms(1)]])
  obtain i t y last_output observed now where t: "find_execution st i = Inr t" and req: "require_execution t i generation None = Inr y"
    and valid: "valid_progress reported" and mono: "\<not> progress_regressed (ta_progress t) reported observed"
    and logs: "logs (update_execution i active_target
      (observe_progress (reported\<lparr>op_last_output_at := last_output, op_progress_observed_at := Some observed\<rparr>) observed now) st) st'"
    using assms(2) unfolding record_progress_def Let_def
    by (elim bindE_InrE) (auto simp: bindE_Inr_iff split: if_splits option.splits dest!: store_event_logs, (metis logs_refl)+)
  note mem = find_execution_Inr [OF t] and act = require_execution_Inr [OF req]
  let ?u = "observe_progress (reported\<lparr>op_last_output_at := last_output, op_progress_observed_at := Some observed\<rparr>) observed now t"
  have "ts_targets st' = map (upd t ?u) (ts_targets st)"
    using logs_side [OF logs] update_execution_upd [OF tab mem, of active_target] act(3) by (simp add: side_def)
  then show ?thesis
    using mem(1) act(1,3) valid mono
    by (intro bexI [of _ t] exI [of _ ?u]) (simp_all add: observe_progress_def valid_progress_def progress_regressed_def not_less)
qed

lemma reconcile_cancelling_targets:
  assumes "lookup_run st i = Some r" "ru_state r = RunCancelling" "reconcile_run i now st = Inr st'"
  shows "ts_targets st' = ts_targets st"
  using assms by (auto simp: reconcile_run_def Let_def set_run_def update_runs_def split: if_splits)

lemma cancel_body_targets:
  assumes "cancel_body i reason op fp now st = Inr (x, st')" "lookup_run st i = Some r" "active_run (ru_state r)"
  shows "ts_targets st' = map (stops i reason now) (ts_targets st)"
proof -
  let ?st = "set_run i (cancelling_run reason now) (cancel_marks i reason now st)"
  obtain st2 where st2: "reconcile_run i now ?st = Inr st2" and logs: "logs st2 st'"
    using assms by (auto simp: cancel_body_def Let_def bindE_Inr_iff split: option.splits dest: record_mutation_logs)
  have runs: "ts_runs ?st = map (cancelling_at i reason now) (ts_runs st)"
    by (simp add: cancel_marks_map set_run_def update_runs_def cancelling_at_def)
  obtain s where s: "lookup_run ?st i = Some s"
    using st2 by (auto simp: reconcile_run_def split: option.splits)
  have "s \<in> set (ts_runs ?st)" "ru_run_id s = i" using find_SomeD [OF s [unfolded lookup_run_def]] by simp_all
  then obtain s0 where "s = cancelling_at i reason now s0" "ru_run_id (cancelling_at i reason now s0) = i"
    unfolding runs set_map by blast
  then have "ru_state s = RunCancelling" by (simp add: cancelling_at_def cancelling_run_def split: if_splits)
  then have "ts_targets st2 = ts_targets ?st" using reconcile_cancelling_targets [OF s _ st2] by simp
  then show ?thesis using logs_side [OF logs] by (simp add: side_def set_run_def update_runs_def cancel_marks_map)
qed

lemma stops_state:
  "ta_run_id t = i \<Longrightarrow> ta_state (stops i reason now t) =
     (case ta_state t of Queued \<Rightarrow> Terminal CANCELLED | Terminal c \<Rightarrow> Terminal c | _ \<Rightarrow> Stopping)"
  by (cases "ta_state t") (simp_all add: stops_def stop_target_def)

lemma stops_other: "ta_run_id t \<noteq> i \<Longrightarrow> stops i reason now t = t"
  by (simp add: stops_def)

lemma cancel_body_states:
  assumes "reachable L st" and "cancel_body i reason op fp now st = Inr (x, st')"
  shows "\<exists>f. ts_targets st' = map f (ts_targets st) \<and> (\<forall>t \<in> set (ts_targets st). keeps t (f t) \<and> ta_execution (f t) = ta_execution t \<and>
    (ta_run_id t \<noteq> i \<longrightarrow> f t = t) \<and> (ta_run_id t = i \<longrightarrow> ta_state (f t) =
      (case ta_state t of Queued \<Rightarrow> Terminal CANCELLED | Terminal c \<Rightarrow> Terminal c | _ \<Rightarrow> Stopping)))"
proof -
  obtain r where r: "lookup_run st i = Some r" using assms(2) by (auto simp: cancel_body_def split: option.splits)
  have tab: "tables_ok st" by (rule core_tables [OF reachable_core [OF assms(1)]])
  then have mem: "r \<in> set (ts_runs st)" "ru_run_id r = i" using r lookup_run_Some by blast+
  show ?thesis
  proof (cases "active_run (ru_state r)")
    case True
    have targets: "ts_targets st' = map (stops i reason now) (ts_targets st)" by (rule cancel_body_targets [OF assms(2) r True])
    then show ?thesis using keeps_stops stops_state stops_other by (intro exI [of _ "stops i reason now"]) simp
  next
    case False
    then have "logs st st'" using assms(2) by (auto simp: cancel_body_def r bindE_Inr_iff dest: record_mutation_logs)
    then have same: "ts_targets st' = map id (ts_targets st)" using logs_side by (simp add: side_def)
    have "\<not> pending t" if "t \<in> rows_of st i" for t
      using pending_active [OF _ that] reachable_run [OF assms(1) mem(1)] mem(2) False by (auto simp: run_inv_def)
    then have "\<exists>c. ta_state t = Terminal c" if "t \<in> set (ts_targets st)" "ta_run_id t = i" for t
      using that not_pending_iff by (auto simp: rows_of_def)
    then show ?thesis using same by (intro exI [of _ id]) fastforce
  qed
qed


text \<open>
  Retry plans: the waves of a retry are computed for every set of targets whose dependencies,
  restricted to the set, have no cycle; the waves then partition the targets, each sorted, with every
  dependency inside the set in an earlier wave.
\<close>
lemma retry_waves_layered:
  assumes "distinct selected" and "\<forall>n \<in> set selected. set (deps_of deps n) \<subseteq> set selected"
    and "acyclic {(n, d). n \<in> set selected \<and> d \<in> set (deps_of deps n)}"
  shows "\<exists>ws. retry_waves deps [] selected = Inr ws \<and> distinct (concat ws) \<and> set (concat ws) = set selected \<and>
    (\<forall>w \<in> set ws. w \<noteq> [] \<and> sorted w) \<and>
    (\<forall>i < length ws. \<forall>n \<in> set (ws ! i). set (deps_of deps n) \<subseteq> set (concat (take i ws)))"
proof -
  have "acyclic (deps_rel deps \<inter> set selected \<times> set selected)"
    by (rule acyclic_subset [OF assms(3)]) (auto simp: deps_rel_def)
  then obtain ws where ws: "retry_waves deps [] selected = Inr ws"
    using retry_waves_total [of deps selected "[]"] assms(2) by auto
  have "waves_from (deps_rel deps) UNIV {} (set selected) ws" using retry_waves_from [OF ws assms(1)] by simp
  then have "distinct (concat ws)" "set (concat ws) = set selected" "\<forall>w \<in> set ws. w \<noteq> [] \<and> sorted w"
    "\<forall>i < length ws. \<forall>n \<in> set (ws ! i). deps_rel deps `` {n} \<subseteq> set (concat (take i ws))" by (simp_all add: waves_from_def)
  moreover have "deps_rel deps `` {n} = set (deps_of deps n)" for n by (auto simp: deps_rel_def)
  ultimately show ?thesis using ws by auto
qed

end
