(* ===== verification/Store_Samples.thy ===== *)
theory Store_Samples
  imports Store_Composition Planner_Samples "HOL-Library.Code_Target_Nat"
begin

text \<open>
  The properties of the store at a release of the sample manifest: the plan is submitted, its two
  targets are executed in dependency order, and the run's evidence is attested.
\<close>

section \<open>A release\<close>

definition sample_digest :: "string \<Rightarrow> string" where
  "sample_digest s = replicate 64 (case rev s of [] \<Rightarrow> CHR ''f'' | c # _ \<Rightarrow>
     if c = CHR ''0'' then (if fold (\<lambda>_ b. \<not> b) s True then CHR ''a'' else CHR ''b'')
     else if c = CHR ''a'' \<or> c = CHR ''b'' then c else CHR ''f'')"

definition store_lib :: pylib where
  "store_lib = \<lparr>sha256_hexdigest = sample_digest, float_repr = (\<lambda>x. ''0.5'')\<rparr>"

definition snapshot_source :: source_identity where
  "snapshot_source = \<lparr>si_mode = IMMUTABLE, si_repository_id = ''repo'',
     si_content_fingerprint = replicate 64 (CHR ''b''), si_original_root = ''/srv/repo'',
     si_temporary_root = Some ''/tmp/snapshot'', si_snapshot_id = Some ''snapshot-1''\<rparr>"

definition ship_policy :: evidence_policy where
  "ship_policy = \<lparr>ep_name = ''ship'', ep_intent = ''release'', ep_required_targets = [''api''],
     ep_max_age_seconds = 3600, ep_allow_reuse = False\<rparr>"

definition release_plan :: test_plan where
  "release_plan = \<lparr>tp_plan_id = ''plan-1'', tp_fingerprint = replicate 64 (CHR ''1''),
     tp_execution_fingerprint = replicate 64 (CHR ''2''), tp_manifest_fingerprint = replicate 64 (CHR ''3''),
     tp_repository_id = ''repo'', tp_intent = ''release'',
     tp_timeouts = \<lparr>pt_execution_seconds = None, pt_launch_seconds = 300\<rparr>, tp_source = snapshot_source,
     tp_changes = [], tp_eligible_targets = [''api'', ''unit''], tp_selected_targets = [''api'', ''unit''],
     tp_dependency_waves = [[''unit''], [''api'']], tp_dependencies = [(''api'', [''unit'']), (''unit'', [])],
     tp_selection = [(''api'', [''required-by-intent:release'']), (''unit'', [''required-by-intent:release''])],
     tp_complete_intent_fallback = False, tp_reusable = False, tp_evidence_policies = [(''ship'', ship_policy)],
     tp_dependency_schema_version = 3\<rparr>"

definition op_of :: "nat \<Rightarrow> string" where
  "op_of n = ''00000000-0000-0000-0000-00000000000'' @ [hex_digit n]"

definition unit_id :: string where "unit_id = ''target-'' @ replicate 32 (CHR ''b'')"
definition api_id :: string where "api_id = ''target-'' @ replicate 32 (CHR ''a'')"
definition run_of :: string where "run_of = ''run-'' @ replicate 32 (CHR ''f'')"

definition execution_of :: "string \<Rightarrow> string" where
  "execution_of target = digest_id store_lib ''execution-'' [''generation-1'', target]"

definition unit_of :: "nat \<Rightarrow> string" where
  "unit_of n = ''devcoordinator-test-'' @ [hex_digit n] @ ''.service''"

definition sample_package :: "nat \<Rightarrow> execution_result_package" where
  "sample_package n = \<lparr>pk_package_id = JStr (''package-'' @ [hex_digit n]),
     pk_cases = [\<lparr>ca_case_id = JStr ''case-1'', ca_display_name = JStr ''first'', ca_status = ''passed'',
       ca_duration_seconds = PyFloat (Finite 1), ca_location = None\<rparr>],
     pk_failures = [], pk_artifacts = [], pk_reporter_complete = True\<rparr>"

definition submit_request :: store_request where
  "submit_request = Submit (release_plan, op_of 1, JStr ''ci'', JInt 1000, JInt 0, [])"

definition begin_request :: "nat \<Rightarrow> string \<Rightarrow> store_request" where
  "begin_request n target = Begin (JStr target, JInt 0, JStr (unit_of n), op_of (n + 1), JStr (replicate 64 (CHR ''e'')),
     PyFloat (Finite 400), JInt 512, op_of n)"

definition complete_request :: "nat \<Rightarrow> nat \<Rightarrow> string \<Rightarrow> store_request" where
  "complete_request n m target = Complete (JStr (execution_of target), JInt 1, JStr (unit_of m), sample_package n, ''succeeded'',
     PyFloat (Finite 5), op_of n, True, True, None, None)"

definition sample_progress :: output_progress where
  "sample_progress = no_progress\<lparr>op_stdout_bytes := 10, op_stdout_retained_bytes := 10\<rparr>"

section \<open>Its stages\<close>

definition sample_clock :: py_number where "sample_clock = PyFloat (Finite 100)"

definition attempt :: "store_request \<Rightarrow> test_store \<Rightarrow> bool \<times> test_store" where
  "attempt r st = (case perform store_lib r sample_clock st of Inl _ \<Rightarrow> (False, st) | Inr (_, st') \<Rightarrow> (True, st'))"

definition stage0 :: test_store where "stage0 = create_store ''generation-1''"
definition stage1 :: test_store where "stage1 = snd (attempt submit_request stage0)"
definition stage2 :: test_store where "stage2 = snd (attempt (begin_request 2 unit_id) stage1)"
definition stage3 :: test_store where "stage3 = snd (attempt (complete_request 4 2 unit_id) stage2)"
definition stage4 :: test_store where "stage4 = snd (attempt (begin_request 5 api_id) stage3)"
definition stage5 :: test_store where "stage5 = snd (attempt (complete_request 7 5 api_id) stage4)"

definition sample_report :: "test_store \<Rightarrow> store_error + json \<times> test_store" where
  "sample_report = record_progress store_lib sample_clock sample_clock (JStr (execution_of unit_id)) (JInt 1)
     sample_progress None (PyFloat (Finite 100))"

definition sample_cancel :: "test_store \<Rightarrow> store_error + json \<times> test_store" where
  "sample_cancel = cancel_body run_of ''stop'' (op_of 9) (op_of 10) 100"

definition executed_with :: "string \<Rightarrow> test_store \<Rightarrow> bool" where
  "executed_with d st = list_ex (\<lambda>t. ta_execution t \<noteq> None \<and> d \<in> set (ta_dependencies t)) (ts_targets st)"

definition succeeded_in :: "test_store \<Rightarrow> bool" where
  "succeeded_in st = list_ex (\<lambda>t. ta_state t = Terminal SUCCEEDED \<and> ta_execution t \<noteq> None) (ts_targets st)"

lemma release_facts:
  "let p1 = attempt submit_request stage0; p2 = attempt (begin_request 2 unit_id) (snd p1);
       p3 = attempt (complete_request 4 2 unit_id) (snd p2); p4 = attempt (begin_request 5 api_id) (snd p3);
       p5 = attempt (complete_request 7 5 api_id) (snd p4) in
   fst p1 \<and> fst p2 \<and> fst p3 \<and> fst p4 \<and> fst p5 \<and> map ru_state (ts_runs (snd p1)) = [RunQueued] \<and>
   \<not> isl (sample_report (snd p2)) \<and> \<not> isl (sample_cancel (snd p2)) \<and> succeeded_in (snd p3) \<and>
   executed_with ''unit'' (snd p4) \<and> map ru_state (ts_runs (snd p5)) = [RunSucceeded] \<and> ts_attestations (snd p5) \<noteq> []"
  by code_simp

lemmas stage_defs = stage1_def stage2_def stage3_def stage4_def stage5_def

lemmas release_facts' = release_facts [unfolded Let_def, folded stage1_def, folded stage2_def, folded stage3_def,
  folded stage4_def, folded stage5_def]

lemma attempt_perform: "fst (attempt r st) \<Longrightarrow> \<exists>x. perform store_lib r sample_clock st = Inr (x, snd (attempt r st))"
  by (auto simp: attempt_def split: sum.splits prod.splits)

lemma attempt_step:
  assumes "fst (attempt r st)" "valid_request r"
  shows "store_step store_lib st (snd (attempt r st))"
  using attempt_perform [OF assms(1)] store_step.request [OF assms(2)] by blast

lemma release_plan_ok: "plan_ok release_plan"
  by (auto simp: plan_ok_def release_plan_def deps_of_def wave_index_of_def)

lemma valid_requests:
  "valid_request submit_request" "valid_request (begin_request n target)" "valid_request (complete_request n m target)"
  by (simp_all add: submit_request_def begin_request_def complete_request_def release_plan_ok)

lemma release_steps:
  "store_step store_lib stage0 stage1" "store_step store_lib stage1 stage2" "store_step store_lib stage2 stage3"
  "store_step store_lib stage3 stage4" "store_step store_lib stage4 stage5"
  using release_facts' attempt_step valid_requests unfolding stage_defs by simp_all

lemma stage_reachable [simp]:
  "reachable store_lib stage0" "reachable store_lib stage1" "reachable store_lib stage2" "reachable store_lib stage3"
  "reachable store_lib stage4" "reachable store_lib stage5"
proof -
  show 0: "reachable store_lib stage0" unfolding stage0_def by (rule reachable.initial)
  show 1: "reachable store_lib stage1" by (rule reachable.step [OF 0 release_steps(1)])
  show 2: "reachable store_lib stage2" by (rule reachable.step [OF 1 release_steps(2)])
  show 3: "reachable store_lib stage3" by (rule reachable.step [OF 2 release_steps(3)])
  show 4: "reachable store_lib stage4" by (rule reachable.step [OF 3 release_steps(4)])
  show "reachable store_lib stage5" by (rule reachable.step [OF 4 release_steps(5)])
qed

lemma stage1_to_5: "(store_step store_lib)\<^sup>*\<^sup>* stage1 stage5"
  using release_steps by (meson converse_rtranclp_into_rtranclp rtranclp.rtrancl_refl)

lemma sample_now: "store_now sample_clock = Inr 100"
  by (simp add: sample_clock_def store_now_def finite_nonnegative_def to_float_def)

lemma stage1_run: "\<exists>r \<in> set (ts_runs stage1). ru_state r = RunQueued"
  using release_facts' by (auto simp: map_eq_Cons_conv)

lemma stage5_run: "\<exists>r \<in> set (ts_runs stage5). ru_state r = RunSucceeded"
  using release_facts' by (auto simp: map_eq_Cons_conv)

section \<open>Witnesses\<close>

theorem execution_after_dependencies_witness:
  "\<exists>t \<in> set (ts_targets stage4). ta_execution t \<noteq> None \<and> ''unit'' \<in> set (ta_dependencies t) \<and>
    (\<exists>u \<in> set (ts_targets stage4). ta_target_name u = ''unit'' \<and> ta_state u = Terminal SUCCEEDED)"
proof -
  obtain t where t: "t \<in> set (ts_targets stage4)" "ta_execution t \<noteq> None" "''unit'' \<in> set (ta_dependencies t)"
    using release_facts' by (auto simp: executed_with_def list_ex_iff)
  then show ?thesis using execution_after_dependencies [OF stage_reachable(5) t] by blast
qed

theorem success_has_evidence_witness:
  "\<exists>t \<in> set (ts_targets stage3). ta_state t = Terminal SUCCEEDED \<and> (\<exists>e. ta_terminal t = Some e \<and> te_reporter_complete e)"
proof -
  obtain t where t: "t \<in> set (ts_targets stage3)" "ta_state t = Terminal SUCCEEDED"
    using release_facts' by (auto simp: succeeded_in_def list_ex_iff)
  then show ?thesis using success_has_evidence [OF stage_reachable(4) t] by blast
qed

theorem execution_identity_unique_witness:
  "\<not> (\<exists>t \<in> set (ts_targets stage4). \<exists>u \<in> set (ts_targets stage4). \<exists>e. t \<noteq> u \<and> ta_execution t = Some e \<and> ta_execution u = Some e)"
  using execution_identity_unique [OF stage_reachable(5)] by blast

theorem run_state_agrees_witness:
  "\<exists>r \<in> set (ts_runs stage5). list_all (\<lambda>t. ta_state t = Terminal SUCCEEDED) (run_targets stage5 (ru_run_id r))"
  using stage5_run run_state_agrees [OF stage_reachable(6)] unfolding list_all_iff by blast

theorem run_progress_witness:
  "\<exists>r \<in> set (ts_runs stage1). ru_state r = RunQueued \<and> ((\<exists>t \<in> set (run_targets stage1 (ru_run_id r)). active_target (ta_state t)) \<or>
    (\<exists>t \<in> set (run_targets stage1 (ru_run_id r)). ta_state t = Queued))"
proof -
  obtain r where r: "r \<in> set (ts_runs stage1)" "ru_state r = RunQueued" using stage1_run by blast
  then show ?thesis using run_progress [OF stage_reachable(2) r(1)] by (auto simp: active_run_def)
qed


theorem history_immutable_witness: "set (ts_journal stage1) \<subseteq> set (ts_journal stage5)"
  using history_immutable [OF stage_reachable(2) stage1_to_5] by blast

theorem request_idempotent_witness: "\<exists>x. perform store_lib submit_request sample_clock stage5 = Inr (x, stage5)"
proof -
  obtain x where "perform store_lib submit_request sample_clock stage0 = Inr (x, stage1)"
    using attempt_perform [of submit_request stage0] release_facts' by (auto simp: stage1_def)
  moreover have "journaled_request submit_request" by (simp add: journaled_request_def submit_request_def)
  ultimately show ?thesis
    using request_idempotent [OF stage_reachable(1) valid_requests(1) _ _ stage1_to_5 sample_now] by blast
qed

theorem attestation_sound_witness:
  "\<exists>a \<in> set (ts_attestations stage5). \<exists>r \<in> set (ts_runs stage5). ru_run_id r = at_run_id a \<and> ru_state r = RunSucceeded"
proof -
  obtain a where a: "a \<in> set (ts_attestations stage5)" using release_facts' by (cases "ts_attestations stage5") auto
  then show ?thesis using attestation_sound [OF stage_reachable(6) a] by blast
qed

theorem consumption_single_use_witness: "distinct (map at_attestation_id (ts_attestations stage5))"
  using consumption_single_use [OF stage_reachable(6)] by blast

definition sample_checked :: checked_package where
  "sample_checked = projr (check_package (sample_package 1))"

lemma sample_checked: "check_package (sample_package 1) = Inr sample_checked"
  "settle_conclusion sample_checked SUCCEEDED = Inr SUCCEEDED"
  by code_simp+


theorem create_test_plan_submittable_witness:
  "\<exists>p. sample_plan = Inr p \<and> valid_request (Submit (p, op_of 1, JStr ''ci'', JInt 0, JInt 0, []))"
  using sample_plan_exists create_test_plan_submittable [OF sample_parses sample_change_ok]
  unfolding sample_plan_def by blast


theorem active_allocations_exact_witness:
  "aa_target_id ` set (active_allocations stage4) = ta_target_id ` {t \<in> set (ts_targets stage4). active_target (ta_state t)}"
  using active_allocations_exact [OF stage_reachable(5)] by blast


end
