(* ===== verification/Plan_Wire.thy ===== *)
theory Plan_Wire
  imports Store_Submission
begin

text \<open>
  The plan document on the wire: \<open>_mapping\<close>, \<open>_exact_fields\<close>, \<open>_text\<close>, \<open>_text_sequence\<close>,
  \<open>_setup_integer\<close> and \<open>decode_test_plan_document\<close> of \<open>universal_test_service.py\<close>, which revalidate
  every document before testd registers, submits or launches its plan. The keys of an object are
  distinct, as in a Python dictionary.
\<close>

section \<open>Scalar fields\<close>

definition wire_mapping :: "string \<Rightarrow> json \<Rightarrow> store_error + json dict" where
  "wire_mapping field v =
     (case v of JObj d \<Rightarrow> Inr d | _ \<Rightarrow> Inl (StoreContractError (field @ '' must be an object'')))"

definition exact_fields :: "string \<Rightarrow> json dict \<Rightarrow> string list \<Rightarrow> store_error + unit" where
  "exact_fields field d expected =
     ensure (set (keys d) = set expected) (StoreContractError (field @ '' fields are invalid''))"

definition single_line_text :: "nat \<Rightarrow> string \<Rightarrow> bool" where
  "single_line_text maximum s \<longleftrightarrow> s \<noteq> [] \<and> length s \<le> maximum \<and>
     CHR 0x00 \<notin> set s \<and> CHR 0x0D \<notin> set s \<and> CHR 0x0A \<notin> set s"

definition wire_text :: "string \<Rightarrow> nat \<Rightarrow> json \<Rightarrow> store_error + string" where
  "wire_text field maximum v =
     (case v of JStr s \<Rightarrow> if single_line_text maximum s then Inr s
          else Inl (StoreContractError (field @ '' must be bounded single-line text''))
      | _ \<Rightarrow> Inl (StoreContractError (field @ '' must be bounded single-line text'')))"

definition wire_sequence :: "string \<Rightarrow> nat \<Rightarrow> json \<Rightarrow> store_error + string list" where
  "wire_sequence field maximum_items v =
     (case v of
        JArr items \<Rightarrow> if maximum_items < length items
          then Inl (StoreContractError (field @ '' must be a bounded array''))
          else mapE (wire_text (field @ ''[]'') 1024) items
      | _ \<Rightarrow> Inl (StoreContractError (field @ '' must be a bounded array'')))"

definition setup_integer :: "string \<Rightarrow> int \<Rightarrow> int \<Rightarrow> json \<Rightarrow> store_error + int" where
  "setup_integer field minimum maximum v =
     (let bad = Inl (StoreContractError (field @ '' must be an integer from '' @ show_int minimum
        @ '' through '' @ show_int maximum))
      in case v of JInt i \<Rightarrow> if minimum \<le> i \<and> i \<le> maximum then Inr i else bad | _ \<Rightarrow> bad)"

text \<open>\<open>raw[name]\<close> on a dictionary, and \<open>None if raw[name] is None else check(raw[name])\<close>.\<close>

definition wire_item :: "json dict \<Rightarrow> string \<Rightarrow> store_error + json" where
  "wire_item d k = (case map_of d k of Some v \<Rightarrow> Inr v | None \<Rightarrow> Inl (StoreInternalError k))"

definition nullable :: "(json \<Rightarrow> store_error + 'a) \<Rightarrow> json \<Rightarrow> store_error + 'a option" where
  "nullable f v = (if v = JNull then Inr None else bindE (f v) (\<lambda>x. Inr (Some x)))"

text \<open>\<open>except (ValueError, TestPlanError) as error: raise TestStoreContractError(message)\<close>.\<close>

definition catch_plan :: "string \<Rightarrow> plan_error + 'a \<Rightarrow> store_error + 'a" where
  "catch_plan message r =
     (case r of Inr x \<Rightarrow> Inr x
      | Inl (PlanContractError (PyKeyError k)) \<Rightarrow> Inl (StoreInternalError k)
      | Inl _ \<Rightarrow> Inl (StoreContractError message))"

section \<open>Parts of a plan\<close>

definition plan_wire_fields :: "string list" where
  "plan_wire_fields = [''plan_id'', ''fingerprint'', ''execution_fingerprint'', ''manifest_fingerprint'',
     ''repository_id'', ''intent'', ''timeouts'', ''source'', ''changes'', ''eligible_targets'',
     ''selected_targets'', ''dependency_waves'', ''dependencies'', ''selection'',
     ''complete_intent_fallback'', ''reusable'', ''evidence_policies'']"

definition source_wire_fields :: "string list" where
  "source_wire_fields = [''mode'', ''repository_id'', ''content_fingerprint'', ''original_root'',
     ''temporary_root'', ''snapshot_id'']"

definition change_wire_fields :: "string list" where
  "change_wire_fields = [''path'', ''status'', ''previous_path'']"

definition policy_wire_fields :: "string list" where
  "policy_wire_fields = [''intent'', ''required_targets'', ''max_age_seconds'', ''allow_reuse'', ''fingerprint'']"

definition decode_source :: "json \<Rightarrow> store_error + source_identity" where
  "decode_source v =
     (let invalid = ''plan source identity is invalid'' in
      bindE (wire_mapping ''plan.source'' v) (\<lambda>raw.
      bindE (exact_fields ''plan.source'' raw source_wire_fields) (\<lambda>_.
      bindE (bindE (wire_item raw ''mode'') (wire_text ''plan.source.mode'' 16)) (\<lambda>mode.
      bindE (ensure (mode = ''live'' \<or> mode = ''immutable'') (StoreContractError invalid)) (\<lambda>_.
      bindE (bindE (wire_item raw ''repository_id'') (wire_text ''plan.source.repository_id'' 256)) (\<lambda>repository_id.
      bindE (bindE (wire_item raw ''content_fingerprint'') (wire_text ''plan.source.content_fingerprint'' 64)) (\<lambda>content.
      bindE (bindE (wire_item raw ''original_root'') (wire_text ''plan.source.original_root'' 4096)) (\<lambda>original_root.
      bindE (bindE (wire_item raw ''temporary_root'') (nullable (wire_text ''plan.source.temporary_root'' 4096))) (\<lambda>temporary_root.
      bindE (bindE (wire_item raw ''snapshot_id'') (nullable (wire_text ''plan.source.snapshot_id'' 256))) (\<lambda>snapshot_id.
      catch_plan invalid (new_source_identity mode (JStr repository_id) (JStr content) (JStr original_root)
        (jopt JStr temporary_root) (jopt JStr snapshot_id))))))))))))"

definition decode_change :: "nat \<times> json \<Rightarrow> store_error + changed_path" where
  "decode_change = (\<lambda>(i, v).
     (let field = index_path ''plan.changes'' i; invalid = ''plan change is invalid'' in
      bindE (wire_mapping field v) (\<lambda>raw.
      bindE (exact_fields field raw change_wire_fields) (\<lambda>_.
      bindE (bindE (wire_item raw ''path'') (wire_text (field @ ''.path'') 4096)) (\<lambda>path.
      bindE (bindE (wire_item raw ''status'') (wire_text (field @ ''.status'') 32)) (\<lambda>status.
      bindE (ensure (change_status_of status \<noteq> None) (StoreContractError invalid)) (\<lambda>_.
      bindE (bindE (wire_item raw ''previous_path'') (nullable (wire_text (field @ ''.previous_path'') 4096))) (\<lambda>previous.
      catch_plan invalid (new_changed_path (JStr path) status (map_option JStr previous))))))))))"

definition decode_changes :: "json \<Rightarrow> store_error + changed_path list" where
  "decode_changes v =
     (case v of
        JArr items \<Rightarrow> if 10000 < length items then Inl (StoreContractError ''plan changes must be a bounded array'')
          else mapE decode_change (enumerate 0 items)
      | _ \<Rightarrow> Inl (StoreContractError ''plan changes must be a bounded array''))"

definition decode_waves :: "string list \<Rightarrow> json \<Rightarrow> store_error + string list list" where
  "decode_waves selected v =
     bindE (case v of
         JArr items \<Rightarrow> if 512 < length items then Inl (StoreContractError ''plan dependency_waves must be bounded'')
           else mapE (\<lambda>(i, w). wire_sequence (index_path ''plan.dependency_waves'' i) 512 w) (enumerate 0 items)
       | _ \<Rightarrow> Inl (StoreContractError ''plan dependency_waves must be bounded'')) (\<lambda>waves.
     bindE (ensure (sort (concat waves) = selected \<and> distinct (concat waves))
       (StoreContractError ''dependency_waves must cover every selected target exactly once'')) (\<lambda>_.
     Inr waves))"

definition decode_selection :: "string list \<Rightarrow> json \<Rightarrow> store_error + string list dict" where
  "decode_selection selected v =
     bindE (wire_mapping ''plan.selection'' v) (\<lambda>raw.
     bindE (ensure (set (keys raw) = set selected)
       (StoreContractError ''plan selection reasons do not match targets'')) (\<lambda>_.
     bindE (mapE (\<lambda>t. bindE (bindE (wire_item raw t) (wire_sequence (''plan.selection.'' @ t) max_selection_reasons))
       (\<lambda>reasons. Inr (t, reasons))) selected) (\<lambda>selection.
     bindE (ensure (list_all (\<lambda>(_, reasons). reasons \<noteq> []) selection)
       (StoreContractError ''every selected target requires a selection reason'')) (\<lambda>_.
     Inr selection))))"

text \<open>\<open>reason.split(":", 1)[1]\<close> of the reasons that start with \<open>dependent-of:\<close>.\<close>

definition reason_dependencies :: "string list dict \<Rightarrow> string list dict" where
  "reason_dependencies selection = map (\<lambda>(t, reasons).
     (t, sort (map (drop 13) (filter (starts_with ''dependent-of:'') reasons)))) selection"

definition decode_dependencies ::
  "string list \<Rightarrow> string list dict \<Rightarrow> json option \<Rightarrow> store_error + string list dict" where
  "decode_dependencies selected selection v =
     (case v of
        None \<Rightarrow> Inr (reason_dependencies selection)
      | Some doc \<Rightarrow>
          bindE (wire_mapping ''plan.dependencies'' doc) (\<lambda>raw.
          bindE (ensure (set (keys raw) = set selected)
            (StoreContractError ''plan dependencies must cover every selected target exactly once'')) (\<lambda>_.
          mapE (\<lambda>t. bindE (bindE (wire_item raw t) (wire_sequence (''plan.dependencies.'' @ t) 256))
            (\<lambda>required. Inr (t, required))) selected)))"

text \<open>\<open>wave_by_target[name] >= wave_by_target[target]\<close> for a name that is in a wave.\<close>

definition exact_dependencies :: "string list \<Rightarrow> string list list \<Rightarrow> string \<times> string list \<Rightarrow> bool" where
  "exact_dependencies selected waves = (\<lambda>(target, required).
     sorted_set required = required \<and> target \<notin> set required \<and> set required \<subseteq> set selected \<and>
     list_all (\<lambda>name. case (wave_index_of waves name, wave_index_of waves target) of
       (Some i, Some j) \<Rightarrow> i < j | _ \<Rightarrow> False) required)"

definition decode_timeouts :: "json \<Rightarrow> store_error + test_plan_timeouts" where
  "decode_timeouts v =
     bindE (wire_mapping ''plan.timeouts'' v) (\<lambda>raw.
     bindE (exact_fields ''plan.timeouts'' raw [''execution_seconds'', ''launch_seconds'']) (\<lambda>_.
     bindE (bindE (wire_item raw ''execution_seconds'') (nullable (setup_integer ''plan.timeouts.execution_seconds'' 1
       max_execution_timeout_seconds))) (\<lambda>execution.
     bindE (bindE (wire_item raw ''launch_seconds'') (setup_integer ''plan.timeouts.launch_seconds'' 1
       max_launch_timeout_seconds)) (\<lambda>launch.
     catch_plan ''plan timeouts are invalid'' (new_timeouts (jopt JInt execution) (JInt launch))))))"

definition decode_policy :: "pylib \<Rightarrow> string \<Rightarrow> string \<times> json \<Rightarrow> store_error + string \<times> evidence_policy" where
  "decode_policy L intent = (\<lambda>(name, value).
     (let field = ''plan.evidence_policies.'' @ name in
      bindE (ensure (name_re 63 name) (StoreContractError ''plan evidence policy name is invalid'')) (\<lambda>_.
      bindE (wire_mapping field value) (\<lambda>raw.
      bindE (exact_fields field raw policy_wire_fields) (\<lambda>_.
      bindE (bindE (wire_item raw ''intent'') (wire_text (field @ ''.intent'') 64)) (\<lambda>policy_intent.
      bindE (bindE (wire_item raw ''required_targets'') (wire_sequence (field @ ''.required_targets'') 256)) (\<lambda>required.
      bindE (case (map_of raw ''max_age_seconds'', map_of raw ''allow_reuse'') of
          (Some (JInt age), Some (JBool reuse)) \<Rightarrow>
            if policy_intent \<noteq> intent \<or> required = [] \<or> sorted_set required \<noteq> required \<or> age < 1 \<or> 31536000 < age
            then Inl (StoreContractError ''plan evidence policy is invalid'') else Inr (age, reuse)
        | _ \<Rightarrow> Inl (StoreContractError ''plan evidence policy is invalid'')) (\<lambda>(age, reuse).
      let policy = \<lparr>ep_name = name, ep_intent = policy_intent, ep_required_targets = required,
            ep_max_age_seconds = age, ep_allow_reuse = reuse\<rparr> in
      bindE (ensure (map_of raw ''fingerprint'' = Some (JStr (evidence_policy_fingerprint L policy)))
        (StoreContractError ''plan evidence policy fingerprint is invalid'')) (\<lambda>_.
      Inr (name, policy))))))))))"

definition decode_policies :: "pylib \<Rightarrow> string \<Rightarrow> json \<Rightarrow> store_error + evidence_policy dict" where
  "decode_policies L intent v =
     bindE (wire_mapping ''plan.evidence_policies'' v) (\<lambda>raw.
     bindE (ensure (length raw \<le> 64) (StoreContractError ''plan evidence_policies exceed their bound'')) (\<lambda>_.
     mapE (decode_policy L intent) (sort_key fst raw)))"

section \<open>The whole plan\<close>

text \<open>The documents whose digests identify a plan, rebuilt from the decoded parts.\<close>

definition wire_fingerprint_document :: "bool \<Rightarrow> test_plan \<Rightarrow> json" where
  "wire_fingerprint_document has_dependencies p = JObj (
     [(''schema_version'', JInt (if has_dependencies then 3 else 2)),
      (''manifest_fingerprint'', JStr (tp_manifest_fingerprint p)),
      (''repository_id'', JStr (tp_repository_id p)), (''intent'', JStr (tp_intent p)),
      (''timeouts'', timeouts_document (tp_timeouts p)), (''source'', source_document (tp_source p)),
      (''changes'', JArr (map change_document (tp_changes p))),
      (''eligible_targets'', jstrs (tp_eligible_targets p)),
      (''selected_targets'', jstrs (tp_selected_targets p)),
      (''dependency_waves'', JArr (map jstrs (tp_dependency_waves p)))]
     @ (if has_dependencies then [(''dependencies'', jdict jstrs (tp_dependencies p))] else [])
     @ [(''selection'', jdict jstrs (tp_selection p)),
        (''complete_intent_fallback'', JBool (tp_complete_intent_fallback p)),
        (''reusable'', JBool (tp_reusable p))])"

definition wire_execution_document :: "bool \<Rightarrow> test_plan \<Rightarrow> json" where
  "wire_execution_document has_dependencies p = JObj (
     [(''schema_version'', JInt (if has_dependencies then 3 else 2)),
      (''manifest_fingerprint'', JStr (tp_manifest_fingerprint p)),
      (''repository_id'', JStr (tp_repository_id p)),
      (''source_mode'', JStr (source_mode_value (si_mode (tp_source p)))),
      (''content_fingerprint'', JStr (si_content_fingerprint (tp_source p))), (''intent'', JStr (tp_intent p)),
      (''timeouts'', timeouts_document (tp_timeouts p)), (''eligible_targets'', jstrs (tp_eligible_targets p)),
      (''selected_targets'', jstrs (tp_selected_targets p)),
      (''dependency_waves'', JArr (map jstrs (tp_dependency_waves p)))]
     @ (if has_dependencies then [(''dependencies'', jdict jstrs (tp_dependencies p))] else []))"

definition identify_plan :: "pylib \<Rightarrow> bool \<Rightarrow> test_plan \<Rightarrow> test_plan" where
  "identify_plan L has_dependencies p =
     (let fingerprint = deterministic_fingerprint L (wire_fingerprint_document has_dependencies p) in
      p\<lparr>tp_plan_id := ''plan-'' @ take 32 fingerprint, tp_fingerprint := fingerprint,
        tp_execution_fingerprint := deterministic_fingerprint L (wire_execution_document has_dependencies p)\<rparr>)"

definition decode_test_plan_document :: "pylib \<Rightarrow> json \<Rightarrow> store_error + test_plan" where
  "decode_test_plan_document L v =
     bindE (wire_mapping ''plan'' v) (\<lambda>raw.
     let has_dependencies = (''dependencies'' \<in> set (keys raw)) in
     bindE (exact_fields ''plan'' raw (if has_dependencies then plan_wire_fields
       else removeAll ''dependencies'' plan_wire_fields)) (\<lambda>_.
     bindE (bindE (wire_item raw ''source'') decode_source) (\<lambda>source.
     bindE (bindE (wire_item raw ''changes'') decode_changes) (\<lambda>changes.
     bindE (bindE (wire_item raw ''eligible_targets'') (wire_sequence ''plan.eligible_targets'' 512)) (\<lambda>eligible.
     bindE (ensure (sorted_set eligible = eligible \<and> eligible \<noteq> [])
       (StoreContractError ''plan eligible_targets must be non-empty, unique, and sorted'')) (\<lambda>_.
     bindE (bindE (wire_item raw ''selected_targets'') (wire_sequence ''plan.selected_targets'' 512)) (\<lambda>selected.
     bindE (ensure (sorted_set selected = selected)
       (StoreContractError ''plan selected_targets must be unique and sorted'')) (\<lambda>_.
     bindE (ensure (set selected \<subseteq> set eligible)
       (StoreContractError ''plan selected_targets exceed eligible targets'')) (\<lambda>_.
     bindE (bindE (wire_item raw ''dependency_waves'') (decode_waves selected)) (\<lambda>waves.
     bindE (bindE (wire_item raw ''selection'') (decode_selection selected)) (\<lambda>selection.
     bindE (decode_dependencies selected selection (map_of raw ''dependencies'')) (\<lambda>dependencies.
     bindE (ensure (list_all (exact_dependencies selected waves) dependencies)
       (StoreContractError ''plan exact dependencies are invalid'')) (\<lambda>_.
     case (map_of raw ''complete_intent_fallback'', map_of raw ''reusable'') of
       (Some (JBool fallback), Some (JBool reusable)) \<Rightarrow>
         bindE (bindE (wire_item raw ''manifest_fingerprint'') (wire_text ''plan.manifest_fingerprint'' 64)) (\<lambda>manifest.
         bindE (bindE (wire_item raw ''repository_id'') (wire_text ''plan.repository_id'' 256)) (\<lambda>repository_id.
         bindE (ensure (repository_id = si_repository_id source)
           (StoreContractError ''plan repository identity is contradictory'')) (\<lambda>_.
         bindE (bindE (wire_item raw ''intent'') (wire_text ''plan.intent'' 64)) (\<lambda>intent.
         bindE (bindE (wire_item raw ''timeouts'') decode_timeouts) (\<lambda>timeouts.
         bindE (bindE (wire_item raw ''evidence_policies'') (decode_policies L intent)) (\<lambda>policies.
         let p = identify_plan L has_dependencies
               \<lparr>tp_plan_id = [], tp_fingerprint = [], tp_execution_fingerprint = [],
                tp_manifest_fingerprint = manifest, tp_repository_id = repository_id, tp_intent = intent,
                tp_timeouts = timeouts, tp_source = source, tp_changes = changes,
                tp_eligible_targets = eligible, tp_selected_targets = selected, tp_dependency_waves = waves,
                tp_dependencies = dependencies, tp_selection = selection,
                tp_complete_intent_fallback = fallback, tp_reusable = reusable,
                tp_evidence_policies = policies,
                tp_dependency_schema_version = (if has_dependencies then 3 else 2)\<rparr> in
         bindE (ensure (map_of raw ''fingerprint'' = Some (JStr (tp_fingerprint p)) \<and>
             map_of raw ''execution_fingerprint'' = Some (JStr (tp_execution_fingerprint p)) \<and>
             map_of raw ''plan_id'' = Some (JStr (tp_plan_id p)))
           (StoreContractError ''plan deterministic identity is invalid'')) (\<lambda>_.
         Inr p)))))))
     | _ \<Rightarrow> Inl (StoreContractError ''plan boolean fields are invalid''))))))))))))))"

end
