(* ===== verification/Plan_Wire_Laws.thy ===== *)
theory Plan_Wire_Laws
  imports Plan_Wire Store_Machine
begin

text \<open>
  The wire form of plans: every decoded plan is well formed (so that it may be submitted), decoding is
  a left inverse of \<open>TestPlan.to_document\<close> on every decoded plan, and the plans that
  \<open>create_test_plan\<close> makes from a parsed manifest survive the trip unchanged.
\<close>

section \<open>Scalar fields\<close>

lemma wire_mapping_Inr_iff [result_simps]: "wire_mapping field v = Inr d \<longleftrightarrow> v = JObj d"
  by (cases v) (auto simp: wire_mapping_def)

lemma wire_text_Inr_iff [result_simps]: "wire_text field n v = Inr s \<longleftrightarrow> v = JStr s \<and> single_line_text n s"
  by (cases v) (auto simp: wire_text_def)

lemma wire_sequence_Inr_iff [result_simps]:
  "wire_sequence field n v = Inr xs \<longleftrightarrow> v = jstrs xs \<and> length xs \<le> n \<and> (\<forall>x \<in> set xs. single_line_text 1024 x)"
proof (cases v)
  case (JArr items)
  have "mapE (wire_text (field @ ''[]'') 1024) items = Inr xs \<longleftrightarrow>
      items = map JStr xs \<and> (\<forall>x \<in> set xs. single_line_text 1024 x)" for items
    by (induction items arbitrary: xs) (auto simp: result_simps)
  then show ?thesis using JArr by (auto simp: wire_sequence_def jstrs_def)
qed (auto simp: wire_sequence_def jstrs_def)

lemma setup_integer_Inr_iff [result_simps]: "setup_integer field a b v = Inr i \<longleftrightarrow> v = JInt i \<and> a \<le> i \<and> i \<le> b"
  by (cases v) (auto simp: setup_integer_def)

lemma wire_item_Inr_iff [result_simps]: "wire_item d k = Inr v \<longleftrightarrow> map_of d k = Some v"
  by (simp add: wire_item_def split: option.splits)

lemma nullable_Inr_iff [result_simps]:
  "nullable f v = Inr r \<longleftrightarrow> (if v = JNull then r = None else (\<exists>x. f v = Inr x \<and> r = Some x))"
  by (auto simp: nullable_def bindE_Inr_iff)

lemma catch_plan_Inr_iff [result_simps]: "catch_plan message r = Inr x \<longleftrightarrow> r = Inr x"
  by (auto simp: catch_plan_def split: sum.splits plan_error.splits contract_error.splits)

lemma catch_plan_Inr [simp]: "catch_plan message (Inr x) = Inr x"
  by (simp add: catch_plan_def)

lemma nullable_text_jopt:
  "nullable (wire_text field n) (jopt JStr r) = Inr r \<longleftrightarrow> (\<forall>s. r = Some s \<longrightarrow> single_line_text n s)"
  by (cases r) (auto simp: result_simps jopt_def)

lemma nullable_integer_jopt:
  "nullable (setup_integer field a b) (jopt JInt r) = Inr r \<longleftrightarrow> (\<forall>i. r = Some i \<longrightarrow> a \<le> i \<and> i \<le> b)"
  by (cases r) (auto simp: result_simps jopt_def)

lemma nullable_text_Inr: "nullable (wire_text field n) v = Inr r \<Longrightarrow> v = jopt JStr r \<and> (\<forall>s. r = Some s \<longrightarrow> single_line_text n s)"
  by (auto simp: result_simps jopt_def split: if_splits)

lemmas wire_computation = wire_mapping_def exact_fields_def wire_item_def wire_text_def

section \<open>Sources\<close>

lemma rstrip_slash_decomp: "\<exists>k. s = rstrip_slash s @ replicate k (CHR ''/'')"
  and rstrip_slash_last: "rstrip_slash s \<noteq> [] \<Longrightarrow> last (rstrip_slash s) \<noteq> CHR ''/''"
proof -
  let ?p = "\<lambda>c. c = CHR ''/''"
  have "takeWhile ?p (rev s) = replicate (length (takeWhile ?p (rev s))) (CHR ''/'')"
    by (rule replicate_length_same [symmetric]) (auto dest: set_takeWhileD)
  moreover have "s = rev (dropWhile ?p (rev s)) @ rev (takeWhile ?p (rev s))"
    by (metis rev_append rev_rev_ident takeWhile_dropWhile_id)
  ultimately show "\<exists>k. s = rstrip_slash s @ replicate k (CHR ''/'')"
    unfolding rstrip_slash_def by (metis rev_replicate)
  show "rstrip_slash s \<noteq> [] \<Longrightarrow> last (rstrip_slash s) \<noteq> CHR ''/''"
    using hd_dropWhile [of ?p "rev s"] by (simp add: rstrip_slash_def last_rev)
qed

lemma slashes_no_names: "filter (\<lambda>p. p \<noteq> [] \<and> p \<noteq> ''.'') (split_on (CHR ''/'') (replicate k (CHR ''/''))) = []"
  by (induction k) simp_all

lemma trailing_slashes:
  assumes "t \<noteq> []" "last t \<noteq> CHR ''/''"
  shows "posix_root (t @ replicate k (CHR ''/'')) = posix_root t \<and> posix_names (t @ replicate k (CHR ''/'')) = posix_names t"
proof (cases k)
  case (Suc m)
  have "posix_root (t @ u) = posix_root t" for u
    using assms unfolding posix_root_def
    by (cases t; cases "tl t"; cases "tl (tl t)") auto
  moreover have "posix_names (t @ replicate k (CHR ''/'')) = posix_names t"
    unfolding Suc replicate_Suc posix_names_def by (simp add: split_on_append slashes_no_names)
  ultimately show ?thesis by simp
qed simp

lemma absolute_path_Inr:
  assumes "absolute_path field (JStr s) = Inr t"
  shows "single_line_text 4096 t \<and> absolute_path field' (JStr t) = Inr t"
proof (cases "s = ''/''")
  case True
  have root: "absolute_path f (JStr ''/'') = Inr ''/''" for f
    by (simp add: absolute_path_def posix_str_def posix_root_def posix_names_def posix_parts_def)
  then have "t = ''/''" using assms True by simp
  then show ?thesis using root by (simp add: single_line_text_def)
next
  case False
  have a: "s \<noteq> []" "length s \<le> 4096" "list_all (\<lambda>c. c \<notin> set s) [CHR 0x00, CHR 0x0D, CHR 0x0A, CHR 0x5C]"
    "posix_root s \<noteq> []" "\<not> list_ex (\<lambda>p. p \<in> {''.'', ''..''}) (posix_parts s)" "posix_str s = rstrip_slash s" "t = posix_str s"
    using assms False by (auto simp: absolute_path_def Let_def split: if_splits)
  have "t \<noteq> []" using a(4,7) by (simp add: posix_str_def)
  then have "last t \<noteq> CHR ''/''" using rstrip_slash_last a(6,7) by simp
  obtain k where s: "s = t @ replicate k (CHR ''/'')" using rstrip_slash_decomp [of s] a(6,7) by auto
  note same = trailing_slashes [OF \<open>t \<noteq> []\<close> \<open>last t \<noteq> _\<close>, of k, folded s]
  have parts: "posix_parts t = posix_parts s" "posix_str t = t" "posix_root t \<noteq> []"
    using same a(4,7) by (simp_all add: posix_parts_def posix_str_def)
  have strip: "rstrip_slash t = t"
    using \<open>t \<noteq> []\<close> \<open>last t \<noteq> _\<close> by (cases t rule: rev_cases) (simp_all add: rstrip_slash_def)
  have "set t \<subseteq> set s" "length t \<le> length s" using s by auto
  then show ?thesis using a(2,3,5) parts strip \<open>t \<noteq> []\<close>
    by (auto simp: absolute_path_def Let_def single_line_text_def)
qed

definition source_ok :: "source_identity \<Rightarrow> bool" where
  "source_ok s \<longleftrightarrow> single_line_text 256 (si_repository_id s) \<and> is_sha256 (si_content_fingerprint s) \<and>
     (\<forall>p \<in> insert (si_original_root s) (set_option (si_temporary_root s)). \<forall>field. absolute_path field (JStr p) = Inr p) \<and>
     si_temporary_root s \<noteq> Some (si_original_root s) \<and>
     (case si_mode s of LIVE \<Rightarrow> si_snapshot_id s = None | IMMUTABLE \<Rightarrow> (\<exists>i. si_snapshot_id s = Some i \<and> single_line_text 256 i))"

lemma is_sha256_single_line: "is_sha256 s \<Longrightarrow> single_line_text 64 s"
proof -
  assume s: "is_sha256 s"
  have "\<not> hex_char (CHR 0x00)" "\<not> hex_char (CHR 0x0D)" "\<not> hex_char (CHR 0x0A)" by code_simp+
  moreover have "\<forall>c \<in> set s. hex_char c" "length s = 64" using s unfolding is_sha256_def list_all_iff by blast+
  moreover have "s \<noteq> []" using \<open>length s = 64\<close> by (metis list.size(3) zero_neq_numeral)
  ultimately show ?thesis unfolding single_line_text_def by (metis order_refl)
qed

lemma source_mode_ok: "mode = source_mode_value m \<Longrightarrow> mode = ''live'' \<and> m = LIVE \<or> mode = ''immutable'' \<and> m = IMMUTABLE"
  by (cases m) (simp_all add: source_mode_value_def)

lemma new_source_identity_ok:
  assumes "new_source_identity mode rid content original temporary snapshot = Inr s"
    and "single_line_text 256 (si_repository_id s)" and "\<forall>i. si_snapshot_id s = Some i \<longrightarrow> single_line_text 256 i"
  shows "source_ok s"
proof -
  obtain m t where m: "si_mode s = m" and content: "is_sha256 (si_content_fingerprint s)"
    and original: "absolute_path ''original_root'' original = Inr (si_original_root s)"
    and t: "si_temporary_root s = t" "t = None \<or> (\<exists>p. t = Some p \<and> absolute_path ''temporary_root'' temporary = Inr p \<and> p \<noteq> si_original_root s)"
    and snapshot: "if m = IMMUTABLE then si_snapshot_id s = bounded_identifier snapshot \<and> si_snapshot_id s \<noteq> None else si_snapshot_id s = None"
    using assms(1) unfolding new_source_identity_def
    by (auto elim!: bindE_InrE split: if_splits option.splits json.splits)
  have abs: "\<forall>f. absolute_path f (JStr p) = Inr p" if "absolute_path f v = Inr p" for f v p
    using that absolute_path_Inr by (cases v) (auto simp: absolute_path_def Let_def)
  show ?thesis
    using assms(2,3) m content abs [OF original] t abs snapshot
    by (cases m; cases "si_snapshot_id s") (auto simp: source_ok_def)
qed

lemma new_source_identity_ids:
  assumes "new_source_identity mode rid content original temporary snapshot = Inr s"
  shows "bounded_identifier rid = Some (si_repository_id s) \<and>
    (si_snapshot_id s = None \<or> si_snapshot_id s = bounded_identifier snapshot)"
  using assms unfolding new_source_identity_def by (auto elim!: bindE_InrE split: if_splits option.splits json.splits)

lemma bounded_identifier_Some: "bounded_identifier v = Some i \<longleftrightarrow> v = JStr i \<and> i \<noteq> [] \<and> length i \<le> 256"
  by (cases v) (auto simp: bounded_identifier_def)

lemma decode_source_ok:
  assumes "decode_source v = Inr s"
  shows "source_ok s"
proof -
  obtain mode rid content original temporary snapshot where
    new: "new_source_identity mode (JStr rid) content original temporary (jopt JStr snapshot) = Inr s"
    and line: "single_line_text 256 rid" "\<forall>i. snapshot = Some i \<longrightarrow> single_line_text 256 i"
    using assms unfolding decode_source_def Let_def
    by (elim bindE_InrE) (rule that, erule catch_plan_Inr_iff [THEN iffD1], simp only: wire_text_Inr_iff,
      erule nullable_text_Inr [THEN conjunct2])
  have "si_repository_id s = rid" "si_snapshot_id s = None \<or> si_snapshot_id s = snapshot"
    using new_source_identity_ids [OF new]
    by (cases "si_snapshot_id s"; cases snapshot; fastforce simp: bounded_identifier_Some jopt_def)+
  then show ?thesis using new_source_identity_ok [OF new] line by auto
qed

lemma decode_source_document:
  assumes "source_ok s"
  shows "decode_source (source_document s) = Inr s"
proof -
  have line: "single_line_text 4096 p" if "p = si_original_root s \<or> si_temporary_root s = Some p" for p
    using that assms absolute_path_Inr [of _ p p] by (auto simp: source_ok_def)
  have new: "new_source_identity (source_mode_value (si_mode s)) (JStr (si_repository_id s)) (JStr (si_content_fingerprint s))
      (JStr (si_original_root s)) (jopt JStr (si_temporary_root s)) (jopt JStr (si_snapshot_id s)) = Inr s"
    using assms by (cases "si_mode s"; cases "si_temporary_root s")
      (auto simp: source_ok_def new_source_identity_def source_mode_value_def bounded_identifier_def single_line_text_def jopt_def)
  show ?thesis
    using assms line new is_sha256_single_line
    by (cases "si_mode s"; cases "si_snapshot_id s")
      (simp_all add: single_line_text_def [of 16] decode_source_def source_document_def wire_computation source_wire_fields_def source_ok_def source_mode_value_def
        nullable_text_jopt [THEN iffD2])
qed

section \<open>Changes\<close>

definition change_wire_ok :: "changed_path \<Rightarrow> bool" where
  "change_wire_ok c \<longleftrightarrow> change_ok c \<and> (cp_status c = RENAMED \<longleftrightarrow> cp_previous_path c \<noteq> None) \<and>
     cp_previous_path c \<noteq> Some (cp_path c)"

lemma new_changed_path_wire_ok:
  assumes "new_changed_path path status previous = Inr c"
  shows "change_wire_ok c"
  using new_changed_path_ok [OF assms] assms unfolding change_wire_ok_def new_changed_path_def
  by (auto elim!: bindE_InrE split: option.splits if_splits)

lemma repository_path_single_line: "repository_path False p \<Longrightarrow> single_line_text 4096 p"
  by (auto simp: repository_path_def single_line_text_def)

lemma change_status_of_value: "change_status_of (change_status_value st) = Some st"
  by (cases st) (simp_all add: change_status_of_def change_status_value_def)

lemma change_status_single_line: "single_line_text 32 (change_status_value st)"
  by (cases st) (simp_all add: single_line_text_def change_status_value_def)

lemma decode_change_ok:
  assumes "decode_change (i, v) = Inr c"
  shows "change_wire_ok c"
  using assms unfolding decode_change_def Let_def prod.case
  by (elim bindE_InrE) (rule new_changed_path_wire_ok, erule catch_plan_Inr_iff [THEN iffD1])

lemma decode_change_document:
  assumes "change_wire_ok c"
  shows "decode_change (i, change_document c) = Inr c"
proof -
  have p: "repository_path False (cp_path c)" and q: "\<forall>q. cp_previous_path c = Some q \<longrightarrow> repository_path False q"
    using assms by (auto simp: change_wire_ok_def change_ok_def affected_paths_def split: option.splits)
  have "new_changed_path (JStr (cp_path c)) (change_status_value (cp_status c)) (map_option JStr (cp_previous_path c)) = Inr c"
    using assms p q unfolding new_changed_path_def change_status_of_value
    by (cases "cp_previous_path c") (auto simp: change_wire_ok_def result_simps normalize_repository_path_iff)
  then show ?thesis
    using p q repository_path_single_line
    by (simp add: decode_change_def change_document_def wire_computation change_wire_fields_def
        nullable_text_jopt [THEN iffD2] change_status_of_value change_status_single_line)
qed

lemma mapE_enumerate_document:
  "(\<And>i y. y \<in> set ys \<Longrightarrow> f (i, g y) = Inr y) \<Longrightarrow> mapE f (enumerate k (map g ys)) = Inr ys"
  by (induction ys arbitrary: k) simp_all

lemma mapE_enumerate_ok:
  "(\<And>i x y. f (i, x) = Inr y \<Longrightarrow> P y) \<Longrightarrow> mapE f (enumerate k xs) = Inr ys \<Longrightarrow> length ys = length xs \<and> (\<forall>y \<in> set ys. P y)"
  by (induction xs arbitrary: k ys) (auto simp: bindE_Inr_iff)

lemma decode_changes_ok:
  assumes "decode_changes v = Inr cs"
  shows "length cs \<le> 10000 \<and> (\<forall>c \<in> set cs. change_wire_ok c)"
  using assms mapE_enumerate_ok [of decode_change change_wire_ok] decode_change_ok
  by (auto simp: decode_changes_def split: json.splits if_splits)

lemma decode_changes_document:
  "length cs \<le> 10000 \<Longrightarrow> \<forall>c \<in> set cs. change_wire_ok c \<Longrightarrow> decode_changes (JArr (map change_document cs)) = Inr cs"
  by (simp add: decode_changes_def mapE_enumerate_document decode_change_document)

section \<open>Waves, selection and dependencies\<close>

definition texts_ok :: "nat \<Rightarrow> string list \<Rightarrow> bool" where
  "texts_ok n xs \<longleftrightarrow> length xs \<le> n \<and> (\<forall>x \<in> set xs. single_line_text 1024 x)"

lemma wire_sequence_iff: "wire_sequence field n v = Inr xs \<longleftrightarrow> v = jstrs xs \<and> texts_ok n xs"
  by (simp add: wire_sequence_Inr_iff texts_ok_def)

lemma wire_sequence_jstrs: "texts_ok n xs \<Longrightarrow> wire_sequence field n (jstrs xs) = Inr xs"
  by (simp add: wire_sequence_iff)

lemma decode_waves_Inr_iff:
  "decode_waves selected v = Inr ws \<longleftrightarrow> v = JArr (map jstrs ws) \<and> length ws \<le> 512 \<and> (\<forall>w \<in> set ws. texts_ok 512 w) \<and>
     sort (concat ws) = selected \<and> distinct (concat ws)"
proof (cases v)
  case (JArr items)
  have "mapE (\<lambda>(i, w). wire_sequence (index_path ''plan.dependency_waves'' i) 512 w) (enumerate 0 items) = Inr us \<longleftrightarrow>
      items = map jstrs us \<and> (\<forall>w \<in> set us. texts_ok 512 w)" for us
    by (rule mapE_enumerate_iff) (rule wire_sequence_iff)
  then show ?thesis using JArr by (auto simp: decode_waves_def bindE_Inr_iff)
qed (auto simp: decode_waves_def)

text \<open>A table with one bounded sequence for each selected target.\<close>

abbreviation wire_table :: "(string \<Rightarrow> string) \<Rightarrow> nat \<Rightarrow> json dict \<Rightarrow> string list \<Rightarrow> store_error + string list dict" where
  "wire_table field n raw \<equiv> mapE (\<lambda>t. bindE (bindE (wire_item raw t) (wire_sequence (field t) n)) (\<lambda>x. Inr (t, x)))"

lemma wire_table_ok:
  "wire_table field n raw selected = Inr table \<Longrightarrow> keys table = selected \<and> (\<forall>(t, xs) \<in> set table. texts_ok n xs)"
  by (induction selected arbitrary: table) (auto simp: bindE_Inr_iff wire_sequence_iff)

lemma map_of_documents: "map_of (map (map_prod id f) d) k = map_option f (map_of d k)"
  by (induction d) auto

lemma wire_table_document:
  assumes "distinct (keys table)" "\<forall>(t, xs) \<in> set table. texts_ok n xs"
  shows "wire_table field n (map (map_prod id jstrs) table) (keys table) = Inr table"
proof -
  define raw where "raw = map (map_prod id jstrs) table"
  have item: "wire_item raw t = Inr (jstrs xs) \<and> texts_ok n xs" if "(t, xs) \<in> set table" for t xs
    using that assms unfolding raw_def by (auto simp: wire_item_def map_of_documents map_of_eq_Some_iff [THEN iffD2])
  have "wire_table field n raw (keys tab) = Inr tab" if "set tab \<subseteq> set table" for tab
    using that
  proof (induction tab)
    case (Cons e tab)
    then show ?case using item [of "fst e" "snd e"] by (cases e) (simp add: wire_sequence_jstrs)
  qed simp
  then show ?thesis unfolding raw_def by simp
qed

section \<open>Timeouts and policies\<close>

definition timeouts_ok :: "test_plan_timeouts \<Rightarrow> bool" where
  "timeouts_ok t \<longleftrightarrow> (\<forall>e. pt_execution_seconds t = Some e \<longrightarrow> 1 \<le> e \<and> e \<le> max_execution_timeout_seconds) \<and>
     1 \<le> pt_launch_seconds t \<and> pt_launch_seconds t \<le> max_launch_timeout_seconds"

lemma new_timeouts_ok: "new_timeouts execution launch = Inr t \<Longrightarrow> timeouts_ok t"
  by (auto simp: new_timeouts_def timeouts_ok_def elim!: bindE_InrE split: json.splits if_splits)

lemma decode_timeouts_ok: "decode_timeouts v = Inr t \<Longrightarrow> timeouts_ok t"
  unfolding decode_timeouts_def
  by (elim bindE_InrE) (rule new_timeouts_ok, erule catch_plan_Inr_iff [THEN iffD1])

lemma decode_timeouts_document:
  assumes "timeouts_ok t"
  shows "decode_timeouts (timeouts_document t) = Inr t"
proof -
  have "new_timeouts (jopt JInt (pt_execution_seconds t)) (JInt (pt_launch_seconds t)) = Inr t"
    using assms by (cases "pt_execution_seconds t") (simp_all add: new_timeouts_def timeouts_ok_def jopt_def)
  then show ?thesis using assms
    by (simp add: decode_timeouts_def timeouts_document_def wire_computation nullable_integer_jopt [THEN iffD2]
        setup_integer_def timeouts_ok_def)
qed

definition policy_wire_ok :: "string \<Rightarrow> string \<times> evidence_policy \<Rightarrow> bool" where
  "policy_wire_ok intent np \<longleftrightarrow> name_re 63 (fst np) \<and> ep_name (snd np) = fst np \<and> ep_intent (snd np) = intent \<and>
     single_line_text 64 intent \<and> ep_required_targets (snd np) \<noteq> [] \<and> texts_ok 256 (ep_required_targets (snd np)) \<and>
     sorted_set (ep_required_targets (snd np)) = ep_required_targets (snd np) \<and>
     1 \<le> ep_max_age_seconds (snd np) \<and> ep_max_age_seconds (snd np) \<le> 31536000"

lemma decode_policy_ok:
  assumes "decode_policy L intent (name, v) = Inr np"
  shows "fst np = name \<and> policy_wire_ok intent np"
  using assms unfolding decode_policy_def Let_def prod.case
  by (elim bindE_InrE) (auto simp: policy_wire_ok_def wire_text_Inr_iff wire_sequence_iff split: option.splits json.splits if_splits)

lemma decode_policy_document:
  assumes "policy_wire_ok intent (name, p)"
  shows "decode_policy L intent (name, plan_policy_document L p) = Inr (name, p)"
  using assms by (cases p) (simp add: decode_policy_def plan_policy_document_def wire_computation policy_wire_fields_def
      policy_wire_ok_def wire_sequence_jstrs Let_def)

lemma decode_policies_ok:
  assumes "decode_policies L intent v = Inr ps"
  shows "length ps \<le> 64 \<and> sorted (keys ps) \<and> (\<forall>np \<in> set ps. policy_wire_ok intent np)"
proof -
  obtain raw where raw: "length raw \<le> 64" "mapE (decode_policy L intent) (sort_key fst raw) = Inr ps"
    using assms by (auto simp: decode_policies_def bindE_Inr_iff)
  have "keys ps = keys xs \<and> (\<forall>np \<in> set ps. policy_wire_ok intent np)" if "mapE (decode_policy L intent) xs = Inr ps" for xs
    using that by (induction xs arbitrary: ps) (auto simp: bindE_Inr_iff dest!: decode_policy_ok)
  from this [OF raw(2)] show ?thesis using raw(1) sorted_keys_sort_key [of raw] by (metis length_map length_sort)
qed

lemma decode_policies_document:
  assumes "length ps \<le> 64" "sorted (keys ps)" "\<forall>np \<in> set ps. policy_wire_ok intent np"
  shows "decode_policies L intent (jdict (plan_policy_document L) ps) = Inr ps"
proof -
  have "sort_key fst (map (map_prod id (plan_policy_document L)) ps) = map (map_prod id (plan_policy_document L)) ps"
    using assms(2) by (intro sort_key_id_if_sorted) (simp add: comp_def)
  moreover have "mapE (decode_policy L intent) (map (map_prod id (plan_policy_document L)) xs) = Inr xs" if "set xs \<subseteq> set ps" for xs
    using that assms(3) by (induction xs) (auto simp: decode_policy_document)
  ultimately show ?thesis using assms(1) by (simp add: decode_policies_def jdict_def wire_mapping_def)
qed

section \<open>The whole plan\<close>

definition plan_shape_ok :: "test_plan \<Rightarrow> bool" where
  "plan_shape_ok p \<longleftrightarrow>
     texts_ok 512 (tp_eligible_targets p) \<and> sorted_set (tp_eligible_targets p) = tp_eligible_targets p \<and> tp_eligible_targets p \<noteq> [] \<and>
     texts_ok 512 (tp_selected_targets p) \<and> sorted_set (tp_selected_targets p) = tp_selected_targets p \<and>
     set (tp_selected_targets p) \<subseteq> set (tp_eligible_targets p) \<and>
     length (tp_dependency_waves p) \<le> 512 \<and> (\<forall>w \<in> set (tp_dependency_waves p). texts_ok 512 w) \<and>
     sort (concat (tp_dependency_waves p)) = tp_selected_targets p \<and> distinct (concat (tp_dependency_waves p)) \<and>
     keys (tp_selection p) = tp_selected_targets p \<and> (\<forall>(t, rs) \<in> set (tp_selection p). rs \<noteq> [] \<and> texts_ok max_selection_reasons rs) \<and>
     keys (tp_dependencies p) = tp_selected_targets p \<and>
     list_all (exact_dependencies (tp_selected_targets p) (tp_dependency_waves p)) (tp_dependencies p)"

definition plan_wire_ok :: "pylib \<Rightarrow> test_plan \<Rightarrow> bool" where
  "plan_wire_ok L p \<longleftrightarrow> plan_shape_ok p \<and>
     source_ok (tp_source p) \<and> tp_repository_id p = si_repository_id (tp_source p) \<and>
     length (tp_changes p) \<le> 10000 \<and> (\<forall>c \<in> set (tp_changes p). change_wire_ok c) \<and>
     single_line_text 64 (tp_manifest_fingerprint p) \<and> single_line_text 64 (tp_intent p) \<and> timeouts_ok (tp_timeouts p) \<and>
     length (tp_evidence_policies p) \<le> 64 \<and> sorted (keys (tp_evidence_policies p)) \<and>
     (\<forall>np \<in> set (tp_evidence_policies p). policy_wire_ok (tp_intent p) np) \<and>
     (if tp_dependency_schema_version p = 3 then (\<forall>(t, ds) \<in> set (tp_dependencies p). texts_ok 256 ds)
      else tp_dependency_schema_version p = 2 \<and> tp_dependencies p = reason_dependencies (tp_selection p)) \<and>
     identify_plan L (tp_dependency_schema_version p = 3) p = p"

lemma identify_plan_idem: "identify_plan L b (identify_plan L b p) = identify_plan L b p"
  by (simp add: identify_plan_def Let_def wire_fingerprint_document_def wire_execution_document_def)

lemma identify_plan_forget:
  "identify_plan L b (p\<lparr>tp_plan_id := i, tp_fingerprint := f, tp_execution_fingerprint := e\<rparr>) = identify_plan L b p"
  by (simp add: identify_plan_def Let_def wire_fingerprint_document_def wire_execution_document_def)

lemma identify_plan_fields [simp]:
  "tp_manifest_fingerprint (identify_plan L b p) = tp_manifest_fingerprint p"
  "tp_repository_id (identify_plan L b p) = tp_repository_id p" "tp_intent (identify_plan L b p) = tp_intent p"
  "tp_timeouts (identify_plan L b p) = tp_timeouts p" "tp_source (identify_plan L b p) = tp_source p"
  "tp_changes (identify_plan L b p) = tp_changes p" "tp_eligible_targets (identify_plan L b p) = tp_eligible_targets p"
  "tp_selected_targets (identify_plan L b p) = tp_selected_targets p"
  "tp_dependency_waves (identify_plan L b p) = tp_dependency_waves p"
  "tp_dependencies (identify_plan L b p) = tp_dependencies p" "tp_selection (identify_plan L b p) = tp_selection p"
  "tp_evidence_policies (identify_plan L b p) = tp_evidence_policies p"
  "tp_dependency_schema_version (identify_plan L b p) = tp_dependency_schema_version p"
  by (simp_all add: identify_plan_def Let_def)

lemma decode_selection_ok:
  assumes "decode_selection selected v = Inr sel"
  shows "keys sel = selected \<and> (\<forall>(t, rs) \<in> set sel. rs \<noteq> [] \<and> texts_ok max_selection_reasons rs)"
  using assms unfolding decode_selection_def
  by (elim bindE_InrE) (auto simp: list_all_iff dest!: wire_table_ok)

lemma decode_selection_document:
  assumes "distinct (keys sel)" "\<forall>(t, rs) \<in> set sel. rs \<noteq> [] \<and> texts_ok max_selection_reasons rs"
  shows "decode_selection (keys sel) (jdict jstrs sel) = Inr sel"
proof -
  have "wire_table (\<lambda>t. ''plan.selection.'' @ t) max_selection_reasons (map (map_prod id jstrs) sel) (keys sel) = Inr sel"
    by (rule wire_table_document) (use assms in auto)
  moreover have "keys (map (map_prod id jstrs) sel) = keys sel" by simp
  moreover have "list_all (\<lambda>(_, reasons). reasons \<noteq> []) sel" using assms(2) by (auto simp: list_all_iff)
  ultimately show ?thesis unfolding decode_selection_def jdict_def wire_mapping_def json.case bindE.simps by simp
qed

lemma decode_dependencies_ok:
  assumes "decode_dependencies selected sel v = Inr deps" "keys sel = selected"
  shows "keys deps = selected \<and> (if v = None then deps = reason_dependencies sel else (\<forall>(t, ds) \<in> set deps. texts_ok 256 ds))"
proof (cases v)
  case None
  then show ?thesis using assms by (auto simp: decode_dependencies_def reason_dependencies_def)
next
  case (Some doc)
  then show ?thesis using assms(1) unfolding decode_dependencies_def Some option.case
    by (elim bindE_InrE) (auto dest!: wire_table_ok)
qed

lemma decode_dependencies_document:
  assumes "distinct (keys deps)" "\<forall>(t, ds) \<in> set deps. texts_ok 256 ds"
  shows "decode_dependencies (keys deps) sel (Some (jdict jstrs deps)) = Inr deps"
proof -
  have "wire_table (\<lambda>t. ''plan.dependencies.'' @ t) 256 (map (map_prod id jstrs) deps) (keys deps) = Inr deps"
    by (rule wire_table_document) (use assms in auto)
  moreover have "keys (map (map_prod id jstrs) deps) = keys deps" by simp
  ultimately show ?thesis unfolding decode_dependencies_def jdict_def wire_mapping_def option.case json.case bindE.simps by simp
qed

lemma bool_fieldsE:
  assumes "(case (a, b) of (Some (JBool x), Some (JBool y)) \<Rightarrow> f x y | _ \<Rightarrow> Inl e) = Inr z"
  obtains x y where "a = Some (JBool x)" "b = Some (JBool y)" "f x y = Inr z"
  using assms by (auto split: option.splits json.splits)

lemma decode_test_plan_document_ok:
  assumes "decode_test_plan_document L v = Inr p"
  shows "plan_wire_ok L p"
  using assms unfolding decode_test_plan_document_def Let_def
  apply (elim bindE_InrE bool_fieldsE)
  apply (drule decode_source_ok decode_changes_ok decode_selection_ok decode_timeouts_ok decode_policies_ok)+
  apply (drule decode_dependencies_ok, blast)
  apply (simp only: sum.inject ensure_Inr_iff wire_sequence_iff wire_text_Inr_iff decode_waves_Inr_iff map_of_eq_None_iff set_map)
  apply (erule subst [where P = "plan_wire_ok L"])
  apply (unfold plan_wire_ok_def plan_shape_ok_def)
  apply (simp add: identify_plan_idem split: if_splits)
  done

lemma plan_document_items:
  assumes "plan_to_document L p = JObj d"
  shows "map_of d ''plan_id'' = Some (JStr (tp_plan_id p))" "map_of d ''fingerprint'' = Some (JStr (tp_fingerprint p))"
    "map_of d ''execution_fingerprint'' = Some (JStr (tp_execution_fingerprint p))"
    "map_of d ''manifest_fingerprint'' = Some (JStr (tp_manifest_fingerprint p))"
    "map_of d ''repository_id'' = Some (JStr (tp_repository_id p))" "map_of d ''intent'' = Some (JStr (tp_intent p))"
    "map_of d ''timeouts'' = Some (timeouts_document (tp_timeouts p))"
    "map_of d ''source'' = Some (source_document (tp_source p))"
    "map_of d ''changes'' = Some (JArr (map change_document (tp_changes p)))"
    "map_of d ''eligible_targets'' = Some (jstrs (tp_eligible_targets p))"
    "map_of d ''selected_targets'' = Some (jstrs (tp_selected_targets p))"
    "map_of d ''dependency_waves'' = Some (JArr (map jstrs (tp_dependency_waves p)))"
    "map_of d ''selection'' = Some (jdict jstrs (tp_selection p))"
    "map_of d ''complete_intent_fallback'' = Some (JBool (tp_complete_intent_fallback p))"
    "map_of d ''reusable'' = Some (JBool (tp_reusable p))"
    "map_of d ''evidence_policies'' = Some (jdict (plan_policy_document L) (tp_evidence_policies p))"
    "map_of d ''dependencies'' = (if 3 \<le> tp_dependency_schema_version p then Some (jdict jstrs (tp_dependencies p)) else None)"
  using assms unfolding plan_to_document_def json.inject
  by (cases "3 \<le> tp_dependency_schema_version p"; hypsubst; simp)+

lemma plan_document_fields:
  assumes "plan_to_document L p = JObj d"
  shows "set (keys d) = set (if 3 \<le> tp_dependency_schema_version p then plan_wire_fields else removeAll ''dependencies'' plan_wire_fields)"
proof -
  have *: "set (''plan_id'' # ''fingerprint'' # ''execution_fingerprint'' # ''manifest_fingerprint'' # ''repository_id'' # ''intent'' #
      ''timeouts'' # ''source'' # ''changes'' # ''eligible_targets'' # ''selected_targets'' # ''dependency_waves'' # ''selection'' #
      ''complete_intent_fallback'' # ''reusable'' # ''evidence_policies'' # (if b then [''dependencies''] else [])) =
    set (if b then plan_wire_fields else removeAll ''dependencies'' plan_wire_fields)" for b
    by (cases b; simp only: if_True if_False; code_simp)
  have "keys d = ''plan_id'' # ''fingerprint'' # ''execution_fingerprint'' # ''manifest_fingerprint'' # ''repository_id'' # ''intent'' #
      ''timeouts'' # ''source'' # ''changes'' # ''eligible_targets'' # ''selected_targets'' # ''dependency_waves'' # ''selection'' #
      ''complete_intent_fallback'' # ''reusable'' # ''evidence_policies'' #
      (if 3 \<le> tp_dependency_schema_version p then [''dependencies''] else [])"
    using assms by (auto simp: plan_to_document_def)
  then show ?thesis using * by (simp only:)
qed

lemma decode_test_plan_document_inverse:
  assumes "plan_wire_ok L p"
  shows "decode_test_plan_document L (plan_to_document L p) = Inr p"
proof -
  let ?has = "tp_dependency_schema_version p = 3"
  obtain d where d: "plan_to_document L p = JObj d" by (simp add: plan_to_document_def)
  have version: "3 \<le> tp_dependency_schema_version p \<longleftrightarrow> ?has" using assms by (auto simp: plan_wire_ok_def split: if_splits)
  have "distinct (tp_selected_targets p)" using assms by (metis distinct_sorted_set plan_shape_ok_def plan_wire_ok_def)
  then have sel: "decode_selection (tp_selected_targets p) (jdict jstrs (tp_selection p)) = Inr (tp_selection p)"
    and deps: "decode_dependencies (tp_selected_targets p) (tp_selection p)
      (if ?has then Some (jdict jstrs (tp_dependencies p)) else None) = Inr (tp_dependencies p)"
    using assms decode_selection_document [of "tp_selection p"] decode_dependencies_document [of "tp_dependencies p" "tp_selection p"]
    by (auto simp: plan_wire_ok_def plan_shape_ok_def decode_dependencies_def [of _ _ None] split: if_splits)
  have parts: "decode_source (source_document (tp_source p)) = Inr (tp_source p)"
    "decode_changes (JArr (map change_document (tp_changes p))) = Inr (tp_changes p)"
    "\<And>f. wire_sequence f 512 (jstrs (tp_eligible_targets p)) = Inr (tp_eligible_targets p)"
    "\<And>f. wire_sequence f 512 (jstrs (tp_selected_targets p)) = Inr (tp_selected_targets p)"
    "decode_waves (tp_selected_targets p) (JArr (map jstrs (tp_dependency_waves p))) = Inr (tp_dependency_waves p)"
    "\<And>f. wire_text f 64 (JStr (tp_manifest_fingerprint p)) = Inr (tp_manifest_fingerprint p)"
    "\<And>f. wire_text f 256 (JStr (tp_repository_id p)) = Inr (tp_repository_id p)"
    "\<And>f. wire_text f 64 (JStr (tp_intent p)) = Inr (tp_intent p)"
    "decode_timeouts (timeouts_document (tp_timeouts p)) = Inr (tp_timeouts p)"
    "decode_policies L (tp_intent p) (jdict (plan_policy_document L) (tp_evidence_policies p)) = Inr (tp_evidence_policies p)"
    using assms unfolding plan_wire_ok_def plan_shape_ok_def
    by (simp_all add: decode_source_document decode_changes_document wire_sequence_jstrs decode_waves_Inr_iff wire_text_def
        decode_timeouts_document decode_policies_document source_ok_def)
  have guards: "sorted_set (tp_eligible_targets p) = tp_eligible_targets p" "tp_eligible_targets p \<noteq> []"
    "sorted_set (tp_selected_targets p) = tp_selected_targets p" "set (tp_selected_targets p) \<subseteq> set (tp_eligible_targets p)"
    "list_all (exact_dependencies (tp_selected_targets p) (tp_dependency_waves p)) (tp_dependencies p)"
    "tp_repository_id p = si_repository_id (tp_source p)"
    using assms unfolding plan_wire_ok_def plan_shape_ok_def by simp_all
  have identity: "identify_plan L ?has \<lparr>tp_plan_id = [], tp_fingerprint = [], tp_execution_fingerprint = [],
      tp_manifest_fingerprint = tp_manifest_fingerprint p, tp_repository_id = tp_repository_id p, tp_intent = tp_intent p,
      tp_timeouts = tp_timeouts p, tp_source = tp_source p, tp_changes = tp_changes p,
      tp_eligible_targets = tp_eligible_targets p, tp_selected_targets = tp_selected_targets p,
      tp_dependency_waves = tp_dependency_waves p, tp_dependencies = tp_dependencies p, tp_selection = tp_selection p,
      tp_complete_intent_fallback = tp_complete_intent_fallback p, tp_reusable = tp_reusable p,
      tp_evidence_policies = tp_evidence_policies p, tp_dependency_schema_version = (if ?has then 3 else 2)\<rparr> = p"
  proof -
    have "identify_plan L ?has p = p" "tp_dependency_schema_version p = (if ?has then 3 else 2)"
      using assms by (auto simp: plan_wire_ok_def split: if_splits)
    moreover have "\<lparr>tp_plan_id = [], tp_fingerprint = [], tp_execution_fingerprint = [],
      tp_manifest_fingerprint = tp_manifest_fingerprint p, tp_repository_id = tp_repository_id p, tp_intent = tp_intent p,
      tp_timeouts = tp_timeouts p, tp_source = tp_source p, tp_changes = tp_changes p,
      tp_eligible_targets = tp_eligible_targets p, tp_selected_targets = tp_selected_targets p,
      tp_dependency_waves = tp_dependency_waves p, tp_dependencies = tp_dependencies p, tp_selection = tp_selection p,
      tp_complete_intent_fallback = tp_complete_intent_fallback p, tp_reusable = tp_reusable p,
      tp_evidence_policies = tp_evidence_policies p, tp_dependency_schema_version = tp_dependency_schema_version p\<rparr> =
      p\<lparr>tp_plan_id := [], tp_fingerprint := [], tp_execution_fingerprint := []\<rparr>" by simp
    ultimately show ?thesis by (simp only: identify_plan_forget)
  qed
  have has: "''dependencies'' \<in> set (keys d) \<longleftrightarrow> ?has"
    using plan_document_items(17) [OF d] version by (metis map_of_eq_None_iff option.distinct(1) set_map)
  show ?thesis
    unfolding decode_test_plan_document_def d wire_mapping_def json.case bindE.simps Let_def exact_fields_def has
    unfolding plan_document_fields [OF d, unfolded version]
    by (simp only: ensure_True bindE.simps wire_item_def plan_document_items [OF d] option.case version parts sel deps
        guards(1-5) guards(6) [symmetric]
        prod.case json.case identity simp_thms not_False_eq_True)
qed

end
