(* ===== verification/Plan_Roundtrip.thy ===== *)
theory Plan_Roundtrip
  imports Plan_Wire_Laws
begin

text \<open>
  From the planner to the wire and back: what \<open>create_test_plan\<close> makes of a parsed manifest is a
  well-formed wire plan, provided that the inputs respect the bounds of the decoder.
\<close>

section \<open>Selection reasons\<close>

definition reasons_all :: "(string \<Rightarrow> bool) \<Rightarrow> string list dict \<Rightarrow> bool" where
  "reasons_all Q reasons \<longleftrightarrow> (\<forall>(n, rs) \<in> set reasons. \<forall>r \<in> set rs. Q r)"

lemma set_dict_put: "set (dict_put k v d) \<subseteq> insert (k, v) (set d)"
  by (induction d) (auto split: if_splits)

lemma reasons_all_add: "Q reason \<Longrightarrow> reasons_all Q rs \<Longrightarrow> reasons_all Q (add_reason n reason rs)"
  unfolding reasons_all_def add_reason_def using set_dict_put map_of_SomeD
  by (fastforce split: option.splits)

lemma reasons_all_adds: "Q reason \<Longrightarrow> reasons_all Q rs \<Longrightarrow> reasons_all Q (add_reasons ns reason rs)"
  unfolding add_reasons_def by (induction ns arbitrary: rs) (simp_all add: reasons_all_add)

lemma fold_reach_reasons:
  "Q reason \<Longrightarrow> reasons_all Q (cs_reasons st) \<Longrightarrow> reasons_all Q (cs_reasons (fold (reach_neighbour reason) ns st))"
  by (induction ns arbitrary: st) (simp_all add: reach_neighbour_def reasons_all_add Let_def)

lemma closure_loop_reasons:
  assumes "closure_loop targets rd st = Inr st'" "reasons_all Q (cs_reasons st)"
    and "\<forall>n \<in> fst ` set targets. Q (''dependency-of:'' @ n) \<and> Q (''dependent-of:'' @ n)"
  shows "reasons_all Q (cs_reasons st')"
  using assms
proof (induction targets rd st rule: closure_loop.induct)
  case (1 targets rd st)
  show ?case
  proof (cases "cs_queue st")
    case (Cons name rest)
    then obtain t ns where t: "map_of targets name = Some t" "map_of rd name = Some ns"
      and l: "closure_loop targets rd (visit_target name (tc_depends_on t) ns (st\<lparr>cs_queue := rest\<rparr>)) = Inr st'"
      using "1.prems"(1) by (auto simp: closure_loop.simps [of _ _ st] split: option.splits)
    have "reasons_all Q (cs_reasons (visit_target name (tc_depends_on t) ns (st\<lparr>cs_queue := rest\<rparr>)))"
      unfolding visit_target_def using "1.prems"(2,3) map_of_Some_keys [OF t(1)]
      by (intro fold_reach_reasons) auto
    then show ?thesis using "1.IH" [OF Cons t] l "1.prems"(3) by blast
  qed (use "1.prems" in \<open>simp add: closure_loop.simps [of _ _ st]\<close>)
qed

lemma bidirectional_closure_reasons:
  assumes "bidirectional_closure targets initial reasons = Inr (sel, reasons')" "reasons_all Q reasons"
    and "\<forall>n \<in> fst ` set targets. Q (''dependency-of:'' @ n) \<and> Q (''dependent-of:'' @ n)"
  shows "reasons_all Q reasons'"
  using assms closure_loop_reasons [OF _ _ assms(3)] unfolding bidirectional_closure_def
  by (elim bindE_InrE) fastforce

text \<open>What the code writes in front of a path.\<close>

definition path_reasons :: "(string \<Rightarrow> bool) \<Rightarrow> string \<Rightarrow> bool" where
  "path_reasons Q p \<longleftrightarrow> Q (''input:'' @ p) \<and> Q (''protected-input:'' @ p) \<and> Q (''global-input:'' @ p) \<and> Q (''unmapped-input:'' @ p)"

definition live_ok :: "(string \<Rightarrow> bool) \<Rightarrow> live_selection \<Rightarrow> bool" where
  "live_ok Q st \<longleftrightarrow> reasons_all Q (ls_reasons st) \<and>
     (\<forall>p \<in> set (ls_unmatched st) \<union> set (ls_global st) \<union> set (ls_protected st). path_reasons Q p)"

lemma classify_path_live_ok:
  assumes "classify_path m eligible p st = Inr st'" "path_reasons Q p" "live_ok Q st"
  shows "live_ok Q st'"
  using assms unfolding classify_path_def
  by (auto simp: live_ok_def path_reasons_def [of _ p] simp del: append.simps intro!: reasons_all_adds [where Q = Q] split: if_splits elim!: bindE_InrE)

lemma select_live_reasons:
  assumes "select_live m eligible its changes requested = Inr (initial, reasons, fallback)"
    and "\<forall>p \<in> set (live_paths changes). path_reasons Q p" "Q ''requested''"
  shows "reasons_all Q reasons"
proof -
  obtain st where st: "foldE (classify_path m eligible) (live_paths changes)
       \<lparr>ls_initial = [], ls_reasons = [], ls_unmatched = [], ls_global = [], ls_protected = []\<rparr> = Inr st"
    and reasons: "reasons = add_reasons requested ''requested''
      (if ls_protected st \<noteq> [] \<or> ls_global st \<noteq> [] \<or> ls_unmatched st \<noteq> []
       then add_reasons its (fallback_reason st) (ls_reasons st) else ls_reasons st)"
    using assms(1) by (auto simp: select_live_def bindE_Inr_iff Let_def)
  have "live_ok Q st"
    by (rule foldE_invariant [OF st]) (use assms(2) classify_path_live_ok in \<open>auto simp: live_ok_def [of Q "\<lparr>ls_initial = [], ls_reasons = [], ls_unmatched = [], ls_global = [], ls_protected = []\<rparr>"] reasons_all_def [of Q "[]"]\<close>)
  moreover from this have "Q (fallback_reason st)" if "ls_protected st \<noteq> [] \<or> ls_global st \<noteq> [] \<or> ls_unmatched st \<noteq> []"
    using that by (auto simp: live_ok_def fallback_reason_def path_reasons_def simp del: append.simps)
  ultimately show ?thesis unfolding reasons using assms(3) by (auto simp: live_ok_def intro!: reasons_all_adds)
qed

lemma select_immutable_reasons:
  assumes "select_immutable intent its requested = (initial, reasons, fallback)"
    and "Q ''requested''" "Q (''required-by-intent:'' @ intent)"
  shows "reasons_all Q reasons"
  using assms unfolding select_immutable_def Let_def by (auto intro!: reasons_all_adds simp: reasons_all_def [of Q "[]"] simp del: append.simps)

section \<open>The pool of reasons\<close>

definition prefixed :: "string list \<Rightarrow> string list \<Rightarrow> string set" where
  "prefixed prefixes xs = (\<lambda>(prefix, x). prefix @ x) ` (set prefixes \<times> set xs)"

definition reason_pool :: "test_manifest \<Rightarrow> string \<Rightarrow> string list \<Rightarrow> string set" where
  "reason_pool m intent paths =
     set [''requested'', ''required-by-intent:'' @ intent, ''closure''] \<union>
     prefixed [''dependency-of:'', ''dependent-of:''] (keys (tm_targets m)) \<union>
     prefixed [''input:'', ''protected-input:'', ''global-input:'', ''unmapped-input:''] paths"

lemma prefixedI: "p \<in> set ps \<Longrightarrow> x \<in> set xs \<Longrightarrow> p @ x \<in> prefixed ps xs"
  by (force simp: prefixed_def)

lemma reason_pool_paths:
  "p \<in> set paths \<Longrightarrow> prefix \<in> set [''input:'', ''protected-input:'', ''global-input:'', ''unmapped-input:''] \<Longrightarrow>
     prefix @ p \<in> reason_pool m intent paths"
  unfolding reason_pool_def by (intro UnI2 prefixedI)

lemma reason_pool_names:
  "n \<in> set (keys (tm_targets m)) \<Longrightarrow> prefix \<in> set [''dependency-of:'', ''dependent-of:''] \<Longrightarrow>
     prefix @ n \<in> reason_pool m intent paths"
  unfolding reason_pool_def by (rule UnI1, rule UnI2, rule prefixedI)

lemma reason_pool_fixed: "{''requested'', ''required-by-intent:'' @ intent, ''closure''} \<subseteq> reason_pool m intent paths"
  unfolding reason_pool_def by (simp del: append.simps)

lemma prefixed_card: "finite (prefixed ps xs) \<and> card (prefixed ps xs) \<le> length ps * length xs"
proof -
  have "card (prefixed ps xs) \<le> card (set ps \<times> set xs)" unfolding prefixed_def by (intro card_image_le) simp
  also have "\<dots> \<le> length ps * length xs" by (simp add: card_cartesian_product mult_le_mono card_length)
  finally show ?thesis by (simp add: prefixed_def)
qed

lemma reason_pool_card:
  "finite (reason_pool m intent paths) \<and> card (reason_pool m intent paths) \<le> 3 + 2 * length (tm_targets m) + 4 * length paths"
proof -
  let ?A = "[''requested'', ''required-by-intent:'' @ intent, ''closure'']"
    and ?B = "prefixed [''dependency-of:'', ''dependent-of:''] (keys (tm_targets m))"
    and ?C = "prefixed [''input:'', ''protected-input:'', ''global-input:'', ''unmapped-input:''] paths"
  have "card (set ?A \<union> ?B \<union> ?C) \<le> card (set ?A) + card ?B + card ?C"
    by (meson add_mono card_Un_le le_refl le_trans)
  also have "\<dots> \<le> length ?A + 2 * length (tm_targets m) + 4 * length paths"
    using prefixed_card [of "[''dependency-of:'', ''dependent-of:'']" "keys (tm_targets m)"]
      prefixed_card [of "[''input:'', ''protected-input:'', ''global-input:'', ''unmapped-input:'']" paths] card_length [of ?A]
    by (intro add_mono) (simp_all del: set_simps card_insert_disjoint)
  finally show ?thesis unfolding reason_pool_def using prefixed_card by (simp del: append.simps)
qed

lemma prefixed_single_line:
  assumes "r \<in> prefixed ps xs" "\<forall>x \<in> set xs. single_line_text 512 x" "\<forall>p \<in> set ps. single_line_text 512 p"
  shows "single_line_text 1024 r"
  using assms by (fastforce simp: prefixed_def single_line_text_def)

lemma name_re_single_line: "name_re 63 n \<Longrightarrow> single_line_text 512 n"
  using name_re_plain [of n] by (auto simp: plain_text_def single_line_text_def)

lemma reason_pool_single_line:
  assumes "r \<in> reason_pool m intent paths" "\<forall>n \<in> fst ` set (tm_targets m). name_re 63 n"
    and "\<forall>p \<in> set paths. repository_path False p" "name_re 63 intent"
  shows "single_line_text 1024 r"
proof -
  have paths: "\<forall>p \<in> set paths. single_line_text 512 p" using assms(3) by (auto simp: repository_path_def single_line_text_def)
  have names: "\<forall>p \<in> set (keys (tm_targets m)). single_line_text 512 p" using assms(2) name_re_single_line by auto
  have prefixes: "\<forall>p \<in> set [''dependency-of:'', ''dependent-of:'']. single_line_text 512 p"
    "\<forall>p \<in> set [''input:'', ''protected-input:'', ''global-input:'', ''unmapped-input:'']. single_line_text 512 p"
    "single_line_text 1024 ''requested''" "single_line_text 1024 ''closure''"
    by (simp_all add: single_line_text_def)
  have "single_line_text 1024 (''required-by-intent:'' @ intent)"
    using name_re_single_line [OF assms(4)] by (auto simp: single_line_text_def)
  then show ?thesis using assms(1) prefixes(3,4) prefixed_single_line [OF _ names prefixes(1)] prefixed_single_line [OF _ paths prefixes(2)]
    unfolding reason_pool_def by (auto simp del: append.simps)
qed

lemma digits_of_nat_chars: "c \<in> set (digits_of_nat n) \<Longrightarrow> 48 \<le> (of_char c :: nat)"
proof (induction n rule: digits_of_nat.induct)
  case (1 n)
  then show ?case by (subst (asm) digits_of_nat.simps) (auto split: if_splits)
qed

lemma digits_of_nat_length: "n < 10 ^ Suc k \<Longrightarrow> length (digits_of_nat n) \<le> Suc k"
proof (induction k arbitrary: n)
  case (Suc k)
  show ?case
  proof (cases "n < 10")
    case False
    have "n div 10 < 10 ^ Suc k" using Suc.prems by (simp add: less_mult_imp_div_less mult.commute)
    then show ?thesis using Suc.IH False by (subst digits_of_nat.simps) simp
  qed (simp add: digits_of_nat.simps)
qed (simp add: digits_of_nat.simps)

lemma show_int_single_line:
  assumes "n < 10 ^ 6"
  shows "single_line_text 1024 (''additional-reasons:'' @ show_int (int n))"
proof -
  have len: "length (digits_of_nat n) \<le> 6" using digits_of_nat_length [of n 5] assms by simp
  have "c \<notin> set (digits_of_nat n)" if "(of_char c :: nat) < 48" for c using digits_of_nat_chars [of c n] that by force
  then have "CHR 0x00 \<notin> set (digits_of_nat n)" "CHR 0x0D \<notin> set (digits_of_nat n)" "CHR 0x0A \<notin> set (digits_of_nat n)" by simp_all
  then show ?thesis using len by (simp add: single_line_text_def show_int_def)
qed

lemma bounded_selection_reasons_ok:
  assumes "set rs \<subseteq> reason_pool m intent paths" and "3 + 2 * length (tm_targets m) + 4 * length paths < 10 ^ 6"
    and "\<forall>n \<in> fst ` set (tm_targets m). name_re 63 n" "\<forall>p \<in> set paths. repository_path False p" "name_re 63 intent"
  shows "bounded_selection_reasons rs \<noteq> [] \<and> texts_ok max_selection_reasons (bounded_selection_reasons rs)"
proof -
  define ordered where "ordered = sorted_set (if rs = [] then [''closure''] else rs)"
  have pool: "set ordered \<subseteq> reason_pool m intent paths" using assms(1) by (auto simp: ordered_def reason_pool_def simp del: append.simps)
  then have "length ordered \<le> card (reason_pool m intent paths)"
    using reason_pool_card [of m intent paths] card_mono [of "reason_pool m intent paths" "set ordered"]
    by (simp add: ordered_def distinct_card [symmetric])
  then have small: "length ordered < 10 ^ 6" using reason_pool_card [of m intent paths] assms(2) by linarith
  have line: "\<forall>r \<in> set ordered. single_line_text 1024 r" using pool reason_pool_single_line assms(3-5) by blast
  have "single_line_text 1024 (''additional-reasons:'' @ show_int (int (length ordered) - 31))" if "32 < length ordered"
    using show_int_single_line [of "length ordered - 31"] small that by (simp add: of_nat_diff)
  then show ?thesis
    using line unfolding bounded_selection_reasons_def ordered_def [symmetric] Let_def
    by (auto simp: texts_ok_def max_selection_reasons_def ordered_def simp del: append.simps dest: in_set_takeD)
qed

section \<open>Created plans\<close>

lemma create_test_plan_parts:
  assumes "create_test_plan L m intent source changes requested execution launch = Inr p"
  shows "new_timeouts execution launch = Inr (tp_timeouts p) \<and> tp_intent p = intent \<and> tp_source p = source \<and>
    tp_manifest_fingerprint p = tm_fingerprint m \<and> tp_repository_id p = si_repository_id source \<and>
    tp_dependency_schema_version p = 3 \<and>
    tp_evidence_policies p = filter (\<lambda>(_, p). ep_intent p = intent) (sort_key fst (tm_evidence_policies m)) \<and>
    identify_plan L True p = p"
  using assms unfolding create_test_plan_def Let_def
  by (elim bindE_InrE, split option.split_asm, simp, elim bindE_InrE)
    (auto simp: split_beta identify_plan_def Let_def wire_fingerprint_document_def wire_execution_document_def
      selection_document_def execution_document_def elim!: bindE_InrE)

lemma create_test_plan_selection:
  assumes "create_test_plan L m intent source changes requested execution launch = Inr p"
  shows "\<exists>ic eligible initial reasons fallback selected reasons'. map_of (tm_intents m) intent = Some ic \<and>
    (if si_mode source = IMMUTABLE \<and> \<not> (si_mode source = IMMUTABLE \<and> ic_source_mode ic = LIVE)
     then Inr (select_immutable intent (intent_target_names m intent) (sorted_set requested))
     else lift_contract (select_live m eligible (intent_target_names m intent) (normalized_changes changes) (sorted_set requested))) =
      Inr (initial, reasons, fallback) \<and>
    bidirectional_closure (tm_targets m) initial reasons = Inr (selected, reasons') \<and>
    tp_selection p = map (\<lambda>name. (name, bounded_selection_reasons
      (case map_of reasons' name of None \<Rightarrow> [''closure''] | Some rs \<Rightarrow> rs))) (sorted_set selected)"
  using assms unfolding create_test_plan_def Let_def
  apply (elim bindE_InrE)
  apply (split option.split_asm)
   apply simp
  apply (elim bindE_InrE)
  apply (simp only: split_beta, elim bindE_InrE)+
  subgoal for x ic xa xb e i s w d
    by (rule exI [of _ ic], rule exI [of _ "sorted_set (fst e)"], rule exI [of _ "fst i"], rule exI [of _ "fst (snd i)"],
        rule exI [of _ "snd (snd i)"], rule exI [of _ "fst s"], rule exI [of _ "snd s"]) (auto simp: lift_contract_Inr_iff)
  done

lemma length_sorted_set: "length (sorted_set xs) \<le> length xs"
  by (simp add: sorted_set_def)

lemma sorted_keys_length: "length (sorted_set (keys d)) \<le> length d"
  using length_sorted_set [of "keys d"] by simp

lemma mapE_length: "mapE f xs = Inr ys \<Longrightarrow> length ys = length xs"
  by (simp add: mapE_Inr_iff list_all2_lengthD)

lemma parsed_sizes:
  assumes "parse_test_manifest L rr doc = Inr m"
  shows "length (tm_targets m) \<le> 512 \<and> length (tm_evidence_policies m) \<le> 64"
proof -
  obtain a b c d e v v' ts ps where ts: "parse_targets rr a b c d e v = Inr ts" and ps: "parse_evidence_policies b ts v' = Inr ps"
    and m: "tm_targets m = ts" "tm_evidence_policies m = ps"
    using assms unfolding parse_test_manifest_def Let_def by (elim bindE_InrE) (auto)
  have "length ts \<le> 512"
    using ts unfolding parse_targets_def by (elim bindE_InrE) (auto simp: not_less dest!: mapE_length intro: le_trans [OF sorted_keys_length])
  moreover have "length ps \<le> 64"
    using ps unfolding parse_evidence_policies_def by (elim bindE_InrE) (auto simp: not_less dest!: mapE_length intro: le_trans [OF sorted_keys_length])
  ultimately show ?thesis using m by simp
qed

lemma live_paths_length: "length (live_paths changes) \<le> 2 * length changes"
  by (induction changes) (auto simp: live_paths_def affected_paths_def split: option.splits)

lemma length_first_occurrences: "length (first_occurrences seen xs) \<le> length xs"
  by (induction seen xs rule: first_occurrences.induct) auto

lemma length_normalized_changes: "length (normalized_changes changes) \<le> length changes"
  by (simp add: normalized_changes_def length_first_occurrences)

text \<open>The bounds of the decoder that the manifest and the planner do not enforce themselves.\<close>

definition decoder_bounds :: "test_manifest \<Rightarrow> source_identity \<Rightarrow> changed_path list \<Rightarrow> bool" where
  "decoder_bounds m source changes \<longleftrightarrow> length changes \<le> 10000 \<and>
     list_all (\<lambda>(_, t). length (tc_depends_on t) \<le> 256) (tm_targets m) \<and>
     list_all (\<lambda>(_, p). length (ep_required_targets p) \<le> 256) (tm_evidence_policies m) \<and>
     single_line_text 256 (si_repository_id source) \<and>
     (case si_snapshot_id source of None \<Rightarrow> True | Some i \<Rightarrow> single_line_text 256 i)"

lemma names_single_line:
  assumes "set xs \<subseteq> fst ` set (targets :: 'v dict)" "\<forall>n \<in> fst ` set targets. name_re 63 n"
  shows "\<forall>x \<in> set xs. single_line_text 1024 x"
proof
  fix x assume "x \<in> set xs"
  then have "name_re 63 x" using assms by blast
  then show "single_line_text 1024 x" using name_re_single_line [of x] by (auto simp: single_line_text_def)
qed

lemma names_texts_ok:
  assumes "distinct xs" "set xs \<subseteq> fst ` set (targets :: 'v dict)" "\<forall>n \<in> fst ` set targets. name_re 63 n" "length targets \<le> n"
  shows "texts_ok n xs"
proof -
  have "length xs = card (set xs)" using assms(1) by (simp add: distinct_card)
  also have "\<dots> \<le> card (fst ` set targets)" by (rule card_mono) (use assms(2) in auto)
  also have "\<dots> \<le> length targets" using card_length [of "keys targets"] by simp
  finally show ?thesis using assms(4) names_single_line [OF assms(2,3)] by (simp add: texts_ok_def)
qed

lemma create_test_plan_reasons:
  assumes plan: "create_test_plan L m intent source changes requested execution launch = Inr p" and n: "(n, rs) \<in> set (tp_selection p)"
  shows "\<exists>vs. rs = bounded_selection_reasons vs \<and> set vs \<subseteq> reason_pool m intent (live_paths (normalized_changes changes))"
proof -
  let ?paths = "live_paths (normalized_changes changes)" and ?Q = "\<lambda>r. r \<in> reason_pool m intent (live_paths (normalized_changes changes))"
  obtain ic :: intent_contract and eligible initial reasons fallback selected reasons' where
    sel: "(if si_mode source = IMMUTABLE \<and> \<not> (si_mode source = IMMUTABLE \<and> ic_source_mode ic = LIVE)
     then Inr (select_immutable intent (intent_target_names m intent) (sorted_set requested))
     else lift_contract (select_live m eligible (intent_target_names m intent) (normalized_changes changes) (sorted_set requested))) =
      Inr (initial, reasons, fallback)"
    and closure: "bidirectional_closure (tm_targets m) initial reasons = Inr (selected, reasons')"
    and p: "tp_selection p = map (\<lambda>name. (name, bounded_selection_reasons
      (case map_of reasons' name of None \<Rightarrow> [''closure''] | Some rs \<Rightarrow> rs))) (sorted_set selected)"
    using create_test_plan_selection [OF plan] by blast
  have pool: "?Q ''requested''" "?Q (''required-by-intent:'' @ intent)" "?Q ''closure''" "\<forall>p \<in> set ?paths. path_reasons ?Q p"
    "\<forall>n \<in> fst ` set (tm_targets m). ?Q (''dependency-of:'' @ n) \<and> ?Q (''dependent-of:'' @ n)"
    using reason_pool_paths [of _ ?paths _ m intent] reason_pool_names [of _ m _ intent ?paths] reason_pool_fixed [of intent m ?paths]
    by (simp_all add: path_reasons_def del: append.simps)
  have "reasons_all ?Q reasons"
    using sel select_immutable_reasons [of intent _ _ _ _ _ ?Q, OF _ pool(1,2)] select_live_reasons [OF _ pool(4,1)]
    by (auto simp: lift_contract_Inr_iff split: if_splits)
  then have all: "reasons_all ?Q reasons'" by (rule bidirectional_closure_reasons [OF closure _ pool(5)])
  obtain x where "rs = bounded_selection_reasons (case map_of reasons' x of None \<Rightarrow> [''closure''] | Some rs \<Rightarrow> rs)" using n p by auto
  moreover have "set (case map_of reasons' x of None \<Rightarrow> [''closure''] | Some rs \<Rightarrow> rs) \<subseteq> Collect ?Q"
    using all pool(3) by (auto simp: reasons_all_def dest!: map_of_SomeD split: option.splits)
  ultimately show ?thesis by auto
qed

text \<open>The manifest side of the bounds: names, dependencies and policies of a parsed manifest.\<close>

lemma manifest_names:
  assumes "manifest_ok m"
  shows "\<forall>n \<in> fst ` set (tm_targets m). name_re 63 n" "map_of (tm_intents m) intent = Some ic \<Longrightarrow> name_re 63 intent"
    "map_of (tm_targets m) n = Some t \<Longrightarrow> sorted (tc_depends_on t) \<and> distinct (tc_depends_on t)"
proof -
  have c: "canonical_dict tc_name (tm_targets m)" "canonical_dict ic_name (tm_intents m)"
    and t: "\<forall>y \<in> set (tm_targets m). target_ok (tm_intents m) (tm_fixtures m) (tm_credentials m) (tm_state_handles m) y"
    using assms unfolding manifest_ok_def by blast+
  show "\<forall>n \<in> fst ` set (tm_targets m). name_re 63 n" using c(1) by (auto simp: canonical_dict_def)
  show "map_of (tm_intents m) intent = Some ic \<Longrightarrow> name_re 63 intent"
    using c(2) by (auto simp: canonical_dict_def dest!: map_of_SomeD)
  show "map_of (tm_targets m) n = Some t \<Longrightarrow> sorted (tc_depends_on t) \<and> distinct (tc_depends_on t)"
    using t by (force simp: target_ok_def refs_ok_def Let_def dest!: map_of_SomeD)
qed

lemma plan_policies_wire_ok:
  assumes m: "manifest_ok m" and sizes: "length (tm_evidence_policies m) \<le> 64"
    and bounds: "list_all (\<lambda>(_, p). length (ep_required_targets p) \<le> 256) (tm_evidence_policies m)"
    and intent: "name_re 63 intent" and ps: "ps = filter (\<lambda>(_, p). ep_intent p = intent) (sort_key fst (tm_evidence_policies m))"
  shows "length ps \<le> 64 \<and> sorted (keys ps) \<and> (\<forall>np \<in> set ps. policy_wire_ok intent np)"
proof -
  have canonical: "canonical_dict ep_name (tm_evidence_policies m)"
    and pol: "\<forall>y \<in> set (tm_evidence_policies m). policy_ok (tm_intents m) (tm_targets m) y"
    using m unfolding manifest_ok_def by blast+
  have "length ps \<le> 64" using sizes unfolding ps by (metis length_filter_le length_sort le_trans)
  moreover have "sorted (keys ps)" unfolding ps using sorted_keys_sort_key [of "tm_evidence_policies m"] by (simp add: sorted_filter)
  moreover have "policy_wire_ok intent np" if "np \<in> set ps" for np
  proof -
    have np: "np \<in> set (tm_evidence_policies m)" "ep_intent (snd np) = intent" using that unfolding ps by auto
    have "set (ep_required_targets (snd np)) \<subseteq> fst ` set (tm_targets m)" "sorted (ep_required_targets (snd np))" "distinct (ep_required_targets (snd np))"
      "ep_required_targets (snd np) \<noteq> []" "1 \<le> ep_max_age_seconds (snd np)" "ep_max_age_seconds (snd np) \<le> 31536000"
      using pol np(1) map_of_Some_keys by (fastforce simp: policy_ok_def Let_def)+
    moreover have "texts_ok 256 (ep_required_targets (snd np))"
      using bounds np(1) names_single_line [OF calculation(1) manifest_names(1) [OF m]] by (auto simp: texts_ok_def list_all_iff)
    moreover have "name_re 63 (fst np)" "ep_name (snd np) = fst np" using canonical np(1) by (auto simp: canonical_dict_def)
    moreover have "single_line_text 64 intent" using name_re_single_line [OF intent] name_re_length [OF intent] by (simp add: single_line_text_def)
    ultimately show ?thesis using np(2) by (simp add: policy_wire_ok_def)
  qed
  ultimately show ?thesis by blast
qed

lemma manifest_intent_covered:
  assumes "manifest_ok m" "map_of (tm_intents m) intent = Some ic"
  shows "\<exists>n t. (n, t) \<in> set (tm_targets m) \<and> intent \<in> set (tc_intents t)"
  using assms(1) map_of_Some_keys [OF assms(2)] unfolding manifest_ok_def intents_covered_def by (metis (no_types, lifting) case_prodE)

lemma length_concat_ge: "\<forall>w \<in> set ws. w \<noteq> [] \<Longrightarrow> length ws \<le> length (concat ws)"
proof (induction ws)
  case (Cons w ws)
  then show ?case by (cases w) auto
qed simp

lemma create_test_plan_shape:
  assumes parsed: "parse_test_manifest L' rr doc = Inr m" and ch: "\<forall>c \<in> set changes. change_ok c"
    and count: "length changes \<le> 10000"
    and plan: "create_test_plan L m intent source changes requested execution launch = Inr p"
  shows "plan_shape_ok p \<and> set (tp_selected_targets p) \<subseteq> fst ` set (tm_targets m)"
proof -
  let ?T = "tm_targets m" and ?S = "set (tp_selected_targets p)" and ?paths = "live_paths (normalized_changes changes)"
  have m: "manifest_ok m" and P: "parsed_targets ?T" using parse_test_manifest_ok [OF parsed] parsed_targetsI [OF parsed] by simp_all
  note names = manifest_names(1) [OF m] and size = parsed_sizes [OF parsed, THEN conjunct1]
  obtain ic where ic: "map_of (tm_intents m) intent = Some ic"
    and ref: "plan_refines m intent ic source changes (sorted_set requested) p"
    and guards: "plan_request_guards m intent ic source (normalized_changes changes) (sorted_set requested) = Inr ()"
    using create_test_plan_cases [OF parsed ch, of L intent source requested execution launch] plan by auto
  define B where "B = requested_base m intent ic source (tp_eligible_targets p) (normalized_changes changes) (sorted_set requested)"
  define E where "E = (if intent = ''manual'' then fst ` set ?T else set (intent_target_names m intent))"
  have el: "sorted (tp_eligible_targets p)" "distinct (tp_eligible_targets p)" "set (tp_eligible_targets p) = (dep_neighbours ?T)\<^sup>* `` E"
    and se: "sorted (tp_selected_targets p)" "distinct (tp_selected_targets p)" "?S = (dep_neighbours ?T)\<^sup>* `` B"
    and waves: "waves_from (dep_rel ?T) ?S {} ?S (tp_dependency_waves p)"
    and deps: "tp_dependencies p = map (\<lambda>n. (n, sort (tc_depends_on (the (map_of ?T n))))) (tp_selected_targets p)"
    and sel: "keys (tp_selection p) = tp_selected_targets p"
    using ref unfolding plan_refines_def Let_def B_def E_def by - (elim conjE, assumption)+
  have closed: "(dep_neighbours ?T)\<^sup>* `` X \<subseteq> fst ` set ?T" if "X \<subseteq> fst ` set ?T" for X
  proof
    fix n assume "n \<in> (dep_neighbours ?T)\<^sup>* `` X"
    then obtain b where "b \<in> X" "(b, n) \<in> (dep_neighbours ?T)\<^sup>*" by blast
    then show "n \<in> fst ` set ?T" using that parsed.neighbours_keys [OF P] by (metis rtranclE subsetD)
  qed
  have its: "set (intent_target_names m intent) \<subseteq> fst ` set ?T" "set (intent_target_names m intent) \<noteq> {}"
    using intent_target_names_set [OF m, of intent] manifest_intent_covered [OF m ic] by force+
  then have "E \<subseteq> fst ` set ?T" by (simp add: E_def)
  then have ek: "set (tp_eligible_targets p) \<subseteq> fst ` set ?T" unfolding el(3) by (rule closed)
  have "B \<subseteq> fst ` set ?T" unfolding B_def by (rule requested_base_keys [OF m guards_requested [OF guards]])
  then have sk: "?S \<subseteq> fst ` set ?T" unfolding se(3) by (rule closed)
  have "E \<noteq> {}" using its by (auto simp: E_def)
  then have "tp_eligible_targets p \<noteq> []" using el(3) by auto
  have wave: "distinct (concat (tp_dependency_waves p))" "set (concat (tp_dependency_waves p)) = ?S" "\<forall>w \<in> set (tp_dependency_waves p). w \<noteq> []"
    using waves by (simp_all add: waves_from_def)
  have ws: "length (tp_dependency_waves p) \<le> 512 \<and> (\<forall>w \<in> set (tp_dependency_waves p). texts_ok 512 w) \<and>
    sort (concat (tp_dependency_waves p)) = tp_selected_targets p"
  proof (intro conjI ballI)
    have "texts_ok 512 (concat (tp_dependency_waves p))" by (rule names_texts_ok [OF wave(1) _ names size]) (use wave(2) sk in simp)
    then show "length (tp_dependency_waves p) \<le> 512" using length_concat_ge [OF wave(3)] by (simp add: texts_ok_def)
    show "texts_ok 512 w" if "w \<in> set (tp_dependency_waves p)" for w
      by (rule names_texts_ok [OF _ _ names size]) (use that wave(1,2) sk in \<open>auto simp: distinct_concat_iff\<close>)
    show "sort (concat (tp_dependency_waves p)) = tp_selected_targets p"
      using wave(1,2) se(1,2) by (intro sorted_distinct_set_unique) simp_all
  qed
  have reasons: "\<forall>(t, rs) \<in> set (tp_selection p). rs \<noteq> [] \<and> texts_ok max_selection_reasons rs"
  proof clarify
    fix n rs assume "(n, rs) \<in> set (tp_selection p)"
    then obtain vs where vs: "rs = bounded_selection_reasons vs" "set vs \<subseteq> reason_pool m intent ?paths"
      using create_test_plan_reasons [OF plan] by blast
    have "length ?paths \<le> 20000"
      using live_paths_length [of "normalized_changes changes"] length_normalized_changes [of changes] count by simp
    then have "3 + 2 * length ?T + 4 * length ?paths < 10 ^ 6" using size by simp
    moreover have "\<forall>q \<in> set ?paths. repository_path False q" using live_paths_valid [of "normalized_changes changes"] ch by simp
    ultimately show "rs \<noteq> [] \<and> texts_ok max_selection_reasons rs"
      using bounded_selection_reasons_ok [OF vs(2) _ names] manifest_names(2) [OF m ic] unfolding vs(1) by (simp only: simp_thms)
  qed
  have exact: "list_all (exact_dependencies (tp_selected_targets p) (tp_dependency_waves p)) (tp_dependencies p)"
    unfolding list_all_iff
  proof
    fix nd assume nd: "nd \<in> set (tp_dependencies p)"
    then obtain n where n: "n \<in> ?S" and eq: "nd = (n, sort (tc_depends_on (the (map_of ?T n))))" unfolding deps by auto
    obtain t where t: "map_of ?T n = Some t" using n sk by (metis in_keys_map_of subsetD)
    have "map_of (tp_dependencies p) n = Some (sort (tc_depends_on t))" using n t unfolding deps by (simp add: map_of_map_restrict)
    then have ok: "\<forall>d \<in> set (tc_depends_on t). d \<in> ?S \<and> (\<exists>i j. wave_index_of (tp_dependency_waves p) d = Some i \<and>
        wave_index_of (tp_dependency_waves p) n = Some j \<and> i < j)"
      using create_test_plan_ok [OF parsed ch plan] n by (auto simp: plan_ok_def deps_of_def)
    then show "exact_dependencies (tp_selected_targets p) (tp_dependency_waves p) nd"
      using manifest_names(3) [OF m t] eq t by (force simp: exact_dependencies_def list_all_iff)
  qed
  show ?thesis
    using names_texts_ok [OF el(2) ek names size] names_texts_ok [OF se(2) sk names size] el se wave ws reasons exact sel
      create_test_plan_scope [OF parsed ch plan] \<open>tp_eligible_targets p \<noteq> []\<close> sk
    unfolding plan_shape_ok_def deps by (simp add: comp_def)
qed

lemma create_test_plan_wire_ok:
  assumes "\<forall>x. is_sha256 (sha256_hexdigest L x)"
    and "parse_test_manifest L rr doc = Inr m"
    and "new_source_identity mode rid content original temporary snapshot = Inr source"
    and "\<forall>c \<in> set changes. \<exists>path status previous. new_changed_path path status previous = Inr c"
    and "decoder_bounds m source changes"
    and "create_test_plan L m intent source changes requested execution launch = Inr p"
  shows "plan_wire_ok L p"
proof -
  note bounds = assms(5) [unfolded decoder_bounds_def]
  have ch: "\<forall>c \<in> set changes. change_wire_ok c" using assms(4) new_changed_path_wire_ok by blast
  then have ch': "\<forall>c \<in> set changes. change_ok c" by (simp add: change_wire_ok_def)
  have m: "manifest_ok m" and fp: "is_sha256 (tm_fingerprint m)"
    using parse_test_manifest_ok [OF assms(2)] assms(1) by (simp_all add: deterministic_fingerprint_def)
  obtain ic where ic: "map_of (tm_intents m) intent = Some ic" and ref: "plan_refines m intent ic source changes (sorted_set requested) p"
    and tp: "tp_changes p = normalized_changes changes"
    using create_test_plan_cases [OF assms(2) ch', of L intent source requested execution launch] assms(6) by auto
  note parts = create_test_plan_parts [OF assms(6)] and intent = manifest_names(2) [OF m ic]
  have shape: "plan_shape_ok p" and sk: "set (tp_selected_targets p) \<subseteq> fst ` set (tm_targets m)"
    using create_test_plan_shape [OF assms(2) ch' _ assms(6)] bounds by simp_all
  have src: "source_ok source" using new_source_identity_ok [OF assms(3)] bounds by (auto split: option.splits)
  have changes: "length (tp_changes p) \<le> 10000 \<and> (\<forall>c \<in> set (tp_changes p). change_wire_ok c)"
    using tp ch bounds length_normalized_changes [of changes] by simp
  have line: "single_line_text 64 (tp_manifest_fingerprint p)" "single_line_text 64 (tp_intent p)"
    using parts is_sha256_single_line [OF fp] name_re_single_line [OF intent] name_re_length [OF intent] by (auto simp: single_line_text_def)
  have pol: "length (tp_evidence_policies p) \<le> 64 \<and> sorted (keys (tp_evidence_policies p)) \<and>
      (\<forall>np \<in> set (tp_evidence_policies p). policy_wire_ok (tp_intent p) np)"
    using plan_policies_wire_ok [OF m parsed_sizes [OF assms(2), THEN conjunct2] _ intent, of "tp_evidence_policies p"] bounds parts by simp
  have deps: "\<forall>(t, ds) \<in> set (tp_dependencies p). texts_ok 256 ds"
  proof clarify
    fix n ds assume nd: "(n, ds) \<in> set (tp_dependencies p)"
    have "tp_dependencies p = map (\<lambda>n. (n, sort (tc_depends_on (the (map_of (tm_targets m) n))))) (tp_selected_targets p)"
      using ref unfolding plan_refines_def Let_def by - (elim conjE, assumption)+
    then have n: "n \<in> set (tp_selected_targets p)" "ds = sort (tc_depends_on (the (map_of (tm_targets m) n)))" using nd by auto
    obtain t where t: "map_of (tm_targets m) n = Some t" using n(1) sk by (metis in_keys_map_of subsetD)
    have "length ds \<le> 256" using n(2) t bounds by (auto simp: list_all_iff dest!: map_of_SomeD)
    moreover have "set ds \<subseteq> set (tp_selected_targets p)" "texts_ok 512 (tp_selected_targets p)"
      using shape nd by (auto simp: plan_shape_ok_def list_all_iff exact_dependencies_def)
    ultimately show "texts_ok 256 ds" by (auto simp: texts_ok_def)
  qed
  show ?thesis
    using shape src changes line pol deps parts new_timeouts_ok [of execution launch "tp_timeouts p"] by (simp add: plan_wire_ok_def)
qed

section \<open>Properties of the wire form\<close>

lemma plan_shape_plan_ok:
  assumes "plan_shape_ok p"
  shows "plan_ok p"
  unfolding plan_ok_def
proof (intro ballI)
  fix n d assume "n \<in> set (tp_selected_targets p)" and d: "d \<in> set (deps_of (tp_dependencies p) n)"
  then obtain ds where ds: "(n, ds) \<in> set (tp_dependencies p)" "d \<in> set ds"
    by (cases "map_of (tp_dependencies p) n") (auto simp: deps_of_def dest: map_of_SomeD)
  then have "exact_dependencies (tp_selected_targets p) (tp_dependency_waves p) (n, ds)"
    using assms by (auto simp: plan_shape_ok_def list_all_iff)
  then show "d \<in> set (tp_selected_targets p) \<and> (\<exists>i j. wave_index_of (tp_dependency_waves p) d = Some i \<and>
      wave_index_of (tp_dependency_waves p) n = Some j \<and> i < j)"
    using ds(2) by (fastforce simp: exact_dependencies_def list_all_iff split: option.splits)
qed

text \<open>
  C24. The decoder is the gate of the test plane: whatever document it accepts, the plan may be
  submitted to the store, its waves list every selected target exactly once, its identifiers are the
  digests of its own content, and decoding the document of the plan gives the plan again.
\<close>
theorem decode_test_plan_wellformed:
  assumes "decode_test_plan_document L v = Inr p"
  shows "valid_request (Submit (p, op_id, actor, owner, priority, resources)) \<and>
    set (tp_selected_targets p) \<subseteq> set (tp_eligible_targets p) \<and>
    distinct (concat (tp_dependency_waves p)) \<and> set (concat (tp_dependency_waves p)) = set (tp_selected_targets p) \<and>
    tp_fingerprint p = deterministic_fingerprint L (wire_fingerprint_document (tp_dependency_schema_version p = 3) p) \<and>
    tp_plan_id p = ''plan-'' @ take 32 (tp_fingerprint p) \<and>
    decode_test_plan_document L (plan_to_document L p) = Inr p"
proof -
  have ok: "plan_wire_ok L p" by (rule decode_test_plan_document_ok [OF assms])
  then have shape: "plan_shape_ok p" and identity: "identify_plan L (tp_dependency_schema_version p = 3) p = p" by (simp_all add: plan_wire_ok_def)
  have "set (concat (tp_dependency_waves p)) = set (tp_selected_targets p)" using shape unfolding plan_shape_ok_def by (metis set_sort)
  moreover have "tp_fingerprint p = deterministic_fingerprint L (wire_fingerprint_document (tp_dependency_schema_version p = 3) p)"
    "tp_plan_id p = ''plan-'' @ take 32 (tp_fingerprint p)"
    using arg_cong [OF identity, of tp_fingerprint] arg_cong [OF identity, of tp_plan_id] by (simp_all add: identify_plan_def Let_def del: append.simps)
  ultimately show ?thesis
    using shape plan_shape_plan_ok [OF shape] decode_test_plan_document_inverse [OF ok] unfolding plan_shape_ok_def by simp
qed


end
