(* ===== verification/Plan_Samples.thy ===== *)
theory Plan_Samples
  imports Plan_Roundtrip Planner_Samples
begin

text \<open>The properties of the wire form at the plan of one changed file of the sample manifest.\<close>

lemma sample_wire_inputs:
  "new_source_identity ''live'' (JStr ''repo'') (JStr (replicate 64 (CHR ''b''))) (JStr ''/srv/repo'') JNull JNull = Inr sample_source"
  "new_changed_path (JStr ''lib/a.py'') ''modified'' None = Inr sample_change"
  "decoder_bounds sample_manifest sample_source [sample_change]"
  by code_simp+

lemma sample_digests: "\<forall>x. is_sha256 (sha256_hexdigest sample_lib x)"
  by (simp add: sample_lib_def is_sha256_def) code_simp

lemma sample_changes_valid: "\<forall>c \<in> set [sample_change]. \<exists>path status previous. new_changed_path path status previous = Inr c"
  using sample_wire_inputs(2) by auto


theorem decode_test_plan_wellformed_witness:
  "\<exists>p. sample_plan = Inr p \<and> tp_plan_id p = ''plan-'' @ take 32 (tp_fingerprint p) \<and> valid_request (Submit (p, [], JNull, JNull, JNull, []))"
proof -
  obtain p where p: "sample_plan = Inr p" using sample_plan_exists by blast
  then have "plan_wire_ok sample_lib p"
    unfolding sample_plan_def
    by (rule create_test_plan_wire_ok [OF sample_digests sample_parses sample_wire_inputs(1) sample_changes_valid sample_wire_inputs(3)])
  from decode_test_plan_wellformed [OF decode_test_plan_document_inverse [OF this]] p show ?thesis by blast
qed

end
