(* ===== verification/Testd.thy ===== *)
theory Testd
  imports Store_Queue Store_Completion
begin

text \<open>
  The messages of testd (\<open>universal_testd.py\<close>): its scalar validators, launch tickets and runner
  requests, runner handles, observations and result packages with the decoders of the mapping
  transport (\<open>TestdLaunchAdapter\<close>). A message of the transport is a JSON document; its numbers are
  in the range of a double, so that \<open>float\<close> does not overflow and \<open>math.isfinite\<close> always holds.
\<close>

section \<open>Scalar validators\<close>

definition testd_runner_schema_version :: int where "testd_runner_schema_version = 2"
definition testd_max_result_package_bytes :: int where "testd_max_result_package_bytes = 1024 * 1024 * 1024"
definition max_progress_retained_bytes :: int where "max_progress_retained_bytes = 4 * 1024 * 1024"

abbreviation invalid :: "string \<Rightarrow> store_error + 'a" where
  "invalid field \<equiv> Inl (StoreContractError (field @ '' is invalid''))"

definition td_safe_id :: "string \<Rightarrow> json \<Rightarrow> store_error + string" where
  "td_safe_id field v = (case v of JStr s \<Rightarrow> if safe_id_re s then Inr s else invalid field | _ \<Rightarrow> invalid field)"

definition td_systemd_unit :: "json \<Rightarrow> store_error + string" where
  "td_systemd_unit v =
     (case v of JStr s \<Rightarrow> if systemd_unit_re s then Inr s else invalid ''systemd_unit'' | _ \<Rightarrow> invalid ''systemd_unit'')"

text \<open>\<open>str(uuid.UUID(str(value)))\<close>: of the values that are not text only an integer can print as 32 digits.\<close>

definition td_operation_id :: "json \<Rightarrow> store_error + string" where
  "td_operation_id v =
     (case Option.bind (case v of JStr s \<Rightarrow> Some s | JInt i \<Rightarrow> Some (show_int i) | _ \<Rightarrow> None) uuid_text of
        Some t \<Rightarrow> Inr t | None \<Rightarrow> invalid ''operation identity'')"

definition td_bounded_text :: "string \<Rightarrow> nat \<Rightarrow> json \<Rightarrow> store_error + string" where
  "td_bounded_text field maximum v =
     (case v of JStr s \<Rightarrow> if s = [] \<or> maximum < length s \<or> CHR 0x00 \<in> set s then invalid field else Inr s
      | _ \<Rightarrow> invalid field)"

definition td_absolute_path :: "string \<Rightarrow> json \<Rightarrow> store_error + string" where
  "td_absolute_path field v =
     bindE (td_bounded_text field 4096 v) (\<lambda>text.
     bindE (ensure (\<not> (posix_root text = [] \<or> list_ex (\<lambda>p. p \<in> {''.'', ''..''}) (posix_parts text) \<or>
         posix_str text \<noteq> rstrip_slash text))
       (StoreContractError (field @ '' must be an absolute normalized path''))) (\<lambda>_.
     Inr (posix_str text)))"

definition td_relative_path :: "string \<Rightarrow> json \<Rightarrow> store_error + string" where
  "td_relative_path field v =
     bindE (td_bounded_text field 4096 v) (\<lambda>text.
     bindE (ensure (\<not> (posix_root text \<noteq> [] \<or> list_ex (\<lambda>p. p \<in> {[], ''.'', ''..''}) (posix_parts text)))
       (StoreContractError (field @ '' must be a contained relative path''))) (\<lambda>_.
     Inr (posix_str text)))"

definition td_argv :: "json \<Rightarrow> store_error + string list" where
  "td_argv v =
     (case v of
        JArr items \<Rightarrow>
          bindE (ensure (1 \<le> length items \<and> length items \<le> 256) (StoreContractError ''runner argv is invalid'')) (\<lambda>_.
          bindE (mapE (td_bounded_text ''runner argument'' 4096) items) (\<lambda>result.
          bindE (ensure (sum_list (map utf8_length result) \<le> 64 * 1024)
            (StoreContractError ''runner argv exceeds its byte bound'')) (\<lambda>_.
          Inr result)))
      | _ \<Rightarrow> Inl (StoreContractError ''runner argv is invalid''))"

definition environment_name_re :: "string \<Rightarrow> bool" where
  "environment_name_re s \<longleftrightarrow>
     (case s of [] \<Rightarrow> False
      | c # cs \<Rightarrow> (in_range (CHR ''A'') (CHR ''Z'') c \<or> c = CHR ''_'') \<and>
          list_all (\<lambda>d. in_range (CHR ''A'') (CHR ''Z'') d \<or> digit d \<or> d = CHR ''_'') cs)"

definition td_environment :: "json \<Rightarrow> store_error + string dict" where
  "td_environment v =
     (case v of
        JObj d \<Rightarrow>
          bindE (ensure (length d \<le> 128) (StoreContractError ''runner environment is invalid'')) (\<lambda>_.
          bindE (foldE (\<lambda>(raw_name, raw_value) result.
            bindE (td_bounded_text ''environment name'' 128 (JStr raw_name)) (\<lambda>name.
            bindE (ensure (environment_name_re name) (StoreContractError ''runner environment name is invalid'')) (\<lambda>_.
            bindE (td_bounded_text ''environment value'' 4096 raw_value) (\<lambda>value.
            Inr (dict_put name value result))))) d []) (\<lambda>result.
          bindE (ensure (sum_list (map (\<lambda>(k, x). length k + length x) result) \<le> 64 * 1024)
            (StoreContractError ''runner environment exceeds its byte bound'')) (\<lambda>_.
          Inr (sort_key fst result))))
      | _ \<Rightarrow> Inl (StoreContractError ''runner environment is invalid''))"

definition td_finite_nonnegative :: "string \<Rightarrow> json \<Rightarrow> store_error + rat" where
  "td_finite_nonnegative field v =
     bindE (case v of JInt i \<Rightarrow> Inr (fl64 (of_int i)) | JFloat x \<Rightarrow> Inr x | _ \<Rightarrow> invalid field) (\<lambda>number.
     if number < 0 then invalid field else Inr number)"

text \<open>\<open>value.get(name)\<close>, and a field that is \<open>None\<close> or checked.\<close>

definition td_get :: "json dict \<Rightarrow> string \<Rightarrow> json" where
  "td_get d k = (case map_of d k of Some v \<Rightarrow> v | None \<Rightarrow> JNull)"

definition td_optional :: "(json \<Rightarrow> store_error + 'a) \<Rightarrow> json \<Rightarrow> store_error + 'a option" where
  "td_optional f v = (if v = JNull then Inr None else bindE (f v) (\<lambda>x. Inr (Some x)))"

definition td_bool :: "string \<Rightarrow> json \<Rightarrow> store_error + bool" where
  "td_bool message v = (case v of JBool b \<Rightarrow> Inr b | _ \<Rightarrow> Inl (StoreContractError message))"

definition td_int :: "string \<Rightarrow> int \<Rightarrow> json \<Rightarrow> store_error + int" where
  "td_int message minimum v =
     (case v of JInt i \<Rightarrow> if minimum \<le> i then Inr i else Inl (StoreContractError message)
      | _ \<Rightarrow> Inl (StoreContractError message))"

section \<open>Grants and handles\<close>

record execution_grant =
  eg_execution_id :: string
  eg_target_id :: string
  eg_run_id :: string
  eg_target_name :: string
  eg_shard_index :: int
  eg_shard_count :: int
  eg_generation :: int
  eg_systemd_unit :: string
  eg_launch_operation_id :: string

record runner_handle =
  rh_execution_id :: string
  rh_generation :: int
  rh_systemd_unit :: string
  rh_launch_operation_id :: string
  rh_launch_ack_id :: "string option"
  rh_launch_confirmed :: bool

definition new_runner_handle ::
  "json \<Rightarrow> json \<Rightarrow> json \<Rightarrow> json \<Rightarrow> json \<Rightarrow> json \<Rightarrow> store_error + runner_handle" where
  "new_runner_handle execution_id generation systemd_unit launch_operation_id launch_ack_id launch_confirmed =
     bindE (td_safe_id ''execution_id'' execution_id) (\<lambda>execution.
     bindE (ensure (generation = JInt 1) (StoreContractError ''execution generation is invalid'')) (\<lambda>_.
     bindE (td_systemd_unit systemd_unit) (\<lambda>unit_name.
     bindE (td_operation_id launch_operation_id) (\<lambda>operation.
     bindE (td_optional (td_safe_id ''launch_ack_id'') launch_ack_id) (\<lambda>ack.
     bindE (td_bool ''launch confirmation is invalid'' launch_confirmed) (\<lambda>confirmed.
     Inr \<lparr>rh_execution_id = execution, rh_generation = 1, rh_systemd_unit = unit_name,
       rh_launch_operation_id = operation, rh_launch_ack_id = ack, rh_launch_confirmed = confirmed\<rparr>))))))"

definition handle_fields :: "string list" where
  "handle_fields = [''execution_id'', ''generation'', ''systemd_unit'', ''launch_operation_id'', ''launch_ack_id'',
     ''launch_confirmed'']"

definition decode_runner_handle :: "json \<Rightarrow> store_error + runner_handle" where
  "decode_runner_handle v =
     (case v of
        JObj d \<Rightarrow> if set (keys d) \<noteq> set handle_fields then Inl (StoreContractError ''runner handle fields are invalid'')
          else new_runner_handle (td_get d ''execution_id'') (td_get d ''generation'') (td_get d ''systemd_unit'')
            (td_get d ''launch_operation_id'') (td_get d ''launch_ack_id'') (td_get d ''launch_confirmed'')
      | _ \<Rightarrow> Inl (StoreContractError ''runner handle fields are invalid''))"

definition require_same_handle :: "runner_handle \<Rightarrow> runner_handle \<Rightarrow> store_error + unit" where
  "require_same_handle expected observed =
     ensure (rh_execution_id expected = rh_execution_id observed \<and> rh_generation expected = rh_generation observed \<and>
         rh_systemd_unit expected = rh_systemd_unit observed \<and>
         rh_launch_operation_id expected = rh_launch_operation_id observed)
       (StoreConflict ''runner handle identity changed'')"

section \<open>Launch tickets and runner requests\<close>

record launch_ticket =
  lt_ticket_id :: string
  lt_execution_id :: string
  lt_target_id :: string
  lt_run_id :: string
  lt_repository_id :: string
  lt_repository_generation :: int
  lt_owner_uid :: int
  lt_root_repo :: string
  lt_temporary_repo :: "string option"
  lt_execution_root :: string
  lt_argv :: "string list"
  lt_cwd :: string
  lt_environment :: "string dict"
  lt_intent :: string
  lt_driver :: json
  lt_reporter :: json
  lt_artifacts :: "json dict list"
  lt_fixtures :: "string list"
  lt_credentials :: "string list"
  lt_network :: string
  lt_ttl_seconds :: int
  lt_worktree_key :: string
  lt_issued_at :: rat
  lt_expires_at :: rat

text \<open>\<open>BrokerLaunchTicket.__post_init__\<close> on the keyword arguments of \<open>issue\<close>.\<close>

definition ticket_numbers :: "json dict \<Rightarrow> store_error + int \<times> int \<times> int" where
  "ticket_numbers d =
     (case (td_get d ''repository_generation'', td_get d ''owner_uid'', td_get d ''ttl_seconds'') of
        (JInt g, JInt u, JInt t) \<Rightarrow> if g < 0 \<or> u < 0 \<or> t < 1 \<or> 31536000 < t
          then Inl (StoreContractError ''launch ticket generation, UID, or TTL is invalid'') else Inr (g, u, t)
      | _ \<Rightarrow> Inl (StoreContractError ''launch ticket generation, UID, or TTL is invalid''))"

definition ticket_choice :: "string \<Rightarrow> string list \<Rightarrow> json \<Rightarrow> store_error + string" where
  "ticket_choice message options v =
     (case v of JStr s \<Rightarrow> if s \<in> set options then Inr s else Inl (StoreContractError message)
      | JArr _ \<Rightarrow> Inl (StoreInternalError ''TypeError'')
      | JObj _ \<Rightarrow> Inl (StoreInternalError ''TypeError'')
      | _ \<Rightarrow> Inl (StoreContractError message))"

definition td_items :: "(json \<Rightarrow> store_error + 'a) \<Rightarrow> json \<Rightarrow> store_error + 'a list" where
  "td_items f v = (case v of JArr items \<Rightarrow> mapE f items | _ \<Rightarrow> Inl (StoreInternalError ''TypeError''))"

definition td_object :: "json \<Rightarrow> store_error + json dict" where
  "td_object v = (case v of JObj d \<Rightarrow> Inr d | _ \<Rightarrow> Inl (StoreInternalError ''TypeError''))"

definition new_launch_ticket :: "json dict \<Rightarrow> store_error + launch_ticket" where
  "new_launch_ticket d =
     bindE (td_safe_id ''ticket_id'' (td_get d ''ticket_id'')) (\<lambda>ticket_id.
     bindE (td_safe_id ''execution_id'' (td_get d ''execution_id'')) (\<lambda>execution_id.
     bindE (td_safe_id ''target_id'' (td_get d ''target_id'')) (\<lambda>target_id.
     bindE (td_safe_id ''run_id'' (td_get d ''run_id'')) (\<lambda>run_id.
     bindE (td_safe_id ''repository_id'' (td_get d ''repository_id'')) (\<lambda>repository_id.
     bindE (ticket_numbers d) (\<lambda>(generation, owner_uid, ttl).
     bindE (td_absolute_path ''root_repo'' (td_get d ''root_repo'')) (\<lambda>root_repo.
     bindE (td_optional (td_absolute_path ''temporary_repo'') (td_get d ''temporary_repo'')) (\<lambda>temporary_repo.
     bindE (td_absolute_path ''execution_root'' (td_get d ''execution_root'')) (\<lambda>execution_root.
     bindE (td_absolute_path ''worktree_key'' (td_get d ''worktree_key'')) (\<lambda>worktree_key.
     bindE (td_argv (td_get d ''argv'')) (\<lambda>argv.
     bindE (td_relative_path ''cwd'' (td_get d ''cwd'')) (\<lambda>cwd.
     bindE (td_environment (td_get d ''environment'')) (\<lambda>environment.
     bindE (ticket_choice ''launch ticket intent is invalid'' [''change'', ''checkpoint'', ''handoff'', ''release'', ''manual'']
       (td_get d ''intent'')) (\<lambda>intent.
     bindE (ticket_choice ''launch ticket network is invalid'' [''none'', ''loopback'', ''host-loopback'', ''external'']
       (td_get d ''network'')) (\<lambda>network.
     bindE (td_items (td_safe_id ''fixture'') (td_get d ''fixtures'')) (\<lambda>fixtures.
     bindE (td_items (td_bounded_text ''credential alias'' 128) (td_get d ''credentials'')) (\<lambda>credentials.
     bindE (td_finite_nonnegative ''issued_at'' (td_get d ''issued_at'')) (\<lambda>issued.
     bindE (td_finite_nonnegative ''expires_at'' (td_get d ''expires_at'')) (\<lambda>expires.
     bindE (ensure (issued \<le> expires) (StoreContractError ''launch ticket expiry is invalid'')) (\<lambda>_.
     bindE (td_items td_object (td_get d ''artifacts'')) (\<lambda>artifacts.
     Inr \<lparr>lt_ticket_id = ticket_id, lt_execution_id = execution_id, lt_target_id = target_id, lt_run_id = run_id,
       lt_repository_id = repository_id, lt_repository_generation = generation, lt_owner_uid = owner_uid,
       lt_root_repo = root_repo, lt_temporary_repo = temporary_repo, lt_execution_root = execution_root,
       lt_argv = argv, lt_cwd = cwd, lt_environment = environment, lt_intent = intent, lt_driver = td_get d ''driver'',
       lt_reporter = td_get d ''reporter'', lt_artifacts = artifacts, lt_fixtures = fixtures, lt_credentials = credentials,
       lt_network = network, lt_ttl_seconds = ttl, lt_worktree_key = worktree_key, lt_issued_at = issued,
       lt_expires_at = expires\<rparr>)))))))))))))))))))))"

definition ticket_document :: "launch_ticket \<Rightarrow> json" where
  "ticket_document t = JObj
     [(''ticket_id'', JStr (lt_ticket_id t)), (''execution_id'', JStr (lt_execution_id t)),
      (''target_id'', JStr (lt_target_id t)), (''run_id'', JStr (lt_run_id t)),
      (''repository_id'', JStr (lt_repository_id t)), (''repository_generation'', JInt (lt_repository_generation t)),
      (''owner_uid'', JInt (lt_owner_uid t)), (''root_repo'', JStr (lt_root_repo t)),
      (''temporary_repo'', jopt JStr (lt_temporary_repo t)), (''execution_root'', JStr (lt_execution_root t)),
      (''argv'', jstrs (lt_argv t)), (''cwd'', JStr (lt_cwd t)), (''environment'', jdict JStr (lt_environment t)),
      (''intent'', JStr (lt_intent t)), (''driver'', lt_driver t), (''reporter'', lt_reporter t),
      (''artifacts'', JArr (map JObj (lt_artifacts t))), (''fixtures'', jstrs (lt_fixtures t)),
      (''credentials'', jstrs (lt_credentials t)), (''network'', JStr (lt_network t)),
      (''ttl_seconds'', JInt (lt_ttl_seconds t)), (''kill_after_run'', JBool True),
      (''worktree_key'', JStr (lt_worktree_key t)), (''issued_at'', JFloat (lt_issued_at t)),
      (''expires_at'', JFloat (lt_expires_at t))]"

record runner_request =
  rr_ticket :: launch_ticket
  rr_execution :: execution_grant
  rr_target_name :: string
  rr_descriptor_fingerprint :: string

definition new_runner_request ::
  "launch_ticket \<Rightarrow> execution_grant \<Rightarrow> string \<Rightarrow> string \<Rightarrow> store_error + runner_request" where
  "new_runner_request ticket execution target_name descriptor =
     bindE (td_bounded_text ''target_name'' 256 (JStr target_name)) (\<lambda>name.
     bindE (ensure (is_sha256 descriptor) (StoreContractError ''descriptor_fingerprint is invalid'')) (\<lambda>_.
     bindE (ensure (lt_execution_id ticket = eg_execution_id execution \<and> lt_target_id ticket = eg_target_id execution \<and>
         lt_run_id ticket = eg_run_id execution)
       (StoreConflict ''runner request identity is contradictory'')) (\<lambda>_.
     Inr \<lparr>rr_ticket = ticket, rr_execution = execution, rr_target_name = name, rr_descriptor_fingerprint = descriptor\<rparr>)))"

definition request_document :: "runner_request \<Rightarrow> json" where
  "request_document r = (let t = rr_ticket r; e = rr_execution r in JObj
     [(''schema_version'', JInt testd_runner_schema_version), (''ticket'', ticket_document t),
      (''execution'', JObj [(''execution_id'', JStr (eg_execution_id e)), (''generation'', JInt (eg_generation e)),
         (''systemd_unit'', JStr (eg_systemd_unit e)), (''launch_operation_id'', JStr (eg_launch_operation_id e)),
         (''descriptor_fingerprint'', JStr (rr_descriptor_fingerprint r))]),
      (''target'', JObj [(''kind'', JStr ''test_execution''), (''id'', JStr (eg_target_id e)),
         (''name'', JStr (rr_target_name r)), (''shard_index'', JInt (eg_shard_index e)),
         (''shard_count'', JInt (eg_shard_count e))]),
      (''lifecycle'', JObj [(''purpose'', JStr ''test''), (''ttl_seconds'', JInt (lt_ttl_seconds t)),
         (''kill_after_run'', JBool True)]),
      (''isolation'', JObj [(''owner_uid'', JInt (lt_owner_uid t)), (''worktree_key'', JStr (lt_worktree_key t)),
         (''network'', JStr (lt_network t)), (''clean_environment'', JBool True)]),
      (''command'', JObj [(''argv'', jstrs (lt_argv t)), (''cwd'', JStr (lt_cwd t)),
         (''execution_root'', JStr (lt_execution_root t)), (''environment'', jdict JStr (lt_environment t))]),
      (''reporting'', JObj [(''driver'', lt_driver t), (''reporter'', lt_reporter t),
         (''artifacts'', JArr (map JObj (lt_artifacts t))), (''fixtures'', jstrs (lt_fixtures t))])])"

section \<open>Result packages\<close>

record runner_result_package =
  rp_package_id :: string
  rp_sha256 :: string
  rp_size_bytes :: int
  rp_manifest :: "json dict"
  rp_outcome :: "json dict"
  rp_counts :: "int dict"

definition count_names :: "string list" where
  "count_names = [''passed'', ''failed'', ''skipped'', ''error'', ''failures'', ''artifacts'']"

definition package_metadata_ok :: "json \<Rightarrow> json \<Rightarrow> json \<Rightarrow> json \<Rightarrow> (int \<times> json dict \<times> json dict \<times> json dict) option" where
  "package_metadata_ok size_bytes manifest outcome counts =
     (case (size_bytes, manifest, outcome, counts) of
        (JInt n, JObj m, JObj out, JObj c) \<Rightarrow>
          if 0 \<le> n \<and> n \<le> testd_max_result_package_bytes then Some (n, m, out, c) else None
      | _ \<Rightarrow> None)"

definition outcome_ok :: "json dict \<Rightarrow> bool" where
  "outcome_ok out \<longleftrightarrow>
     (case td_get out ''returncode'' of JNull \<Rightarrow> True | JInt _ \<Rightarrow> True | _ \<Rightarrow> False) \<and>
     (case td_get out ''infrastructure_error'' of JNull \<Rightarrow> True | JStr s \<Rightarrow> length s \<le> 1024 | _ \<Rightarrow> False) \<and>
     (case map_of out ''test_failed'' of None \<Rightarrow> True | Some (JBool _) \<Rightarrow> True | _ \<Rightarrow> False)"

definition new_runner_result_package ::
  "json \<Rightarrow> json \<Rightarrow> json \<Rightarrow> json \<Rightarrow> json \<Rightarrow> json \<Rightarrow> store_error + runner_result_package" where
  "new_runner_result_package package_id sha size_bytes manifest outcome counts =
     bindE (td_safe_id ''package_id'' package_id) (\<lambda>package.
     bindE (case sha of JStr s \<Rightarrow> if is_sha256 s then Inr s else invalid ''result package digest''
       | _ \<Rightarrow> invalid ''result package digest'') (\<lambda>digest.
     bindE (case package_metadata_ok size_bytes manifest outcome counts of
         Some x \<Rightarrow> Inr x | None \<Rightarrow> invalid ''result package metadata'') (\<lambda>(n, m, out, c).
     bindE (if set (keys c) = set count_names then mapE (\<lambda>(k, v). bindE (td_int ''result package counts are invalid'' 0 v)
         (\<lambda>i. Inr (k, i))) c else Inl (StoreContractError ''result package counts are invalid'')) (\<lambda>values.
     bindE (ensure (case td_get m ''reporter_complete'' of JBool _ \<Rightarrow> True | _ \<Rightarrow> False)
       (StoreContractError ''result package manifest is invalid'')) (\<lambda>_.
     bindE (ensure (outcome_ok out) (StoreContractError ''result package outcome is invalid'')) (\<lambda>_.
     Inr \<lparr>rp_package_id = package, rp_sha256 = digest, rp_size_bytes = n, rp_manifest = m, rp_outcome = out,
       rp_counts = values\<rparr>))))))"

definition result_package_document :: "runner_result_package \<Rightarrow> json" where
  "result_package_document p = JObj
     [(''package_id'', JStr (rp_package_id p)), (''sha256'', JStr (rp_sha256 p)), (''size_bytes'', JInt (rp_size_bytes p)),
      (''manifest'', JObj (rp_manifest p)), (''outcome'', JObj (rp_outcome p)), (''counts'', jdict JInt (rp_counts p))]"

definition result_metadata :: "json \<Rightarrow> store_error + runner_result_package option" where
  "result_metadata v =
     (case v of
        JNull \<Rightarrow> Inr None
      | JObj d \<Rightarrow> bindE (new_runner_result_package (td_get d ''package_id'') (td_get d ''sha256'') (td_get d ''size_bytes'')
          (td_get d ''manifest'') (td_get d ''outcome'') (td_get d ''counts'')) (\<lambda>p. Inr (Some p))
      | _ \<Rightarrow> invalid ''runner result package metadata'')"

definition reporter_complete :: "runner_result_package \<Rightarrow> bool" where
  "reporter_complete p \<longleftrightarrow> td_get (rp_manifest p) ''reporter_complete'' = JBool True"

text \<open>
  The resolved package keeps the raw values, which the store checks. A status that is not text and a
  size or flag of the wrong type become values that the store refuses with the same message; a
  completeness flag that is not a boolean is refused here, before the store refuses it.
\<close>

definition json_option :: "json \<Rightarrow> json option" where
  "json_option v = (if v = JNull then None else Some v)"

definition json_number :: "json \<Rightarrow> py_number" where
  "json_number v = (case v of JInt i \<Rightarrow> PyInt i | JFloat x \<Rightarrow> PyFloat (Finite x) | _ \<Rightarrow> PyOther)"

definition decode_fields :: "string \<Rightarrow> string list \<Rightarrow> json \<Rightarrow> store_error + json dict" where
  "decode_fields message expected v =
     (case v of JObj d \<Rightarrow> if set (keys d) = set expected then Inr d else Inl (StoreContractError message)
      | _ \<Rightarrow> Inl (StoreContractError message))"

text \<open>
  \<open>set(value) != expected\<close> on an item whose type was not checked: text and arrays are iterable too, a
  number is not, and an array of the expected names fails at its first lookup.
\<close>

definition decode_item_fields :: "string \<Rightarrow> string list \<Rightarrow> json \<Rightarrow> store_error + json dict" where
  "decode_item_fields message expected v =
     (case v of
        JObj d \<Rightarrow> if set (keys d) = set expected then Inr d else Inl (StoreContractError message)
      | JStr _ \<Rightarrow> Inl (StoreContractError message)
      | JArr vs \<Rightarrow> if set vs = JStr ` set expected \<or> list_ex (\<lambda>x. case x of JArr _ \<Rightarrow> True | JObj _ \<Rightarrow> True | _ \<Rightarrow> False) vs
          then Inl (StoreInternalError ''TypeError'') else Inl (StoreContractError message)
      | _ \<Rightarrow> Inl (StoreInternalError ''TypeError''))"

definition decode_case_result :: "json \<Rightarrow> store_error + case_result" where
  "decode_case_result v =
     bindE (decode_item_fields ''result package case fields are invalid''
       [''case_id'', ''display_name'', ''status'', ''duration_seconds'', ''location''] v) (\<lambda>d.
     Inr \<lparr>ca_case_id = td_get d ''case_id'', ca_display_name = td_get d ''display_name'',
       ca_status = (case td_get d ''status'' of JStr s \<Rightarrow> s | _ \<Rightarrow> []),
       ca_duration_seconds = json_number (td_get d ''duration_seconds''), ca_location = json_option (td_get d ''location'')\<rparr>)"

definition classification_of :: "string \<Rightarrow> failure_classification option" where
  "classification_of s = find (\<lambda>c. classification_value c = s)
     [TEST_FAILURE, INFRASTRUCTURE_FAILURE, CANCELLATION, TIMEOUT, INCOMPLETE_REPORTING]"

definition decode_failure_record :: "json \<Rightarrow> store_error + failure_record" where
  "decode_failure_record v =
     bindE (decode_item_fields ''result package failure fields are invalid''
       [''failure_id'', ''classification'', ''message'', ''case_id'', ''location'', ''artifact_id''] v) (\<lambda>d.
     bindE (case (case td_get d ''classification'' of JStr s \<Rightarrow> classification_of s | _ \<Rightarrow> None) of
         Some c \<Rightarrow> Inr c | None \<Rightarrow> Inl (StoreContractError ''result package failure classification is invalid'')) (\<lambda>c.
     Inr \<lparr>fa_failure_id = td_get d ''failure_id'', fa_classification = c, fa_message = td_get d ''message'',
       fa_case_id = json_option (td_get d ''case_id''), fa_location = json_option (td_get d ''location''),
       fa_artifact_id = json_option (td_get d ''artifact_id'')\<rparr>))"

definition decode_artifact_metadata :: "json \<Rightarrow> store_error + artifact_metadata" where
  "decode_artifact_metadata v =
     bindE (decode_item_fields ''result package artifact fields are invalid''
       [''artifact_id'', ''kind'', ''storage_handle'', ''sha256'', ''size_bytes'', ''verified''] v) (\<lambda>d.
     let (size, verified) = (case (td_get d ''size_bytes'', td_get d ''verified'') of
           (JInt n, JBool b) \<Rightarrow> (n, b) | _ \<Rightarrow> (- 1, False)) in
     Inr \<lparr>am_artifact_id = td_get d ''artifact_id'', am_kind = td_get d ''kind'',
       am_storage_handle = td_get d ''storage_handle'', am_sha256 = td_get d ''sha256'', am_size_bytes = size,
       am_verified = verified\<rparr>)"

definition decode_execution_result_package :: "json \<Rightarrow> store_error + execution_result_package" where
  "decode_execution_result_package v =
     bindE (decode_fields ''resolved result package fields are invalid''
       [''package_id'', ''cases'', ''failures'', ''artifacts'', ''reporter_complete''] v) (\<lambda>d.
     case (td_get d ''cases'', td_get d ''failures'', td_get d ''artifacts'') of
       (JArr cs, JArr fs, JArr arts) \<Rightarrow>
         bindE (mapE decode_case_result cs) (\<lambda>cases.
         bindE (mapE decode_failure_record fs) (\<lambda>failures.
         bindE (mapE decode_artifact_metadata arts) (\<lambda>artifacts.
         bindE (td_bool ''result package exceeds its record bounds'' (td_get d ''reporter_complete'')) (\<lambda>complete.
         Inr \<lparr>pk_package_id = td_get d ''package_id'', pk_cases = cases, pk_failures = failures, pk_artifacts = artifacts,
           pk_reporter_complete = complete\<rparr>))))
     | _ \<Rightarrow> Inl (StoreContractError ''resolved result package collection is invalid''))"

section \<open>Observations\<close>

record runner_progress =
  rg_stdout_bytes :: int
  rg_stderr_bytes :: int
  rg_stdout_retained_bytes :: int
  rg_stderr_retained_bytes :: int
  rg_stdout_truncated :: bool
  rg_stderr_truncated :: bool
  rg_last_output_at :: "rat option"
  rg_observed_at :: rat

definition progress_fields :: "string list" where
  "progress_fields = [''stdout_bytes'', ''stderr_bytes'', ''stdout_retained_bytes'', ''stderr_retained_bytes'',
     ''stdout_truncated'', ''stderr_truncated'', ''last_output_at'', ''observed_at'']"

definition validated_progress :: "json \<Rightarrow> store_error + runner_progress" where
  "validated_progress v =
     (let bad = StoreContractError ''runner output progress is invalid'' in
      bindE (decode_fields ''runner output progress is invalid'' progress_fields v) (\<lambda>d.
      bindE (td_int ''runner output progress is invalid'' 0 (td_get d ''stdout_bytes'')) (\<lambda>so.
      bindE (td_int ''runner output progress is invalid'' 0 (td_get d ''stderr_bytes'')) (\<lambda>se.
      bindE (td_int ''runner output progress is invalid'' 0 (td_get d ''stdout_retained_bytes'')) (\<lambda>sor.
      bindE (td_int ''runner output progress is invalid'' 0 (td_get d ''stderr_retained_bytes'')) (\<lambda>ser.
      bindE (td_bool ''runner output progress is invalid'' (td_get d ''stdout_truncated'')) (\<lambda>sot.
      bindE (td_bool ''runner output progress is invalid'' (td_get d ''stderr_truncated'')) (\<lambda>srt.
      bindE (ensure (sor \<le> max_progress_retained_bytes \<and> ser \<le> max_progress_retained_bytes \<and> sor \<le> so \<and> ser \<le> se \<and>
          sot = (sor < so) \<and> srt = (ser < se)) bad) (\<lambda>_.
      bindE (td_finite_nonnegative ''progress observed_at'' (td_get d ''observed_at'')) (\<lambda>observed.
      bindE (td_optional (td_finite_nonnegative ''last_output_at'') (td_get d ''last_output_at'')) (\<lambda>last_output.
      Inr \<lparr>rg_stdout_bytes = so, rg_stderr_bytes = se, rg_stdout_retained_bytes = sor, rg_stderr_retained_bytes = ser,
        rg_stdout_truncated = sot, rg_stderr_truncated = srt, rg_last_output_at = last_output, rg_observed_at = observed\<rparr>)))))))))))"

record runner_observation =
  ro_state :: string
  ro_unit_inactive :: bool
  ro_cgroup_empty :: bool
  ro_launch_confirmed :: bool
  ro_started_at :: "rat option"
  ro_systemd_invocation_id :: "string option"
  ro_result_package :: "runner_result_package option"
  ro_current_memory_bytes :: "int option"
  ro_output_progress :: "runner_progress option"
  ro_peak_memory_bytes :: "int option"
  ro_cpu_seconds :: "rat option"
  ro_exit_status :: "int option"

definition observation_fields :: "string list" where
  "observation_fields = [''state'', ''unit_inactive'', ''cgroup_empty'', ''launch_confirmed'', ''started_at'',
     ''systemd_invocation_id'', ''result_package'', ''current_memory_bytes'', ''output_progress'', ''peak_memory_bytes'',
     ''cpu_seconds'', ''exit_status'']"

definition runner_states :: "string list" where
  "runner_states = [''starting'', ''running'', ''exited'', ''stopped'', ''absent'']"

definition decode_runner_observation :: "json \<Rightarrow> store_error + runner_observation" where
  "decode_runner_observation v =
     bindE (decode_fields ''runner observation fields are invalid'' observation_fields v) (\<lambda>d.
     bindE (result_metadata (td_get d ''result_package'')) (\<lambda>package.
     bindE (case td_get d ''state'' of JStr s \<Rightarrow> if s \<in> set runner_states then Inr s
         else Inl (StoreContractError ''runner observation state is invalid'')
       | _ \<Rightarrow> Inl (StoreContractError ''runner observation state is invalid'')) (\<lambda>state.
     bindE (td_bool ''runner cleanup facts are invalid'' (td_get d ''unit_inactive'')) (\<lambda>unit_inactive.
     bindE (td_bool ''runner cleanup facts are invalid'' (td_get d ''cgroup_empty'')) (\<lambda>cgroup_empty.
     bindE (td_bool ''runner cleanup facts are invalid'' (td_get d ''launch_confirmed'')) (\<lambda>launch_confirmed.
     bindE (ensure (cgroup_empty \<longrightarrow> unit_inactive) (StoreContractError ''runner cleanup facts are invalid'')) (\<lambda>_.
     bindE (td_optional (td_finite_nonnegative ''started_at'') (td_get d ''started_at'')) (\<lambda>started_at.
     bindE (td_optional (td_safe_id ''systemd_invocation_id'') (td_get d ''systemd_invocation_id'')) (\<lambda>invocation.
     bindE (td_optional (td_int ''runner current memory is invalid'' 0) (td_get d ''current_memory_bytes'')) (\<lambda>current.
     bindE (td_optional (td_int ''runner peak memory is invalid'' 0) (td_get d ''peak_memory_bytes'')) (\<lambda>peak.
     bindE (td_optional (td_finite_nonnegative ''cpu_seconds'') (td_get d ''cpu_seconds'')) (\<lambda>cpu.
     bindE (td_optional (\<lambda>x. case x of JInt i \<Rightarrow> Inr i | _ \<Rightarrow> Inl (StoreContractError ''runner exit status is invalid''))
       (td_get d ''exit_status'')) (\<lambda>exit_status.
     bindE (td_optional validated_progress (td_get d ''output_progress'')) (\<lambda>progress.
     Inr \<lparr>ro_state = state, ro_unit_inactive = unit_inactive, ro_cgroup_empty = cgroup_empty,
       ro_launch_confirmed = launch_confirmed, ro_started_at = started_at, ro_systemd_invocation_id = invocation,
       ro_result_package = package, ro_current_memory_bytes = current, ro_output_progress = progress,
       ro_peak_memory_bytes = peak, ro_cpu_seconds = cpu, ro_exit_status = exit_status\<rparr>))))))))))))))"

end
