(* ===== verification/Testd_Engine.thy ===== *)
theory Testd_Engine
  imports Testd Plan_Wire Store_Machine
begin

text \<open>
  \<open>TestdEngine\<close>, \<open>TestdLaunchAdapter\<close> and the turn of \<open>TestdEngineLoop\<close> (\<open>universal_testd.py\<close>): the
  scheduler and reconciler over the store. What the engine calls outside the repository's test plane
  (the clocks, the memory probe, the ticket issuer and the runtime submitter) is a record of
  functions on an abstract world. An action returns a value or raises, and keeps the state it has
  reached when it raises; every write goes to the store as one request of its state machine.
\<close>

section \<open>Actions\<close>

datatype engine_error = Raised store_error | Foreign string

record active_execution =
  ac_execution :: execution_grant
  ac_handle :: runner_handle
  ac_run_id :: string
  ac_target_id :: string
  ac_target_name :: string
  ac_terminal_committed :: bool

record 'w engine =
  en_store :: test_store
  en_scheduler :: fair_scheduler
  en_active :: "active_execution dict"
  en_world :: 'w

type_synonym ('w, 'a) world_call = "'w \<Rightarrow> (engine_error + 'a) \<times> 'w"

record 'w testd_host =
  ho_pylib :: pylib
  ho_uuid5 :: "string \<Rightarrow> string"  \<comment> \<open>\<open>str(uuid.uuid5(uuid.NAMESPACE_URL, name))\<close>\<close>
  ho_clock :: "'w \<Rightarrow> py_float \<times> 'w"
  ho_store_clock :: "'w \<Rightarrow> py_number \<times> 'w"
  ho_memory_probe :: "'w \<Rightarrow> (store_error + host_memory_snapshot) \<times> 'w"
  ho_issue :: "runnable_target \<Rightarrow> execution_grant \<Rightarrow> json \<Rightarrow> py_float \<Rightarrow> ('w, json dict) world_call"
  ho_prepare :: "json \<Rightarrow> ('w, json) world_call"
  ho_start_prepared :: "string \<Rightarrow> ('w, json) world_call"
  ho_observe :: "string \<Rightarrow> ('w, json) world_call"
  ho_attach :: "json \<Rightarrow> ('w, json) world_call"
  ho_stop :: "string \<Rightarrow> string \<Rightarrow> ('w, json) world_call"
  ho_resolve_package :: "string \<Rightarrow> json \<Rightarrow> ('w, json) world_call"
  ho_collect :: "string \<Rightarrow> ('w, json) world_call"

type_synonym ('w, 'a) action = "'w engine \<Rightarrow> (engine_error + 'a) \<times> 'w engine"

definition pass :: "'a \<Rightarrow> ('w, 'a) action" where
  "pass x = (\<lambda>e. (Inr x, e))"

definition throw :: "engine_error \<Rightarrow> ('w, 'a) action" where
  "throw err = (\<lambda>e. (Inl err, e))"

definition bindA :: "('w, 'a) action \<Rightarrow> ('a \<Rightarrow> ('w, 'b) action) \<Rightarrow> ('w, 'b) action" where
  "bindA m f = (\<lambda>e. case m e of (Inl err, e') \<Rightarrow> (Inl err, e') | (Inr x, e') \<Rightarrow> f x e')"

text \<open>\<open>try: .. except Exception as error: ..\<close>\<close>

definition catchA :: "('w, 'a) action \<Rightarrow> (engine_error \<Rightarrow> ('w, 'a) action) \<Rightarrow> ('w, 'a) action" where
  "catchA m f = (\<lambda>e. case m e of (Inl err, e') \<Rightarrow> f err e' | (Inr x, e') \<Rightarrow> (Inr x, e'))"

fun foldA :: "('x \<Rightarrow> 'a \<Rightarrow> ('w, 'a) action) \<Rightarrow> 'x list \<Rightarrow> 'a \<Rightarrow> ('w, 'a) action" where
  "foldA f [] acc = pass acc"
| "foldA f (x # xs) acc = bindA (f x acc) (foldA f xs)"

definition liftE :: "store_error + 'a \<Rightarrow> ('w, 'a) action" where
  "liftE r = (case r of Inl err \<Rightarrow> throw (Raised err) | Inr x \<Rightarrow> pass x)"

definition call :: "('w, 'a) world_call \<Rightarrow> ('w, 'a) action" where
  "call f = (\<lambda>e. case f (en_world e) of (r, w) \<Rightarrow> (r, e\<lparr>en_world := w\<rparr>))"

definition read_clock :: "'w testd_host \<Rightarrow> ('w, py_float) action" where
  "read_clock H = call (\<lambda>w. apfst Inr (ho_clock H w))"

definition read_store_clock :: "'w testd_host \<Rightarrow> ('w, py_number) action" where
  "read_store_clock H = call (\<lambda>w. apfst Inr (ho_store_clock H w))"

definition store_read :: "(test_store \<Rightarrow> store_error + 'a) \<Rightarrow> ('w, 'a) action" where
  "store_read f = (\<lambda>e. liftE (f (en_store e)) e)"

text \<open>One transaction: a request that fails is rolled back.\<close>

definition store_request :: "'w testd_host \<Rightarrow> py_number \<Rightarrow> store_request \<Rightarrow> ('w, json) action" where
  "store_request H clock r = (\<lambda>e. case perform (ho_pylib H) r clock (en_store e) of
     Inl err \<Rightarrow> (Inl (Raised err), e) | Inr (x, st) \<Rightarrow> (Inr x, e\<lparr>en_store := st\<rparr>))"

definition clocked_request :: "'w testd_host \<Rightarrow> store_request \<Rightarrow> ('w, json) action" where
  "clocked_request H r = bindA (read_store_clock H) (\<lambda>clock. store_request H clock r)"

text \<open>The dictionary \<open>_active\<close>: assignment, a change of the object it holds, and \<open>pop\<close>.\<close>

definition put_active :: "active_execution \<Rightarrow> ('w, unit) action" where
  "put_active a = (\<lambda>e. (Inr (), e\<lparr>en_active := dict_put (eg_execution_id (ac_execution a)) a (en_active e)\<rparr>))"

definition change_active :: "active_execution \<Rightarrow> ('w, unit) action" where
  "change_active a = (\<lambda>e. (Inr (), e\<lparr>en_active := map (\<lambda>(k, old).
     if k = eg_execution_id (ac_execution a) then (k, a) else (k, old)) (en_active e)\<rparr>))"

definition pop_active :: "string \<Rightarrow> ('w, unit) action" where
  "pop_active execution_id = (\<lambda>e. (Inr (), e\<lparr>en_active := filter (\<lambda>(k, _). k \<noteq> execution_id) (en_active e)\<rparr>))"

definition is_active :: "string \<Rightarrow> ('w, bool) action" where
  "is_active execution_id = (\<lambda>e. (Inr (has_key execution_id (en_active e)), e))"

text \<open>\<open>type(error).__name__\<close>.\<close>

definition error_type :: "engine_error \<Rightarrow> string" where
  "error_type err =
     (case err of
        Foreign name \<Rightarrow> name
      | Raised (StoreContractError _) \<Rightarrow> ''TestStoreContractError''
      | Raised (StoreConflict _) \<Rightarrow> ''TestStoreConflict''
      | Raised (StoreNotFound _) \<Rightarrow> ''TestStoreNotFound''
      | Raised (StoreIntegrityError _) \<Rightarrow> ''IntegrityError''
      | Raised (StoreInternalError s) \<Rightarrow> if s = ''TypeError'' then s
          else if s = ''terminal failure state was not classified'' then ''AssertionError'' else ''KeyError'')"

section \<open>Clock readings\<close>

text \<open>\<open>Infinite\<close> is a reading of positive infinity.\<close>

definition clock_plus :: "py_float \<Rightarrow> int \<Rightarrow> py_float" where
  "clock_plus t seconds = (case t of Finite x \<Rightarrow> Finite (fl64 (x + of_int seconds)) | _ \<Rightarrow> t)"

definition clock_reached :: "py_float \<Rightarrow> rat \<Rightarrow> bool" where
  "clock_reached t deadline = (case t of Finite x \<Rightarrow> deadline \<le> x | Infinite \<Rightarrow> True | NotANumber \<Rightarrow> False)"

text \<open>\<open>max(0.0, float(self.clock()) - float(started_at))\<close>; \<open>max\<close> keeps its first argument against a NaN.\<close>

definition clock_since :: "py_float \<Rightarrow> rat \<Rightarrow> py_float" where
  "clock_since t started = (case t of Finite x \<Rightarrow> Finite (max 0 (fl64 (x - started))) | Infinite \<Rightarrow> Infinite
     | NotANumber \<Rightarrow> Finite 0)"

section \<open>Reads of the store\<close>

text \<open>The row of a run with the rows of its targets in their order.\<close>

definition get_run :: "json \<Rightarrow> json option \<Rightarrow> test_store \<Rightarrow> store_error + run_row \<times> target_row list" where
  "get_run run_value repository_value st =
     bindE (safe_id ''run_id'' run_value) (\<lambda>run_id.
     bindE (optionE (safe_id ''repository_id'') repository_value) (\<lambda>repository.
     case lookup_run st run_id of
       None \<Rightarrow> Inl (StoreNotFound ''test run does not exist'')
     | Some run \<Rightarrow>
         bindE (ensure (case repository of None \<Rightarrow> True | Some r \<Rightarrow> ru_repository_id run = r)
           (StoreNotFound ''test run does not exist'')) (\<lambda>_.
         Inr (run, sort_key target_order (run_targets st run_id)))))"

definition get_plan_document :: "json \<Rightarrow> test_store \<Rightarrow> store_error + json" where
  "get_plan_document plan_value st =
     bindE (safe_id ''plan_id'' plan_value) (\<lambda>plan_id.
     case lookup_plan st plan_id of
       None \<Rightarrow> Inl (StoreNotFound ''test plan does not exist'')
     | Some p \<Rightarrow> bindE (stored_plan_parts (pl_plan_json p)) (\<lambda>(document, _). Inr (JObj document)))"

definition get_execution :: "json \<Rightarrow> test_store \<Rightarrow> store_error + target_row" where
  "get_execution execution_value st = bindE (safe_id ''execution_id'' execution_value) (find_execution st)"

section \<open>The launch adapter\<close>

definition launcher_prepare :: "'w testd_host \<Rightarrow> runner_request \<Rightarrow> ('w, runner_handle) action" where
  "launcher_prepare H request = bindA (call (ho_prepare H (request_document request))) (\<lambda>v. liftE (decode_runner_handle v))"

definition launcher_start :: "'w testd_host \<Rightarrow> runner_handle \<Rightarrow> ('w, runner_handle) action" where
  "launcher_start H handle =
     bindA (call (ho_start_prepared H (rh_systemd_unit handle))) (\<lambda>v.
     bindA (liftE (decode_runner_handle v)) (\<lambda>started.
     bindA (liftE (require_same_handle handle started)) (\<lambda>_.
     pass started)))"

definition launcher_observe :: "'w testd_host \<Rightarrow> runner_handle \<Rightarrow> ('w, runner_observation) action" where
  "launcher_observe H handle =
     bindA (call (ho_observe H (rh_systemd_unit handle))) (\<lambda>v. liftE (decode_runner_observation v))"

definition launcher_attach :: "'w testd_host \<Rightarrow> json \<Rightarrow> ('w, runner_handle) action" where
  "launcher_attach H binding = bindA (call (ho_attach H binding)) (\<lambda>v. liftE (decode_runner_handle v))"

definition launcher_stop :: "'w testd_host \<Rightarrow> runner_handle \<Rightarrow> string \<Rightarrow> ('w, runner_observation) action" where
  "launcher_stop H handle reason_value =
     bindA (liftE (td_bounded_text ''stop reason'' 1024 (JStr reason_value))) (\<lambda>reason.
     bindA (call (ho_stop H (rh_systemd_unit handle) reason)) (\<lambda>v. liftE (decode_runner_observation v)))"

definition launcher_resolve_package ::
  "'w testd_host \<Rightarrow> runner_handle \<Rightarrow> runner_result_package \<Rightarrow> ('w, execution_result_package) action" where
  "launcher_resolve_package H handle metadata =
     bindA (call (ho_resolve_package H (rh_systemd_unit handle) (result_package_document metadata))) (\<lambda>v.
     liftE (decode_execution_result_package v))"

definition launcher_collect :: "'w testd_host \<Rightarrow> runner_handle \<Rightarrow> ('w, bool) action" where
  "launcher_collect H handle =
     bindA (call (ho_collect H (rh_systemd_unit handle))) (\<lambda>v.
     case v of
       JObj [(k, JBool b)] \<Rightarrow> if k = ''collected'' then pass b
         else throw (Raised (StoreContractError ''runner collection result is invalid''))
     | _ \<Rightarrow> throw (Raised (StoreContractError ''runner collection result is invalid'')))"

section \<open>Identities\<close>

definition stable_operation_id :: "'w testd_host \<Rightarrow> string \<Rightarrow> string list \<Rightarrow> string" where
  "stable_operation_id H kind values = ho_uuid5 H (''devcoordinator-testd:'' @ join [CHR 0x00] (kind # values))"

definition unit_for_execution :: "pylib \<Rightarrow> string \<Rightarrow> store_error + string" where
  "unit_for_execution L execution_value =
     bindE (td_safe_id ''execution_id'' (JStr execution_value)) (\<lambda>execution_id.
     Inr (''devcoordinator-test-'' @ take 32 (sha256_hexdigest L execution_id) @ ''.service''))"

definition launch_operation_for_target :: "'w testd_host \<Rightarrow> string \<Rightarrow> string" where
  "launch_operation_for_target H target_id = stable_operation_id H ''launch'' [target_id]"

definition descriptor_fingerprint :: "pylib \<Rightarrow> runnable_target \<Rightarrow> launch_ticket \<Rightarrow> string" where
  "descriptor_fingerprint L candidate ticket = deterministic_fingerprint L (JObj
     [(''ticket'', ticket_document ticket), (''target_id'', JStr (rt_target_id candidate)),
      (''run_id'', JStr (rt_run_id candidate)), (''target_name'', JStr (rt_target_name candidate)),
      (''shard_index'', JInt (rt_shard_index candidate)), (''shard_count'', JInt (rt_shard_count candidate))])"

definition handle_for_grant :: "execution_grant \<Rightarrow> store_error + runner_handle" where
  "handle_for_grant g = new_runner_handle (JStr (eg_execution_id g)) (JInt (eg_generation g)) (JStr (eg_systemd_unit g))
     (JStr (eg_launch_operation_id g)) JNull (JBool False)"

definition preview_grant :: "runnable_target \<Rightarrow> string \<Rightarrow> string \<Rightarrow> string \<Rightarrow> execution_grant" where
  "preview_grant candidate execution_id systemd_unit launch_operation =
     \<lparr>eg_execution_id = execution_id, eg_target_id = rt_target_id candidate, eg_run_id = rt_run_id candidate,
      eg_target_name = rt_target_name candidate, eg_shard_index = rt_shard_index candidate,
      eg_shard_count = rt_shard_count candidate, eg_generation = 1, eg_systemd_unit = systemd_unit,
      eg_launch_operation_id = launch_operation\<rparr>"

text \<open>The \<open>ExecutionGrant\<close> of the document that \<open>begin_execution\<close> returns and journals.\<close>

definition grant_document :: "execution_grant \<Rightarrow> json" where
  "grant_document g = JObj
     [(''execution_id'', JStr (eg_execution_id g)), (''target_id'', JStr (eg_target_id g)),
      (''run_id'', JStr (eg_run_id g)), (''target_name'', JStr (eg_target_name g)),
      (''shard_index'', JInt (eg_shard_index g)), (''shard_count'', JInt (eg_shard_count g)),
      (''generation'', JInt (eg_generation g)), (''systemd_unit'', JStr (eg_systemd_unit g)),
      (''launch_operation_id'', JStr (eg_launch_operation_id g))]"

section \<open>Launch\<close>

definition ticket_agrees :: "runnable_target \<Rightarrow> launch_ticket \<Rightarrow> bool" where
  "ticket_agrees candidate ticket \<longleftrightarrow> lt_target_id ticket = rt_target_id candidate \<and>
     lt_run_id ticket = rt_run_id candidate \<and> lt_repository_id ticket = rt_repository_id candidate \<and>
     lt_owner_uid ticket = rt_owner_uid candidate \<and> 0 < lt_ttl_seconds ticket"

definition supervise_launch ::
  "'w testd_host \<Rightarrow> runnable_target \<Rightarrow> launch_ticket \<Rightarrow> string \<Rightarrow> execution_grant \<Rightarrow> ('w, unit) action" where
  "supervise_launch H candidate ticket descriptor grant =
     bindA (liftE (handle_for_grant grant)) (\<lambda>handle.
     let active = \<lparr>ac_execution = grant, ac_handle = handle, ac_run_id = eg_run_id grant,
           ac_target_id = eg_target_id grant, ac_target_name = eg_target_name grant, ac_terminal_committed = False\<rparr> in
     bindA (put_active active) (\<lambda>_.
     bindA (liftE (new_runner_request ticket grant (rt_target_name candidate) descriptor)) (\<lambda>request.
     bindA (launcher_prepare H request) (\<lambda>prepared.
     bindA (liftE (require_same_handle handle prepared)) (\<lambda>_.
     bindA (change_active (active\<lparr>ac_handle := prepared\<rparr>)) (\<lambda>_.
     bindA (launcher_start H prepared) (\<lambda>started.
     bindA (liftE (require_same_handle prepared started)) (\<lambda>_.
     change_active (active\<lparr>ac_handle := started\<rparr>)))))))))"

text \<open>\<open>_launch\<close> up to the agreed ticket, which leaves the store as it is, and then the reservation.\<close>

definition plan_launch ::
  "'w testd_host \<Rightarrow> runnable_target \<Rightarrow> ('w, execution_grant \<times> launch_ticket \<times> py_float) action" where
  "plan_launch H candidate =
     (let L = ho_pylib H in
      bindA (store_read (get_run (JStr (rt_run_id candidate)) None)) (\<lambda>(run, _).
      bindA (store_read (get_plan_document (JStr (ru_plan_id run)))) (\<lambda>plan_document.
      bindA (liftE (decode_test_plan_document L plan_document)) (\<lambda>plan.
      bindA (read_clock H) (\<lambda>now.
      let deadline = clock_plus now (pt_launch_seconds (tp_timeouts plan)) in
      bindA (store_read (execution_identity L (JStr (rt_target_id candidate)))) (\<lambda>execution_id.
      bindA (liftE (unit_for_execution L execution_id)) (\<lambda>systemd_unit.
      let preview = preview_grant candidate execution_id systemd_unit
            (launch_operation_for_target H (rt_target_id candidate)) in
      bindA (call (ho_issue H candidate preview plan_document deadline)) (\<lambda>values.
      bindA (liftE (new_launch_ticket values)) (\<lambda>ticket.
      bindA (liftE (ensure (ticket_agrees candidate ticket)
        (StoreConflict ''launch ticket contradicts the selected target''))) (\<lambda>_.
      pass (preview, ticket, deadline)))))))))))"

definition reservation_request ::
  "'w testd_host \<Rightarrow> runnable_target \<Rightarrow> execution_grant \<Rightarrow> launch_ticket \<Rightarrow> py_float \<Rightarrow> store_request" where
  "reservation_request H candidate preview ticket deadline =
     Begin (JStr (rt_target_id candidate), JInt (lt_repository_generation ticket), JStr (eg_systemd_unit preview),
       eg_launch_operation_id preview, JStr (descriptor_fingerprint (ho_pylib H) candidate ticket), PyFloat deadline,
       JInt (rt_memory_estimate_mib candidate), stable_operation_id H ''begin'' [rt_target_id candidate])"

definition launch :: "'w testd_host \<Rightarrow> runnable_target \<Rightarrow> ('w, unit) action" where
  "launch H candidate =
     bindA (plan_launch H candidate) (\<lambda>(preview, ticket, deadline).
     bindA (clocked_request H (reservation_request H candidate preview ticket deadline)) (\<lambda>granted.
     bindA (liftE (ensure (granted = grant_document preview)
       (StoreConflict ''test execution identity changed after descriptor resolution''))) (\<lambda>_.
     supervise_launch H candidate ticket (descriptor_fingerprint (ho_pylib H) candidate ticket) preview)))"

section \<open>Observation\<close>

definition started_request ::
  "'w testd_host \<Rightarrow> execution_grant \<Rightarrow> string \<Rightarrow> rat \<Rightarrow> string option \<Rightarrow> store_request" where
  "started_request H g ack started invocation = Start (JStr (eg_execution_id g), JInt (eg_generation g),
     JStr (eg_systemd_unit g), JStr ack, PyFloat (Finite started), map_option JStr invocation,
     stable_operation_id H ''started'' [eg_execution_id g, float_repr (ho_pylib H) started, ack])"

definition acknowledged_handle :: "active_execution \<Rightarrow> runner_handle" where
  "acknowledged_handle active = (case rh_launch_ack_id (ac_handle active) of
     Some _ \<Rightarrow> ac_handle active
   | None \<Rightarrow> (ac_handle active)\<lparr>rh_launch_ack_id :=
       Some (''launch-'' @ eg_execution_id (ac_execution active)), rh_launch_confirmed := True\<rparr>)"

text \<open>
  The new acknowledgement is validated when the handle is replaced, as every handle is. The result is
  the handle with which the engine goes on, which the entry of \<open>_active\<close> now has.
\<close>

definition record_start_if_observed ::
  "'w testd_host \<Rightarrow> active_execution \<Rightarrow> runner_observation \<Rightarrow> ('w, runner_handle) action" where
  "record_start_if_observed H active observation =
     (let g = ac_execution active in
      if \<not> ro_launch_confirmed observation then pass (ac_handle active) else
      bindA (store_read (get_execution (JStr (eg_execution_id g)))) (\<lambda>retained.
      if ta_state retained \<noteq> Starting then pass (ac_handle active) else
      case ro_started_at observation of
        None \<Rightarrow> throw (Raised (StoreConflict ''confirmed running execution omitted durable start evidence''))
      | Some started \<Rightarrow>
          let handle = acknowledged_handle active in
          bindA (liftE (td_safe_id ''launch_ack_id'' (jopt JStr (rh_launch_ack_id handle)))) (\<lambda>ack.
          bindA (change_active (active\<lparr>ac_handle := handle\<rparr>)) (\<lambda>_.
          bindA (clocked_request H (started_request H g ack started (ro_systemd_invocation_id observation))) (\<lambda>_.
          pass handle)))))"

definition reported_progress :: "runner_progress \<Rightarrow> int option \<Rightarrow> output_progress" where
  "reported_progress p memory = \<lparr>op_stdout_bytes = rg_stdout_bytes p, op_stderr_bytes = rg_stderr_bytes p,
     op_stdout_retained_bytes = rg_stdout_retained_bytes p, op_stderr_retained_bytes = rg_stderr_retained_bytes p,
     op_stdout_truncated = rg_stdout_truncated p, op_stderr_truncated = rg_stderr_truncated p,
     op_current_memory_bytes = memory, op_last_output_at = None, op_progress_observed_at = None\<rparr>"

definition engine_record_progress ::
  "'w testd_host \<Rightarrow> active_execution \<Rightarrow> runner_observation \<Rightarrow> ('w, unit) action" where
  "engine_record_progress H active observation =
     (case ro_output_progress observation of
        None \<Rightarrow> pass ()
      | Some p \<Rightarrow>
          bindA (read_store_clock H) (\<lambda>clock.
          bindA (read_store_clock H) (\<lambda>clock'.
          bindA (store_request H clock (Progress clock' (JStr (eg_execution_id (ac_execution active)))
            (JInt (eg_generation (ac_execution active))) (reported_progress p (ro_current_memory_bytes observation))
            (map_option (PyFloat \<circ> Finite) (rg_last_output_at p)) (PyFloat (Finite (rg_observed_at p))))) (\<lambda>_.
          pass ()))))"

section \<open>Conclusions\<close>

definition package_count :: "runner_result_package \<Rightarrow> string \<Rightarrow> int" where
  "package_count m name = (case map_of (rp_counts m) name of Some n \<Rightarrow> n | None \<Rightarrow> 0)"

definition package_conclusion :: "runner_result_package \<Rightarrow> execution_conclusion \<Rightarrow> execution_conclusion" where
  "package_conclusion m fallback =
     (let terminal_outcome = td_get (rp_outcome m) ''terminal_outcome'' in
      if \<not> reporter_complete m then (if fallback \<in> {TIMED_OUT, CANCELLED} then fallback else INCOMPLETE)
      else if terminal_outcome = JStr ''timed_out'' then TIMED_OUT
      else if terminal_outcome = JStr ''incomplete'' then INCOMPLETE
      else if terminal_outcome = JStr ''infrastructure_failed'' then INFRASTRUCTURE_FAILED
      else if package_count m ''failed'' \<noteq> 0 \<or> package_count m ''error'' \<noteq> 0 then TEST_FAILED
      else if td_get (rp_outcome m) ''test_failed'' = JBool True then TEST_FAILED
      else if td_get (rp_outcome m) ''infrastructure_error'' \<noteq> JNull then INFRASTRUCTURE_FAILED
      else if td_get (rp_outcome m) ''returncode'' \<notin> {JNull, JInt 0} then INFRASTRUCTURE_FAILED
      else SUCCEEDED)"

definition synthetic_classification :: "execution_conclusion \<Rightarrow> failure_classification option" where
  "synthetic_classification c =
     (case c of TIMED_OUT \<Rightarrow> Some TIMEOUT | CANCELLED \<Rightarrow> Some CANCELLATION
      | INCOMPLETE \<Rightarrow> Some INCOMPLETE_REPORTING | INFRASTRUCTURE_FAILED \<Rightarrow> Some INFRASTRUCTURE_FAILURE | _ \<Rightarrow> None)"

definition synthetic_package ::
  "pylib \<Rightarrow> string \<Rightarrow> execution_conclusion \<Rightarrow> string \<Rightarrow> execution_result_package" where
  "synthetic_package L execution_id c reason =
     \<lparr>pk_package_id = JStr (''package-'' @ take 32 (sha256_hexdigest L (join [CHR 0x00] [execution_id, conclusion_value c]))),
      pk_cases = [],
      pk_failures = (case synthetic_classification c of
          None \<Rightarrow> []
        | Some classification \<Rightarrow>
            [\<lparr>fa_failure_id = JStr (''failure-'' @
                take 32 (sha256_hexdigest L (join [CHR 0x00] [execution_id, conclusion_value c, reason]))),
              fa_classification = classification, fa_message = JStr (take 8192 reason), fa_case_id = None,
              fa_location = Some (JStr ''execution''), fa_artifact_id = None\<rparr>]),
      pk_artifacts = [], pk_reporter_complete = False\<rparr>"

definition resolved_counts :: "execution_result_package \<Rightarrow> int dict" where
  "resolved_counts p =
     (let count = (\<lambda>s. int (length (filter (\<lambda>c. ca_status c = s) (pk_cases p)))) in
      [(''passed'', count ''passed''), (''failed'', count ''failed''), (''skipped'', count ''skipped''),
       (''error'', count ''error''), (''failures'', int (length (pk_failures p))),
       (''artifacts'', int (length (pk_artifacts p)))])"

definition check_resolved :: "runner_result_package \<Rightarrow> execution_result_package \<Rightarrow> store_error + unit" where
  "check_resolved m p =
     bindE (ensure (pk_package_id p = JStr (rp_package_id m))
       (StoreConflict ''resolved result package identity changed'')) (\<lambda>_.
     bindE (ensure (list_all (\<lambda>name. map_of (rp_counts m) name = map_of (resolved_counts p) name) count_names)
       (StoreConflict ''resolved result package counts changed'')) (\<lambda>_.
     ensure (pk_reporter_complete p = reporter_complete m)
       (StoreConflict ''resolved result package manifest changed'')))"

definition resolved_package ::
  "'w testd_host \<Rightarrow> active_execution \<Rightarrow> runner_result_package \<Rightarrow> ('w, execution_result_package) action" where
  "resolved_package H active metadata =
     bindA (launcher_resolve_package H (ac_handle active) metadata) (\<lambda>package.
     bindA (liftE (check_resolved metadata package)) (\<lambda>_.
     pass package))"

section \<open>Settlement\<close>

definition cleaned_up :: "runner_observation \<Rightarrow> bool" where
  "cleaned_up observation \<longleftrightarrow> ro_unit_inactive observation \<and> ro_cgroup_empty observation"

definition resolve_optional ::
  "'w testd_host \<Rightarrow> active_execution \<Rightarrow> runner_result_package option
     \<Rightarrow> ('w, (runner_result_package \<times> execution_result_package) option) action" where
  "resolve_optional H active metadata =
     (case metadata of None \<Rightarrow> pass None
      | Some m \<Rightarrow> bindA (resolved_package H active m) (\<lambda>package. pass (Some (m, package))))"

text \<open>The observation that proves the execution gone, and the package that either observation carried.\<close>

definition stopped_evidence ::
  "'w testd_host \<Rightarrow> active_execution \<Rightarrow> runner_observation \<Rightarrow> string
     \<Rightarrow> ('w, runner_observation \<times> (runner_result_package \<times> execution_result_package) option) action" where
  "stopped_evidence H active observation stop_reason =
     bindA (resolve_optional H active (ro_result_package observation)) (\<lambda>package.
     bindA (if cleaned_up observation then pass (observation, package) else
       bindA (launcher_stop H (ac_handle active) stop_reason) (\<lambda>observation.
       if package \<noteq> None then pass (observation, package) else
       bindA (resolve_optional H active (ro_result_package observation)) (\<lambda>package. pass (observation, package)))) (\<lambda>(observation, package).
     bindA (liftE (ensure (cleaned_up observation)
       (StoreConflict ''exact execution did not reach inactive empty-cgroup proof''))) (\<lambda>_.
     pass (observation, package))))"

definition conclude ::
  "pylib \<Rightarrow> string \<Rightarrow> execution_conclusion \<Rightarrow> string \<Rightarrow> (runner_result_package \<times> execution_result_package) option
     \<Rightarrow> execution_result_package \<times> execution_conclusion" where
  "conclude L execution_id fallback stop_reason package =
     (case package of
        None \<Rightarrow> (synthetic_package L execution_id fallback stop_reason, fallback)
      | Some (m, p) \<Rightarrow> (p, package_conclusion m fallback))"

definition package_name :: "execution_result_package \<Rightarrow> string" where
  "package_name p = (case pk_package_id p of JStr s \<Rightarrow> s | _ \<Rightarrow> [])"

definition completion_request ::
  "'w testd_host \<Rightarrow> execution_grant \<Rightarrow> execution_result_package \<Rightarrow> execution_conclusion \<Rightarrow> py_float \<Rightarrow> runner_observation
     \<Rightarrow> store_request" where
  "completion_request H g package c duration observation = Complete (JStr (eg_execution_id g), JInt (eg_generation g),
     JStr (eg_systemd_unit g), package, conclusion_value c, PyFloat duration,
     stable_operation_id H ''complete'' [eg_execution_id g, package_name package, conclusion_value c], True, True,
     ro_peak_memory_bytes observation, map_option (PyFloat \<circ> Finite) (ro_cpu_seconds observation))"

text \<open>\<open>_settle\<close> up to the reply of \<open>collect\<close>, and then the removal of the collected execution.\<close>

definition settle_and_collect ::
  "'w testd_host \<Rightarrow> active_execution \<Rightarrow> runner_observation \<Rightarrow> execution_conclusion \<Rightarrow> string \<Rightarrow> ('w, bool) action" where
  "settle_and_collect H active observation fallback stop_reason =
     (let g = ac_execution active in
      bindA (stopped_evidence H active observation stop_reason) (\<lambda>(observation, evidence).
      let (package, c) = conclude (ho_pylib H) (eg_execution_id g) fallback stop_reason evidence in
      bindA (store_read (get_execution (JStr (eg_execution_id g)))) (\<lambda>retained.
      bindA (case ta_launch retained of None \<Rightarrow> pass (Finite 0)
        | Some l \<Rightarrow> bindA (read_clock H) (\<lambda>now. pass (clock_since now (la_started_at l)))) (\<lambda>duration.
      bindA (clocked_request H (completion_request H g package c duration observation)) (\<lambda>_.
      bindA (change_active (active\<lparr>ac_terminal_committed := True\<rparr>)) (\<lambda>_.
      launcher_collect H (ac_handle active)))))))"

definition settle ::
  "'w testd_host \<Rightarrow> active_execution \<Rightarrow> runner_observation \<Rightarrow> execution_conclusion \<Rightarrow> string \<Rightarrow> ('w, unit) action" where
  "settle H active observation fallback stop_reason =
     bindA (settle_and_collect H active observation fallback stop_reason) (\<lambda>collected.
     if collected then pop_active (eg_execution_id (ac_execution active)) else pass ())"

section \<open>Restart\<close>

text \<open>\<open>str(binding[name])\<close> of the text fields of a binding, which carries no target name and no shard.\<close>

definition binding_text :: "json dict \<Rightarrow> string \<Rightarrow> string" where
  "binding_text d name = (case td_get d name of JStr s \<Rightarrow> s | _ \<Rightarrow> [])"

definition binding_int :: "json dict \<Rightarrow> string \<Rightarrow> int \<Rightarrow> int" where
  "binding_int d name otherwise = (case td_get d name of JInt i \<Rightarrow> i | _ \<Rightarrow> otherwise)"

definition binding_target_name :: "json dict \<Rightarrow> string" where
  "binding_target_name d = (if binding_text d ''target_name'' = [] then binding_text d ''target_id''
     else binding_text d ''target_name'')"

definition active_from_binding :: "json dict \<Rightarrow> runner_handle \<Rightarrow> active_execution" where
  "active_from_binding d handle =
     \<lparr>ac_execution = \<lparr>eg_execution_id = binding_text d ''execution_id'', eg_target_id = binding_text d ''target_id'',
        eg_run_id = binding_text d ''run_id'', eg_target_name = binding_target_name d,
        eg_shard_index = binding_int d ''shard_index'' 0, eg_shard_count = binding_int d ''shard_count'' 1,
        eg_generation = binding_int d ''generation'' 0, eg_systemd_unit = binding_text d ''systemd_unit'',
        eg_launch_operation_id = binding_text d ''launch_operation_id''\<rparr>,
      ac_handle = handle, ac_run_id = binding_text d ''run_id'', ac_target_id = binding_text d ''target_id'',
      ac_target_name = binding_target_name d, ac_terminal_committed = False\<rparr>"

definition binding_matches :: "json dict \<Rightarrow> runner_handle \<Rightarrow> bool" where
  "binding_matches d handle \<longleftrightarrow> td_get d ''execution_id'' = JStr (rh_execution_id handle) \<and>
     td_get d ''generation'' = JInt (rh_generation handle) \<and> td_get d ''systemd_unit'' = JStr (rh_systemd_unit handle) \<and>
     td_get d ''launch_operation_id'' = JStr (rh_launch_operation_id handle)"

definition restart_fallback :: "'w testd_host \<Rightarrow> json dict \<Rightarrow> ('w, execution_conclusion) action" where
  "restart_fallback H d =
     (case td_get d ''execution_deadline_at'' of
        JFloat deadline \<Rightarrow> bindA (read_clock H) (\<lambda>now. pass (if clock_reached now deadline then TIMED_OUT else CANCELLED))
      | _ \<Rightarrow> pass CANCELLED)"

definition cleanup_binding :: "'w testd_host \<Rightarrow> json \<Rightarrow> unit \<Rightarrow> ('w, unit) action" where
  "cleanup_binding H binding _ =
     (case binding of
        JObj d \<Rightarrow>
          bindA (launcher_attach H binding) (\<lambda>handle.
          bindA (liftE (ensure (binding_matches d handle)
            (StoreConflict ''restart cleanup attached a different execution''))) (\<lambda>_.
          let active = active_from_binding d handle in
          bindA (put_active active) (\<lambda>_.
          bindA (launcher_observe H handle) (\<lambda>observation.
          bindA (restart_fallback H d) (\<lambda>fallback.
          settle H active observation fallback ''testd restart cleanup'')))))
      | _ \<Rightarrow> throw (Foreign ''TypeError''))"

definition engine_restart_cleanup :: "'w testd_host \<Rightarrow> ('w, unit) action" where
  "engine_restart_cleanup H =
     bindA (store_read (restart_cleanup (JInt 10000))) (\<lambda>bindings.
     bindA (foldA (cleanup_binding H) bindings ()) (\<lambda>_.
     bindA (store_read (restart_cleanup (JInt 10000))) (\<lambda>left.
     liftE (ensure (left = []) (StoreConflict ''restart cleanup left active executions'')))))"

definition engine_reconcile :: "'w testd_host \<Rightarrow> ('w, json) action" where
  "engine_reconcile H =
     bindA (read_clock H) (\<lambda>now. store_request H (PyFloat now) (Reconcile (Some (PyFloat now))))"

text \<open>\<open>TestdEngine.__init__\<close> on a store, a scheduler and a host: nothing is active yet.\<close>

definition start_engine :: "'w testd_host \<Rightarrow> test_store \<Rightarrow> fair_scheduler \<Rightarrow> 'w \<Rightarrow> (engine_error + unit) \<times> 'w engine" where
  "start_engine H st fs w =
     bindA (engine_restart_cleanup H) (\<lambda>_. bindA (engine_reconcile H) (\<lambda>_. pass ()))
       \<lparr>en_store = st, en_scheduler = fs, en_active = [], en_world = w\<rparr>"

section \<open>Scheduling\<close>

definition rejection_document :: "admission_rejection \<Rightarrow> wait_reason" where
  "rejection_document r =
     \<lparr>wr_target_id = JStr (ar_target_id r), wr_reason = JStr (ar_reason r),
      wr_required_mib = map_option JInt (ar_required_mib r), wr_available_mib = map_option JInt (ar_available_mib r),
      wr_reserve_mib = map_option JInt (ar_reserve_mib r), wr_observed_at = map_option PyFloat (ar_observed_at r),
      wr_source = map_option JStr (ar_source r)\<rparr>"

record schedule_report =
  sr_launched_target_ids :: "string list"
  sr_launch_failures :: "(string \<times> string) list"
  sr_decision :: schedule_decision
  sr_reconciled :: json

definition select_candidates ::
  "'w testd_host \<Rightarrow> runnable_target list \<Rightarrow> active_allocation list \<Rightarrow> int \<Rightarrow> ('w, schedule_decision) action" where
  "select_candidates H candidates allocations launch_batch =
     bindA (call (\<lambda>w. apfst Inr (ho_memory_probe H w))) (\<lambda>probe.
     (\<lambda>e. case select_targets (en_scheduler e) probe candidates allocations (Some launch_batch) of
        Inl err \<Rightarrow> (Inl (Raised err), e)
      | Inr (decision, fs) \<Rightarrow> (Inr decision, e\<lparr>en_scheduler := fs\<rparr>)))"

definition launch_one ::
  "'w testd_host \<Rightarrow> runnable_target \<Rightarrow> string list \<times> (string \<times> string) list
     \<Rightarrow> ('w, string list \<times> (string \<times> string) list) action" where
  "launch_one H candidate = (\<lambda>(launched, failures).
     catchA (bindA (launch H candidate) (\<lambda>_. pass (launched @ [rt_target_id candidate], failures)))
       (\<lambda>err. pass (launched, failures @ [(rt_target_id candidate, error_type err)])))"

text \<open>The turn up to the recorded decision, and then the launches.\<close>

definition decide_turn ::
  "'w testd_host \<Rightarrow> runnable_target list \<Rightarrow> active_allocation list \<Rightarrow> int \<Rightarrow> json \<Rightarrow> ('w, json \<times> schedule_decision) action" where
  "decide_turn H candidates allocations launch_batch reconciled =
     bindA (select_candidates H candidates allocations launch_batch) (\<lambda>decision.
     bindA (clocked_request H (Decide (map (JStr \<circ> rt_target_id) (sd_selected decision))
       (map rejection_document (sd_rejected decision)))) (\<lambda>_. pass (reconciled, decision)))"

definition plan_turn :: "'w testd_host \<Rightarrow> int \<Rightarrow> ('w, json \<times> schedule_decision) action" where
  "plan_turn H launch_batch =
     bindA (liftE (ensure (1 \<le> launch_batch \<and> launch_batch \<le> 1000)
       (StoreContractError ''launch_batch is invalid''))) (\<lambda>_.
     bindA (engine_reconcile H) (\<lambda>reconciled.
     bindA (store_read (runnable_targets (JInt 10000))) (\<lambda>candidates.
     bindA (store_read (\<lambda>st. Inr (active_allocations st))) (\<lambda>allocations.
     decide_turn H candidates allocations launch_batch reconciled))))"

definition schedule :: "'w testd_host \<Rightarrow> int \<Rightarrow> ('w, schedule_report) action" where
  "schedule H launch_batch =
     bindA (plan_turn H launch_batch) (\<lambda>(reconciled, decision).
     bindA (foldA (launch_one H) (sd_selected decision) ([], [])) (\<lambda>(launched, failures).
     pass \<lparr>sr_launched_target_ids = launched, sr_launch_failures = failures, sr_decision = decision,
       sr_reconciled = reconciled\<rparr>))"

section \<open>Heartbeat\<close>

record heartbeat_report =
  hb_running :: "string list"
  hb_completed :: "string list"
  hb_failures :: "(string \<times> string) list"

definition beat_running :: "string \<Rightarrow> heartbeat_report \<Rightarrow> heartbeat_report" where
  "beat_running i r = r\<lparr>hb_running := hb_running r @ [i]\<rparr>"

definition beat_completed :: "string \<Rightarrow> heartbeat_report \<Rightarrow> heartbeat_report" where
  "beat_completed i r = r\<lparr>hb_completed := hb_completed r @ [i]\<rparr>"

definition beat_failed :: "string \<Rightarrow> engine_error \<Rightarrow> heartbeat_report \<Rightarrow> heartbeat_report" where
  "beat_failed i err r = r\<lparr>hb_failures := hb_failures r @ [(i, error_type err)]\<rparr>"

text \<open>Why an execution is settled in this turn: the fallback conclusion and the reason of the stop.\<close>

definition settlement_reason ::
  "runner_observation \<Rightarrow> bool \<Rightarrow> bool \<Rightarrow> (execution_conclusion \<times> string) option" where
  "settlement_reason observation timed_out cancelling =
     (if ro_result_package observation \<noteq> None then
        Some (if timed_out then (TIMED_OUT, ''execution deadline reached'')
          else if cancelling then (CANCELLED, ''run cancellation requested'')
          else (INCOMPLETE, ''result package published''))
      else if cancelling \<or> timed_out then
        Some (if timed_out then (TIMED_OUT, ''execution deadline reached'') else (CANCELLED, ''run cancellation requested''))
      else if ro_state observation \<in> {''exited'', ''stopped'', ''absent''} then
        Some (INFRASTRUCTURE_FAILED, ''execution exited without a complete package'')
      else None)"

definition deadline_passed :: "'w testd_host \<Rightarrow> target_row \<Rightarrow> ('w, bool) action" where
  "deadline_passed H t = (case ta_launch t of None \<Rightarrow> pass False
     | Some l \<Rightarrow> bindA (read_clock H) (\<lambda>now. pass (clock_reached now (la_deadline_at l))))"

definition find_projection :: "string \<Rightarrow> target_row list \<Rightarrow> ('w, target_row) action" where
  "find_projection execution_id rows =
     (case find (\<lambda>t. map_option ex_execution_id (ta_execution t) = Some execution_id) rows of
        None \<Rightarrow> throw (Foreign ''StopIteration'') | Some t \<Rightarrow> pass t)"

text \<open>One observation of an execution: what was seen and whether it is now to be settled.\<close>

definition observe_active ::
  "'w testd_host \<Rightarrow> string \<Rightarrow> active_execution
     \<Rightarrow> ('w, runner_handle \<times> runner_observation \<times> (execution_conclusion \<times> string) option) action" where
  "observe_active H execution_id active =
     bindA (launcher_observe H (ac_handle active)) (\<lambda>observation.
     bindA (record_start_if_observed H active observation) (\<lambda>handle.
     bindA (engine_record_progress H active observation) (\<lambda>_.
     bindA (store_read (get_execution (JStr execution_id))) (\<lambda>retained.
     bindA (store_read (get_run (JStr (ac_run_id active)) None)) (\<lambda>(run, rows).
     bindA (find_projection execution_id rows) (\<lambda>projection.
     bindA (deadline_passed H projection) (\<lambda>timed_out.
     pass (handle, observation, settlement_reason observation timed_out
       (ru_state run = RunCancelling \<or> ta_state retained = Stopping)))))))))"

definition beat_active ::
  "'w testd_host \<Rightarrow> string \<Rightarrow> active_execution \<Rightarrow> heartbeat_report \<Rightarrow> ('w, heartbeat_report) action" where
  "beat_active H execution_id active report =
     bindA (observe_active H execution_id active) (\<lambda>(handle, observation, settlement).
     case settlement of
       None \<Rightarrow> pass (beat_running execution_id report)
     | Some (fallback, reason) \<Rightarrow>
         bindA (settle H (active\<lparr>ac_handle := handle\<rparr>) observation fallback reason) (\<lambda>_.
         bindA (is_active execution_id) (\<lambda>still.
         pass (if still then report else beat_completed execution_id report))))"

definition beat_committed ::
  "'w testd_host \<Rightarrow> string \<Rightarrow> active_execution \<Rightarrow> heartbeat_report \<Rightarrow> ('w, heartbeat_report) action" where
  "beat_committed H execution_id active report =
     bindA (launcher_collect H (ac_handle active)) (\<lambda>collected.
     if collected then bindA (pop_active execution_id) (\<lambda>_. pass (beat_completed execution_id report)) else pass report)"

definition beat ::
  "'w testd_host \<Rightarrow> string \<times> active_execution \<Rightarrow> heartbeat_report \<Rightarrow> ('w, heartbeat_report) action" where
  "beat H = (\<lambda>(execution_id, active) report.
     catchA (if ac_terminal_committed active then beat_committed H execution_id active report
         else beat_active H execution_id active report)
       (\<lambda>err. pass (beat_failed execution_id err report)))"

definition heartbeat :: "'w testd_host \<Rightarrow> ('w, heartbeat_report) action" where
  "heartbeat H = (\<lambda>e. foldA (beat H) (en_active e) \<lparr>hb_running = [], hb_completed = [], hb_failures = []\<rparr> e)"

section \<open>Cancellation and the loop\<close>

record cancel_report =
  cn_result :: json
  cn_cancelled_execution_ids :: "string list"
  cn_unresolved_execution_ids :: "string list"
  cn_supervision_failures :: "(string \<times> string) list"

definition active_execution_ids :: "json \<Rightarrow> string list" where
  "active_execution_ids v =
     (case v of JObj d \<Rightarrow> (case Option.bind (map_of d ''active_execution_ids'') string_array of Some xs \<Rightarrow> xs | None \<Rightarrow> [])
      | _ \<Rightarrow> [])"

definition cancel_run :: "'w testd_host \<Rightarrow> json \<Rightarrow> json \<Rightarrow> json \<Rightarrow> string \<Rightarrow> ('w, cancel_report) action" where
  "cancel_run H run_id actor reason op_id =
     bindA (clocked_request H (Cancel (run_id, actor, reason, op_id))) (\<lambda>result.
     bindA (\<lambda>e. (Inr (keys (en_active e)), e)) (\<lambda>before.
     bindA (heartbeat H) (\<lambda>report.
     bindA (\<lambda>e. (Inr (keys (en_active e)), e)) (\<lambda>after.
     pass \<lparr>cn_result = result,
       cn_cancelled_execution_ids = filter (\<lambda>i. i \<in> set before \<and> i \<notin> set after) (active_execution_ids result),
       cn_unresolved_execution_ids = filter (\<lambda>i. i \<in> set after) (active_execution_ids result),
       cn_supervision_failures = hb_failures report\<rparr>))))"

definition run_once :: "'w testd_host \<Rightarrow> int \<Rightarrow> ('w, heartbeat_report \<times> schedule_report) action" where
  "run_once H launch_batch =
     bindA (heartbeat H) (\<lambda>report. bindA (schedule H launch_batch) (\<lambda>scheduled. pass (report, scheduled)))"

end
