(* ===== verification/Testd_Laws.thy ===== *)
theory Testd_Laws
  imports Testd_Engine Store_Composition Scheduler_Laws
begin

text \<open>
  Laws of the testd engine. An action obeys a relation on engine states when the state it reaches,
  whether it returns or raises, is related to the state it starts from. The first locale collects what
  a relation needs so that launching and scheduling respect it; the second adds what settling needs.
\<close>

named_theorems obeys_intros \<open>introduction rules for actions that respect a relation\<close>

definition obeys :: "('w engine \<Rightarrow> 'w engine \<Rightarrow> bool) \<Rightarrow> ('w, 'a) action \<Rightarrow> bool" where
  "obeys R m \<longleftrightarrow> (\<forall>e. R e (snd (m e)))"

lemma obeysD: "obeys R m \<Longrightarrow> m e = (r, e') \<Longrightarrow> R e e'"
  unfolding obeys_def by (metis snd_conv)

lemma obeys_if [obeys_intros]: "obeys R m \<Longrightarrow> obeys R n \<Longrightarrow> obeys R (if b then m else n)"
  by simp

lemma obeys_option [obeys_intros]:
  "obeys R m \<Longrightarrow> (\<And>x. obeys R (f x)) \<Longrightarrow> obeys R (case v of None \<Rightarrow> m | Some x \<Rightarrow> f x)"
  by (cases v) simp_all

lemma obeys_prod [obeys_intros]: "(\<And>x y. obeys R (f x y)) \<Longrightarrow> obeys R (case p of (x, y) \<Rightarrow> f x y)"
  by (cases p) simp

lemma obeys_list [obeys_intros]:
  "obeys R m \<Longrightarrow> (\<And>x xs. obeys R (f x xs)) \<Longrightarrow> obeys R (case v of [] \<Rightarrow> m | x # xs \<Rightarrow> f x xs)"
  by (cases v) simp_all

lemma obeys_json [obeys_intros]:
  "obeys R a \<Longrightarrow> (\<And>x. obeys R (b x)) \<Longrightarrow> (\<And>x. obeys R (c x)) \<Longrightarrow> (\<And>x. obeys R (d x)) \<Longrightarrow>
     (\<And>x. obeys R (f x)) \<Longrightarrow> (\<And>x. obeys R (g x)) \<Longrightarrow> (\<And>x. obeys R (h x)) \<Longrightarrow>
     obeys R (case v of JNull \<Rightarrow> a | JBool x \<Rightarrow> b x | JInt x \<Rightarrow> c x | JFloat x \<Rightarrow> d x | JStr x \<Rightarrow> f x | JArr x \<Rightarrow> g x | JObj x \<Rightarrow> h x)"
  by (cases v) simp_all

section \<open>Relations that actions respect\<close>

locale quiet_relation =
  fixes H :: "'w testd_host" and R :: "'w engine \<Rightarrow> 'w engine \<Rightarrow> bool"
  assumes R_refl: "R e e"
    and R_trans: "R e e' \<Longrightarrow> R e' e'' \<Longrightarrow> R e e''"
    and R_world: "R e (e\<lparr>en_world := w\<rparr>)"
begin

lemma obeys_pass [obeys_intros]: "obeys R (pass x)"
  by (simp add: obeys_def pass_def R_refl)

lemma obeys_throw [obeys_intros]: "obeys R (throw err)"
  by (simp add: obeys_def throw_def R_refl)

lemma obeys_bind [obeys_intros]:
  assumes "obeys R m" "\<And>x. obeys R (f x)"
  shows "obeys R (bindA m f)"
  unfolding obeys_def
proof
  fix e
  obtain r e' where m: "m e = (r, e')" by fastforce
  have "R e e'" by (rule obeysD [OF assms(1) m])
  moreover have "R e' (snd (f x e'))" for x using assms(2) by (simp add: obeys_def)
  ultimately show "R e (snd (bindA m f e))" using R_trans by (cases r) (auto simp: bindA_def m)
qed

lemma obeys_catch [obeys_intros]:
  assumes "obeys R m" "\<And>x. obeys R (f x)"
  shows "obeys R (catchA m f)"
  unfolding obeys_def
proof
  fix e
  obtain r e' where m: "m e = (r, e')" by fastforce
  have "R e e'" by (rule obeysD [OF assms(1) m])
  moreover have "R e' (snd (f x e'))" for x using assms(2) by (simp add: obeys_def)
  ultimately show "R e (snd (catchA m f e))" using R_trans by (cases r) (auto simp: catchA_def m)
qed

lemma obeys_fold [obeys_intros]: "(\<And>x acc. obeys R (f x acc)) \<Longrightarrow> obeys R (foldA f xs acc)"
  by (induction xs arbitrary: acc) (auto intro: obeys_pass obeys_bind)

lemma obeys_lift [obeys_intros]: "obeys R (liftE r)"
  by (cases r) (simp_all add: liftE_def obeys_pass obeys_throw)

lemma obeys_call [obeys_intros]: "obeys R (call f)"
  by (simp add: obeys_def call_def split_beta R_world)

lemma obeys_read [obeys_intros]: "obeys R (store_read f)"
  unfolding obeys_def store_read_def using obeys_lift [unfolded obeys_def] by blast

lemma obeys_look [obeys_intros]: "obeys R (\<lambda>e. (r e, e))"
  by (simp add: obeys_def R_refl)

lemma obeys_is_active [obeys_intros]: "obeys R (is_active i)"
  by (simp add: obeys_def is_active_def R_refl)

lemma obeys_clock [obeys_intros]: "obeys R (read_clock H')"
  unfolding read_clock_def by (rule obeys_call)

lemma obeys_store_clock [obeys_intros]: "obeys R (read_store_clock H')"
  unfolding read_store_clock_def by (rule obeys_call)

lemma obeys_launcher [obeys_intros]:
  "obeys R (launcher_prepare H' request)" "obeys R (launcher_start H' handle)"
  "obeys R (launcher_observe H' handle)" "obeys R (launcher_attach H' binding)"
  "obeys R (launcher_stop H' handle reason)" "obeys R (launcher_resolve_package H' handle metadata)"
  "obeys R (launcher_collect H' handle)"
  unfolding launcher_prepare_def launcher_start_def launcher_observe_def launcher_attach_def launcher_stop_def
    launcher_resolve_package_def launcher_collect_def
  by (intro obeys_intros)+

lemma obeys_resolve [obeys_intros]: "obeys R (resolve_optional H active metadata)"
  unfolding resolve_optional_def resolved_package_def by (intro obeys_intros)

lemma obeys_stopped [obeys_intros]: "obeys R (stopped_evidence H active observation reason)"
  unfolding stopped_evidence_def by (intro obeys_intros)

lemma obeys_projection [obeys_intros]: "obeys R (find_projection i rows)" "obeys R (deadline_passed H t)"
  unfolding find_projection_def deadline_passed_def by (intro obeys_intros)+

lemma obeys_plan_launch [obeys_intros]: "obeys R (plan_launch H candidate)"
  unfolding plan_launch_def Let_def by (intro obeys_intros)

end

locale engine_relation = quiet_relation +
  assumes R_scheduler: "R e (e\<lparr>en_scheduler := fs\<rparr>)"
    and R_change: "R e (snd (change_active a e))"
    and R_request: "valid_request r \<Longrightarrow> perform (ho_pylib H) r clock (en_store e) = Inr (x, st) \<Longrightarrow> R e (e\<lparr>en_store := st\<rparr>)"
begin

lemma obeys_request [obeys_intros]: "valid_request r \<Longrightarrow> obeys R (store_request H clock r)"
  using R_request R_refl by (auto simp: obeys_def store_request_def split: sum.splits)

lemma obeys_change [obeys_intros]: "obeys R (change_active a)"
  by (simp add: obeys_def R_change)

lemma obeys_clocked [obeys_intros]: "valid_request r \<Longrightarrow> obeys R (clocked_request H r)"
  unfolding clocked_request_def by (intro obeys_intros)

lemma obeys_reconcile [obeys_intros]: "obeys R (engine_reconcile H)"
  unfolding engine_reconcile_def by (intro obeys_intros) simp

lemma obeys_select [obeys_intros]: "obeys R (select_candidates H candidates allocations batch)"
proof -
  have "obeys R (\<lambda>e. case select_targets (en_scheduler e) probe candidates allocations (Some batch) of
      Inl err \<Rightarrow> (Inl (Raised err), e) | Inr (decision, fs) \<Rightarrow> (Inr decision, e\<lparr>en_scheduler := fs\<rparr>))" for probe
    using R_refl R_scheduler by (auto simp: obeys_def split: sum.splits)
  then show ?thesis unfolding select_candidates_def by (intro obeys_intros)
qed

lemma obeys_plan_turn [obeys_intros]: "obeys R (plan_turn H batch)"
  unfolding plan_turn_def decide_turn_def by (intro obeys_intros) simp

lemma obeys_record_start [obeys_intros]: "obeys R (record_start_if_observed H active observation)"
  unfolding record_start_if_observed_def Let_def started_request_def by (intro obeys_intros) simp

lemma obeys_record_progress [obeys_intros]: "obeys R (engine_record_progress H active observation)"
  unfolding engine_record_progress_def by (intro obeys_intros) simp

lemma obeys_observe [obeys_intros]: "obeys R (observe_active H i active)"
  unfolding observe_active_def by (intro obeys_intros)

lemma obeys_settle_and_collect [obeys_intros]: "obeys R (settle_and_collect H active observation fallback reason)"
  unfolding settle_and_collect_def Let_def completion_request_def by (intro obeys_intros) simp

end

locale launching_relation = engine_relation +
  assumes R_put: "R e (snd (put_active a e))"
begin

lemma obeys_put [obeys_intros]: "obeys R (put_active a)"
  by (simp add: obeys_def R_put)

lemma obeys_launch [obeys_intros]: "obeys R (launch H candidate)"
  unfolding launch_def reservation_request_def supervise_launch_def Let_def by (intro obeys_intros) simp

lemma obeys_schedule [obeys_intros]: "obeys R (schedule H batch)"
  unfolding schedule_def launch_one_def by (intro obeys_intros)

end

locale settling_relation = engine_relation +
  fixes P :: "string \<Rightarrow> bool"
  assumes R_pop: "P i \<Longrightarrow> R e (snd (pop_active i e))"
begin

lemma obeys_pop [obeys_intros]: "P i \<Longrightarrow> obeys R (pop_active i)"
  by (simp add: obeys_def R_pop)

lemma obeys_settle [obeys_intros]:
  "P (eg_execution_id (ac_execution active)) \<Longrightarrow> obeys R (settle H active observation fallback reason)"
  unfolding settle_def by (intro obeys_intros)

lemma obeys_beat [obeys_intros]:
  assumes "P i" "P (eg_execution_id (ac_execution active))"
  shows "obeys R (beat H (i, active) report)"
  unfolding beat_def beat_committed_def beat_active_def by (simp only: prod.case, intro obeys_intros) (simp_all add: assms)

end

locale supervising_relation = launching_relation + settling_relation where P = "\<lambda>_. True"
begin

lemma obeys_heartbeat [obeys_intros]: "obeys R (heartbeat H)"
proof -
  have "obeys R (beat H entry report)" for entry report by (cases entry) (simp add: obeys_beat)
  then have "obeys R (foldA (beat H) xs report)" for xs report by (rule obeys_fold)
  then show ?thesis unfolding obeys_def heartbeat_def by blast
qed

lemma obeys_cancel [obeys_intros]: "obeys R (cancel_run H run actor reason op)"
  unfolding cancel_run_def by (intro obeys_intros) simp

lemma obeys_restart [obeys_intros]: "obeys R (engine_restart_cleanup H)"
  unfolding engine_restart_cleanup_def cleanup_binding_def restart_fallback_def Let_def by (intro obeys_intros) simp

lemma obeys_run_once: "obeys R (run_once H batch)"
  unfolding run_once_def by (intro obeys_intros)

lemma start_engine_obeys:
  "start_engine H st fs w = (r, e) \<Longrightarrow> R \<lparr>en_store = st, en_scheduler = fs, en_active = [], en_world = w\<rparr> e"
  unfolding start_engine_def by (erule obeysD [rotated]) (intro obeys_intros)

end

section \<open>The store under testd\<close>

text \<open>Whatever an action does, it moves the store along its state machine.\<close>

definition store_moves :: "'w testd_host \<Rightarrow> 'w engine \<Rightarrow> 'w engine \<Rightarrow> bool" where
  "store_moves H e e' \<longleftrightarrow> (store_step (ho_pylib H))\<^sup>*\<^sup>* (en_store e) (en_store e')"

interpretation moves: supervising_relation H "store_moves H" for H :: "'w testd_host"
proof unfold_locales
  fix r clock and e :: "'w engine" and x st
  assume "valid_request r" "perform (ho_pylib H) r clock (en_store e) = Inr (x, st)"
  then have "store_step (ho_pylib H) (en_store e) st" by (rule store_step.request)
  then show "store_moves H e (e\<lparr>en_store := st\<rparr>)" by (simp add: store_moves_def)
qed (simp_all add: store_moves_def put_active_def change_active_def pop_active_def)

text \<open>Reads and calls leave the store as it is.\<close>

definition same_store :: "'w engine \<Rightarrow> 'w engine \<Rightarrow> bool" where
  "same_store e e' \<longleftrightarrow> en_store e' = en_store e"

interpretation quiet: quiet_relation H same_store for H :: "'w testd_host"
  by unfold_locales (simp_all add: same_store_def)

section \<open>The supervised executions\<close>

lemma keys_change_active [simp]: "keys (en_active (snd (change_active a e))) = keys (en_active e)"
  by (auto simp: change_active_def)

lemma keys_put_active: "set (keys (en_active (snd (put_active a e)))) = insert (eg_execution_id (ac_execution a)) (set (keys (en_active e)))"
  by (simp add: put_active_def)

text \<open>Launching and scheduling never forget an execution.\<close>

definition active_grows :: "'w engine \<Rightarrow> 'w engine \<Rightarrow> bool" where
  "active_grows e e' \<longleftrightarrow> set (keys (en_active e)) \<subseteq> set (keys (en_active e'))"

interpretation grows: launching_relation H active_grows for H :: "'w testd_host"
  by unfold_locales (simp_all only: active_grows_def keys_put_active keys_change_active, auto)

text \<open>Only adding and removing entries changes which executions are supervised.\<close>

definition same_active :: "'w engine \<Rightarrow> 'w engine \<Rightarrow> bool" where
  "same_active e e' \<longleftrightarrow> keys (en_active e') = keys (en_active e)"

interpretation same: engine_relation H same_active for H :: "'w testd_host"
  by unfold_locales (simp_all add: same_active_def keys_change_active del: map_eq_conv)

text \<open>Every entry is filed under the identity of its execution.\<close>

definition keyed :: "'w engine \<Rightarrow> bool" where
  "keyed e \<longleftrightarrow> dict_ok (en_active e) \<and> (\<forall>(k, a) \<in> set (en_active e). eg_execution_id (ac_execution a) = k)"

definition stays_keyed :: "'w engine \<Rightarrow> 'w engine \<Rightarrow> bool" where
  "stays_keyed e e' \<longleftrightarrow> (keyed e \<longrightarrow> keyed e')"

lemma set_dict_put_subset: "set (dict_put k v d) \<subseteq> insert (k, v) (set d)"
  by (induction d) (auto split: if_splits)

lemma keyed_eq: "en_active e' = en_active e \<Longrightarrow> stays_keyed e e'"
  by (simp add: stays_keyed_def keyed_def)

interpretation keyed: supervising_relation H stays_keyed for H :: "'w testd_host"
proof unfold_locales
  show "stays_keyed e e" for e :: "'w engine" by (simp add: stays_keyed_def)
  show "stays_keyed e e''" if "stays_keyed e e'" "stays_keyed e' e''" for e e' e'' :: "'w engine"
    using that unfolding stays_keyed_def by blast
  show "stays_keyed e (snd (put_active a e))" for e :: "'w engine" and a
    using set_dict_put_subset [of "eg_execution_id (ac_execution a)" a "en_active e"]
    by (auto simp: stays_keyed_def keyed_def put_active_def dict_ok_dict_put)
  show "stays_keyed e (snd (change_active a e))" for e :: "'w engine" and a
  proof -
    have "dict_ok (en_active (snd (change_active a e)))" if "dict_ok (en_active e)"
      using that by (simp only: dict_ok_def keys_change_active)
    then show ?thesis by (auto simp: stays_keyed_def keyed_def change_active_def split_beta)
  qed
  show "stays_keyed e (snd (pop_active i e))" for e :: "'w engine" and i
    by (auto simp: stays_keyed_def keyed_def pop_active_def dict_ok_def distinct_map_filter)
qed (rule keyed_eq, simp)+

end
