(* ===== verification/Testd_Properties.thy ===== *)
theory Testd_Properties
  imports Testd_Laws
begin

text \<open>
  What the testd engine guarantees: its store stays reachable, a start leaves nothing running, no
  reservation escapes supervision, nothing is settled before its cgroup is proved empty, a heartbeat
  isolates failures and accounts for what it drops, and which packages the store will refuse.
\<close>

section \<open>Peeling actions\<close>

lemma bindA_cases:
  assumes "bindA m f e = (r, e')"
  obtains (raised) err where "m e = (Inl err, e')" "r = Inl err"
  | (returned) x e1 where "m e = (Inr x, e1)" "f x e1 = (r, e')"
  using assms by (cases "m e"; cases "fst (m e)") (auto simp: bindA_def)

lemma bindA_InrE:
  assumes "bindA m f e = (Inr y, e')"
  obtains x e1 where "m e = (Inr x, e1)" "f x e1 = (Inr y, e')"
  using assms by (rule bindA_cases) simp_all

lemma liftE_Inr: "liftE r e = (Inr x, e') \<longleftrightarrow> r = Inr x \<and> e' = e"
  by (cases r) (auto simp: liftE_def pass_def throw_def)

lemma liftE_Inl: "liftE r e = (Inl err, e') \<longleftrightarrow> (\<exists>s. r = Inl s \<and> err = Raised s) \<and> e' = e"
  by (cases r) (auto simp: liftE_def pass_def throw_def)

lemma store_read_Inr: "store_read f e = (Inr x, e') \<longleftrightarrow> f (en_store e) = Inr x \<and> e' = e"
  by (simp add: store_read_def liftE_Inr)

lemma pass_iff: "pass x e = (r, e') \<longleftrightarrow> r = Inr x \<and> e' = e"
  by (auto simp: pass_def)

lemma bind_lift: "bindA (liftE (Inr x)) f e = f x e"
  by (simp add: bindA_def liftE_def pass_def)

lemma bind_read: "bindA (store_read (\<lambda>st. Inr (f st))) g e = g (f (en_store e)) e"
  by (simp add: bindA_def store_read_def liftE_def pass_def)

lemma bind_ensure_Inr: "bindA (liftE (ensure b err)) f e = (Inr y, e') \<longleftrightarrow> b \<and> f () e = (Inr y, e')"
  by (simp add: bindA_def liftE_def ensure_def pass_def throw_def)

section \<open>The testd machine\<close>

text \<open>The executions that the engine supervises.\<close>

definition supervised :: "'w engine \<Rightarrow> string set" where
  "supervised e = set (keys (en_active e))"

lemma supervised_same: "same_active e e' \<Longrightarrow> supervised e' = supervised e"
  by (simp add: same_active_def supervised_def del: set_map)

lemma is_active_iff: "is_active i e = (Inr (i \<in> supervised e), e)"
  by (simp add: is_active_def supervised_def)

lemma supervised_pop: "supervised (e\<lparr>en_active := filter (\<lambda>(k, _). k \<noteq> i) (en_active e)\<rparr>) = supervised e - {i}"
  by (auto simp: supervised_def image_iff)

text \<open>
  An engine that has been started, or that a start has left behind, with its turns, cancellations and
  the requests that the service puts to the same store in between.
\<close>

inductive testd_reachable :: "'w testd_host \<Rightarrow> 'w engine \<Rightarrow> bool" for H where
  started: "reachable (ho_pylib H) st \<Longrightarrow> start_engine H st fs w = (r, e) \<Longrightarrow> testd_reachable H e"
| beat: "testd_reachable H e \<Longrightarrow> heartbeat H e = (r', e') \<Longrightarrow> testd_reachable H e'"
| turn: "testd_reachable H e \<Longrightarrow> schedule H batch e = (r'', e') \<Longrightarrow> testd_reachable H e'"
| cancel: "testd_reachable H e \<Longrightarrow> cancel_run H run actor reason op e = (r''', e') \<Longrightarrow> testd_reachable H e'"
| service: "testd_reachable H e \<Longrightarrow> store_step (ho_pylib H) (en_store e) st \<Longrightarrow> testd_reachable H (e\<lparr>en_store := st\<rparr>)"
| world: "testd_reachable H e \<Longrightarrow> testd_reachable H (e\<lparr>en_world := w\<rparr>)"

lemma moves_reachable: "store_moves H e e' \<Longrightarrow> reachable (ho_pylib H) (en_store e) \<Longrightarrow> reachable (ho_pylib H) (en_store e')"
  using steps_evolve by (auto simp: store_moves_def)

lemma testd_reachable_keyed: "testd_reachable H e \<Longrightarrow> keyed e"
proof (induction rule: testd_reachable.induct)
  case (started st fs w r e) then show ?case using keyed.start_engine_obeys by (fastforce simp: stays_keyed_def keyed_def dict_ok_def)
next
  case (beat e r e') then show ?case using obeysD [OF keyed.obeys_heartbeat] unfolding stays_keyed_def by blast
next
  case (turn e batch r e') then show ?case using obeysD [OF keyed.obeys_schedule] unfolding stays_keyed_def by blast
next
  case (cancel e run actor reason op r e') then show ?case using obeysD [OF keyed.obeys_cancel] unfolding stays_keyed_def by blast
qed (simp_all add: keyed_def)

lemma testd_reachable_store: "testd_reachable H e \<Longrightarrow> reachable (ho_pylib H) (en_store e)"
proof (induction rule: testd_reachable.induct)
  case (started st fs w r e) then show ?case using moves_reachable [OF moves.start_engine_obeys] by force
next
  case (beat e r e') then show ?case using moves_reachable [OF obeysD [OF moves.obeys_heartbeat]] by blast
next
  case (turn e batch r e') then show ?case using moves_reachable [OF obeysD [OF moves.obeys_schedule]] by blast
next
  case (cancel e run actor reason op r e') then show ?case using moves_reachable [OF obeysD [OF moves.obeys_cancel]] by blast
next
  case (service e st) then show ?case by (auto intro: reachable.step)
qed simp

text \<open>
  C8. testd never leaves the state machine of the store: whatever the runtime, the ticket issuer and
  the clocks answer or raise, after any sequence of starts, heartbeats, schedule turns, cancellations
  and service requests the store is reachable by valid requests (so that every property of reachable
  stores holds of it), and every supervised execution is filed once, under its own identity.
\<close>
theorem testd_store_invariant:
  assumes "testd_reachable H e"
  shows "reachable (ho_pylib H) (en_store e) \<and> distinct (keys (en_active e)) \<and>
    (\<forall>(k, a) \<in> set (en_active e). eg_execution_id (ac_execution a) = k)"
  using testd_reachable_store [OF assms] testd_reachable_keyed [OF assms] by (simp add: keyed_def dict_ok_def)

section \<open>Restart\<close>

lemma active_rows_reachable: "reachable L st \<Longrightarrow> fst ` set (active_rows st) = {t \<in> set (ts_targets st). active_target (ta_state t)}"
  unfolding active_rows_def by (force simp: with_run_reachable)

lemma restart_cleanup_Nil:
  assumes "restart_cleanup (JInt 10000) st = Inr []"
  shows "active_rows st = []"
proof -
  have "take (nat 10000 + 1) (active_rows st) = []"
    using assms by (auto simp: restart_cleanup_def positive_int_def bindE_Inr_iff mapE_Inr_iff Let_def split: if_splits)
  then show ?thesis by simp
qed

lemma reconcile_same:
  assumes "reachable (ho_pylib H) (en_store e)" "engine_reconcile H e = (r, e')"
  shows "en_store e' = en_store e"
proof -
  have core: "core run_inv (en_store e)" using reachable_core [OF assms(1)] .
  have same: "st' = en_store e" if run: "reconcile_nonterminal_runs clock now (en_store e) = Inr (x, st')" for clock now x st'
  proof -
    obtain t where "(case now of None \<Rightarrow> store_now clock | Some v \<Rightarrow> finite_nonnegative ''now'' v) = Inr t"
      using run by (auto simp: reconcile_nonterminal_runs_def bindE_Inr_iff)
    then show ?thesis using reconcile_nonterminal_runs_fixpoint [OF core] run by simp
  qed
  show ?thesis using assms(2) unfolding engine_reconcile_def
    by (rule bindA_cases) (auto simp: read_clock_def call_def store_request_def split: sum.splits prod.splits dest: same)
qed


section \<open>Settlement\<close>

lemma launcher_stop_Inr:
  assumes "launcher_stop H handle reason e = (Inr observation, e')"
  shows "\<exists>document w w'. ho_stop H (rh_systemd_unit handle) reason w = (Inr document, w') \<and>
    decode_runner_observation document = Inr observation"
proof -
  obtain v e1 where "call (ho_stop H (rh_systemd_unit handle) reason) e = (Inr v, e1)" "decode_runner_observation v = Inr observation"
    using assms unfolding launcher_stop_def
    by (elim bindA_InrE) (auto simp: liftE_Inr td_bounded_text_def split: if_splits)
  then show ?thesis by (auto simp: call_def split: prod.splits)
qed

text \<open>The last observation of the exact unit is the given one or the reply to the stop.\<close>

definition cleanup_proof :: "'w testd_host \<Rightarrow> active_execution \<Rightarrow> runner_observation \<Rightarrow> string \<Rightarrow> runner_observation \<Rightarrow> bool" where
  "cleanup_proof H active observation reason final \<longleftrightarrow> cleaned_up final \<and>
     (final = observation \<or> (\<exists>document w w'. ho_stop H (rh_systemd_unit (ac_handle active)) reason w = (Inr document, w') \<and>
        decode_runner_observation document = Inr final))"

lemma stopped_evidence_Inr:
  assumes "stopped_evidence H active observation reason e = (Inr (final, evidence), e')"
  shows "cleanup_proof H active observation reason final"
proof -
  obtain package e1 e2 where
    run: "(if cleaned_up observation then pass (observation, package) else
       bindA (launcher_stop H (ac_handle active) reason) (\<lambda>observation.
       if package \<noteq> None then pass (observation, package) else
       bindA (resolve_optional H active (ro_result_package observation)) (\<lambda>package. pass (observation, package)))) e1 = (Inr (final, evidence), e2)"
    and clean: "cleaned_up final"
    using assms unfolding stopped_evidence_def by (elim bindA_InrE) (auto simp: bind_ensure_Inr pass_iff)
  show ?thesis
  proof (cases "cleaned_up observation")
    case True
    then show ?thesis using run clean by (simp add: pass_iff cleanup_proof_def)
  next
    case False
    then obtain e3 where "launcher_stop H (ac_handle active) reason e1 = (Inr final, e3)"
      using run by (simp, elim bindA_InrE) (auto simp: pass_iff split: if_splits elim!: bindA_InrE)
    then show ?thesis using launcher_stop_Inr clean unfolding cleanup_proof_def by blast
  qed
qed

lemma stopped_evidence_store: "stopped_evidence H active observation reason e = (r, e') \<Longrightarrow> en_store e' = en_store e"
  using obeysD [OF quiet.obeys_stopped] unfolding same_store_def by blast

text \<open>
  C10. Nothing is settled early: if settling an execution changes the store at all, then the last
  observation of its exact unit, either the one settlement was called with or the reply to the stop it
  issued, showed the unit inactive and its cgroup empty.
\<close>
theorem settle_after_cleanup:
  assumes "settle H active observation fallback reason e = (r, e')" and "en_store e' \<noteq> en_store e"
  shows "\<exists>final. cleanup_proof H active observation reason final"
proof -
  obtain r1 e1 where collect: "settle_and_collect H active observation fallback reason e = (r1, e1)" by fastforce
  have "en_store e' = en_store e1"
    using assms(1) collect unfolding settle_def
    by (auto simp: bindA_def pop_active_def pass_def split: sum.splits if_splits)
  then have changed: "en_store e1 \<noteq> en_store e" using assms(2) by simp
  from collect show ?thesis unfolding settle_and_collect_def Let_def
  proof (rule bindA_cases)
    fix err assume "stopped_evidence H active observation reason e = (Inl err, e1)"
    then show ?thesis using changed stopped_evidence_store by blast
  next
    fix x e2 assume "stopped_evidence H active observation reason e = (Inr x, e2)"
    then show ?thesis using stopped_evidence_Inr by (cases x) blast
  qed
qed

section \<open>Heartbeat\<close>

lemma settle_keys:
  assumes "settle H active observation fallback reason e = (r, e')" and "eg_execution_id (ac_execution active) = i"
  shows "supervised e' = supervised e \<or>
    r = Inr () \<and> supervised e' = supervised e - {i}"
  using assms(1) unfolding settle_def
proof (rule bindA_cases)
  fix err assume "settle_and_collect H active observation fallback reason e = (Inl err, e')"
  then show ?thesis using supervised_same [OF obeysD [OF same.obeys_settle_and_collect]] by blast
next
  fix collected e1
  assume c: "settle_and_collect H active observation fallback reason e = (Inr collected, e1)"
    and rest: "(if collected then pop_active (eg_execution_id (ac_execution active)) else pass ()) e1 = (r, e')"
  have keys: "supervised e1 = supervised e" by (rule supervised_same [OF obeysD [OF same.obeys_settle_and_collect c]])
  show ?thesis
  proof (cases collected)
    case True
    then have "supervised e' = supervised e1 - {i}" "r = Inr ()"
      using rest assms(2) supervised_pop [of i e1] by (auto simp: pop_active_def)
    then show ?thesis using keys by simp
  next
    case False
    then show ?thesis using rest keys by (simp add: pass_iff)
  qed
qed

lemma observe_active_keys: "observe_active H i active e = (r, e') \<Longrightarrow> supervised e' = supervised e"
  by (rule supervised_same [OF obeysD [OF same.obeys_observe]])

lemma launcher_collect_keys: "launcher_collect H handle e = (r, e') \<Longrightarrow> supervised e' = supervised e"
  by (rule supervised_same [OF obeysD [OF same.obeys_launcher(7)]])

text \<open>What a beat does to the entries: nothing when it raises, and a removal is reported.\<close>

definition beat_effect :: "string \<Rightarrow> heartbeat_report \<Rightarrow> 'w engine \<Rightarrow> engine_error + heartbeat_report \<Rightarrow> 'w engine \<Rightarrow> bool" where
  "beat_effect i report e r e' \<longleftrightarrow>
     (case r of
        Inl _ \<Rightarrow> supervised e' = supervised e
      | Inr report' \<Rightarrow> (supervised e' = supervised e \<and> hb_completed report' = hb_completed report) \<or>
          (supervised e' = supervised e - {i} \<and> hb_completed report' = hb_completed report @ [i]))"

lemma beat_committed_effect:
  assumes "beat_committed H i active report e = (r, e')"
  shows "beat_effect i report e r e'"
  using assms unfolding beat_committed_def
proof (rule bindA_cases)
  fix collected e1
  assume c: "launcher_collect H (ac_handle active) e = (Inr collected, e1)"
    and rest: "(if collected then bindA (pop_active i) (\<lambda>_. pass (beat_completed i report)) else pass report) e1 = (r, e')"
  note keys = launcher_collect_keys [OF c]
  show ?thesis
  proof (cases collected)
    case True
    then have "supervised e' = supervised e1 - {i}" "r = Inr (beat_completed i report)"
      using rest supervised_pop [of i e1] by (auto simp: bindA_def pop_active_def pass_def)
    then show ?thesis using keys by (simp add: beat_effect_def beat_completed_def)
  next
    case False
    then show ?thesis using rest keys by (simp add: pass_iff beat_effect_def)
  qed
qed (simp add: beat_effect_def launcher_collect_keys)

lemma beat_active_effect:
  assumes key: "eg_execution_id (ac_execution active) = i" and mem: "i \<in> supervised e"
    and run: "beat_active H i active report e = (r, e')"
  shows "beat_effect i report e r e'"
  using run unfolding beat_active_def
proof (rule bindA_cases)
  fix err assume "observe_active H i active e = (Inl err, e')" "r = Inl err"
  then show ?thesis using observe_active_keys [of H i active e] by (simp add: beat_effect_def)
next
  fix x e1
  assume seen: "observe_active H i active e = (Inr x, e1)"
    and rest: "(case x of (handle, observation, settlement) \<Rightarrow> (case settlement of
       None \<Rightarrow> pass (beat_running i report)
     | Some (fallback, reason) \<Rightarrow>
         bindA (settle H (active\<lparr>ac_handle := handle\<rparr>) observation fallback reason) (\<lambda>_.
         bindA (is_active i) (\<lambda>still.
         pass (if still then report else beat_completed i report))))) e1 = (r, e')"
  obtain handle observation settlement where x: "x = (handle, observation, settlement)" by (metis prod_cases3)
  note keys = observe_active_keys [OF seen]
  show ?thesis
  proof (cases settlement)
    case None
    then show ?thesis using rest keys by (simp add: x pass_iff beat_effect_def beat_running_def)
  next
    case (Some fr)
    obtain fallback reason where fr: "fr = (fallback, reason)" by fastforce
    have "bindA (settle H (active\<lparr>ac_handle := handle\<rparr>) observation fallback reason)
        (\<lambda>_. bindA (is_active i) (\<lambda>still. pass (if still then report else beat_completed i report))) e1 = (r, e')"
      using rest by (simp add: x Some fr)
    then show ?thesis
    proof (rule bindA_cases)
      fix err assume "settle H (active\<lparr>ac_handle := handle\<rparr>) observation fallback reason e1 = (Inl err, e')" "r = Inl err"
      then show ?thesis using settle_keys [of H "active\<lparr>ac_handle := handle\<rparr>" observation fallback reason e1 "Inl err" e' i] key keys
        by (simp add: beat_effect_def)
    next
      fix u e2
      assume s: "settle H (active\<lparr>ac_handle := handle\<rparr>) observation fallback reason e1 = (Inr u, e2)"
        and after: "bindA (is_active i) (\<lambda>still. pass (if still then report else beat_completed i report)) e2 = (r, e')"
      have "r = Inr (if i \<in> supervised e2 then report else beat_completed i report)" "e' = e2"
        using after by (auto simp: bindA_def is_active_iff pass_def)
      moreover note settle_keys [OF s, of i]
      ultimately show ?thesis using key keys mem by (auto simp: beat_effect_def beat_completed_def)
    qed
  qed
qed

lemma beat_completes:
  assumes key: "eg_execution_id (ac_execution active) = i" and mem: "i \<in> supervised e"
    and run: "beat H (i, active) report e = (r, e')"
  shows "\<exists>report'. r = Inr report' \<and> beat_effect i report e r e'"
proof -
  let ?m = "if ac_terminal_committed active then beat_committed H i active report else beat_active H i active report"
  obtain r1 e1 where m: "?m e = (r1, e1)" by fastforce
  have "beat_effect i report e r1 e1"
    using m beat_committed_effect beat_active_effect [OF key mem] by (cases "ac_terminal_committed active") simp_all
  moreover have "(r, e') = (case r1 of Inl err \<Rightarrow> (Inr (beat_failed i err report), e1) | Inr x \<Rightarrow> (Inr x, e1))"
    using run m by (simp add: beat_def catchA_def pass_def split: sum.splits)
  ultimately show ?thesis by (cases r1) (simp_all add: beat_effect_def beat_failed_def)
qed

lemma beats_account:
  assumes "dict_ok xs" "\<forall>(k, a) \<in> set xs. eg_execution_id (ac_execution a) = k" "set (keys xs) \<subseteq> supervised e"
  shows "\<exists>report' e'. foldA (beat H) xs report e = (Inr report', e') \<and> supervised e' \<subseteq> supervised e \<and>
    supervised e - set (keys xs) \<subseteq> supervised e' \<and>
    set (hb_completed report') = set (hb_completed report) \<union> (supervised e - supervised e')"
  using assms
proof (induction xs arbitrary: report e)
  case Nil
  then show ?case by (simp add: pass_def)
next
  case (Cons x xs)
  obtain i active where x: "x = (i, active)" by fastforce
  have key: "eg_execution_id (ac_execution active) = i" and mem: "i \<in> supervised e" using Cons.prems x by auto
  obtain report1 e1 where one: "beat H (i, active) report e = (Inr report1, e1)" and eff: "beat_effect i report e (Inr report1) e1"
    using beat_completes [OF key mem] by (metis surj_pair)
  have fresh: "i \<notin> set (keys xs)" "set (keys xs) \<subseteq> supervised e" using Cons.prems(1,3) by (simp_all add: x dict_ok_def)
  have one_effect: "supervised e1 = supervised e \<and> hb_completed report1 = hb_completed report \<or>
      supervised e1 = supervised e - {i} \<and> hb_completed report1 = hb_completed report @ [i]"
    using eff by (simp add: beat_effect_def)
  then have sub: "set (keys xs) \<subseteq> supervised e1" using fresh by blast
  have "dict_ok xs" "\<forall>(k, a) \<in> set xs. eg_execution_id (ac_execution a) = k" using Cons.prems by (simp_all add: dict_ok_def)
  from Cons.IH [OF this sub, of report1] obtain report2 e2 where two: "foldA (beat H) xs report1 e1 = (Inr report2, e2)"
    "supervised e2 \<subseteq> supervised e1" "supervised e1 - set (keys xs) \<subseteq> supervised e2"
    "set (hb_completed report2) = set (hb_completed report1) \<union> (supervised e1 - supervised e2)" by blast
  have "foldA (beat H) (x # xs) report e = (Inr report2, e2)" using one two(1) by (simp add: x bindA_def)
  moreover have "supervised e2 \<subseteq> supervised e" "supervised e - set (keys (x # xs)) \<subseteq> supervised e2"
    using one_effect two(2,3) by (auto simp: x simp del: set_map)
  moreover have "set (hb_completed report2) = set (hb_completed report) \<union> (supervised e - supervised e2)"
    using one_effect two(2,4) mem by auto
  ultimately show ?case by blast
qed


section \<open>Supervision of reservations\<close>

text \<open>The executions that are starting, running or stopping in the store.\<close>

definition active_executions :: "test_store \<Rightarrow> string set" where
  "active_executions st = {ex_execution_id x | t x. t \<in> set (ts_targets st) \<and> active_target (ta_state t) \<and> ta_execution t = Some x}"

text \<open>A candidate is current when the store has a target with its identity, name and shard.\<close>

definition current_candidate :: "test_store \<Rightarrow> runnable_target \<Rightarrow> bool" where
  "current_candidate st c \<longleftrightarrow> (\<exists>t \<in> set (ts_targets st). ta_target_id t = rt_target_id c \<and> ta_run_id t = rt_run_id c \<and>
     ta_target_name t = rt_target_name c \<and> int (ta_shard_index t) = rt_shard_index c \<and> int (ta_shard_count t) = rt_shard_count c)"

lemma update_targets_active:
  assumes "\<And>t. t \<in> set (ts_targets st) \<Longrightarrow> p t \<Longrightarrow> active_target (ta_state (f t)) \<Longrightarrow>
    (active_target (ta_state t) \<and> ta_execution (f t) = ta_execution t) \<or> (\<exists>x. ta_execution (f t) = Some x \<and> ex_execution_id x \<in> S)"
  shows "active_executions (update_targets p f st) \<subseteq> active_executions st \<union> S"
  using assms unfolding active_executions_def update_targets_def by (fastforce split: if_splits)

lemma begin_body_grants:
  assumes "begin_body L target_id generation systemd_unit launch_op descriptor deadline commitment op fp now st = Inr (x, st')"
    and tab: "tables_ok st" and current: "current_candidate st c" "rt_target_id c = target_id"
  shows "x = grant_document (preview_grant c (execution_id_of L st target_id) systemd_unit launch_op) \<and>
    active_executions st' \<subseteq> active_executions st \<union> {execution_id_of L st target_id}"
proof -
  obtain t where t: "t \<in> set (ts_targets st)" "ta_target_id t = target_id" and c: "ta_run_id t = rt_run_id c"
    "ta_target_name t = rt_target_name c" "int (ta_shard_index t) = rt_shard_index c" "int (ta_shard_count t) = rt_shard_count c"
    using current by (auto simp: current_candidate_def)
  have found: "find_target st target_id = Some t" using find_target_Some [OF tab] t by blast
  define e where "e = \<lparr>ex_execution_id = execution_id_of L st target_id, ex_store_generation = ts_generation st,
    ex_repository_generation = generation, ex_systemd_unit = systemd_unit, ex_launch_operation_id = launch_op,
    ex_descriptor_fingerprint = descriptor, ex_launch_deadline_at = deadline, ex_memory_commitment_mib = commitment\<rparr>"
  let ?st1 = "update_targets (\<lambda>x. ta_target_id x = target_id \<and> ta_state x = Queued) (reserve_target e now) st"
  have "active_executions ?st1 \<subseteq> active_executions st \<union> {execution_id_of L st target_id}"
    by (rule update_targets_active) (simp add: reserve_target_def e_def)
  moreover obtain r where r: "lookup_run st (ta_run_id t) = Some r"
    using assms(1) by (auto simp: begin_body_def found split: option.splits)
  let ?st2 = "update_runs (\<lambda>r. ru_run_id r = ta_run_id t \<and> (ru_state r = RunQueued \<or> ru_state r = RunRunning)) (start_run now) ?st1"
  have "logs ?st2 st'"
    using assms(1) by (auto simp: begin_body_def found r e_def [symmetric] Let_def bindE_Inr_iff
      dest!: record_mutation_logs store_event_logs intro: logs_trans)
  then have "ts_targets st' = ts_targets ?st1" by (auto simp: logs_def update_runs_def)
  moreover have "x = grant_document (preview_grant c (execution_id_of L st target_id) systemd_unit launch_op)"
    using assms(1) by (auto simp: begin_body_def found c r [unfolded c] Let_def bindE_Inr_iff grant_document_def preview_grant_def current(2))
  ultimately show ?thesis by (simp add: active_executions_def)
qed

lemma current_evolves:
  assumes "evolves st st'" "current_candidate st c"
  shows "current_candidate st' c"
proof -
  obtain t where t: "t \<in> set (ts_targets st)" and c: "ta_target_id t = rt_target_id c" "ta_run_id t = rt_run_id c"
    "ta_target_name t = rt_target_name c" "int (ta_shard_index t) = rt_shard_index c" "int (ta_shard_count t) = rt_shard_count c"
    using assms(2) by (auto simp: current_candidate_def)
  obtain u where "u \<in> set (ts_targets st')" "keeps t u" using evolves_target [OF assms(1) t] by blast
  then show ?thesis using c unfolding current_candidate_def keeps_def by metis
qed

text \<open>What a reservation through the store's interface does: a replay changes nothing.\<close>

lemma reservation_effect:
  assumes run: "perform (ho_pylib H) (reservation_request H c preview ticket deadline) clock st = Inr (x, st')"
    and tab: "tables_ok st" and current: "current_candidate st c"
    and preview: "preview = preview_grant c (execution_id_of (ho_pylib H) st (rt_target_id c)) u launch_op"
    and canonical: "uuid_text launch_op = Some launch_op"
  shows "st' = st \<or> systemd_unit_re u \<and> x = grant_document preview \<and>
    active_executions st' \<subseteq> active_executions st \<union> {eg_execution_id preview}"
proof -
  obtain generation descriptor dl commitment op fp now where
    j: "journaled op ''execution_begin'' fp (begin_body (ho_pylib H) (rt_target_id c) generation u launch_op
       descriptor dl commitment op fp now) st = Inr (x, st')" and unit_ok: "systemd_unit_re u"
    using run unfolding reservation_request_def perform.simps begin_op_def begin_execution_def Let_def prod.case
    by (elim bindE_InrE) (auto simp: preview preview_grant_def safe_id_def single_line_def bounded_text_def operation_id_def
      canonical bindE_Inr_iff split: if_splits)
  show ?thesis
  proof (cases "st' = st")
    case False
    then have "begin_body (ho_pylib H) (rt_target_id c) generation u launch_op descriptor dl commitment op fp now st = Inr (x, st')"
      using j by (auto simp: journaled_def bindE_Inr_iff split: option.splits)
    from begin_body_grants [OF this tab current refl] show ?thesis
      using unit_ok by (simp add: preview preview_grant_def)
  qed simp
qed

lemma plan_launch_Inr:
  assumes "plan_launch H c e = (Inr (preview, ticket, deadline), e')"
  shows "\<exists>u. preview = preview_grant c (execution_id_of (ho_pylib H) (en_store e) (rt_target_id c)) u
      (launch_operation_for_target H (rt_target_id c)) \<and> safe_id_re (eg_execution_id preview)"
proof -
  obtain now e1 i u where clock: "read_clock H e = (Inr now, e1)"
    and i: "execution_identity (ho_pylib H) (JStr (rt_target_id c)) (en_store e1) = Inr i"
    and u: "unit_for_execution (ho_pylib H) i = Inr u"
    and preview: "preview = preview_grant c i u (launch_operation_for_target H (rt_target_id c))"
    using assms unfolding plan_launch_def Let_def split_beta
    by (elim bindA_InrE) (auto simp: store_read_Inr liftE_Inr pass_iff)
  have "en_store e1 = en_store e" using obeysD [OF quiet.obeys_clock clock] by (simp add: same_store_def)
  then have "i = execution_id_of (ho_pylib H) (en_store e) (rt_target_id c)"
    using i by (auto simp: execution_identity_def safe_id_def single_line_def bounded_text_def bindE_Inr_iff
      split: if_splits option.splits)
  moreover have "safe_id_re i" using u by (auto simp: unit_for_execution_def td_safe_id_def bindE_Inr_iff split: if_splits)
  ultimately show ?thesis using preview by (simp add: preview_grant_def)
qed

lemma obeys_filing: "obeys same_store (put_active a)" "obeys same_store (change_active a)"
  by (simp_all add: obeys_def same_store_def put_active_def change_active_def)

lemma supervise_launch_store: "supervise_launch H c ticket descriptor g e = (r, e') \<Longrightarrow> en_store e' = en_store e"
proof -
  have "obeys same_store (supervise_launch H c ticket descriptor g)" unfolding supervise_launch_def Let_def
    by (intro quiet.obeys_bind quiet.obeys_lift quiet.obeys_launcher obeys_filing)
  then show "supervise_launch H c ticket descriptor g e = (r, e') \<Longrightarrow> en_store e' = en_store e"
    using obeysD unfolding same_store_def by blast
qed

text \<open>After the reservation, the entry is filed before anything else can fail.\<close>

lemma supervise_launch_files:
  assumes run: "supervise_launch H c ticket descriptor g e = (r, e')"
    and "safe_id_re (eg_execution_id g)" "eg_generation g = 1" "systemd_unit_re (eg_systemd_unit g)"
    and "uuid_text (eg_launch_operation_id g) \<noteq> None"
  shows "eg_execution_id g \<in> supervised e'"
proof -
  obtain handle where handle: "handle_for_grant g = Inr handle"
    using assms(2-5) by (auto simp: handle_for_grant_def new_runner_handle_def td_safe_id_def td_systemd_unit_def
      td_operation_id_def td_optional_def td_bool_def)
  define a where "a = \<lparr>ac_execution = g, ac_handle = handle, ac_run_id = eg_run_id g, ac_target_id = eg_target_id g,
    ac_target_name = eg_target_name g, ac_terminal_committed = False\<rparr>"
  let ?rest = "\<lambda>_ :: unit. bindA (liftE (new_runner_request ticket g (rt_target_name c) descriptor)) (\<lambda>request.
     bindA (launcher_prepare H request) (\<lambda>prepared.
     bindA (liftE (require_same_handle handle prepared)) (\<lambda>_.
     bindA (change_active (a\<lparr>ac_handle := prepared\<rparr>)) (\<lambda>_.
     bindA (launcher_start H prepared) (\<lambda>started.
     bindA (liftE (require_same_handle prepared started)) (\<lambda>_.
     change_active (a\<lparr>ac_handle := started\<rparr>)))))))"
  have "bindA (put_active a) ?rest e = (r, e')"
    using run by (simp add: supervise_launch_def handle bind_lift Let_def a_def)
  then have "?rest () (snd (put_active a e)) = (r, e')" by (simp add: bindA_def put_active_def)
  moreover have "obeys same_active (?rest ())"
    by (intro same.obeys_bind same.obeys_lift same.obeys_launcher same.obeys_change)
  ultimately have "supervised e' = supervised (snd (put_active a e))" using supervised_same obeysD by blast
  then show ?thesis by (simp add: supervised_def keys_put_active a_def del: set_map)
qed

lemma clocked_request_cases:
  assumes "clocked_request H q e = (r, e')"
  shows "(\<exists>err. r = Inl err) \<and> en_store e' = en_store e \<or>
    (\<exists>x clock. r = Inr x \<and> perform (ho_pylib H) q clock (en_store e) = Inr (x, en_store e'))"
  using assms unfolding clocked_request_def read_store_clock_def
  by (auto simp: bindA_def call_def store_request_def split: prod.splits sum.splits)

lemma launch_supervises:
  assumes reach: "reachable (ho_pylib H) (en_store e)" and current: "current_candidate (en_store e) c"
    and canonical: "\<And>s. uuid_text (ho_uuid5 H s) = Some (ho_uuid5 H s)"
    and run: "launch H c e = (r, e')"
  shows "active_executions (en_store e') \<subseteq> active_executions (en_store e) \<union> supervised e'"
  using run unfolding launch_def
proof (rule bindA_cases)
  fix err assume "plan_launch H c e = (Inl err, e')"
  then have "en_store e' = en_store e" using obeysD [OF quiet.obeys_plan_launch] unfolding same_store_def by blast
  then show ?thesis by simp
next
  fix x e1
  assume planned: "plan_launch H c e = (Inr x, e1)"
    and rest: "(case x of (preview, ticket, deadline) \<Rightarrow>
      bindA (clocked_request H (reservation_request H c preview ticket deadline)) (\<lambda>granted.
      bindA (liftE (ensure (granted = grant_document preview)
        (StoreConflict ''test execution identity changed after descriptor resolution''))) (\<lambda>_.
      supervise_launch H c ticket (descriptor_fingerprint (ho_pylib H) c ticket) preview))) e1 = (r, e')"
  obtain preview ticket deadline where x: "x = (preview, ticket, deadline)" by (metis prod_cases3)
  have e1: "en_store e1 = en_store e" using obeysD [OF quiet.obeys_plan_launch planned] by (simp add: same_store_def)
  let ?op = "launch_operation_for_target H (rt_target_id c)"
  have op: "uuid_text ?op = Some ?op" using canonical by (simp add: launch_operation_for_target_def stable_operation_id_def)
  obtain u where preview: "preview = preview_grant c (execution_id_of (ho_pylib H) (en_store e1) (rt_target_id c)) u ?op"
    and safe: "safe_id_re (eg_execution_id preview)"
    using plan_launch_Inr [OF planned [unfolded x]] e1 by auto
  from rest [unfolded x prod.case] show ?thesis
  proof (rule bindA_cases)
    fix err assume "clocked_request H (reservation_request H c preview ticket deadline) e1 = (Inl err, e')"
    then show ?thesis using clocked_request_cases e1 by fastforce
  next
    fix granted e2
    assume req: "clocked_request H (reservation_request H c preview ticket deadline) e1 = (Inr granted, e2)"
      and after: "bindA (liftE (ensure (granted = grant_document preview)
        (StoreConflict ''test execution identity changed after descriptor resolution''))) (\<lambda>_.
      supervise_launch H c ticket (descriptor_fingerprint (ho_pylib H) c ticket) preview) e2 = (r, e')"
    have e': "en_store e' = en_store e2" using after
      by (auto simp: bindA_def liftE_def ensure_def pass_def throw_def dest: supervise_launch_store split: if_splits)
    obtain clock where p: "perform (ho_pylib H) (reservation_request H c preview ticket deadline) clock (en_store e1) = Inr (granted, en_store e2)"
      using clocked_request_cases [OF req] by auto
    have "tables_ok (en_store e1)" "current_candidate (en_store e1) c"
      using core_tables [OF reachable_core [OF reach]] current e1 by simp_all
    from reservation_effect [OF p this preview op] show ?thesis
    proof (elim disjE conjE)
      assume "systemd_unit_re u" "granted = grant_document preview"
        and eff: "active_executions (en_store e2) \<subseteq> active_executions (en_store e1) \<union> {eg_execution_id preview}"
      then have "supervise_launch H c ticket (descriptor_fingerprint (ho_pylib H) c ticket) preview e2 = (r, e')"
        using after by (simp add: bindA_def liftE_def pass_def)
      then have "eg_execution_id preview \<in> supervised e'"
        by (rule supervise_launch_files) (use safe op preview \<open>systemd_unit_re u\<close> in \<open>simp_all add: preview_grant_def\<close>)
      then show ?thesis using eff e1 e' by auto
    qed (use e1 e' in simp)
  qed
qed

text \<open>The relation that a schedule turn keeps: what it reserves is supervised when it ends.\<close>

definition reserved_supervised :: "'w testd_host \<Rightarrow> 'w engine \<Rightarrow> 'w engine \<Rightarrow> bool" where
  "reserved_supervised H e e' \<longleftrightarrow> store_moves H e e' \<and> supervised e \<subseteq> supervised e' \<and>
     active_executions (en_store e') \<subseteq> active_executions (en_store e) \<union> supervised e'"

lemma reserved_supervised_trans:
  "reserved_supervised H e e' \<Longrightarrow> reserved_supervised H e' e'' \<Longrightarrow> reserved_supervised H e e''"
  unfolding reserved_supervised_def using moves.R_trans by blast

lemma launch_one_supervises:
  assumes reach: "reachable (ho_pylib H) (en_store e)" and current: "current_candidate (en_store e) c"
    and canonical: "\<And>s. uuid_text (ho_uuid5 H s) = Some (ho_uuid5 H s)"
    and run: "launch_one H c acc e = (r, e')"
  shows "(\<exists>acc'. r = Inr acc') \<and> reserved_supervised H e e'"
proof -
  obtain r1 e1 where launch: "launch H c e = (r1, e1)" by fastforce
  have "(\<exists>acc'. r = Inr acc') \<and> e' = e1"
    using run launch by (cases acc) (auto simp: launch_one_def catchA_def bindA_def pass_def split: sum.splits)
  moreover have "store_moves H e e1" by (rule obeysD [OF moves.obeys_launch launch])
  moreover have "supervised e \<subseteq> supervised e1"
    using obeysD [OF grows.obeys_launch launch] by (simp add: active_grows_def supervised_def)
  ultimately show ?thesis using launch_supervises [OF reach current canonical launch] by (simp add: reserved_supervised_def)
qed

lemma launches_supervise:
  assumes canonical: "\<And>s. uuid_text (ho_uuid5 H s) = Some (ho_uuid5 H s)"
    and "reachable (ho_pylib H) (en_store e)" "\<forall>c \<in> set cs. current_candidate (en_store e) c" "foldA (launch_one H) cs acc e = (r, e')"
  shows "reserved_supervised H e e'"
  using assms(2-)
proof (induction cs arbitrary: acc e)
  case Nil
  then show ?case by (simp add: pass_iff reserved_supervised_def moves.R_refl)
next
  case (Cons c cs)
  obtain r1 e1 where one: "launch_one H c acc e = (r1, e1)" by fastforce
  have sup: "reserved_supervised H e e1" and ok: "\<exists>acc'. r1 = Inr acc'"
    using launch_one_supervises [OF Cons.prems(1) _ canonical one] Cons.prems(2) by simp_all
  have moves: "(store_step (ho_pylib H))\<^sup>*\<^sup>* (en_store e) (en_store e1)"
    using sup by (simp add: reserved_supervised_def store_moves_def)
  have "reachable (ho_pylib H) (en_store e1)" "\<forall>d \<in> set cs. current_candidate (en_store e1) d"
    using steps_evolve [OF moves Cons.prems(1)] Cons.prems(2) current_evolves by auto
  moreover obtain acc' where "foldA (launch_one H) cs acc' e1 = (r, e')" using Cons.prems(3) ok one by (auto simp: bindA_def)
  ultimately show ?case using Cons.IH reserved_supervised_trans [OF sup] by blast
qed

lemma runnable_targets_current:
  assumes "runnable_targets limit st = Inr cs"
  shows "\<forall>c \<in> set cs. current_candidate st c"
proof
  fix c assume "c \<in> set cs"
  then obtain t r where c: "c = runnable_of st (t, r)" and "(t, r) \<in> set (queued_rows st)"
    using assms by (auto simp: runnable_targets_def bindE_Inr_iff dest!: in_set_takeD)
  then have "t \<in> set (ts_targets st)"
    by (auto simp: queued_rows_def with_run_def List.map_filter_def dest!: in_set_takeD)
  then show "current_candidate st c" unfolding current_candidate_def c runnable_of_def Let_def by (intro bexI [of _ t]) simp_all
qed

lemma select_targets_subset:
  assumes "select_targets fs probe candidates active launch_batch = Inr (d, fs')"
  shows "set (sd_selected d) \<subseteq> set candidates"
proof -
  obtain st where "turn_inv (initial_select_state fs (turn_budget d) candidates active) st" "sd_selected d = ss_selected st"
    using select_targets_inv [OF assms] by (auto simp: Let_def)
  then have "mset (ss_pending st) + mset (sd_selected d) = mset candidates"
    by (simp add: turn_inv_def initial_select_state_def)
  then show ?thesis by (metis set_mset_mset mset_subset_eq_add_right set_mset_mono)
qed

lemma decide_active:
  assumes "perform L (Decide selected rejected) clock st = Inr (x, st')"
  shows "active_executions st' = active_executions st"
proof -
  obtain f where f: "st' = st\<lparr>ts_targets := map f (ts_targets st)\<rparr>" "\<And>t. waits_only t (f t)"
    using assms record_schedule_decision_decides [of clock selected rejected st st'] by (auto simp: bindE_Inr_iff decides_def)
  have "ta_state (f t) = ta_state t \<and> ta_execution (f t) = ta_execution t" for t
  proof -
    have "(f t)\<lparr>ta_wait := ta_wait t\<rparr> = t" using f(2) [of t] by (simp only: waits_only_def)
    then show ?thesis by (metis target_row.select_convs(8,14) target_row.surjective target_row.update_convs(13))
  qed
  moreover have "active_executions st' = {ex_execution_id x | t x. t \<in> set (ts_targets st) \<and> active_target (ta_state (f t)) \<and>
      ta_execution (f t) = Some x}"
    unfolding active_executions_def f(1) by auto
  ultimately show ?thesis by (simp add: active_executions_def)
qed

lemma select_candidates_Inr:
  assumes "select_candidates H candidates allocations batch e = (r, e')"
  shows "en_store e' = en_store e \<and> (\<forall>decision. r = Inr decision \<longrightarrow> set (sd_selected decision) \<subseteq> set candidates)"
  using assms unfolding select_candidates_def
  by (auto simp: bindA_def call_def split: prod.splits sum.splits dest: select_targets_subset)

lemma current_decide:
  assumes "perform L (Decide selected rejected) clock st = Inr (x, st')" "current_candidate st c" "reachable L st"
  shows "current_candidate st' c"
proof -
  have "store_step L st st'" using assms(1) store_step.request [of "Decide selected rejected"] by simp
  then have "evolves st st'" using store_step_ok [OF _ reachable_inv [OF assms(3)]] by (simp add: step_ok_def)
  then show ?thesis using current_evolves assms(2) by blast
qed

lemma decide_turn_effect:
  assumes run: "decide_turn H candidates allocations batch reconciled e = (r, e')"
    and current: "\<forall>c \<in> set candidates. current_candidate (en_store e) c" and reach: "reachable (ho_pylib H) (en_store e)"
  shows "active_executions (en_store e') = active_executions (en_store e) \<and>
    (\<forall>reconciled decision. r = Inr (reconciled, decision) \<longrightarrow> (\<forall>c \<in> set (sd_selected decision). current_candidate (en_store e') c))"
  using run unfolding decide_turn_def
proof (rule bindA_cases)
  fix err assume "select_candidates H candidates allocations batch e = (Inl err, e')" "r = Inl err"
  then show ?thesis using select_candidates_Inr by fastforce
next
  fix decision e1
  assume sel: "select_candidates H candidates allocations batch e = (Inr decision, e1)"
    and rest: "bindA (clocked_request H (Decide (map (JStr \<circ> rt_target_id) (sd_selected decision))
       (map rejection_document (sd_rejected decision)))) (\<lambda>_. pass (reconciled, decision)) e1 = (r, e')"
  have e1: "en_store e1 = en_store e" and sub: "set (sd_selected decision) \<subseteq> set candidates"
    using select_candidates_Inr [OF sel] by simp_all
  from rest show ?thesis
  proof (cases rule: bindA_cases)
    case (raised err)
    then show ?thesis using clocked_request_cases [OF raised(1)] e1 by auto
  next
    case (returned x e2)
    then obtain clock where p: "perform (ho_pylib H) (Decide (map (JStr \<circ> rt_target_id) (sd_selected decision))
        (map rejection_document (sd_rejected decision))) clock (en_store e) = Inr (x, en_store e2)"
      using clocked_request_cases [OF returned(1)] e1 by auto
    have "e' = e2" "r = Inr (reconciled, decision)" using returned(2) by (simp_all add: pass_iff)
    then show ?thesis using decide_active [OF p] current_decide [OF p _ reach] current sub by auto
  qed
qed

text \<open>Up to the recorded decision a turn reserves nothing, and its selection is current.\<close>

lemma plan_turn_effect:
  assumes reach: "reachable (ho_pylib H) (en_store e)" and run: "plan_turn H batch e = (r, e')"
  shows "active_executions (en_store e') = active_executions (en_store e) \<and>
    (\<forall>reconciled decision. r = Inr (reconciled, decision) \<longrightarrow> (\<forall>c \<in> set (sd_selected decision). current_candidate (en_store e') c))"
  using run unfolding plan_turn_def
proof (rule bindA_cases)
  fix u e0 assume "liftE (ensure (1 \<le> batch \<and> batch \<le> 1000) (StoreContractError ''launch_batch is invalid'')) e = (Inr u, e0)"
    and "bindA (engine_reconcile H) (\<lambda>reconciled.
     bindA (store_read (runnable_targets (JInt 10000))) (\<lambda>candidates.
     bindA (store_read (\<lambda>st. Inr (active_allocations st))) (\<lambda>allocations.
     decide_turn H candidates allocations batch reconciled))) e0 = (r, e')"
  then have "bindA (engine_reconcile H) (\<lambda>reconciled.
     bindA (store_read (runnable_targets (JInt 10000))) (\<lambda>candidates.
     bindA (store_read (\<lambda>st. Inr (active_allocations st))) (\<lambda>allocations.
     decide_turn H candidates allocations batch reconciled))) e = (r, e')"
    by (simp add: liftE_Inr)
  then show ?thesis
  proof (cases rule: bindA_cases)
    case (raised err)
    then show ?thesis using reconcile_same [OF reach] by simp
  next
    case (returned reconciled e1)
    have e1: "en_store e1 = en_store e" by (rule reconcile_same [OF reach returned(1)])
    from returned(2) show ?thesis
    proof (cases rule: bindA_cases)
      case (raised err)
      then show ?thesis using e1 by (auto simp: store_read_def liftE_Inl)
    next
      case (returned candidates e2)
      then have c: "runnable_targets (JInt 10000) (en_store e1) = Inr candidates" and e2: "e2 = e1" by (simp_all add: store_read_Inr)
      from returned(2) have "decide_turn H candidates (active_allocations (en_store e1)) batch reconciled e1 = (r, e')"
        by (simp add: e2 bind_read)
      then show ?thesis using decide_turn_effect [OF _ runnable_targets_current [OF c]] e1 reach by simp
    qed
  qed
qed (simp add: liftE_Inl)

text \<open>
  C9. No reservation escapes supervision: after a schedule turn, however far it got and whatever its
  launches raised, every execution that is starting, running or stopping in the store was already so
  before the turn or is supervised by the engine. The identifiers that \<open>uuid5\<close> returns are in the
  canonical form of \<open>str(uuid.UUID(..))\<close>.
\<close>
theorem schedule_supervises:
  assumes "testd_reachable H e" and "\<forall>s. uuid_text (ho_uuid5 H s) = Some (ho_uuid5 H s)"
    and "schedule H batch e = (r, e')"
  shows "active_executions (en_store e') \<subseteq> active_executions (en_store e) \<union> supervised e'"
proof -
  have reach: "reachable (ho_pylib H) (en_store e)" by (rule testd_reachable_store [OF assms(1)])
  from assms(3) show ?thesis unfolding schedule_def
  proof (rule bindA_cases)
    fix err assume "plan_turn H batch e = (Inl err, e')"
    then show ?thesis using plan_turn_effect [OF reach] by blast
  next
    fix x e1
    assume planned: "plan_turn H batch e = (Inr x, e1)"
      and rest: "(case x of (reconciled, decision) \<Rightarrow> bindA (foldA (launch_one H) (sd_selected decision) ([], []))
        (\<lambda>(launched, failures). pass \<lparr>sr_launched_target_ids = launched, sr_launch_failures = failures,
          sr_decision = decision, sr_reconciled = reconciled\<rparr>)) e1 = (r, e')"
    obtain reconciled decision where x: "x = (reconciled, decision)" by fastforce
    obtain r2 e2 where fold: "foldA (launch_one H) (sd_selected decision) ([], []) e1 = (r2, e2)" by fastforce
    have "e' = e2" using rest fold by (cases r2) (auto simp: x bindA_def pass_def)
    moreover have "reachable (ho_pylib H) (en_store e1)"
      using moves_reachable [OF obeysD [OF moves.obeys_plan_turn planned] reach] .
    moreover have eff: "active_executions (en_store e1) = active_executions (en_store e)"
      "\<forall>c \<in> set (sd_selected decision). current_candidate (en_store e1) c"
      using plan_turn_effect [OF reach planned] by (simp_all add: x)
    ultimately have "reserved_supervised H e1 e'" using launches_supervise [OF _ _ eff(2) fold] assms(2) by blast
    then show ?thesis using eff(1) by (simp add: reserved_supervised_def)
  qed
qed

section \<open>Conclusions\<close>

lemma check_cases_status:
  "foldE check_case cs rows = Inr rows' \<Longrightarrow> map cr_status rows' = map cr_status rows @ map ca_status cs"
proof (induction cs arbitrary: rows)
  case (Cons c cs)
  then obtain mid where mid: "check_case c rows = Inr mid" "foldE check_case cs mid = Inr rows'" by (auto simp: bindE_Inr_iff)
  then have "map cr_status mid = map cr_status rows @ [ca_status c]" by (auto simp: check_case_def bindE_Inr_iff)
  then show ?case using Cons.IH [OF mid(2)] by simp
qed simp

lemma check_package_status:
  assumes "check_package p = Inr cp"
  shows "status_count s cp = length (filter (\<lambda>c. ca_status c = s) (pk_cases p))" "cp_reporter_complete cp = pk_reporter_complete p"
proof -
  have "foldE check_case (pk_cases p) [] = Inr (cp_cases cp)" and "cp_reporter_complete cp = pk_reporter_complete p"
    using assms by (auto simp: check_package_def Let_def bindE_Inr_iff)
  then have "map cr_status (cp_cases cp) = map ca_status (pk_cases p)" using check_cases_status by fastforce
  then have "length (filter (\<lambda>x. x = s) (map cr_status (cp_cases cp))) = length (filter (\<lambda>x. x = s) (map ca_status (pk_cases p)))"
    by simp
  then show "status_count s cp = length (filter (\<lambda>c. ca_status c = s) (pk_cases p))"
    by (simp add: status_count_def filter_map o_def)
  show "cp_reporter_complete cp = pk_reporter_complete p" by fact
qed

lemma resolved_agrees:
  assumes "check_resolved m p = Inr u" "check_package p = Inr cp"
  shows "package_count m ''failed'' = int (status_count ''failed'' cp)" "package_count m ''error'' = int (status_count ''error'' cp)"
    "reporter_complete m = cp_reporter_complete cp"
  using assms(1) check_package_status [OF assms(2)]
  by (auto simp: check_resolved_def count_names_def resolved_counts_def package_count_def Let_def)

text \<open>The outcomes of the runner that \<open>_package_conclusion\<close> lets override the counts.\<close>

definition overriding_outcome :: "runner_result_package \<Rightarrow> bool" where
  "overriding_outcome m \<longleftrightarrow> td_get (rp_outcome m) ''terminal_outcome'' \<in>
     {JStr ''timed_out'', JStr ''incomplete'', JStr ''infrastructure_failed''}"

lemma settle_plain:
  "c \<notin> {TEST_FAILED, SUCCEEDED} \<Longrightarrow> settle_conclusion cp c = (if cp_reporter_complete cp \<and> measured_failure cp
     then Inl (StoreConflict ''a complete measured test failure must win a competing conclusion'') else Inr c)"
  by (auto simp: settle_conclusion_def ensure_def)

lemma settle_failed:
  "settle_conclusion cp TEST_FAILED = (if measured_failure cp then Inr TEST_FAILED
     else Inl (StoreContractError ''test-failed conclusion has no test-failure evidence''))"
  by (auto simp: settle_conclusion_def ensure_def)

lemma settle_other:
  assumes "cp_reporter_complete cp" "status_count ''failed'' cp = 0" "status_count ''error'' cp = 0" "c \<noteq> TEST_FAILED"
  shows "settle_conclusion cp c = (if measured_failure cp
     then Inl (StoreConflict ''a complete measured test failure must win a competing conclusion'') else Inr c)"
  using assms by (auto simp: settle_conclusion_def ensure_def)

lemma package_conclusion_cases:
  "(\<not> reporter_complete m \<and> package_conclusion m fallback \<notin> {TEST_FAILED, SUCCEEDED}) \<or>
   (reporter_complete m \<and> overriding_outcome m \<and> package_conclusion m fallback \<notin> {TEST_FAILED, SUCCEEDED}) \<or>
   (reporter_complete m \<and> \<not> overriding_outcome m \<and> (package_count m ''failed'' \<noteq> 0 \<or> package_count m ''error'' \<noteq> 0 \<or>
      td_get (rp_outcome m) ''test_failed'' = JBool True) \<and> package_conclusion m fallback = TEST_FAILED) \<or>
   (reporter_complete m \<and> \<not> overriding_outcome m \<and> \<not> (package_count m ''failed'' \<noteq> 0 \<or> package_count m ''error'' \<noteq> 0 \<or>
      td_get (rp_outcome m) ''test_failed'' = JBool True) \<and> package_conclusion m fallback \<noteq> TEST_FAILED)"
  unfolding package_conclusion_def overriding_outcome_def Let_def by (auto split: if_splits)

text \<open>
  Which settlements the store refuses: for a resolved package that agrees with its metadata, the
  conclusion that testd derives is stored unchanged, except in two cases. A complete package with a
  measured failure is refused when its outcome overrides the counts, and also when the failure is
  recorded without a failed or errored case and the outcome carries no \<open>test_failed\<close> flag; and a
  claimed test failure without evidence is refused. A refused settlement is an error of the heartbeat,
  so the execution stays active.
\<close>
lemma package_conclusion_settled:
  assumes "check_resolved m p = Inr u" and "check_package p = Inr cp"
  shows "settle_conclusion cp (package_conclusion m fallback) =
    (if reporter_complete m \<and> measured_failure cp \<and> (overriding_outcome m \<or>
        status_count ''failed'' cp = 0 \<and> status_count ''error'' cp = 0 \<and> td_get (rp_outcome m) ''test_failed'' \<noteq> JBool True)
     then Inl (StoreConflict ''a complete measured test failure must win a competing conclusion'')
     else if reporter_complete m \<and> \<not> measured_failure cp \<and> \<not> overriding_outcome m \<and>
        td_get (rp_outcome m) ''test_failed'' = JBool True
     then Inl (StoreContractError ''test-failed conclusion has no test-failure evidence'')
     else Inr (package_conclusion m fallback))"
proof -
  note agree = resolved_agrees [OF assms]
  let ?c = "package_conclusion m fallback"
  let ?counted = "status_count ''failed'' cp \<noteq> 0 \<or> status_count ''error'' cp \<noteq> 0"
  let ?flag = "td_get (rp_outcome m) ''test_failed'' = JBool True"
  have counted: "?counted \<Longrightarrow> measured_failure cp" unfolding measured_failure_def by blast
  consider (partial) "\<not> reporter_complete m" "?c \<notin> {TEST_FAILED, SUCCEEDED}"
    | (overridden) "reporter_complete m" "overriding_outcome m" "?c \<notin> {TEST_FAILED, SUCCEEDED}"
    | (failed) "reporter_complete m" "\<not> overriding_outcome m" "?counted \<or> ?flag" "?c = TEST_FAILED"
    | (other) "reporter_complete m" "\<not> overriding_outcome m" "\<not> ?counted" "\<not> ?flag" "?c \<noteq> TEST_FAILED"
    using package_conclusion_cases [of m fallback] agree(1,2) by auto
  then show ?thesis
  proof cases
    case partial
    then show ?thesis using settle_plain [of ?c cp] agree(3) by simp
  next
    case overridden
    then show ?thesis using settle_plain [of ?c cp] agree(3) by simp
  next
    case failed
    then show ?thesis using settle_failed [of cp] counted by auto
  next
    case other
    then show ?thesis using settle_other [of cp ?c] agree(3) by auto
  qed
qed

end
