(* ===== verification/Testd_Samples.thy ===== *)
theory Testd_Samples
  imports Testd_Properties Store_Samples
begin

text \<open>
  testd on a plan of one target: a process that dies between a reservation and its start is cleaned up
  by the next one, a live unit is stopped before it is settled, and a turn runs on the queued plan.
\<close>

section \<open>A host\<close>

text \<open>Its world remembers the handle that was prepared last; its units are always found exited.\<close>

definition handle_reply :: "json \<Rightarrow> json" where
  "handle_reply v = (case v of JObj d \<Rightarrow> JObj [(''execution_id'', td_get d ''execution_id''), (''generation'', td_get d ''generation''),
     (''systemd_unit'', td_get d ''systemd_unit''), (''launch_operation_id'', td_get d ''launch_operation_id''),
     (''launch_ack_id'', JNull), (''launch_confirmed'', JBool False)] | _ \<Rightarrow> JNull)"

definition exited_reply :: json where
  "exited_reply = JObj (map (\<lambda>k. (k, if k = ''state'' then JStr ''exited''
     else if k = ''unit_inactive'' \<or> k = ''cgroup_empty'' then JBool True
     else if k = ''launch_confirmed'' then JBool False else JNull)) observation_fields)"

definition sample_ticket :: "runnable_target \<Rightarrow> execution_grant \<Rightarrow> json dict" where
  "sample_ticket c g = [(''ticket_id'', JStr ''ticket-1''), (''execution_id'', JStr (eg_execution_id g)),
     (''target_id'', JStr (rt_target_id c)), (''run_id'', JStr (rt_run_id c)), (''repository_id'', JStr (rt_repository_id c)),
     (''repository_generation'', JInt 0), (''owner_uid'', JInt (rt_owner_uid c)), (''root_repo'', JStr ''/srv/repo''),
     (''temporary_repo'', JNull), (''execution_root'', JStr ''/srv/repo''), (''argv'', JArr [JStr ''pytest'']), (''cwd'', JStr ''.''),
     (''environment'', JObj []), (''intent'', JStr ''release''), (''driver'', JStr ''pytest''), (''reporter'', JStr ''junit''),
     (''artifacts'', JArr []), (''fixtures'', JArr []), (''credentials'', JArr []), (''network'', JStr ''none''),
     (''ttl_seconds'', JInt 600), (''worktree_key'', JStr ''/srv/repo''), (''issued_at'', JFloat 100), (''expires_at'', JFloat 700)]"

definition sample_host :: "json testd_host" where
  "sample_host = \<lparr>ho_pylib = store_lib, ho_uuid5 = (\<lambda>_. op_of 11), ho_clock = (\<lambda>w. (Finite 200, w)),
     ho_store_clock = (\<lambda>w. (PyFloat (Finite 200), w)),
     ho_memory_probe = (\<lambda>w. (Inr \<lparr>hm_total_mib = 32768, hm_available_mib = 16384, hm_observed_at = Finite 200\<rparr>, w)),
     ho_issue = (\<lambda>c g plan deadline w. (Inr (sample_ticket c g), w)),
     ho_prepare = (\<lambda>v w. case v of
         JObj d \<Rightarrow> (Inr (handle_reply (td_get d ''execution'')), handle_reply (td_get d ''execution''))
       | _ \<Rightarrow> (Inl (Foreign ''OSError''), w)),
     ho_start_prepared = (\<lambda>u w. (Inr w, w)), ho_observe = (\<lambda>u w. (Inr exited_reply, w)),
     ho_attach = (\<lambda>v w. (Inr (handle_reply v), w)), ho_stop = (\<lambda>u reason w. (Inr exited_reply, w)),
     ho_resolve_package = (\<lambda>u v w. (Inl (Foreign ''OSError''), w)),
     ho_collect = (\<lambda>u w. (Inr (JObj [(''collected'', JBool True)]), w))\<rparr>"

definition sample_fair :: fair_scheduler where
  "sample_fair = \<lparr>fs_uid_weights = [], fs_repo_weights = [], fs_uid_vruntime = [], fs_repo_vruntime = []\<rparr>"

section \<open>A process that died\<close>

text \<open>A plan of one target, submitted and reserved by a process that died before the launch.\<close>

definition unit_plan :: test_plan where
  "unit_plan = release_plan\<lparr>tp_eligible_targets := [''unit''], tp_selected_targets := [''unit''], tp_dependency_waves := [[''unit'']],
     tp_dependencies := [(''unit'', [])], tp_selection := [(''unit'', [''required-by-intent:release''])], tp_evidence_policies := []\<rparr>"

definition unit_request :: store_request where
  "unit_request = Submit (unit_plan, op_of 1, JStr ''ci'', JInt 1000, JInt 0, [])"

definition queued :: test_store where "queued = snd (attempt unit_request stage0)"
definition died :: test_store where "died = snd (attempt (Store_Samples.begin_request 2 unit_id) queued)"

definition left_behind :: execution_grant where
  "left_behind = \<lparr>eg_execution_id = execution_of unit_id, eg_target_id = unit_id, eg_run_id = run_of, eg_target_name = ''unit'',
     eg_shard_index = 0, eg_shard_count = 1, eg_generation = 1, eg_systemd_unit = unit_of 2, eg_launch_operation_id = op_of 3\<rparr>"

definition left_active :: active_execution where
  "left_active = \<lparr>ac_execution = left_behind,
     ac_handle = \<lparr>rh_execution_id = execution_of unit_id, rh_generation = 1, rh_systemd_unit = unit_of 2,
       rh_launch_operation_id = op_of 3, rh_launch_ack_id = None, rh_launch_confirmed = False\<rparr>,
     ac_run_id = run_of, ac_target_id = unit_id, ac_target_name = ''unit'', ac_terminal_committed = False\<rparr>"

definition running_observation :: runner_observation where
  "running_observation = \<lparr>ro_state = ''running'', ro_unit_inactive = False, ro_cgroup_empty = False, ro_launch_confirmed = True,
     ro_started_at = Some 150, ro_systemd_invocation_id = None, ro_result_package = None, ro_current_memory_bytes = None,
     ro_output_progress = None, ro_peak_memory_bytes = None, ro_cpu_seconds = None, ro_exit_status = None\<rparr>"

definition resting :: "test_store \<Rightarrow> json engine" where
  "resting st = \<lparr>en_store = st, en_scheduler = sample_fair, en_active = [], en_world = JNull\<rparr>"

definition some_active :: "test_store \<Rightarrow> bool" where
  "some_active st = list_ex (\<lambda>t. active_target (ta_state t)) (ts_targets st)"

definition restarted :: "test_store \<Rightarrow> (engine_error + unit) \<times> json engine" where
  "restarted st = start_engine sample_host st sample_fair JNull"

definition settled :: "test_store \<Rightarrow> (engine_error + unit) \<times> json engine" where
  "settled st = settle sample_host left_active running_observation CANCELLED ''cancelled'' (resting st)"

lemma died_run:
  "let p = attempt unit_request stage0; q = attempt (Store_Samples.begin_request 2 unit_id) (snd p) in
   fst p \<and> fst q \<and> some_active (snd q)"
  by code_simp

lemma restart_run: "let st = snd (attempt (Store_Samples.begin_request 2 unit_id) (snd (attempt unit_request stage0))) in \<not> isl (fst (restarted st))"
  by code_simp

lemma settled_run:
  "let st = snd (attempt (Store_Samples.begin_request 2 unit_id) (snd (attempt unit_request stage0))) in
   \<not> some_active (en_store (snd (settled st)))"
  by code_simp

lemmas died_facts = died_run [unfolded Let_def, folded queued_def, folded died_def]
  restart_run [unfolded Let_def, folded queued_def, folded died_def] settled_run [unfolded Let_def, folded queued_def, folded died_def]

lemma died_active: "\<exists>t \<in> set (ts_targets died). active_target (ta_state t)"
  using died_facts(1) unfolding some_active_def list_ex_iff by blast

lemma unit_plan_ok: "plan_ok unit_plan"
  by (auto simp: plan_ok_def unit_plan_def release_plan_def deps_of_def wave_index_of_def)

lemma unit_reachable: "reachable store_lib queued" "reachable store_lib died"
proof -
  have "valid_request unit_request" using unit_plan_ok by (simp add: unit_request_def)
  from attempt_step [OF _ this, of stage0] died_facts(1) have "store_step store_lib stage0 queued"
    unfolding queued_def [symmetric] by blast
  then show queued: "reachable store_lib queued"
    by (rule reachable.step [OF stage_reachable(1)])
  from attempt_step [OF _ valid_requests(2), of 2 unit_id queued] died_facts(1) have "store_step store_lib queued died"
    unfolding died_def [symmetric] by blast
  then show "reachable store_lib died" by (rule reachable.step [OF queued])
qed

lemma sample_host_lib [simp]: "ho_pylib sample_host = store_lib"
  by (simp add: sample_host_def)

lemma restarted_reachable: "reachable store_lib st \<Longrightarrow> testd_reachable sample_host (snd (restarted st))"
  unfolding restarted_def by (rule testd_reachable.started [OF _ prod.collapse [symmetric]]) simp

lemmas unit_started = unit_reachable [THEN restarted_reachable]

section \<open>Witnesses\<close>

theorem testd_store_invariant_witness:
  "reachable store_lib (en_store (snd (heartbeat sample_host (snd (restarted died))))) \<and>
   distinct (keys (en_active (snd (heartbeat sample_host (snd (restarted died))))))"
proof -
  have "testd_reachable sample_host (snd (heartbeat sample_host (snd (restarted died))))"
    by (rule testd_reachable.beat [OF unit_started(2) prod.collapse [symmetric]])
  from testd_store_invariant [OF this] show ?thesis by simp
qed


theorem settle_after_cleanup_witness:
  "en_store (snd (settled died)) \<noteq> died \<and>
   (\<exists>final. cleanup_proof sample_host left_active running_observation ''cancelled'' final)"
proof -
  have changed: "en_store (snd (settled died)) \<noteq> died" using died_facts(1,3) by metis
  moreover have "settle sample_host left_active running_observation CANCELLED ''cancelled'' (resting died) =
    (fst (settled died), snd (settled died))" by (simp add: settled_def)
  ultimately show ?thesis using settle_after_cleanup by (fastforce simp: resting_def)
qed


lemma sample_uuid: "\<forall>s. uuid_text (ho_uuid5 sample_host s) = Some (ho_uuid5 sample_host s)"
proof -
  have "uuid_text (op_of 11) = Some (op_of 11)" by code_simp
  then show ?thesis by (simp add: sample_host_def)
qed

theorem schedule_supervises_witness:
  "active_executions (en_store (snd (schedule sample_host 1 (snd (restarted queued))))) \<subseteq>
    active_executions (en_store (snd (restarted queued))) \<union> supervised (snd (schedule sample_host 1 (snd (restarted queued))))"
  by (rule schedule_supervises [OF unit_started(1) sample_uuid prod.collapse [symmetric]])

end
