(* ===== verification/Package_Laws.thy ===== *)
theory Package_Laws
  imports Result_Package
begin

text \<open>
  Laws of result packages: the scanner finds a prohibited sequence wherever the reads cut it, the
  readers return the bytes of their source, and what the validation of a package file establishes.
\<close>

section \<open>The scanner\<close>

lemma contains_suffix: "contains v t \<Longrightarrow> contains v (s @ t)"
  by (auto simp: contains_iff) (metis append.assoc)

lemma contains_prefix: "contains v s \<Longrightarrow> contains v (s @ t)"
  unfolding contains_iff by (metis append.assoc)

lemma last_bytes_suffix: "take (length a - n) a @ last_bytes n a = a"
  by (simp add: last_bytes_def)

lemma last_bytes_append: "last_bytes n (last_bytes n a @ b) = last_bytes n (a @ b)"
proof (cases "length b \<le> n")
  case True
  then show ?thesis by (cases "length a \<le> n") (simp_all add: last_bytes_def add.commute)
next
  case False
  then show ?thesis by (simp add: last_bytes_def)
qed

lemma contains_window:
  assumes "v \<noteq> []" "length v - 1 \<le> n"
  shows "contains v (a @ b) \<longleftrightarrow> contains v a \<or> contains v (last_bytes n a @ b)"
proof
  assume "contains v (a @ b)"
  then obtain x y where xy: "a @ b = x @ v @ y" by (auto simp: contains_iff)
  show "contains v a \<or> contains v (last_bytes n a @ b)"
  proof (cases "length x + length v \<le> length a")
    case True
    have "a = take (length a) (x @ v @ y)" by (metis append_eq_conv_conj xy)
    then have "a = x @ v @ take (length a - length x - length v) y" using True by simp
    then show ?thesis unfolding contains_iff by blast
  next
    case False
    then have "length a - n \<le> length x" using assms by (cases v) auto
    then have "drop (length a - n) (x @ v @ y) = drop (length a - n) x @ v @ y" by simp
    moreover have "drop (length a - n) (a @ b) = last_bytes n a @ b" by (simp add: last_bytes_def)
    ultimately show ?thesis unfolding contains_iff xy by metis
  qed
next
  assume "contains v a \<or> contains v (last_bytes n a @ b)"
  then show "contains v (a @ b)"
    using contains_prefix contains_suffix [of v "last_bytes n a @ b" "take (length a - n) a"] last_bytes_suffix [of a n]
    by (auto simp del: append_take_drop_id simp flip: append_assoc)
qed

text \<open>What the scanner searches at each read: the last bytes before it and the bytes of it.\<close>

fun samples :: "nat \<Rightarrow> string \<Rightarrow> string list \<Rightarrow> string list" where
  "samples n a [] = []"
| "samples n a (p # ps) = (last_bytes n a @ p) # samples n (a @ p) ps"

definition searched :: "bool \<Rightarrow> material_scanner \<Rightarrow> string set" where
  "searched metadata s = set (sc_exact s) \<union> (if metadata then set (sc_metadata_only s) else {})"

lemma scan_Inr:
  "scan metadata p s = Inr s' \<longleftrightarrow> \<not> secret_material (sc_tail s @ p) \<and> (\<forall>v \<in> searched metadata s. \<not> contains v (sc_tail s @ p)) \<and>
     s' = s\<lparr>sc_tail := last_bytes (sc_overlap s) (sc_tail s @ p)\<rparr>"
  by (auto simp: scan_def searched_def Let_def list_ex_iff)

lemma scan_fold:
  assumes "sc_tail s = last_bytes (sc_overlap s) a" "\<forall>v \<in> searched metadata s. v \<noteq> [] \<and> length v - 1 \<le> sc_overlap s \<and> \<not> contains v a"
  shows "(\<exists>s'. foldE (scan metadata) ps s = Inr s') \<longleftrightarrow> (\<forall>v \<in> searched metadata s. \<not> contains v (a @ concat ps)) \<and>
     (\<forall>w \<in> set (samples (sc_overlap s) a ps). \<not> secret_material w)"
  using assms
proof (induction ps arbitrary: s a)
  case (Cons p ps)
  let ?n = "sc_overlap s"
  have win: "contains v (a @ p) \<longleftrightarrow> contains v (last_bytes ?n a @ p)" if "v \<in> searched metadata s" for v
    using contains_window [of v ?n a p] Cons.prems(2) that by blast
  show ?case
  proof (cases "scan metadata p s")
    case (Inl err)
    then have "secret_material (last_bytes ?n a @ p) \<or> (\<exists>v \<in> searched metadata s. contains v (a @ p))"
      using scan_Inr [of metadata p s] win Cons.prems(1) by auto
    then show ?thesis using Inl contains_prefix [of _ "a @ p" "concat ps"] by auto
  next
    case (Inr s')
    then have s': "s' = s\<lparr>sc_tail := last_bytes ?n (a @ p)\<rparr>" "\<not> secret_material (last_bytes ?n a @ p)"
      "\<forall>v \<in> searched metadata s. \<not> contains v (a @ p)"
      using scan_Inr [of metadata p s s'] win Cons.prems(1) by (auto simp: last_bytes_append)
    have "searched metadata s' = searched metadata s" using s'(1) by (simp add: searched_def)
    then show ?thesis using Cons.IH [of s' "a @ p"] Inr s' Cons.prems(2) by simp
  qed
qed simp

lemma add_sequence_Inr: "add_sequence field v (result, n) = Inr x \<Longrightarrow> v \<noteq> [] \<and> x = (v # result, n + length v)"
  by (simp add: add_sequence_def bindE_Inr_iff)

lemma add_sequences_Inr:
  "foldE (add_sequence field) vs acc = Inr acc' \<Longrightarrow> set (fst acc') = set vs \<union> set (fst acc) \<and> (\<forall>v \<in> set vs. v \<noteq> [])"
proof (induction vs arbitrary: acc)
  case (Cons v vs)
  then obtain x where x: "add_sequence field v acc = Inr x" "foldE (add_sequence field) vs x = Inr acc'"
    by (auto simp: bindE_Inr_iff)
  have "v \<noteq> []" "fst x = v # fst acc" using add_sequence_Inr [of field v "fst acc" "snd acc" x] x(1) by simp_all
  then show ?case using Cons.IH [OF x(2)] by simp
qed simp

lemma normalize_sequences_Inr:
  assumes "normalize_sequences field vs = Inr sequences"
  shows "set sequences = set vs" "\<forall>v \<in> set vs. v \<noteq> []"
proof -
  obtain acc where acc: "foldE (add_sequence field) vs ([], 0) = Inr acc"
    "sequences = sort_key (\<lambda>s. - int (length s)) (sorted_set (fst acc))"
    using assms unfolding normalize_sequences_def by (elim bindE_InrE) (simp add: case_prod_beta)
  show "set sequences = set vs" "\<forall>v \<in> set vs. v \<noteq> []" using add_sequences_Inr [OF acc(1)] acc(2) by simp_all
qed

lemma fold_max_ge: "(x :: nat) \<in> set xs \<or> x \<le> a \<Longrightarrow> x \<le> fold max xs a"
proof (induction xs arbitrary: a)
  case (Cons y xs)
  then have "x \<in> set xs \<or> x \<le> max y a" by (simp only: le_max_iff_disj set_simps insert_iff) blast
  then show ?case using Cons.IH [of "max y a"] by simp
qed simp

lemma new_scanner_overlap: "v \<in> set exact \<union> set metadata \<Longrightarrow> length v - 1 \<le> sc_overlap (new_scanner exact metadata)"
proof -
  assume "v \<in> set exact \<union> set metadata"
  then have "length v - 1 \<in> set (map (\<lambda>v. length v - 1) (exact @ metadata))" by auto
  then show ?thesis unfolding new_scanner_def by (simp add: fold_max_ge le_max_iff_disj del: map_append set_map)
qed

text \<open>
  C16. The secret scanner works over any cut of its input into reads: it accepts a stream exactly when
  no prohibited sequence (and, for metadata, no prohibited metadata sequence) occurs anywhere in the
  whole stream, also across reads, and no read together with the retained bytes before it matches one
  of the secret patterns.
\<close>
theorem scan_exact:
  assumes "normalize_sequences f1 prohibited = Inr exact" and "normalize_sequences f2 prohibited_metadata = Inr metadata_only"
  shows "(\<exists>s. foldE (scan metadata) payloads (new_scanner exact metadata_only) = Inr s) \<longleftrightarrow>
    (\<forall>v \<in> set prohibited \<union> (if metadata then set prohibited_metadata else {}). \<not> contains v (concat payloads)) \<and>
    (\<forall>w \<in> set (samples (sc_overlap (new_scanner exact metadata_only)) [] payloads). \<not> secret_material w)"
proof -
  let ?s = "new_scanner exact metadata_only"
  note seqs = normalize_sequences_Inr [OF assms(1)] normalize_sequences_Inr [OF assms(2)]
  have searched: "searched metadata ?s = set prohibited \<union> (if metadata then set prohibited_metadata else {})"
    using seqs by (simp add: searched_def new_scanner_def)
  have "v \<noteq> [] \<and> length v - 1 \<le> sc_overlap ?s \<and> \<not> contains v []" if "v \<in> searched metadata ?s" for v
    using that seqs new_scanner_overlap [of v exact metadata_only] unfolding searched by (auto split: if_splits)
  moreover have "sc_tail ?s = last_bytes (sc_overlap ?s) []" by (simp add: new_scanner_def last_bytes_def)
  ultimately show ?thesis using scan_fold [of ?s "[]" metadata payloads] unfolding searched by simp
qed

section \<open>Readers\<close>

lemma concat_read_lines [simp]: "concat (read_lines n s) = s"
  by (induction n s rule: read_lines.induct) (auto split: prod.splits if_splits dest: read_line_append)

lemma concat_read_chunks [simp]: "concat (read_chunks n s) = s"
  by (induction n s rule: read_chunks.induct) auto

lemma concat_length: "sum_list (map length xs) = length (concat xs)"
  by (simp add: length_concat)

definition load_record :: "package_lib \<Rightarrow> (json \<Rightarrow> package_error + 'r) \<Rightarrow> string \<Rightarrow> package_error + 'r" where
  "load_record P check payload =
     bindE (case pl_loads P payload of None \<Rightarrow> refuse ''result package record JSON is invalid'' | Some v \<Rightarrow> Inr v) check"

definition framed :: "string \<Rightarrow> bool" where
  "framed payload \<longleftrightarrow> length payload \<le> max_record_line_bytes \<and> ends_with [CHR 0x0A] payload"

lemma read_record_Inr:
  assumes "read_record P check consumer expected payload r = Inr r'"
  obtains x where "framed payload" "load_record P check payload = Inr x" "consumer x (rd_state r) = Inr (rd_state r')"
    "scan True payload (rd_scanner r) = Inr (rd_scanner r')" "rd_observed r' = rd_observed r + length payload"
    "rd_records r' = rd_records r + 1"
  using assms unfolding read_record_def
  by (elim bindE_InrE) (auto simp: framed_def load_record_def split: option.splits)

lemma read_records_Inr:
  "foldE (read_record P check consumer expected) ps r = Inr r' \<Longrightarrow>
     \<exists>xs. list_all framed ps \<and> mapE (load_record P check) ps = Inr xs \<and> foldE consumer xs (rd_state r) = Inr (rd_state r') \<and>
       foldE (scan True) ps (rd_scanner r) = Inr (rd_scanner r') \<and> rd_observed r' = rd_observed r + length (concat ps) \<and>
       rd_records r' = rd_records r + length xs"
proof (induction ps arbitrary: r)
  case (Cons p ps)
  then obtain r1 where r1: "read_record P check consumer expected p r = Inr r1" "foldE (read_record P check consumer expected) ps r1 = Inr r'"
    by (auto simp: bindE_Inr_iff)
  obtain x where x: "framed p" "load_record P check p = Inr x" "consumer x (rd_state r) = Inr (rd_state r1)"
    "scan True p (rd_scanner r) = Inr (rd_scanner r1)" "rd_observed r1 = rd_observed r + length p" "rd_records r1 = rd_records r + 1"
    using read_record_Inr [OF r1(1)] .
  then obtain xs where "list_all framed ps" "mapE (load_record P check) ps = Inr xs" "foldE consumer xs (rd_state r1) = Inr (rd_state r')"
    "foldE (scan True) ps (rd_scanner r1) = Inr (rd_scanner r')" "rd_observed r' = rd_observed r1 + length (concat ps)"
    "rd_records r' = rd_records r1 + length xs"
    using Cons.IH [OF r1(2)] by blast
  then show ?case using x by (intro exI [of _ "x # xs"]) simp
qed simp

lemma scanned_clean:
  assumes "normalize_sequences f1 prohibited = Inr exact" "normalize_sequences f2 prohibited_metadata = Inr metadata_only"
    and "foldE (scan metadata) payloads (new_scanner exact metadata_only) = Inr s"
    and "v \<in> set prohibited \<or> metadata \<and> v \<in> set prohibited_metadata"
  shows "\<not> contains v (concat payloads)"
proof -
  let ?s = "new_scanner exact metadata_only"
  note seqs = normalize_sequences_Inr [OF assms(1)] normalize_sequences_Inr [OF assms(2)]
  have "w \<noteq> [] \<and> length w - 1 \<le> sc_overlap ?s \<and> \<not> contains w []" if "w \<in> searched metadata ?s" for w
    using that seqs new_scanner_overlap [of w exact metadata_only] by (auto simp: searched_def new_scanner_def split: if_splits)
  moreover have "sc_tail ?s = last_bytes (sc_overlap ?s) []" by (simp add: new_scanner_def last_bytes_def)
  moreover have "v \<in> searched metadata ?s" using assms(4) seqs by (auto simp: searched_def new_scanner_def)
  ultimately show ?thesis using scan_fold [of ?s "[]" metadata payloads] assms(3) by auto
qed

section \<open>Records\<close>

definition case_fine :: "package_case \<Rightarrow> bool" where
  "case_fine c \<longleftrightarrow> nc_case_id c \<noteq> [] \<and> length (nc_case_id c) \<le> 1024 \<and> CHR 0x00 \<notin> set (nc_case_id c) \<and>
     nc_display_name c \<noteq> [] \<and> length (nc_display_name c) \<le> 4096 \<and> CHR 0x00 \<notin> set (nc_display_name c) \<and>
     nc_status c \<in> set package_case_states \<and> 0 \<le> nc_duration_seconds c \<and>
     (\<forall>s. nc_location c = Some s \<longrightarrow> s \<noteq> [] \<and> length s \<le> 4096 \<and> CHR 0x00 \<notin> set s)"

definition failure_fine :: "package_failure \<Rightarrow> bool" where
  "failure_fine f \<longleftrightarrow> safe_id_re (nf_failure_id f) \<and> nf_classification f \<in> set package_classifications \<and>
     nf_message f \<noteq> [] \<and> length (nf_message f) \<le> 8192 \<and> CHR 0x00 \<notin> set (nf_message f) \<and>
     (\<forall>s. nf_case_id f = Some s \<longrightarrow> s \<noteq> [] \<and> length s \<le> 1024 \<and> CHR 0x00 \<notin> set s) \<and>
     (\<forall>s. nf_location f = Some s \<longrightarrow> s \<noteq> [] \<and> length s \<le> 4096 \<and> CHR 0x00 \<notin> set s) \<and>
     (\<forall>s. nf_artifact_id f = Some s \<longrightarrow> safe_id_re s)"

lemma package_text_Inr:
  "package_text field n v = Inr s \<longleftrightarrow> v = JStr s \<and> s \<noteq> [] \<and> length s \<le> n \<and> CHR 0x00 \<notin> set s"
  by (cases v) (auto simp: package_text_def)

lemma package_safe_id_Inr: "package_safe_id field v = Inr s \<longleftrightarrow> v = JStr s \<and> safe_id_re s"
  by (cases v) (auto simp: package_safe_id_def)

lemma package_sha256_Inr: "package_sha256 field v = Inr s \<longleftrightarrow> v = JStr s \<and> is_sha256 s"
  by (cases v) (auto simp: package_sha256_def)

lemma package_optional_Inr: "package_optional f v = Inr x \<longleftrightarrow> v = JNull \<and> x = None \<or> v \<noteq> JNull \<and> (\<exists>y. f v = Inr y \<and> x = Some y)"
  by (auto simp: package_optional_def bindE_Inr_iff)

lemma member_of_Inr: "member_of message options v = Inr s \<Longrightarrow> s \<in> set options"
  by (cases v) (auto simp: member_of_def split: if_splits)

lemma package_float_nonneg: "package_float field v = Inr x \<Longrightarrow> 0 \<le> x"
  by (cases v) (auto simp: package_float_def fl64_nonneg split: if_splits)

lemma package_text_ok: "package_text field n v = Inr s \<Longrightarrow> s \<noteq> [] \<and> length s \<le> n \<and> CHR 0x00 \<notin> set s"
  by (simp add: package_text_Inr)

lemma package_optional_text_ok:
  "package_optional (package_text field n) v = Inr x \<Longrightarrow> \<forall>s. x = Some s \<longrightarrow> s \<noteq> [] \<and> length s \<le> n \<and> CHR 0x00 \<notin> set s"
  by (auto simp: package_optional_Inr package_text_Inr)

lemma package_optional_id_ok: "package_optional (package_safe_id field) v = Inr x \<Longrightarrow> \<forall>s. x = Some s \<longrightarrow> safe_id_re s"
  by (auto simp: package_optional_Inr package_safe_id_Inr)

lemma normalize_case_fine:
  assumes "normalize_case v = Inr c"
  shows "case_fine c"
proof -
  obtain d status location case_id display duration where
    "member_of ''result package case status is invalid'' package_case_states (td_get d ''status'') = Inr status"
    "package_optional (package_text ''case location'' 4096) (td_get d ''location'') = Inr location"
    "package_text ''case_id'' 1024 (td_get d ''case_id'') = Inr case_id"
    "package_text ''case display_name'' 4096 (td_get d ''display_name'') = Inr display"
    "package_float ''case duration_seconds'' (td_get d ''duration_seconds'') = Inr duration"
    "c = \<lparr>nc_case_id = case_id, nc_display_name = display, nc_status = status, nc_duration_seconds = duration, nc_location = location\<rparr>"
    using assms unfolding normalize_case_def by (elim bindE_InrE) (simp only: sum.inject)
  then show ?thesis
    using member_of_Inr package_optional_text_ok package_text_ok package_float_nonneg unfolding case_fine_def
    by (metis package_case.select_convs)
qed

lemma normalize_failure_fine:
  assumes "normalize_failure v = Inr f"
  shows "failure_fine f"
proof -
  obtain d classification case_id artifact_id location failure_id message where
    "member_of ''result package failure classification is invalid'' package_classifications (td_get d ''classification'') = Inr classification"
    "package_optional (package_text ''failure case_id'' 1024) (td_get d ''case_id'') = Inr case_id"
    "package_optional (package_safe_id ''failure artifact_id'') (td_get d ''artifact_id'') = Inr artifact_id"
    "package_optional (package_text ''failure location'' 4096) (td_get d ''location'') = Inr location"
    "package_safe_id ''failure_id'' (td_get d ''failure_id'') = Inr failure_id"
    "package_text ''failure message'' 8192 (td_get d ''message'') = Inr message"
    "f = \<lparr>nf_failure_id = failure_id, nf_classification = classification, nf_message = message, nf_case_id = case_id,
       nf_location = location, nf_artifact_id = artifact_id\<rparr>"
    using assms unfolding normalize_failure_def by (elim bindE_InrE) (simp only: sum.inject)
  then show ?thesis
    using member_of_Inr package_optional_text_ok package_optional_id_ok package_text_ok package_safe_id_Inr unfolding failure_fine_def
    by (metis package_failure.select_convs)
qed

section \<open>Members\<close>

definition failing_case :: "package_case \<Rightarrow> bool" where
  "failing_case c \<longleftrightarrow> nc_status c = ''failed'' \<or> nc_status c = ''error''"

lemma consume_case_Inr:
  "consume_case c s = Inr s' \<longleftrightarrow> nc_case_id c \<notin> set (se_case_ids s) \<and>
     s' = s\<lparr>se_case_ids := se_case_ids s @ [nc_case_id c],
       se_failed_case_ids := se_failed_case_ids s @ map nc_case_id (filter failing_case [c])\<rparr>"
  by (auto simp: consume_case_def bindE_Inr_iff failing_case_def)

lemma consume_cases_Inr:
  "foldE consume_case cs s = Inr s' \<Longrightarrow> distinct (se_case_ids s) \<Longrightarrow> distinct (se_case_ids s') \<and>
     s' = s\<lparr>se_case_ids := se_case_ids s @ map nc_case_id cs,
       se_failed_case_ids := se_failed_case_ids s @ map nc_case_id (filter failing_case cs)\<rparr>"
proof (induction cs arbitrary: s)
  case (Cons c cs)
  then obtain s1 where s1: "consume_case c s = Inr s1" "foldE consume_case cs s1 = Inr s'" by (auto simp: bindE_Inr_iff)
  then have "distinct (se_case_ids s1)" using Cons.prems(2) by (auto simp: consume_case_Inr)
  note IH = Cons.IH [OF s1(2) this]
  then show ?case using s1(1) unfolding consume_case_Inr by (intro conjI) (blast, simp)
qed simp

definition bound_failure :: "string set \<Rightarrow> string set \<Rightarrow> package_failure \<Rightarrow> bool" where
  "bound_failure case_ids artifact_ids f \<longleftrightarrow>
     (\<forall>c. nf_case_id f = Some c \<longrightarrow> c \<in> case_ids) \<and> (\<forall>a. nf_artifact_id f = Some a \<longrightarrow> a \<in> artifact_ids)"

lemma consume_failure_Inr:
  "consume_failure arts f s = Inr s' \<longleftrightarrow> nf_failure_id f \<notin> set (se_failure_ids s) \<and>
     bound_failure (set (se_case_ids s)) (set arts) f \<and>
     s' = s\<lparr>se_failure_ids := se_failure_ids s @ [nf_failure_id f],
       se_failure_case_ids := se_failure_case_ids s @ List.map_filter nf_case_id [f]\<rparr>"
  by (auto simp: consume_failure_def bindE_Inr_iff bound_failure_def List.map_filter_def split: option.splits)

lemma consume_failures_Inr:
  "foldE (consume_failure arts) fs s = Inr s' \<Longrightarrow> distinct (se_failure_ids s) \<Longrightarrow> distinct (se_failure_ids s') \<and>
     list_all (bound_failure (set (se_case_ids s)) (set arts)) fs \<and>
     s' = s\<lparr>se_failure_ids := se_failure_ids s @ map nf_failure_id fs,
       se_failure_case_ids := se_failure_case_ids s @ List.map_filter nf_case_id fs\<rparr>"
proof (induction fs arbitrary: s)
  case Nil
  then show ?case by (simp add: List.map_filter_def)
next
  case (Cons f fs)
  then obtain s1 where s1: "consume_failure arts f s = Inr s1" "foldE (consume_failure arts) fs s1 = Inr s'" by (auto simp: bindE_Inr_iff)
  then have "distinct (se_failure_ids s1)" using Cons.prems(2) by (auto simp: consume_failure_Inr)
  note IH = Cons.IH [OF s1(2) this]
  then show ?case using s1(1) unfolding consume_failure_Inr by (intro conjI) (blast, simp, simp add: List.map_filter_def)
qed

definition records_of :: "package_lib \<Rightarrow> (json \<Rightarrow> package_error + 'r) \<Rightarrow> tar_member \<Rightarrow> package_error + 'r list" where
  "records_of P check m = mapE (load_record P check) (read_lines (max_record_line_bytes + 1) (tm_payload m))"

definition member_agrees :: "package_lib \<Rightarrow> string \<Rightarrow> int \<Rightarrow> string \<Rightarrow> tar_member \<Rightarrow> bool" where
  "member_agrees P name n digest m \<longleftrightarrow>
     safe_header name m \<and> int (length (tm_payload m)) = n \<and> pl_sha256 P (tm_payload m) = digest"

definition clean :: "string list \<Rightarrow> tar_member \<Rightarrow> bool" where
  "clean sequences m \<longleftrightarrow> (\<forall>v \<in> set sequences. \<not> contains v (tm_payload m))"

lemma validate_record_member_Inr:
  assumes "validate_record_member P check consumer expected exact metadata_only m s = Inr s'"
    and "normalize_sequences f1 prohibited = Inr exact" "normalize_sequences f2 prohibited_metadata = Inr metadata_only"
  obtains xs where "records_of P check m = Inr xs" "foldE consumer xs s = Inr s'" "int (length xs) = rm_records expected"
    "member_agrees P (rm_name expected) (rm_size_bytes expected) (rm_sha256 expected) m"
    "list_all framed (read_lines (max_record_line_bytes + 1) (tm_payload m))" "clean (prohibited @ prohibited_metadata) m"
proof -
  let ?lines = "read_lines (max_record_line_bytes + 1) (tm_payload m)"
  let ?r0 = "\<lparr>rd_observed = 0, rd_records = 0, rd_scanner = new_scanner exact metadata_only, rd_state = s\<rparr>"
  obtain r where header: "safe_header (rm_name expected) m" and size_ok: "int (length (tm_payload m)) = rm_size_bytes expected"
    and run: "foldE (read_record P check consumer expected) ?lines ?r0 = Inr r"
    and count: "int (rd_records r) = rm_records expected" and s': "rd_state r = s'"
    and digest: "pl_sha256 P (tm_payload m) = rm_sha256 expected"
    using assms(1) unfolding validate_record_member_def read_record_member_def validate_header_def
    by (elim bindE_InrE) (auto elim!: bindE_InrE)
  obtain xs where xs: "list_all framed ?lines" "mapE (load_record P check) ?lines = Inr xs" "foldE consumer xs s = Inr s'"
    "foldE (scan True) ?lines (new_scanner exact metadata_only) = Inr (rd_scanner r)" "rd_records r = length xs"
    using read_records_Inr [OF run] s' by auto
  have "clean (prohibited @ prohibited_metadata) m"
    using scanned_clean [OF assms(2,3) xs(4)] by (auto simp: clean_def)
  then show ?thesis using that [of xs] xs count digest header size_ok by (simp add: records_of_def member_agrees_def)
qed

lemma read_artifact_chunks_Inr:
  "foldE (read_artifact_chunk a) ps (n, s) = Inr (n', s') \<Longrightarrow> foldE (scan False) ps s = Inr s'"
proof (induction ps arbitrary: n s)
  case (Cons p ps)
  then obtain acc where acc: "read_artifact_chunk a p (n, s) = Inr acc" "foldE (read_artifact_chunk a) ps acc = Inr (n', s')"
    by (auto simp: bindE_Inr_iff)
  then obtain s1 where "acc = (n + length p, s1)" "scan False p s = Inr s1" by (auto simp: read_artifact_chunk_def bindE_Inr_iff)
  then show ?case using Cons.IH acc(2) by simp
qed simp

lemma validate_artifact_Inr:
  assumes "validate_artifact P ended exact a ms = Inr rest" and "normalize_sequences f1 prohibited = Inr exact"
  obtains m where "ms = m # rest" "member_agrees P (ae_member_name a) (ae_size_bytes a) (ae_sha256 a) m" "clean prohibited m"
proof -
  obtain m s n where ms: "ms = m # rest" and agree: "member_agrees P (ae_member_name a) (ae_size_bytes a) (ae_sha256 a) m"
    and run: "foldE (read_artifact_chunk a) (read_chunks (1024 * 1024) (tm_payload m)) (0, new_scanner exact []) = Inr (n, s)"
    using assms(1) unfolding validate_artifact_def validate_header_def next_member_def member_agrees_def
    by (elim bindE_InrE) (auto elim!: bindE_InrE split: list.splits if_splits)
  have "normalize_sequences f2 [] = Inr []" for f2 by (simp add: normalize_sequences_def ensure_def sorted_set_def)
  from scanned_clean [OF assms(2) this read_artifact_chunks_Inr [OF run]] have "clean prohibited m" by (simp add: clean_def)
  then show ?thesis using that ms agree by blast
qed

lemma validate_artifacts_Inr:
  "foldE (validate_artifact P ended exact) as ms = Inr rest \<Longrightarrow> normalize_sequences f1 prohibited = Inr exact \<Longrightarrow>
     \<exists>ams. ms = ams @ rest \<and> list_all2 (\<lambda>a. member_agrees P (ae_member_name a) (ae_size_bytes a) (ae_sha256 a)) as ams \<and>
       list_all (clean prohibited) ams"
proof (induction "as" arbitrary: ms)
  case (Cons a as)
  then obtain mid where mid: "validate_artifact P ended exact a ms = Inr mid" "foldE (validate_artifact P ended exact) as mid = Inr rest"
    by (auto simp: bindE_Inr_iff)
  obtain m where m: "ms = m # mid" "member_agrees P (ae_member_name a) (ae_size_bytes a) (ae_sha256 a) m" "clean prohibited m"
    using validate_artifact_Inr [OF mid(1) Cons.prems(2)] .
  obtain ams where "mid = ams @ rest" "list_all2 (\<lambda>a. member_agrees P (ae_member_name a) (ae_size_bytes a) (ae_sha256 a)) as ams"
    "list_all (clean prohibited) ams" using Cons.IH [OF mid(2) Cons.prems(2)] by blast
  then show ?case using m by (intro exI [of _ "m # ams"]) simp
qed simp

end
