(* ===== verification/Broker_Package.thy ===== *)
theory Broker_Package
  imports Result_Package
begin

text \<open>
  How testd sees result packages through the broker (\<open>universal_test_broker.py\<close>): the projection of the
  metadata of a status reply (\<open>_v8_package_projection\<close>) and the resolution of a package to the records
  that testd completes an execution from (\<open>resolve_package\<close>).
\<close>

definition projection_fields :: "string list" where
  "projection_fields = [''schema_version'', ''package_id'', ''storage_handle'', ''sha256'', ''size_bytes'', ''manifest_sha256'',
     ''identity'', ''manifest'', ''outcome'', ''counts'']"

text \<open>\<open>counts.get(name, default)\<close>.\<close>

definition count_item :: "json dict \<Rightarrow> string \<Rightarrow> json \<Rightarrow> json" where
  "count_item d k otherwise = (case map_of d k of Some v \<Rightarrow> v | None \<Rightarrow> otherwise)"

definition projected_counts :: "json dict \<Rightarrow> json dict" where
  "projected_counts counts =
     [(''passed'', count_item counts ''passed'' (JInt 0)), (''failed'', count_item counts ''failed'' (JInt 0)),
      (''skipped'', count_item counts ''skipped'' (JInt 0)),
      (''error'', count_item counts ''errors'' (count_item counts ''error'' (JInt 0))),
      (''failures'', count_item counts ''failures'' (JInt 0)), (''artifacts'', count_item counts ''artifacts'' (JInt 0))]"

text \<open>
  The second component is the value whose \<open>str(..)\<close> the context keeps as its storage handle; of all
  JSON values only a text prints as the handle that \<open>resolve_package\<close> expects.
\<close>

definition v8_package_projection :: "json \<Rightarrow> store_error + (json \<times> json) option" where
  "v8_package_projection raw =
     (let bad = ''broker result package metadata is invalid'' in
      case raw of
        JNull \<Rightarrow> Inr None
      | JObj d \<Rightarrow>
          bindE (ensure (set (keys d) = set projection_fields) (StoreContractError bad)) (\<lambda>_.
          (case (td_get d ''counts'', td_get d ''outcome'', td_get d ''manifest'') of
             (JObj counts, JObj outcome, JObj manifest) \<Rightarrow>
               bindE (case td_get outcome ''reporter_complete'' of JBool b \<Rightarrow> Inr b
                 | _ \<Rightarrow> Inl (StoreContractError ''broker result package completeness is invalid'')) (\<lambda>reporter_complete.
               bindE (ensure (list_all (\<lambda>(_, v). case v of JInt n \<Rightarrow> 0 \<le> n | _ \<Rightarrow> False) (projected_counts counts))
                 (StoreContractError ''broker result package counts are invalid'')) (\<lambda>_.
               Inr (Some (JObj [(''package_id'', td_get d ''package_id''), (''sha256'', td_get d ''sha256''),
                 (''size_bytes'', td_get d ''size_bytes''),
                 (''manifest'', JObj (dict_put ''reporter_complete'' (JBool reporter_complete) manifest)),
                 (''outcome'', JObj outcome), (''counts'', JObj (projected_counts counts))],
                 td_get d ''storage_handle''))))
           | _ \<Rightarrow> Inl (StoreContractError bad)))
      | _ \<Rightarrow> Inl (StoreContractError bad))"

section \<open>Resolution\<close>

definition package_case_document :: "package_case \<Rightarrow> json" where
  "package_case_document c = JObj
     [(''case_id'', JStr (nc_case_id c)), (''display_name'', JStr (nc_display_name c)), (''status'', JStr (nc_status c)),
      (''duration_seconds'', JFloat (nc_duration_seconds c)), (''location'', jopt JStr (nc_location c))]"

definition package_failure_document :: "package_failure \<Rightarrow> json" where
  "package_failure_document f = JObj
     [(''failure_id'', JStr (nf_failure_id f)), (''classification'', JStr (nf_classification f)),
      (''message'', JStr (nf_message f)), (''case_id'', jopt JStr (nf_case_id f)), (''location'', jopt JStr (nf_location f)),
      (''artifact_id'', jopt JStr (nf_artifact_id f))]"

definition artifact_entry_document :: "artifact_entry \<Rightarrow> json" where
  "artifact_entry_document a = JObj
     [(''artifact_id'', JStr (ae_artifact_id a)), (''kind'', JStr (ae_kind a)),
      (''storage_handle'', JStr (ae_storage_handle a)), (''sha256'', JStr (ae_sha256 a)),
      (''size_bytes'', JInt (ae_size_bytes a)), (''verified'', JBool True)]"

text \<open>\<open>except ResultPackageError as error: raise TestStoreConflict(..)\<close>.\<close>

definition unavailable :: "package_error + 'a \<Rightarrow> store_error + 'a" where
  "unavailable r =
     (case r of Inr x \<Rightarrow> Inr x
      | Inl (ResultPackageError _) \<Rightarrow> Inl (StoreConflict ''verified result package is unavailable'')
      | Inl (PackageInternalError k) \<Rightarrow> Inl (StoreInternalError k))"

definition read_package ::
  "package_lib \<Rightarrow> package_file option \<Rightarrow> string \<Rightarrow> package_error + validated_package \<times> package_case list \<times> package_failure list" where
  "read_package P path digest =
     bindE (validate_result_package P path None (Some (JStr digest)) [] []) (\<lambda>package.
     bindE (iter_records P path normalize_case (pm_cases (vp_manifest package))) (\<lambda>cases.
     bindE (iter_records P path normalize_failure (pm_failures (vp_manifest package))) (\<lambda>failures.
     Inr (package, cases, failures))))"

definition resolution_document :: "validated_package \<Rightarrow> package_case list \<Rightarrow> package_failure list \<Rightarrow> json" where
  "resolution_document package cases failures = JObj
     [(''package_id'', JStr (ev_package_id (vp_evidence package))),
      (''cases'', JArr (map package_case_document cases)), (''failures'', JArr (map package_failure_document failures)),
      (''artifacts'', JArr (map artifact_entry_document (pm_artifacts (vp_manifest package)))),
      (''reporter_complete'', JBool (po_reporter_complete (pm_outcome (vp_manifest package))))]"

text \<open>\<open>resolve_package\<close> on the handle that the last observation retained and the files of the package root.\<close>

definition resolve_package ::
  "package_lib \<Rightarrow> json option \<Rightarrow> (string \<Rightarrow> package_file option) \<Rightarrow> runner_result_package \<Rightarrow> store_error + json" where
  "resolve_package P storage_handle files metadata =
     (let package_id = rp_package_id metadata; digest = rp_sha256 metadata in
      bindE (ensure (storage_handle = Some (JStr (''test-result-package://'' @ package_id @ ''/'' @ digest)))
        (StoreConflict ''result package storage binding changed'')) (\<lambda>_.
      bindE (unavailable (read_package P (files (package_id @ ''-'' @ digest @ ''.tar'')) digest)) (\<lambda>(package, cases, failures).
      Inr (resolution_document package cases failures))))"

end
