(* ===== verification/Package_Properties.thy ===== *)
theory Package_Properties
  imports Package_Laws Broker_Package
begin

text \<open>
  What a validated result package guarantees, and which validated packages the store accepts once the
  broker has resolved them and testd has decoded them.
\<close>

section \<open>Manifests\<close>

definition artifact_fine :: "artifact_entry \<Rightarrow> bool" where
  "artifact_fine a \<longleftrightarrow> safe_id_re (ae_artifact_id a) \<and> ae_kind a \<in> set artifact_kinds \<and> is_sha256 (ae_sha256 a) \<and>
     artifact_id_re (ae_artifact_id a) \<and>
     artifact_handle (ae_storage_handle a) = Some (ae_artifact_id a, ae_sha256 a) \<and>
     0 \<le> ae_size_bytes a \<and> ae_size_bytes a \<le> int max_artifact_bytes"

lemma decode_artifact_entry_fine:
  assumes "decode_artifact_entry v = Inr a"
  shows "artifact_fine a"
proof -
  obtain d artifact_id digest kind where
    "package_safe_id ''artifact_id'' (td_get d ''artifact_id'') = Inr artifact_id"
    "package_sha256 ''artifact sha256'' (td_get d ''sha256'') = Inr digest"
    "artifact_id_re artifact_id"
    "member_of ''result package artifact manifest is invalid'' artifact_kinds (td_get d ''kind'') = Inr kind"
    and rest: "(case (td_get d ''storage_handle'', td_get d ''size_bytes'') of
       (JStr handle, JInt n) \<Rightarrow>
         if artifact_handle handle = Some (artifact_id, digest) \<and>
           td_get d ''member_name'' = JStr (''artifacts/'' @ artifact_id @ ''.blob'') \<and>
           0 \<le> n \<and> n \<le> int max_artifact_bytes \<and> td_get d ''verified'' = JBool True
         then Inr \<lparr>ae_artifact_id = artifact_id, ae_kind = kind, ae_storage_handle = handle, ae_sha256 = digest,
           ae_size_bytes = n, ae_member_name = ''artifacts/'' @ artifact_id @ ''.blob''\<rparr>
         else refuse ''result package artifact manifest is invalid''
     | _ \<Rightarrow> refuse ''result package artifact manifest is invalid'') = Inr a"
    using assms unfolding decode_artifact_entry_def by (elim bindE_InrE) (simp only: ensure_Inr_iff)
  moreover have "safe_id_re artifact_id" "is_sha256 digest" "kind \<in> set artifact_kinds"
    using calculation by (auto simp: package_safe_id_Inr package_sha256_Inr dest: member_of_Inr)
  ultimately show ?thesis by (auto simp: artifact_fine_def split: json.splits if_splits)
qed

lemma decode_record_manifest_Inr:
  assumes "decode_record_manifest kind n v = Inr r"
  shows "rm_name r = kind @ ''.ndjson'' \<and> rm_records r = n"
proof -
  obtain x where "(\<lambda>(k, sha). bindE (package_sha256 (kind @ '' sha256'') sha) (\<lambda>digest.
     Inr \<lparr>rm_name = kind @ ''.ndjson'', rm_records = n, rm_size_bytes = k, rm_sha256 = digest\<rparr>)) x = Inr r"
    using assms unfolding decode_record_manifest_def by (elim bindE_InrE) blast
  then show ?thesis by (cases x) (auto simp: bindE_Inr_iff)
qed

lemma decode_counts_Inr:
  assumes "decode_counts v = Inr counts"
  shows "package_counted counts ''cases'' \<le> int max_package_cases" "package_counted counts ''failures'' \<le> int max_package_failures"
    "package_counted counts ''artifacts'' \<le> int max_package_artifacts"
proof -
  obtain d where d: "set (keys d) = set package_count_fields" "counts = map (\<lambda>(k, _). (k, count_field d k)) d"
    and bounds: "count_field d ''cases'' \<le> int max_package_cases" "count_field d ''failures'' \<le> int max_package_failures"
      "count_field d ''artifacts'' \<le> int max_package_artifacts"
    using assms unfolding decode_counts_def by (cases v) (simp_all split: if_splits)
  have "map_of (map (\<lambda>(k, _). (k, f k)) d) k = Some (f k)" if "k \<in> set (keys d)" for f :: "string \<Rightarrow> int" and k
    using that by (induction d) auto
  then have "package_counted counts k = count_field d k" if "k \<in> set package_count_fields" for k
    using that d by (simp add: package_counted_def)
  then show "package_counted counts ''cases'' \<le> int max_package_cases" "package_counted counts ''failures'' \<le> int max_package_failures"
    "package_counted counts ''artifacts'' \<le> int max_package_artifacts"
    using bounds by (simp_all add: package_count_fields_def)
qed

definition manifest_fine :: "package_manifest \<Rightarrow> bool" where
  "manifest_fine m \<longleftrightarrow> rm_name (pm_cases m) = ''cases.ndjson'' \<and> rm_name (pm_failures m) = ''failures.ndjson'' \<and>
     rm_records (pm_cases m) = package_counted (pm_counts m) ''cases'' \<and> rm_records (pm_cases m) \<le> int max_package_cases \<and>
     rm_records (pm_failures m) = package_counted (pm_counts m) ''failures'' \<and> rm_records (pm_failures m) \<le> int max_package_failures \<and>
     int (length (pm_artifacts m)) = package_counted (pm_counts m) ''artifacts'' \<and> length (pm_artifacts m) \<le> max_package_artifacts \<and>
     list_all artifact_fine (pm_artifacts m) \<and> distinct (map ae_artifact_id (pm_artifacts m))"

lemma decode_artifacts_Inr:
  assumes "decode_artifacts counts v = Inr arts"
  shows "int (length arts) = package_counted counts ''artifacts'' \<and> list_all artifact_fine arts \<and> distinct (map ae_artifact_id arts)"
proof (cases v)
  case (JArr raw)
  then have raw: "int (length raw) = package_counted counts ''artifacts''" "mapE decode_artifact_entry raw = Inr arts"
    "distinct (map ae_artifact_id arts)"
    using assms by (auto simp: decode_artifacts_def bindE_Inr_iff)
  have "list_all2 (\<lambda>v a. decode_artifact_entry v = Inr a) raw arts" using raw(2) by (simp add: mapE_Inr_iff)
  then have "list_all artifact_fine arts" "length raw = length arts"
    using decode_artifact_entry_fine by (auto simp: list_all2_conv_all_nth list_all_length)
  then show ?thesis using raw by simp
qed (use assms in \<open>simp_all add: decode_artifacts_def\<close>)

lemma decode_manifest_value_fine:
  assumes "decode_manifest_value v = Inr m"
  shows "manifest_fine m"
proof -
  obtain d counts cases failures arts where
    counts: "decode_counts (td_get d ''counts'') = Inr counts" and recs: "decode_records counts (td_get d ''records'') = Inr (cases, failures)"
    and arts: "decode_artifacts counts (td_get d ''artifacts'') = Inr arts"
    and m: "pm_counts m = counts" "pm_cases m = cases" "pm_failures m = failures" "pm_artifacts m = arts"
    using assms unfolding decode_manifest_value_def by (elim bindE_InrE) (auto elim!: bindE_InrE)
  have "decode_record_manifest ''cases'' (package_counted counts ''cases'') (td_get d' ''cases'') = Inr cases \<and>
    decode_record_manifest ''failures'' (package_counted counts ''failures'') (td_get d' ''failures'') = Inr failures"
    if "package_fields ''result package record manifest is invalid'' [''cases'', ''failures''] (td_get d ''records'') = Inr d'" for d'
    using recs that by (auto simp: decode_records_def bindE_Inr_iff)
  moreover obtain d' where "package_fields ''result package record manifest is invalid'' [''cases'', ''failures''] (td_get d ''records'') = Inr d'"
    using recs by (auto simp: decode_records_def bindE_Inr_iff)
  ultimately have r: "rm_name cases = ''cases.ndjson''" "rm_records cases = package_counted counts ''cases''"
    "rm_name failures = ''failures.ndjson''" "rm_records failures = package_counted counts ''failures''"
    using decode_record_manifest_Inr by fastforce+
  show ?thesis using decode_counts_Inr [OF counts] decode_artifacts_Inr [OF arts] r m by (simp add: manifest_fine_def)
qed

section \<open>Validation\<close>

text \<open>The members carry exactly the bytes and the records that the manifest declares.\<close>

definition package_agrees ::
  "package_lib \<Rightarrow> package_manifest \<Rightarrow> tar_member \<Rightarrow> tar_member \<Rightarrow> tar_member list \<Rightarrow> package_case list \<Rightarrow> package_failure list \<Rightarrow> bool" where
  "package_agrees P m cm fm ams cs fs \<longleftrightarrow>
     member_agrees P ''cases.ndjson'' (rm_size_bytes (pm_cases m)) (rm_sha256 (pm_cases m)) cm \<and>
     records_of P normalize_case cm = Inr cs \<and> int (length cs) = package_counted (pm_counts m) ''cases'' \<and>
     member_agrees P ''failures.ndjson'' (rm_size_bytes (pm_failures m)) (rm_sha256 (pm_failures m)) fm \<and>
     records_of P normalize_failure fm = Inr fs \<and> int (length fs) = package_counted (pm_counts m) ''failures'' \<and>
     list_all2 (\<lambda>a. member_agrees P (ae_member_name a) (ae_size_bytes a) (ae_sha256 a)) (pm_artifacts m) ams"

text \<open>Identities are unique, and references between the records are closed and complete.\<close>

definition records_consistent :: "package_manifest \<Rightarrow> package_case list \<Rightarrow> package_failure list \<Rightarrow> bool" where
  "records_consistent m cs fs \<longleftrightarrow> distinct (map nc_case_id cs) \<and> distinct (map nf_failure_id fs) \<and>
     list_all (bound_failure (nc_case_id ` set cs) (ae_artifact_id ` set (pm_artifacts m))) fs \<and>
     (\<forall>c \<in> set cs. failing_case c \<longrightarrow> (\<exists>f \<in> set fs. nf_case_id f = Some (nc_case_id c)))"

abbreviation framed_member :: "tar_member \<Rightarrow> bool" where
  "framed_member m \<equiv> list_all framed (read_lines (max_record_line_bytes + 1) (tm_payload m))"

lemma next_member_Inr: "next_member missing ended ms = Inr (m, rest) \<longleftrightarrow> ms = m # rest"
  by (cases ms) (auto simp: next_member_def)

lemma validate_manifest_member_Inr:
  assumes "validate_manifest_member P exact metadata_only expected_identity m = Inr manifest"
    and "normalize_sequences f1 prohibited = Inr exact" "normalize_sequences f2 prohibited_metadata = Inr metadata_only"
  shows "safe_header ''manifest.json'' m" "manifest_fine manifest" "clean (prohibited @ prohibited_metadata) m"
proof -
  obtain s v where header: "safe_header ''manifest.json'' m"
    and scanned: "scan True (tm_payload m) (new_scanner exact metadata_only) = Inr s"
    and decoded: "decode_manifest_value v = Inr manifest"
    using assms(1) unfolding validate_manifest_member_def decode_manifest_def validate_header_def
    by (elim bindE_InrE) (auto split: option.splits)
  show "safe_header ''manifest.json'' m" by fact
  show "manifest_fine manifest" by (rule decode_manifest_value_fine [OF decoded])
  have "foldE (scan True) [tm_payload m] (new_scanner exact metadata_only) = Inr s" using scanned by simp
  from scanned_clean [OF assms(2,3) this] show "clean (prohibited @ prohibited_metadata) m" by (auto simp: clean_def)
qed

lemma set_map_filter_option: "set (List.map_filter f xs) = {y. \<exists>x \<in> set xs. f x = Some y}"
  by (induction xs) (auto simp: List.map_filter_def split: option.splits)

lemma validate_members_Inr:
  assumes "validate_members P exact metadata_only expected_identity archive = Inr (manifest, payload)"
    and norm1: "normalize_sequences f1 prohibited = Inr exact" and norm2: "normalize_sequences f2 prohibited_metadata = Inr metadata_only"
  obtains mm cm fm ams cs fs where "tz_members archive = mm # cm # fm # ams" "safe_header ''manifest.json'' mm"
    "manifest_fine manifest" "package_agrees P manifest cm fm ams cs fs" "records_consistent manifest cs fs"
    "framed_member cm" "framed_member fm" "list_all (clean prohibited) (mm # cm # fm # ams)"
    "list_all (clean prohibited_metadata) [mm, cm, fm]"
proof -
  let ?arts = "map ae_artifact_id (pm_artifacts manifest)"
  obtain mm r0 cm r1 s1 fm r2 s2 where members: "tz_members archive = mm # r0" "r0 = cm # r1" "r1 = fm # r2"
    and m: "validate_manifest_member P exact metadata_only expected_identity mm = Inr manifest"
    and c: "validate_record_member P normalize_case consume_case (pm_cases manifest) exact metadata_only cm nothing_seen = Inr s1"
    and f: "validate_record_member P normalize_failure (consume_failure ?arts) (pm_failures manifest) exact metadata_only fm s1 = Inr s2"
    and covered: "set (se_failed_case_ids s2) \<subseteq> set (se_failure_case_ids s2)"
    and a: "foldE (validate_artifact P (tz_complete archive) exact) (pm_artifacts manifest) r2 = Inr []"
    using assms(1) unfolding validate_members_def Let_def
    by (elim bindE_InrE) (auto simp: next_member_Inr split: prod.splits if_splits elim!: bindE_InrE)
  note mm = validate_manifest_member_Inr [OF m norm1 norm2]
  obtain cs where cs: "records_of P normalize_case cm = Inr cs" "foldE consume_case cs nothing_seen = Inr s1"
    "int (length cs) = rm_records (pm_cases manifest)"
    "member_agrees P (rm_name (pm_cases manifest)) (rm_size_bytes (pm_cases manifest)) (rm_sha256 (pm_cases manifest)) cm"
    "framed_member cm" "clean (prohibited @ prohibited_metadata) cm"
    using validate_record_member_Inr [OF c norm1 norm2] .
  obtain fs where fs: "records_of P normalize_failure fm = Inr fs" "foldE (consume_failure ?arts) fs s1 = Inr s2"
    "int (length fs) = rm_records (pm_failures manifest)"
    "member_agrees P (rm_name (pm_failures manifest)) (rm_size_bytes (pm_failures manifest)) (rm_sha256 (pm_failures manifest)) fm"
    "framed_member fm" "clean (prohibited @ prohibited_metadata) fm"
    using validate_record_member_Inr [OF f norm1 norm2] .
  obtain ams where ams: "r2 = ams @ []"
    "list_all2 (\<lambda>a. member_agrees P (ae_member_name a) (ae_size_bytes a) (ae_sha256 a)) (pm_artifacts manifest) ams"
    "list_all (clean prohibited) ams" using validate_artifacts_Inr [OF a norm1] by blast
  have s1: "distinct (se_case_ids s1)" "se_case_ids s1 = map nc_case_id cs" "se_failure_ids s1 = []" "se_failure_case_ids s1 = []"
    "se_failed_case_ids s1 = map nc_case_id (filter failing_case cs)"
    using consume_cases_Inr [OF cs(2)] by (auto simp: nothing_seen_def)
  have "distinct (se_failure_ids s2)" "list_all (bound_failure (set (se_case_ids s1)) (set ?arts)) fs"
    "se_failure_ids s2 = map nf_failure_id fs" "se_failure_case_ids s2 = List.map_filter nf_case_id fs"
    "se_failed_case_ids s2 = map nc_case_id (filter failing_case cs)"
    using consume_failures_Inr [OF fs(2)] s1 by auto
  then have "records_consistent manifest cs fs"
    using covered s1(1,2) by (auto simp: records_consistent_def set_map_filter_option)
  moreover have "package_agrees P manifest cm fm ams cs fs"
    using cs fs ams mm(2) by (simp add: package_agrees_def manifest_fine_def)
  ultimately show ?thesis using that [of mm cm fm ams cs fs] members mm cs fs ams by (simp add: clean_def ball_Un)
qed

definition package_id_of :: "string \<Rightarrow> string" where
  "package_id_of digest = ''result-package-'' @ take 32 digest"

lemma validated_parts:
  assumes "validate_result_package P path expected_identity expected_sha256 prohibited prohibited_metadata = Inr p"
  obtains source archive mm cm fm ams cs fs where "path = Some source" "pf_path_present source" "pf_unchanged source"
    "pl_tar P (pf_content source) = Some archive" "tz_members archive = mm # cm # fm # ams"
    "ev_sha256 (vp_evidence p) = pl_sha256 P (pf_content source)"
    "ev_package_id (vp_evidence p) = package_id_of (pl_sha256 P (pf_content source))"
    "\<forall>v. expected_sha256 = Some v \<longrightarrow> v = JStr (pl_sha256 P (pf_content source)) \<and> is_sha256 (pl_sha256 P (pf_content source))"
    "ev_outcome (vp_evidence p) = pm_outcome (vp_manifest p)"
    "safe_header ''manifest.json'' mm" "manifest_fine (vp_manifest p)" "package_agrees P (vp_manifest p) cm fm ams cs fs"
    "records_consistent (vp_manifest p) cs fs" "framed_member cm" "framed_member fm"
    "list_all (clean prohibited) (mm # cm # fm # ams)" "list_all (clean prohibited_metadata) [mm, cm, fm]"
proof -
  obtain exact metadata_only source archive manifest payload where
    norm: "normalize_sequences ''result package secret policy'' prohibited = Inr exact"
      "normalize_sequences ''result package metadata policy'' prohibited_metadata = Inr metadata_only"
    and found: "path = Some source" "pf_path_present source" "pf_unchanged source" "pl_tar P (pf_content source) = Some archive"
    and sha: "\<forall>v. expected_sha256 = Some v \<longrightarrow> v = JStr (pl_sha256 P (pf_content source)) \<and> is_sha256 (pl_sha256 P (pf_content source))"
    and members: "validate_members P exact metadata_only expected_identity archive = Inr (manifest, payload)"
    and p: "vp_manifest p = manifest" "ev_sha256 (vp_evidence p) = pl_sha256 P (pf_content source)"
      "ev_package_id (vp_evidence p) = package_id_of (pl_sha256 P (pf_content source))" "ev_outcome (vp_evidence p) = pm_outcome manifest"
    using assms unfolding validate_result_package_def Let_def
    by (elim bindE_InrE; cases path)
      (auto simp: package_sha256_Inr package_id_of_def bindE_Inr_iff split: option.splits prod.splits elim!: bindE_InrE)
  show ?thesis
    by (rule validate_members_Inr [OF members norm]) (rule that [OF found(1,2,3,4) _ p(2,3) sha], unfold p(1,4), (assumption | rule refl)+)
qed

text \<open>
  C12. What validation establishes: the digest of an accepted package is that of the bytes read; its
  archive consists of the manifest, the two record members and one member for each declared artifact;
  every member has a neutral header and the declared size and digest; the records are as many as
  declared, have unique identities, refer only to present cases and declared artifacts, and explain
  every failed or errored case; and no member contains a prohibited sequence.
\<close>
theorem validate_result_package_sound:
  assumes "validate_result_package P path expected_identity expected_sha256 prohibited prohibited_metadata = Inr p"
  shows "\<exists>file archive mm cm fm ams cs fs. path = Some file \<and> ev_sha256 (vp_evidence p) = pl_sha256 P (pf_content file) \<and>
    pl_tar P (pf_content file) = Some archive \<and> tz_members archive = mm # cm # fm # ams \<and>
    package_agrees P (vp_manifest p) cm fm ams cs fs \<and> records_consistent (vp_manifest p) cs fs \<and>
    list_all (clean prohibited) (mm # cm # fm # ams) \<and> list_all (clean prohibited_metadata) [mm, cm, fm]"
  using assms
proof (rule validated_parts)
  fix source archive mm cm fm ams cs fs
  assume "path = Some source" "ev_sha256 (vp_evidence p) = pl_sha256 P (pf_content source)"
    "pl_tar P (pf_content source) = Some archive" "tz_members archive = mm # cm # fm # ams"
    "package_agrees P (vp_manifest p) cm fm ams cs fs" "records_consistent (vp_manifest p) cs fs"
    "list_all (clean prohibited) (mm # cm # fm # ams)" "list_all (clean prohibited_metadata) [mm, cm, fm]"
  then show ?thesis by blast
qed

end
