(* ===== verification/Package_Acceptance.thy ===== *)
theory Package_Acceptance
  imports Package_Properties
begin

text \<open>
  From a result package to the store: the records that the broker resolves are the validated ones, testd
  decodes them, and the store accepts them exactly under four conditions that validation leaves open.
\<close>

section \<open>The records read again\<close>

lemma iter_lines:
  "list_all framed ps \<Longrightarrow> mapE (load_record P check) ps = Inr xs \<Longrightarrow>
     mapE (\<lambda>payload. bindE (ensure (length payload \<le> max_record_line_bytes \<and> ends_with [CHR 0x0A] payload) err)
       (\<lambda>_. bindE (case pl_loads P payload of None \<Rightarrow> refuse message | Some v \<Rightarrow> Inr v) check)) ps = Inr xs"
proof (induction ps arbitrary: xs)
  case (Cons p ps)
  then obtain x ys where "load_record P check p = Inr x" "mapE (load_record P check) ps = Inr ys" "xs = x # ys"
    by (auto simp: bindE_Inr_iff)
  then show ?case using Cons by (auto simp: framed_def load_record_def bindE_Inr_iff split: option.splits)
qed simp

lemma iter_records_again:
  assumes "pf_unchanged f" "pf_path_present f" "pl_tar P (pf_content f) = Some archive"
    and "List.find (\<lambda>m. tm_name m = rm_name expected) (tz_members archive) = Some m"
    and "records_of P check m = Inr xs" "framed_member m" "int (length xs) = rm_records expected"
    and "int (length (tm_payload m)) = rm_size_bytes expected" "pl_sha256 P (tm_payload m) = rm_sha256 expected"
  shows "iter_records P (Some f) check expected = Inr xs"
  using assms iter_lines [OF assms(6) assms(5) [unfolded records_of_def]] by (simp add: iter_records_def bindE_Inr_iff)

lemma read_package_Inr:
  assumes "read_package P path digest = Inr (p, cs, fs)"
  shows "manifest_fine (vp_manifest p)" "records_consistent (vp_manifest p) cs fs"
    "int (length cs) = package_counted (pm_counts (vp_manifest p)) ''cases''"
    "int (length fs) = package_counted (pm_counts (vp_manifest p)) ''failures''"
    "\<exists>cm. records_of P normalize_case cm = Inr cs" "\<exists>fm. records_of P normalize_failure fm = Inr fs"
    "ev_package_id (vp_evidence p) = package_id_of digest" "is_sha256 digest"
proof -
  have v: "validate_result_package P path None (Some (JStr digest)) [] [] = Inr p"
    and iters: "iter_records P path normalize_case (pm_cases (vp_manifest p)) = Inr cs"
      "iter_records P path normalize_failure (pm_failures (vp_manifest p)) = Inr fs"
    using assms unfolding read_package_def by (auto simp: bindE_Inr_iff)
  from v have "manifest_fine (vp_manifest p) \<and> records_consistent (vp_manifest p) cs fs \<and>
      int (length cs) = package_counted (pm_counts (vp_manifest p)) ''cases'' \<and>
      int (length fs) = package_counted (pm_counts (vp_manifest p)) ''failures'' \<and>
      (\<exists>cm. records_of P normalize_case cm = Inr cs) \<and> (\<exists>fm. records_of P normalize_failure fm = Inr fs) \<and>
      ev_package_id (vp_evidence p) = package_id_of digest \<and> is_sha256 digest"
  proof (rule validated_parts)
    fix f archive mm cm fm ams cs' fs'
    assume found: "path = Some f" "pf_path_present f" "pf_unchanged f" "pl_tar P (pf_content f) = Some archive"
      "tz_members archive = mm # cm # fm # ams"
      and sha: "\<forall>v. Some (JStr digest) = Some v \<longrightarrow> v = JStr (pl_sha256 P (pf_content f)) \<and> is_sha256 (pl_sha256 P (pf_content f))"
      and ev: "ev_package_id (vp_evidence p) = package_id_of (pl_sha256 P (pf_content f))"
      and fine: "manifest_fine (vp_manifest p)" and mm: "safe_header ''manifest.json'' mm"
      and agrees: "package_agrees P (vp_manifest p) cm fm ams cs' fs'" and consistent: "records_consistent (vp_manifest p) cs' fs'"
      and framed: "framed_member cm" "framed_member fm"
    have names: "tm_name mm = ''manifest.json''" "tm_name cm = ''cases.ndjson''" "tm_name fm = ''failures.ndjson''"
      using agrees mm by (simp_all add: package_agrees_def member_agrees_def safe_header_def)
    have "iter_records P path normalize_case (pm_cases (vp_manifest p)) = Inr cs'"
      unfolding found(1) using agrees fine framed found names
      by (intro iter_records_again [of f P archive _ cm]) (simp_all add: package_agrees_def member_agrees_def manifest_fine_def)
    then have "cs' = cs" using iters by simp
    moreover have "iter_records P path normalize_failure (pm_failures (vp_manifest p)) = Inr fs'"
      unfolding found(1) using agrees fine framed found names
      by (intro iter_records_again [of f P archive _ fm]) (simp_all add: package_agrees_def member_agrees_def manifest_fine_def)
    then have "fs' = fs" using iters by simp
    ultimately show ?thesis
      using fine consistent agrees sha ev by (auto simp: package_agrees_def)
  qed
  then show "manifest_fine (vp_manifest p)" "records_consistent (vp_manifest p) cs fs"
    "int (length cs) = package_counted (pm_counts (vp_manifest p)) ''cases''"
    "int (length fs) = package_counted (pm_counts (vp_manifest p)) ''failures''"
    "\<exists>cm. records_of P normalize_case cm = Inr cs" "\<exists>fm. records_of P normalize_failure fm = Inr fs"
    "ev_package_id (vp_evidence p) = package_id_of digest" "is_sha256 digest"
    by simp_all
qed

lemma records_of_fine:
  assumes "records_of P check m = Inr xs" and "\<And>v x. check v = Inr x \<Longrightarrow> good x"
  shows "list_all good xs"
proof -
  have "list_all2 (\<lambda>payload x. load_record P check payload = Inr x) (read_lines (max_record_line_bytes + 1) (tm_payload m)) xs"
    using assms(1) unfolding records_of_def mapE_Inr_iff .
  moreover have "good x" if "load_record P check payload = Inr x" for payload x
    using that assms(2) by (auto simp: load_record_def bindE_Inr_iff)
  ultimately show ?thesis by (induction rule: list_all2_induct) auto
qed

section \<open>What testd decodes\<close>

definition decoded_case :: "package_case \<Rightarrow> case_result" where
  "decoded_case c = \<lparr>ca_case_id = JStr (nc_case_id c), ca_display_name = JStr (nc_display_name c), ca_status = nc_status c,
     ca_duration_seconds = PyFloat (Finite (nc_duration_seconds c)), ca_location = map_option JStr (nc_location c)\<rparr>"

definition decoded_failure :: "package_failure \<Rightarrow> failure_record" where
  "decoded_failure f = \<lparr>fa_failure_id = JStr (nf_failure_id f), fa_classification = the (classification_of (nf_classification f)),
     fa_message = JStr (nf_message f), fa_case_id = map_option JStr (nf_case_id f), fa_location = map_option JStr (nf_location f),
     fa_artifact_id = map_option JStr (nf_artifact_id f)\<rparr>"

definition decoded_artifact :: "artifact_entry \<Rightarrow> artifact_metadata" where
  "decoded_artifact a = \<lparr>am_artifact_id = JStr (ae_artifact_id a), am_kind = JStr (ae_kind a),
     am_storage_handle = JStr (ae_storage_handle a), am_sha256 = JStr (ae_sha256 a), am_size_bytes = ae_size_bytes a,
     am_verified = True\<rparr>"

definition decoded_package :: "validated_package \<Rightarrow> package_case list \<Rightarrow> package_failure list \<Rightarrow> execution_result_package" where
  "decoded_package p cs fs = \<lparr>pk_package_id = JStr (ev_package_id (vp_evidence p)), pk_cases = map decoded_case cs,
     pk_failures = map decoded_failure fs, pk_artifacts = map decoded_artifact (pm_artifacts (vp_manifest p)),
     pk_reporter_complete = po_reporter_complete (pm_outcome (vp_manifest p))\<rparr>"

lemma json_option_jopt [simp]: "json_option (jopt JStr x) = map_option JStr x"
  by (cases x) (simp_all add: json_option_def jopt_def)

lemma decode_case_document: "decode_case_result (package_case_document c) = Inr (decoded_case c)"
  by (simp add: decode_case_result_def package_case_document_def decode_item_fields_def decoded_case_def td_get_def json_number_def)

lemma classification_known: "s \<in> set package_classifications \<Longrightarrow> \<exists>c. classification_of s = Some c"
  by (auto simp: package_classifications_def classification_of_def classification_value_def)

lemma decode_failure_document:
  "nf_classification f \<in> set package_classifications \<Longrightarrow> decode_failure_record (package_failure_document f) = Inr (decoded_failure f)"
  using classification_known [of "nf_classification f"]
  by (auto simp: decode_failure_record_def package_failure_document_def decode_item_fields_def decoded_failure_def td_get_def)

lemma decode_artifact_document: "decode_artifact_metadata (artifact_entry_document a) = Inr (decoded_artifact a)"
  by (simp add: decode_artifact_metadata_def artifact_entry_document_def decode_item_fields_def decoded_artifact_def td_get_def)

lemma mapE_map_all: "list_all (\<lambda>x. f (g x) = Inr (h x)) xs \<Longrightarrow> mapE f (map g xs) = Inr (map h xs)"
  by (induction xs) auto

lemma decode_resolution:
  assumes "list_all failure_fine fs"
  shows "decode_execution_result_package (resolution_document p cs fs) = Inr (decoded_package p cs fs)"
proof -
  have "mapE decode_case_result (map package_case_document cs) = Inr (map decoded_case cs)"
    by (rule mapE_map_all) (simp add: list_all_iff decode_case_document)
  moreover have "mapE decode_failure_record (map package_failure_document fs) = Inr (map decoded_failure fs)"
    by (rule mapE_map_all) (use assms in \<open>auto simp: list_all_iff failure_fine_def decode_failure_document\<close>)
  moreover have "mapE decode_artifact_metadata (map artifact_entry_document (pm_artifacts (vp_manifest p))) =
    Inr (map decoded_artifact (pm_artifacts (vp_manifest p)))"
    by (rule mapE_map_all) (simp add: list_all_iff decode_artifact_document)
  ultimately show ?thesis
    by (simp add: decode_execution_result_package_def resolution_document_def decode_fields_def decoded_package_def td_get_def td_bool_def)
qed

section \<open>What the store accepts\<close>

definition one_line :: "string \<Rightarrow> bool" where
  "one_line s \<longleftrightarrow> CHR 0x0D \<notin> set s \<and> CHR 0x0A \<notin> set s"

lemma bounded_text_JStr: "s \<noteq> [] \<Longrightarrow> length s \<le> n \<Longrightarrow> CHR 0x00 \<notin> set s \<Longrightarrow> bounded_text field n False (JStr s) = Inr s"
  by (simp add: bounded_text_def)

lemma single_line_accepted:
  "s \<noteq> [] \<Longrightarrow> length s \<le> n \<Longrightarrow> CHR 0x00 \<notin> set s \<Longrightarrow> single_line field n (JStr s) = Inr t \<longleftrightarrow> one_line s \<and> t = s"
  by (auto simp: single_line_def bounded_text_def one_line_def bindE_Inr_iff)

lemma alnum_plain: "alnum c \<Longrightarrow> c \<notin> {CHR 0x00, CHR 0x0A, CHR 0x0D}"
proof -
  have "\<not> alnum (CHR 0x00)" "\<not> alnum (CHR 0x0A)" "\<not> alnum (CHR 0x0D)" by code_simp+
  then show "alnum c \<Longrightarrow> c \<notin> {CHR 0x00, CHR 0x0A, CHR 0x0D}" by blast
qed

lemma safe_id_plain:
  assumes "safe_id_re s"
  shows "s \<noteq> []" "length s \<le> 256" "CHR 0x00 \<notin> set s" "one_line s"
proof -
  have "alnum c \<or> c \<in> set ''_.:@/-''" if "c \<in> set s" for c
    using assms that by (cases s) (auto simp: safe_id_re_def list_all_iff)
  then have "c \<notin> {CHR 0x00, CHR 0x0A, CHR 0x0D}" if "c \<in> set s" for c using that alnum_plain [of c] by fastforce
  then show "CHR 0x00 \<notin> set s" "one_line s" unfolding one_line_def by blast+
  show "s \<noteq> []" "length s \<le> 256" using assms by (cases s; simp add: safe_id_re_def)+
qed

lemma safe_id_JStr: "safe_id_re s \<Longrightarrow> safe_id field (JStr s) = Inr s"
  using safe_id_plain [of s] by (simp add: safe_id_def bindE_Inr_iff single_line_accepted)

lemma hex_plain: "hex_char c \<Longrightarrow> c \<notin> {CHR 0x00, CHR 0x0A, CHR 0x0D}"
proof -
  have "\<not> hex_char (CHR 0x00)" "\<not> hex_char (CHR 0x0A)" "\<not> hex_char (CHR 0x0D)" by code_simp+
  then show "hex_char c \<Longrightarrow> c \<notin> {CHR 0x00, CHR 0x0A, CHR 0x0D}" by blast
qed

lemma artifact_handle_text:
  assumes "artifact_handle s = Some (i, digest)"
  shows "s = ''test-artifact://'' @ i @ ''/'' @ digest" "is_sha256 digest"
proof -
  let ?rest = "drop 16 s"
  have parts: "starts_with ''test-artifact://'' s" "length ?rest = 106" "?rest ! 41 = CHR ''/''" "is_sha256 (drop 42 ?rest)"
    "i = take 41 ?rest" "digest = drop 42 ?rest"
    using assms by (auto simp: artifact_handle_def Let_def split: if_splits)
  obtain t where t: "s = ''test-artifact://'' @ t" using parts(1) by (auto simp: starts_with_iff)
  then have "?rest = t" by simp
  moreover have "t = take 41 t @ t ! 41 # drop 42 t" using id_take_nth_drop [of 41 t] parts(2) calculation by simp
  ultimately show "s = ''test-artifact://'' @ i @ ''/'' @ digest" using parts t by simp
  show "is_sha256 digest" using parts by simp
qed

lemma artifact_kind_safe: "k \<in> set artifact_kinds \<Longrightarrow> safe_id_re k"
proof -
  have "list_all safe_id_re artifact_kinds" by code_simp
  then show "k \<in> set artifact_kinds \<Longrightarrow> safe_id_re k" by (simp add: list_all_iff)
qed

lemma sha_plain: "is_sha256 s \<Longrightarrow> length s = 64 \<and> CHR 0x00 \<notin> set s \<and> one_line s"
  using hex_plain by (auto simp: is_sha256_def one_line_def list_all_iff)

lemma handle_accepted:
  assumes "artifact_fine a"
  shows "single_line field 4096 (JStr (ae_storage_handle a)) = Inr (ae_storage_handle a)"
proof -
  have s: "ae_storage_handle a = ''test-artifact://'' @ ae_artifact_id a @ ''/'' @ ae_sha256 a"
    using artifact_handle_text(1) assms by (simp add: artifact_fine_def)
  have "safe_id_re (ae_artifact_id a)" "is_sha256 (ae_sha256 a)" using assms by (simp_all add: artifact_fine_def)
  note parts = safe_id_plain [OF this(1)] sha_plain [OF this(2)]
  have "ae_storage_handle a \<noteq> []" "length (ae_storage_handle a) \<le> 4096" "CHR 0x00 \<notin> set (ae_storage_handle a)" "one_line (ae_storage_handle a)"
    using parts unfolding s one_line_def by simp_all
  then show ?thesis by (simp add: single_line_accepted)
qed

lemma optional_text_accepted:
  "\<forall>s. x = Some s \<longrightarrow> s \<noteq> [] \<and> length s \<le> n \<and> CHR 0x00 \<notin> set s \<Longrightarrow>
     optionE (bounded_text field n False) (map_option JStr x) = Inr x"
  by (cases x) (simp_all add: optionE_def bounded_text_JStr)

lemma optional_id_accepted: "\<forall>s. x = Some s \<longrightarrow> safe_id_re s \<Longrightarrow> optionE (safe_id field) (map_option JStr x) = Inr x"
  by (cases x) (simp_all add: optionE_def safe_id_JStr)

lemma check_case_accepted:
  assumes "case_fine c" "nc_case_id c \<notin> cr_case_id ` set rows"
  shows "(\<exists>rows'. check_case (decoded_case c) rows = Inr rows') \<longleftrightarrow> one_line (nc_case_id c)"
    and "check_case (decoded_case c) rows = Inr rows' \<Longrightarrow>
      \<exists>r. rows' = rows @ [r] \<and> cr_case_id r = nc_case_id c \<and> cr_status r = nc_status c"
proof -
  note fine = assms(1) [unfolded case_fine_def]
  have status: "nc_status c \<in> set [''passed'', ''failed'', ''skipped'', ''error'']" using fine by (simp add: package_case_states_def)
  have rest: "bounded_text ''display_name'' 4096 False (JStr (nc_display_name c)) = Inr (nc_display_name c)"
    "finite_nonnegative ''case duration'' (PyFloat (Finite (nc_duration_seconds c))) = Inr (nc_duration_seconds c)"
    "optionE (bounded_text ''case location'' 4096 False) (map_option JStr (nc_location c)) = Inr (nc_location c)"
    using fine bounded_text_JStr optional_text_accepted by (simp_all add: finite_nonnegative_def to_float_def)
  have id: "single_line ''case_id'' 1024 (JStr (nc_case_id c)) = Inr t \<longleftrightarrow> one_line (nc_case_id c) \<and> t = nc_case_id c" for t
    by (rule single_line_accepted) (use fine in simp_all)
  show "(\<exists>rows'. check_case (decoded_case c) rows = Inr rows') \<longleftrightarrow> one_line (nc_case_id c)"
    using status assms(2) by (simp add: check_case_def decoded_case_def bindE_Inr_iff id rest)
  show "check_case (decoded_case c) rows = Inr rows' \<Longrightarrow>
    \<exists>r. rows' = rows @ [r] \<and> cr_case_id r = nc_case_id c \<and> cr_status r = nc_status c"
    by (auto simp: check_case_def decoded_case_def bindE_Inr_iff id rest)
qed

lemma check_cases_accepted:
  assumes "list_all case_fine cs" "distinct (map cr_case_id rows @ map nc_case_id cs)"
  shows "(\<exists>rows'. foldE check_case (map decoded_case cs) rows = Inr rows') \<longleftrightarrow> list_all (one_line \<circ> nc_case_id) cs"
    and "foldE check_case (map decoded_case cs) rows = Inr rows' \<Longrightarrow>
      map (\<lambda>r. (cr_case_id r, cr_status r)) rows' = map (\<lambda>r. (cr_case_id r, cr_status r)) rows @ map (\<lambda>c. (nc_case_id c, nc_status c)) cs"
  using assms
proof (induction cs arbitrary: rows)
  case (Cons c cs)
  {
    case 1
    then have c: "case_fine c" "nc_case_id c \<notin> cr_case_id ` set rows" by auto
    show ?case
    proof (cases "check_case (decoded_case c) rows")
      case (Inl err)
      then show ?thesis using check_case_accepted(1) [OF c] by simp
    next
      case (Inr rows1)
      then obtain r where "rows1 = rows @ [r]" "cr_case_id r = nc_case_id c" using check_case_accepted(2) [OF c] by blast
      then have "distinct (map cr_case_id rows1 @ map nc_case_id cs)" using 1 by auto
      then show ?thesis using Cons.IH(1) [of rows1] 1 Inr check_case_accepted(1) [OF c] by simp
    qed
  next
    case 2
    then have c: "case_fine c" "nc_case_id c \<notin> cr_case_id ` set rows" by auto
    obtain rows1 where rows1: "check_case (decoded_case c) rows = Inr rows1" "foldE check_case (map decoded_case cs) rows1 = Inr rows'"
      using 2(1) by (auto simp: bindE_Inr_iff)
    obtain r where r: "rows1 = rows @ [r]" "cr_case_id r = nc_case_id c" "cr_status r = nc_status c"
      using check_case_accepted(2) [OF c rows1(1)] by blast
    then have "distinct (map cr_case_id rows1 @ map nc_case_id cs)" using 2 by auto
    then show ?case using Cons.IH(2) [OF rows1(2)] 2 r by simp
  }
qed simp_all

lemma check_failure_accepted:
  assumes "failure_fine f" "nf_failure_id f \<notin> fr_failure_id ` set rows" "list_all one_line failed"
  shows "(\<exists>rows'. check_failure failed (decoded_failure f) rows = Inr rows') \<longleftrightarrow> (\<forall>c. nf_case_id f = Some c \<longrightarrow> c \<in> set failed)"
    and "check_failure failed (decoded_failure f) rows = Inr rows' \<Longrightarrow>
      \<exists>r. rows' = rows @ [r] \<and> fr_failure_id r = nf_failure_id f \<and> fr_case_id r = nf_case_id f"
proof -
  note fine = assms(1) [unfolded failure_fine_def]
  have rest: "safe_id ''failure_id'' (JStr (nf_failure_id f)) = Inr (nf_failure_id f)"
    "bounded_text ''failure message'' 8192 False (JStr (nf_message f)) = Inr (nf_message f)"
    "optionE (bounded_text ''failure location'' 4096 False) (map_option JStr (nf_location f)) = Inr (nf_location f)"
    "optionE (safe_id ''failure artifact_id'') (map_option JStr (nf_artifact_id f)) = Inr (nf_artifact_id f)"
    using fine safe_id_JStr bounded_text_JStr optional_text_accepted optional_id_accepted by simp_all
  have id: "optionE (single_line ''failure case_id'' 1024) (map_option JStr (nf_case_id f)) = Inr t \<longleftrightarrow>
    (\<forall>c. nf_case_id f = Some c \<longrightarrow> one_line c) \<and> t = nf_case_id f" for t
  proof (cases "nf_case_id f")
    case (Some c)
    then show ?thesis using single_line_accepted [of c 1024 "''failure case_id''"] fine by (auto simp: optionE_def bindE_Inr_iff)
  qed (auto simp: optionE_def)
  show "(\<exists>rows'. check_failure failed (decoded_failure f) rows = Inr rows') \<longleftrightarrow> (\<forall>c. nf_case_id f = Some c \<longrightarrow> c \<in> set failed)"
    using assms(2,3) by (auto simp: check_failure_def decoded_failure_def bindE_Inr_iff id rest list_all_iff split: option.splits)
  show "check_failure failed (decoded_failure f) rows = Inr rows' \<Longrightarrow>
    \<exists>r. rows' = rows @ [r] \<and> fr_failure_id r = nf_failure_id f \<and> fr_case_id r = nf_case_id f"
    by (auto simp: check_failure_def decoded_failure_def bindE_Inr_iff id rest)
qed

lemma map_filter_Cons_subset:
  "set (List.map_filter g (x # xs)) \<subseteq> A \<longleftrightarrow> (\<forall>y. g x = Some y \<longrightarrow> y \<in> A) \<and> set (List.map_filter g xs) \<subseteq> A"
  by (cases "g x") auto

lemma check_failures_accepted:
  assumes "list_all failure_fine fs" "distinct (map fr_failure_id rows @ map nf_failure_id fs)" "list_all one_line failed"
  shows "(\<exists>rows'. foldE (check_failure failed) (map decoded_failure fs) rows = Inr rows') \<longleftrightarrow>
      set (List.map_filter nf_case_id fs) \<subseteq> set failed"
    and "foldE (check_failure failed) (map decoded_failure fs) rows = Inr rows' \<Longrightarrow>
      covered_case_ids rows' = covered_case_ids rows @ List.map_filter nf_case_id fs"
  using assms(1,2)
proof (induction fs arbitrary: rows)
  case (Cons f fs)
  {
    case 1
    then have f: "failure_fine f" "nf_failure_id f \<notin> fr_failure_id ` set rows" by auto
    show ?case
    proof (cases "check_failure failed (decoded_failure f) rows")
      case (Inl err)
      then show ?thesis using check_failure_accepted(1) [OF f assms(3)] unfolding map_filter_Cons_subset by auto
    next
      case (Inr rows1)
      then obtain r where "rows1 = rows @ [r]" "fr_failure_id r = nf_failure_id f"
        using check_failure_accepted(2) [OF f assms(3)] by blast
      then have "distinct (map fr_failure_id rows1 @ map nf_failure_id fs)" using 1 by auto
      then have "(\<exists>rows'. foldE (check_failure failed) (map decoded_failure fs) rows1 = Inr rows') \<longleftrightarrow>
        set (List.map_filter nf_case_id fs) \<subseteq> set failed" using Cons.IH(1) 1 by simp
      then show ?thesis using Inr check_failure_accepted(1) [OF f assms(3)] unfolding map_filter_Cons_subset by simp
    qed
  next
    case 2
    then have f: "failure_fine f" "nf_failure_id f \<notin> fr_failure_id ` set rows" by auto
    obtain rows1 where rows1: "check_failure failed (decoded_failure f) rows = Inr rows1"
      "foldE (check_failure failed) (map decoded_failure fs) rows1 = Inr rows'" using 2(1) by (auto simp: bindE_Inr_iff)
    obtain r where r: "rows1 = rows @ [r]" "fr_failure_id r = nf_failure_id f" "fr_case_id r = nf_case_id f"
      using check_failure_accepted(2) [OF f assms(3) rows1(1)] by blast
    then have "distinct (map fr_failure_id rows1 @ map nf_failure_id fs)" using 2 by auto
    then have "covered_case_ids rows' = covered_case_ids rows1 @ List.map_filter nf_case_id fs" using Cons.IH(2) [OF rows1(2)] 2 by simp
    then show ?case using r by (simp add: covered_case_ids_def List.map_filter_def)
  }
qed (simp_all add: List.map_filter_def)

lemma check_artifacts_accepted:
  "list_all artifact_fine as \<Longrightarrow> distinct (map af_artifact_id rows @ map ae_artifact_id as) \<Longrightarrow>
     \<exists>rows'. foldE check_artifact (map decoded_artifact as) rows = Inr rows'"
proof (induction "as" arbitrary: rows)
  case (Cons a as)
  then have fine: "safe_id_re (ae_artifact_id a)" "ae_kind a \<in> set artifact_kinds" "is_sha256 (ae_sha256 a)"
    "0 \<le> ae_size_bytes a" "ae_size_bytes a \<le> int max_artifact_bytes" "artifact_fine a" by (simp_all add: artifact_fine_def)
  have "store_sha256 ''artifact sha256'' (JStr (ae_sha256 a)) = Inr (ae_sha256 a)"
    using sha_plain [OF fine(3)] fine(3) single_line_accepted [of "ae_sha256 a" 64]
    by (cases "ae_sha256 a") (auto simp: store_sha256_def bindE_Inr_iff)
  moreover have "ae_size_bytes a \<le> 2 ^ 63 - 1" using fine(5) by (simp add: max_artifact_bytes_def)
  moreover have "ae_artifact_id a \<notin> af_artifact_id ` set rows" using Cons.prems(2) by auto
  ultimately obtain r where r: "check_artifact (decoded_artifact a) rows = Inr (rows @ [r])" "af_artifact_id r = ae_artifact_id a"
    using fine safe_id_JStr artifact_kind_safe handle_accepted by (fastforce simp: check_artifact_def decoded_artifact_def bindE_Inr_iff)
  have "distinct (map af_artifact_id (rows @ [r]) @ map ae_artifact_id as)" using Cons.prems(2) r(2) by auto
  then obtain rows' where "foldE check_artifact (map decoded_artifact as) (rows @ [r]) = Inr rows'" using Cons.IH [of "rows @ [r]"] Cons.prems(1) by fastforce
  then show ?case using r(1) by simp
qed simp

lemma covered_exactly:
  assumes "distinct failed" "set failed \<subseteq> set covered"
  shows "set covered = set failed \<and> length covered = length failed \<longleftrightarrow> set covered \<subseteq> set failed \<and> distinct covered"
proof
  assume eq: "set covered = set failed \<and> length covered = length failed"
  then have "card (set covered) = length covered" using distinct_card [OF assms(1)] by simp
  then show "set covered \<subseteq> set failed \<and> distinct covered" using eq card_distinct by blast
next
  assume d: "set covered \<subseteq> set failed \<and> distinct covered"
  then have "set covered = set failed" using assms(2) by blast
  then show "set covered = set failed \<and> length covered = length failed"
    using d distinct_card [of covered] distinct_card [OF assms(1)] by simp
qed

lemma failed_of_cases:
  "map (\<lambda>r. (cr_case_id r, cr_status r)) rows = map (\<lambda>c. (nc_case_id c, nc_status c)) cs \<Longrightarrow>
     failed_case_ids rows = map nc_case_id (filter failing_case cs)"
proof (induction cs arbitrary: rows)
  case (Cons c cs)
  then obtain r rs where rows: "rows = r # rs" by (cases rows) auto
  then show ?case using Cons by (auto simp: failed_case_ids_def failed_status_def failing_case_def)
qed (simp add: failed_case_ids_def)

lemma package_id_accepted: "is_sha256 digest \<Longrightarrow> safe_id ''package_id'' (JStr (package_id_of digest)) = Inr (package_id_of digest)"
proof -
  assume sha: "is_sha256 digest"
  have "code_of (CHR ''f'') \<le> code_of (CHR ''z'')" by code_simp
  then have "alnum c" if "hex_char c" for c
    using that by (auto simp: hex_char_def alnum_def lower_letter_def in_range_def)
  then have "list_all alnum (take 32 digest)" using sha by (auto simp: is_sha256_def list_all_iff dest: in_set_takeD)
  moreover have "alnum (CHR ''r'')" "list_all (\<lambda>d. alnum d \<or> d \<in> set ''_.:@/-'') ''esult-package-''" by code_simp+
  moreover have "length (take 32 digest) \<le> 32" by simp
  ultimately have "safe_id_re (package_id_of digest)"
    by (simp add: package_id_of_def safe_id_re_def list_all_iff)
  then show ?thesis by (rule safe_id_JStr)
qed

lemma check_package_accepted:
  assumes "list_all case_fine cs" "list_all failure_fine fs" "manifest_fine (vp_manifest p)" "records_consistent (vp_manifest p) cs fs"
    and "int (length cs) = package_counted (pm_counts (vp_manifest p)) ''cases''"
    and "ev_package_id (vp_evidence p) = package_id_of digest" "is_sha256 digest"
  defines "failed \<equiv> map nc_case_id (filter failing_case cs)" and "covered \<equiv> List.map_filter nf_case_id fs"
  shows "(\<exists>checked. check_package (decoded_package p cs fs) = Inr checked) \<longleftrightarrow>
    length fs \<le> max_failure_results \<and> list_all (one_line \<circ> nc_case_id) cs \<and> set covered \<subseteq> set failed \<and> distinct covered"
proof -
  have ids: "distinct (map nc_case_id cs)" "distinct (map nf_failure_id fs)" "distinct failed" "set failed \<subseteq> set covered"
    using assms(4) unfolding failed_def covered_def
    by (auto simp: records_consistent_def set_map_filter_option distinct_map_filter)
  have bounds: "length cs \<le> max_case_results" "length (pm_artifacts (vp_manifest p)) \<le> max_artifact_results"
    using assms(3,5) by (simp_all add: manifest_fine_def max_package_cases_def max_case_results_def
      max_package_artifacts_def max_artifact_results_def)
  obtain arts where arts: "foldE check_artifact (map decoded_artifact (pm_artifacts (vp_manifest p))) [] = Inr arts"
    using check_artifacts_accepted [of "pm_artifacts (vp_manifest p)" "[]"] assms(3) by (auto simp: manifest_fine_def)
  have split: "(\<exists>checked. check_package (decoded_package p cs fs) = Inr checked) \<longleftrightarrow> length fs \<le> max_failure_results \<and>
    (\<exists>cases. foldE check_case (map decoded_case cs) [] = Inr cases \<and>
      (\<exists>failures. foldE (check_failure (failed_case_ids cases)) (map decoded_failure fs) [] = Inr failures \<and>
        set (covered_case_ids failures) = set (failed_case_ids cases) \<and>
        length (covered_case_ids failures) = length (failed_case_ids cases)))"
    using package_id_accepted [OF assms(7)] bounds arts assms(6)
    by (simp add: check_package_def decoded_package_def bindE_Inr_iff Let_def) blast
  have cases: "(\<exists>rows. foldE check_case (map decoded_case cs) [] = Inr rows) \<longleftrightarrow> list_all (one_line \<circ> nc_case_id) cs"
    "foldE check_case (map decoded_case cs) [] = Inr rows \<Longrightarrow> failed_case_ids rows = failed" for rows
    using check_cases_accepted [of cs "[]"] assms(1) ids(1) failed_of_cases [of rows cs] unfolding failed_def by simp_all
  have lines: "list_all one_line failed" if "list_all (one_line \<circ> nc_case_id) cs"
    using that by (auto simp: failed_def list_all_iff)
  have failures: "(\<exists>rows. foldE (check_failure failed) (map decoded_failure fs) [] = Inr rows) \<longleftrightarrow> set covered \<subseteq> set failed"
    "foldE (check_failure failed) (map decoded_failure fs) [] = Inr rows \<Longrightarrow> covered_case_ids rows = covered"
    if "list_all (one_line \<circ> nc_case_id) cs" for rows
    using check_failures_accepted [of fs "[]" failed] assms(2) ids(2) lines [OF that]
    unfolding covered_def by (simp_all add: covered_case_ids_def List.map_filter_def)
  show ?thesis unfolding split using cases failures covered_exactly [OF ids(3,4)] by metis
qed

text \<open>
  C15. Which packages the store accepts: a package that the broker resolves is always decoded by testd,
  and the store then accepts it if and only if it has at most 100000 failures, every case identity is a
  single line, every failure that names a case names a failed or errored one, and no case is named by
  two failures. Validation establishes everything else the store asks for, and none of these four.
\<close>
theorem resolved_package_accepted:
  assumes "resolve_package P handle files metadata = Inr v"
  shows "\<exists>package. decode_execution_result_package v = Inr package \<and>
    ((\<exists>checked. check_package package = Inr checked) \<longleftrightarrow>
      length (pk_failures package) \<le> max_failure_results \<and>
      (\<forall>c \<in> set (pk_cases package). \<exists>s. ca_case_id c = JStr s \<and> one_line s) \<and>
      (\<forall>i \<in> set (List.map_filter fa_case_id (pk_failures package)).
         \<exists>c \<in> set (pk_cases package). ca_case_id c = i \<and> failed_status (ca_status c)) \<and>
      distinct (List.map_filter fa_case_id (pk_failures package)))"
proof -
  obtain p cs fs where read: "read_package P (files (rp_package_id metadata @ ''-'' @ rp_sha256 metadata @ ''.tar'')) (rp_sha256 metadata) = Inr (p, cs, fs)"
    and v: "v = resolution_document p cs fs"
    using assms by (auto simp: resolve_package_def Let_def bindE_Inr_iff unavailable_def split: sum.splits package_error.splits)
  note facts = read_package_Inr [OF read]
  have fine: "list_all case_fine cs" "list_all failure_fine fs"
    using facts(5,6) records_of_fine normalize_case_fine normalize_failure_fine by blast+
  let ?pk = "decoded_package p cs fs" and ?covered = "List.map_filter nf_case_id fs"
  let ?failed = "map nc_case_id (filter failing_case cs)"
  note checked = check_package_accepted [OF fine facts(1,2,3,7,8)]
  have "List.map_filter fa_case_id (pk_failures ?pk) = map JStr ?covered"
    by (induction fs) (auto simp: decoded_package_def decoded_failure_def List.map_filter_def)
  moreover have "distinct (map JStr xs) \<longleftrightarrow> distinct xs" for xs by (simp add: distinct_map inj_on_def)
  moreover have "pk_failures ?pk = map decoded_failure fs" "pk_cases ?pk = map decoded_case cs" by (simp_all add: decoded_package_def)
  moreover have "(\<forall>c \<in> set (map decoded_case cs). \<exists>s. ca_case_id c = JStr s \<and> one_line s) \<longleftrightarrow> list_all (one_line \<circ> nc_case_id) cs"
    by (auto simp: decoded_case_def list_all_iff)
  moreover have "(\<forall>i \<in> set (map JStr ?covered). \<exists>c \<in> set (map decoded_case cs). ca_case_id c = i \<and> failed_status (ca_status c)) \<longleftrightarrow>
    set ?covered \<subseteq> set ?failed"
    by (auto simp: decoded_case_def failed_status_def failing_case_def)
  ultimately show ?thesis using checked decode_resolution [OF fine(2)] unfolding v by simp
qed

end
