(* ===== verification/Package_Conclusion.thy ===== *)
theory Package_Conclusion
  imports Package_Acceptance Testd_Properties
begin

text \<open>
  From the runner's outcome to the stored conclusion: the projection of the broker, the metadata that
  testd decodes from it, the conclusion that testd derives and the verdict of the store.
\<close>

section \<open>Projected metadata\<close>

lemma projection_Some:
  assumes "v8_package_projection (JObj d) = Inr (Some (document, handle))" and "td_get d ''outcome'' = JObj outcome"
    and "td_get outcome ''reporter_complete'' = JBool b"
  shows "\<exists>counts manifest. document = JObj [(''package_id'', td_get d ''package_id''), (''sha256'', td_get d ''sha256''),
    (''size_bytes'', td_get d ''size_bytes''), (''manifest'', JObj (dict_put ''reporter_complete'' (JBool b) manifest)),
    (''outcome'', JObj outcome), (''counts'', JObj counts)]"
  using assms unfolding v8_package_projection_def Let_def
  by (cases "td_get d ''counts''"; cases "td_get d ''manifest''") (auto simp: bindE_Inr_iff)

lemma td_get_dict_put [simp]: "td_get (dict_put k v d) k = v"
  by (simp add: td_get_def)

lemma new_package_fields:
  assumes "new_runner_result_package i s n m out c = Inr p"
  shows "m = JObj (rp_manifest p)" "out = JObj (rp_outcome p)"
  using assms unfolding new_runner_result_package_def package_metadata_ok_def
  by (elim bindE_InrE; auto split: json.splits if_splits)+

lemma projected_metadata:
  assumes "v8_package_projection (JObj d) = Inr (Some (document, handle))" and "td_get d ''outcome'' = JObj outcome"
    and "td_get outcome ''reporter_complete'' = JBool b" and "result_metadata document = Inr (Some m)"
  shows "rp_outcome m = outcome" "reporter_complete m = b"
proof -
  obtain counts manifest where doc: "document = JObj [(''package_id'', td_get d ''package_id''), (''sha256'', td_get d ''sha256''),
    (''size_bytes'', td_get d ''size_bytes''), (''manifest'', JObj (dict_put ''reporter_complete'' (JBool b) manifest)),
    (''outcome'', JObj outcome), (''counts'', JObj counts)]"
    using projection_Some [OF assms(1-3)] by blast
  have "new_runner_result_package (td_get d ''package_id'') (td_get d ''sha256'') (td_get d ''size_bytes'')
    (JObj (dict_put ''reporter_complete'' (JBool b) manifest)) (JObj outcome) (JObj counts) = Inr m"
    using assms(4) unfolding doc result_metadata_def by (simp add: td_get_def bindE_Inr_iff)
  from new_package_fields [OF this] have "rp_manifest m = dict_put ''reporter_complete'' (JBool b) manifest" "rp_outcome m = outcome"
    by simp_all
  then show "rp_outcome m = outcome" "reporter_complete m = b" by (simp_all add: reporter_complete_def)
qed

text \<open>
  C11. What becomes of a measured failure: when the runner's package is complete and records a failed or
  errored case or a test failure without a case, testd stores the conclusion that the tests failed only
  if the runner's terminal outcome names no timeout, no incompleteness and no infrastructure failure and
  some case failed or errored. In every other case, among them a process that only exits with a nonzero
  status, the store refuses the conclusion that testd derives, whatever the fallback.
\<close>
theorem runner_failure_settled:
  assumes "v8_package_projection (JObj d) = Inr (Some (document, handle))"
    and "td_get d ''outcome'' = JObj (outcome_document outcome)" and "po_reporter_complete outcome"
    and "result_metadata document = Inr (Some m)" and "check_resolved m package = Inr u" and "check_package package = Inr checked"
    and "measured_failure checked"
  shows "settle_conclusion checked (package_conclusion m fallback) =
    (if po_terminal_outcome outcome \<notin> {''timed_out'', ''incomplete'', ''infrastructure_failed''} \<and>
        (status_count ''failed'' checked \<noteq> 0 \<or> status_count ''error'' checked \<noteq> 0)
     then Inr TEST_FAILED
     else Inl (StoreConflict ''a complete measured test failure must win a competing conclusion''))"
proof -
  have out: "td_get (outcome_document outcome) ''reporter_complete'' = JBool True"
    "td_get (outcome_document outcome) ''terminal_outcome'' = JStr (po_terminal_outcome outcome)"
    "td_get (outcome_document outcome) ''test_failed'' = JNull"
    using assms(3) by (simp_all add: outcome_document_def td_get_def)
  note m = projected_metadata [OF assms(1,2) out(1) assms(4)]
  have overriding: "overriding_outcome m \<longleftrightarrow> po_terminal_outcome outcome \<in> {''timed_out'', ''incomplete'', ''infrastructure_failed''}"
    unfolding overriding_outcome_def m(1) out(2) by simp
  have "package_conclusion m fallback = TEST_FAILED"
    if "\<not> overriding_outcome m" "status_count ''failed'' checked \<noteq> 0 \<or> status_count ''error'' checked \<noteq> 0"
    using that package_conclusion_cases [of m fallback] resolved_agrees [OF assms(5,6)] m(2) by auto
  then show ?thesis
    using package_conclusion_settled [OF assms(5,6), of fallback] assms(7) m out(3) unfolding overriding by auto
qed

end
