(* ===== verification/Package_Samples.thy ===== *)
theory Package_Samples
  imports Package_Conclusion "HOL-Library.Code_Target_Nat"
begin

text \<open>
  A package of one passed case whose process exited with status 1: it is valid, the broker resolves it,
  the store accepts its records, and the conclusion that testd derives is refused.
\<close>

definition sha :: string where "sha = replicate 64 (CHR ''a'')"
definition log_id :: string where "log_id = ''artifact-'' @ replicate 32 (CHR ''0'')"

definition capture_json :: json where
  "capture_json = JObj [(''artifact_id'', JStr log_id), (''sha256'', JStr sha), (''retained_sha256'', JStr sha), (''size_bytes'', JInt 3),
     (''observed_bytes'', JInt 3), (''truncated'', JBool False), (''secret_redacted'', JBool False)]"

definition exit_outcome :: package_outcome where
  "exit_outcome = \<lparr>po_returncode = 1, po_duration_seconds = 1, po_incomplete_reporting = False, po_reporter_complete = True,
     po_terminal_outcome = ''test_failed''\<rparr>"

definition record_json :: "string \<Rightarrow> json" where
  "record_json name = JObj [(''name'', JStr name), (''records'', JInt 1), (''size_bytes'', JInt 2), (''sha256'', JStr sha)]"

definition manifest_json :: json where
  "manifest_json = JObj [(''schema_version'', JInt 1),
     (''identity'', JObj [(''execution_id'', JStr ''e''), (''target_id'', JStr ''t''), (''run_id'', JStr ''r''), (''repository_id'', JStr ''p''),
       (''repository_generation'', JInt 0), (''generation'', JInt 1), (''descriptor_sha256'', JStr sha)]),
     (''outcome'', JObj (outcome_document exit_outcome)),
     (''resource_usage'', JObj [(''peak_memory_bytes'', JNull), (''cpu_seconds'', JNull)]),
     (''counts'', JObj [(''cases'', JInt 1), (''passed'', JInt 1), (''failed'', JInt 0), (''skipped'', JInt 0), (''errors'', JInt 0),
       (''failures'', JInt 1), (''artifacts'', JInt 1)]),
     (''captures'', JObj [(''stdout'', capture_json), (''stderr'', capture_json)]),
     (''records'', JObj [(''cases'', record_json ''cases.ndjson''), (''failures'', record_json ''failures.ndjson'')]),
     (''artifacts'', JArr [JObj [(''artifact_id'', JStr log_id), (''kind'', JStr ''log''),
       (''storage_handle'', JStr (''test-artifact://'' @ log_id @ ''/'' @ sha)), (''sha256'', JStr sha), (''size_bytes'', JInt 3),
       (''verified'', JBool True), (''member_name'', JStr (''artifacts/'' @ log_id @ ''.blob''))]])]"

definition case_json :: json where
  "case_json = JObj [(''case_id'', JStr ''case-1''), (''display_name'', JStr ''first''), (''status'', JStr ''passed''),
     (''duration_seconds'', JFloat 1), (''location'', JNull)]"

definition failure_json :: json where
  "failure_json = JObj [(''failure_id'', JStr ''failure-1''), (''classification'', JStr ''test_failure''),
     (''message'', JStr ''exit status 1''), (''case_id'', JNull), (''location'', JNull), (''artifact_id'', JStr log_id)]"

definition sample_member :: "string \<Rightarrow> string \<Rightarrow> tar_member" where
  "sample_member name payload = \<lparr>tm_name = name, tm_regular = True, tm_uid = 0, tm_gid = 0, tm_uname = [], tm_gname = [], tm_mtime = 0,
     tm_mode = 256, tm_pax_headers = False, tm_payload = payload\<rparr>"

text \<open>Each member has a payload that the sample library maps to its document.\<close>

definition sample_package_lib :: package_lib where
  "sample_package_lib = \<lparr>pl_sha256 = (\<lambda>_. sha),
     pl_loads = (\<lambda>s. case s of c # _ \<Rightarrow> if c = CHR ''m'' then Some manifest_json else if c = CHR ''c'' then Some case_json
       else if c = CHR ''f'' then Some failure_json else None | [] \<Rightarrow> None),
     pl_tar = (\<lambda>_. Some \<lparr>tz_members = [sample_member ''manifest.json'' ''m'', sample_member ''cases.ndjson'' [CHR ''c'', CHR 0x0A],
       sample_member ''failures.ndjson'' [CHR ''f'', CHR 0x0A], sample_member (''artifacts/'' @ log_id @ ''.blob'') ''log''],
       tz_complete = True\<rparr>)\<rparr>"

definition sample_file :: package_file where
  "sample_file = \<lparr>pf_regular = True, pf_size = 7, pf_content = ''package'', pf_path_present = True, pf_unchanged = True\<rparr>"

definition sample_validation :: "package_error + validated_package" where
  "sample_validation = validate_result_package sample_package_lib (Some sample_file) None (Some (JStr sha)) [''hunter2''] []"

lemma sample_validates: "\<not> isl sample_validation"
  by code_simp

lemma sample_validation_Inr:
  obtains p where "validate_result_package sample_package_lib (Some sample_file) None (Some (JStr sha)) [''hunter2''] [] = Inr p"
  using sample_validates unfolding sample_validation_def
  by (cases "validate_result_package sample_package_lib (Some sample_file) None (Some (JStr sha)) [''hunter2''] []") simp_all

definition status_document :: "json dict" where
  "status_document = [(''schema_version'', JInt 1), (''package_id'', JStr (package_id_of sha)), (''storage_handle'', JStr ''h''),
     (''sha256'', JStr sha), (''size_bytes'', JInt 7), (''manifest_sha256'', JStr sha), (''identity'', JObj []), (''manifest'', JObj []),
     (''outcome'', JObj (outcome_document exit_outcome)),
     (''counts'', JObj [(''cases'', JInt 1), (''passed'', JInt 1), (''failed'', JInt 0), (''skipped'', JInt 0), (''errors'', JInt 0),
       (''failures'', JInt 1), (''artifacts'', JInt 1)])]"

definition exit_metadata :: runner_result_package where
  "exit_metadata = \<lparr>rp_package_id = package_id_of sha, rp_sha256 = sha, rp_size_bytes = 7,
     rp_manifest = [(''reporter_complete'', JBool True)], rp_outcome = outcome_document exit_outcome,
     rp_counts = [(''passed'', 1), (''failed'', 0), (''skipped'', 0), (''error'', 0), (''failures'', 1), (''artifacts'', 1)]\<rparr>"

definition exit_package :: execution_result_package where
  "exit_package = \<lparr>pk_package_id = JStr (package_id_of sha),
     pk_cases = [\<lparr>ca_case_id = JStr ''case-1'', ca_display_name = JStr ''first'', ca_status = ''passed'',
       ca_duration_seconds = PyFloat (Finite 1), ca_location = None\<rparr>],
     pk_failures = [\<lparr>fa_failure_id = JStr ''failure-1'', fa_classification = TEST_FAILURE, fa_message = JStr ''exit status 1'',
       fa_case_id = None, fa_location = None, fa_artifact_id = Some (JStr log_id)\<rparr>],
     pk_artifacts = [\<lparr>am_artifact_id = JStr log_id, am_kind = JStr ''log'',
       am_storage_handle = JStr (''test-artifact://'' @ log_id @ ''/'' @ sha), am_sha256 = JStr sha, am_size_bytes = 3, am_verified = True\<rparr>],
     pk_reporter_complete = True\<rparr>"

definition sample_resolution :: "store_error + json" where
  "sample_resolution = resolve_package sample_package_lib
     (Some (JStr (''test-result-package://'' @ package_id_of sha @ ''/'' @ sha))) (\<lambda>_. Some sample_file) exit_metadata"

lemma sample_resolves: "case sample_resolution of Inl _ \<Rightarrow> False | Inr v \<Rightarrow> decode_execution_result_package v = Inr exit_package"
  by code_simp

definition exit_checked :: checked_package where
  "exit_checked = projr (check_package exit_package)"

lemma exit_facts:
  "case v8_package_projection (JObj status_document) of Inr (Some (doc, _)) \<Rightarrow> result_metadata doc = Inr (Some exit_metadata) | _ \<Rightarrow> False"
  "check_resolved exit_metadata exit_package = Inr ()" "check_package exit_package = Inr exit_checked" "measured_failure exit_checked"
  "status_count ''failed'' exit_checked = 0" "status_count ''error'' exit_checked = 0"
  "td_get status_document ''outcome'' = JObj (outcome_document exit_outcome)" "po_reporter_complete exit_outcome"
  by code_simp+

section \<open>Witnesses\<close>

theorem scan_exact_witness:
  "normalize_sequences ''secrets'' [''hunter2''] = Inr [''hunter2''] \<and> normalize_sequences ''paths'' [] = Inr [] \<and>
   \<not> (\<exists>s. foldE (scan True) [''my password is hun'', ''ter2''] (new_scanner [''hunter2''] []) = Inr s)"
proof -
  have ok: "normalize_sequences ''secrets'' [''hunter2''] = Inr [''hunter2'']" "normalize_sequences ''paths'' [] = Inr []" by code_simp+
  have "contains ''hunter2'' (concat [''my password is hun'', ''ter2''])" by code_simp
  then show ?thesis using scan_exact [OF ok, of True "[''my password is hun'', ''ter2'']"] ok by simp
qed

theorem validate_result_package_sound_witness:
  "\<exists>p archive mm cm fm ams. sample_validation = Inr p \<and> pl_tar sample_package_lib ''package'' = Some archive \<and>
    tz_members archive = mm # cm # fm # ams \<and> list_all (clean [''hunter2'']) (mm # cm # fm # ams)"
proof -
  obtain p where p: "validate_result_package sample_package_lib (Some sample_file) None (Some (JStr sha)) [''hunter2''] [] = Inr p"
    by (rule sample_validation_Inr)
  show ?thesis using validate_result_package_sound [OF p] p unfolding sample_validation_def by (auto simp: sample_file_def)
qed

theorem resolved_package_accepted_witness:
  "\<exists>v. sample_resolution = Inr v \<and> decode_execution_result_package v = Inr exit_package \<and>
    (\<exists>checked. check_package exit_package = Inr checked) \<and> distinct (List.map_filter fa_case_id (pk_failures exit_package))"
proof -
  obtain v where v: "sample_resolution = Inr v" "decode_execution_result_package v = Inr exit_package"
    using sample_resolves by (auto split: sum.splits)
  then show ?thesis using resolved_package_accepted [OF v(1) [unfolded sample_resolution_def]] exit_facts(3) by auto
qed

theorem runner_failure_settled_witness:
  "settle_conclusion exit_checked (package_conclusion exit_metadata SUCCEEDED) =
    Inl (StoreConflict ''a complete measured test failure must win a competing conclusion'')"
proof -
  obtain doc handle where "v8_package_projection (JObj status_document) = Inr (Some (doc, handle))"
    "result_metadata doc = Inr (Some exit_metadata)" using exit_facts(1) by (auto split: sum.splits option.splits)
  from runner_failure_settled [OF this(1) exit_facts(7,8) this(2) exit_facts(2,3,4), of SUCCEEDED] show ?thesis
    using exit_facts(5,6) by simp
qed

end
