(* ===== verification/Spec2Isabelle.thy ===== *)
theory Spec2Isabelle
  imports Manifest_Samples Planner_Samples Scheduler_Samples Store_Samples Plan_Samples Testd_Samples Package_Samples
begin

text \<open>
  Verification of the universal test harness of DevCoordinator, the modules \<open>universal_test_*.py\<close> and
  \<open>universal_testd.py\<close> under \<open>src/skills/codex-dev-coordinator/scripts/devcoordinator/\<close>.

  \<^bold>\<open>The program.\<close> A repository declares its tests in a TOML manifest. The contract module parses and
  validates it. The planner maps changed paths to targets, closes them over the dependency graph and
  publishes a fingerprinted plan. The service decodes a plan document and submits it to the durable
  store, which keeps plans, runs, targets, executions, results, attestations and a mutation journal.
  testd is the only process that executes: at every turn of its loop it observes the executions that it
  supervises, settles the finished ones from their result packages, asks the store for the runnable
  targets and the active allocations, lets the fair scheduler choose under the memory of the host, and
  launches what was chosen. A finished run issues evidence, which a later operation consumes.

  \<^bold>\<open>Prelude and Python.\<close> \<open>Prelude\<close>: exceptions as the left side of a sum (\<open>bindE\<close>, \<open>ensure\<close>, \<open>mapE\<close>,
  \<open>foldE\<close>), \<open>sorted(set(..))\<close>, insertion-ordered dictionaries as association lists, while loops with
  their termination. \<open>Json\<close>: JSON values and the canonical encoding. \<open>Float64\<close>: double-precision
  arithmetic as correctly rounded rationals. SHA-256 and the shortest decimal of a float are functions
  of the record \<open>pylib\<close>; a property that needs one of their documented facts (that a digest is 64
  lower-case hexadecimal digits) states it.

  \<^bold>\<open>Contract\<close> (\<open>universal_test_contract.py\<close>). \<open>Paths\<close>: scalar validators, \<open>normalize_repository_path\<close>
  and the glob compiler with its matcher. \<open>Manifest\<close>: the dataclasses, the parsers of all sections,
  \<open>_reject_dependency_cycles\<close> and the documents. \<open>Manifest_Laws\<close> shows that the glob of the code is the
  segment-wise glob, that the depth-first search rejects exactly the cyclic graphs, and what a parsed
  manifest guarantees about its graph and the authority of its targets.

  \<^bold>\<open>Planner\<close> (\<open>universal_test_planner.py\<close>). \<open>Planner\<close>: all functions of the module, the worklist of
  \<open>_bidirectional_closure\<close> and the layering loop of \<open>_dependency_waves\<close> included, both with termination
  proofs. \<open>Planner_Laws\<close> states the contract of a provider of targets as a locale, interprets it on
  parsed manifests, and shows that \<open>create_test_plan\<close> refines an abstract selection, drops no change,
  fails only in the documented ways and does not depend on the order of its inputs.

  \<^bold>\<open>Scheduler\<close> (\<open>universal_test_scheduler.py\<close>). \<open>Scheduler\<close>: the memory reader, the reserve and
  \<open>WeightedFairScheduler.select\<close> with its loop. \<open>Scheduler_Laws\<close>: memory safety, exclusion, fairness,
  work conservation, and that the floating-point reserve is exactly five per cent.

  \<^bold>\<open>Store\<close> (\<open>universal_test_store.py\<close>). A table is a list of records in insertion order and an SQL
  transaction is a function from a store to an error or a result with a new store, so that a failed
  transaction changes nothing. \<open>Store_Base\<close>: value classes and validators. \<open>Store\<close>: the tables, keys and
  the mutation journal. \<open>Store_Plans\<close>, \<open>Store_Submission\<close>, \<open>Store_Execution\<close>, \<open>Store_Completion\<close>,
  \<open>Store_Reconcile\<close>, \<open>Store_Evidence\<close> and \<open>Store_Queue\<close>: registration, submission and retry; reservation,
  start and progress; completion and cancellation; reconciliation; attestation and consumption; and
  what the store tells the scheduler. \<open>Store_Run_Laws\<close>, \<open>Store_Laws\<close>, \<open>Store_Steps\<close>, \<open>Store_Operations\<close>,
  \<open>Store_Outcomes\<close>, \<open>Store_Inserts\<close> and \<open>Store_Retry\<close> prove that every operation keeps the invariant of
  the store and extends its history. \<open>Store_Machine\<close> makes the operations requests of one machine: the
  locales \<open>store_operation\<close> and \<open>journaled_operation\<close> are the contract of an operation and are interpreted
  on every one of them; \<open>store_step\<close> and \<open>reachable\<close> are the states that valid requests can reach.
  \<open>Store_Properties\<close> proves the guarantees of reachable stores, \<open>Store_Composition\<close> how planner, store
  and scheduler fit.

  \<^bold>\<open>Service\<close> (\<open>universal_test_service.py\<close>). \<open>Plan_Wire\<close>: \<open>decode_test_plan_document\<close> and its helpers.
  \<open>Plan_Wire_Laws\<close> and \<open>Plan_Roundtrip\<close>: a decoded plan is well formed and may be submitted, and a plan
  of the planner within the bounds of the decoder is decoded to itself.

  \<^bold>\<open>testd\<close> (\<open>universal_testd.py\<close>). \<open>Testd\<close>: the messages (tickets, handles, result metadata, resolved
  packages, observations) with their validators. \<open>Testd_Engine\<close>: \<open>TestdLaunchAdapter\<close>, \<open>TestdEngine\<close>
  (restart cleanup, launch, heartbeat, settlement, scheduling, cancellation) and one turn of
  \<open>TestdEngineLoop\<close>, as actions on a record of store, scheduler, supervised executions and an abstract
  world; an action that raises keeps the state that it has reached. The clocks, the memory probe, the
  ticket issuer and the runtime are functions of the record \<open>testd_host\<close> that may answer anything or
  raise; nothing is assumed of them. \<open>Testd_Laws\<close> states, as locales over a relation on engine states,
  what makes every action of the engine obey the relation, and interprets them on five relations.
  \<open>Testd_Properties\<close>: the engine never leaves the state machine of the store, a start settles what the
  previous process left active, no reservation escapes supervision, nothing is settled before its cgroup
  is empty, and failures of one execution are isolated.

  \<^bold>\<open>Result packages\<close> (\<open>universal_test_result_package.py\<close>, \<open>universal_test_broker.py\<close>). The runner hands
  its result to testd as one archive. \<open>Result_Package\<close>: the secret scanner with its patterns, the
  normalisation of manifests and records, \<open>validate_result_package\<close> and the record reader.
  \<open>Broker_Package\<close>: \<open>_v8_package_projection\<close> and \<open>resolve_package\<close>. The digest of bytes, \<open>json.loads\<close>
  and the tar reader are functions of the record \<open>package_lib\<close>; nothing is assumed of them.
  \<open>Package_Laws\<close> shows that the scanner finds a sequence wherever the reads cut it,
  \<open>Package_Properties\<close> what validation establishes, \<open>Package_Acceptance\<close> which validated packages the
  store accepts, and \<open>Package_Conclusion\<close> which conclusions of testd about them the store refuses.

  \<^bold>\<open>Samples.\<close> The theories \<open>*_Samples\<close> evaluate a small manifest, its plans, a release through the store,
  a restart of testd and a result package in the kernel, and apply the properties there.

  \<^bold>\<open>Bounds.\<close> Every loop of the model is a total function with a termination measure; there is no fuel.
  Text is a list of 8-bit characters, so lengths count characters as Python does for Latin-1 text.
  Integers are unbounded as in Python; the columns that the code bounds to 63 bits carry the check.

  \<^bold>\<open>Not modelled.\<close> File, socket and process effects: reading the manifest file, SQLite itself (its
  transactions and constraints are what the model assumes of it), the framing and authentication of
  requests, the threads and locks around the engine, and the native runtime (\<open>universal_test_runtime.py\<close>,
  \<open>universal_test_runner.py\<close>), which act on cgroups, namespaces and file descriptors; of result
  packages, their publication. Of the store, the
  read-only statistics and history projections and the setup of repositories are left out. Snapshots, fixtures and credentials are
  host operations. The host broker, the coordinator command line and its authority store, the workers,
  the release scripts and the two applications are other subsystems of the repository, which the harness
  reaches only through the interfaces that are parameters here.
\<close>

end
